(* ===== verification/Prelude.thy ===== *)
theory Prelude
  imports Main "HOL-Library.Word"
begin

text \<open>
  Shared material: the C types of the program as HOL types, the errno values its
  error paths return, the \<^verbatim>\<open>BIT\<close> macro with its bit lemmas, C strings, and the
  interfaces of a state machine with an invariant and of one whose wait is bounded, which the
  components of server and client interpret.
\<close>

unbundle bit_operations_syntax

section \<open>C types\<close>

type_synonym u8 = "8 word"
type_synonym u16 = "16 word"
type_synonym u32 = "32 word"
type_synonym u64 = "64 word"

text \<open>
  Objects of the libraries are only ever passed on by their address; 0 is the null
  pointer. A return code is an \<open>int\<close>: the code computes no code by arithmetic that
  could leave 32 bits, except the negations, which the model writes out.
\<close>

type_synonym ptr = nat

definition NULL :: ptr where
  [simp]: "NULL = 0"

text \<open>
  Undefined behaviour of C is a value of its own, so that a theorem can say that a run
  reaches it or that it does not.
\<close>

datatype c_ub = NullDeref | HeapOverflow | OutOfBounds | UninitRead | BadShift | NoThread

section \<open>errno values (Linux)\<close>

definition ESRCH :: int where [simp]: "ESRCH = 3"
definition ENXIO :: int where [simp]: "ENXIO = 6"
definition ENOMEM :: int where [simp]: "ENOMEM = 12"
definition EBUSY :: int where [simp]: "EBUSY = 16"
definition ENODEV :: int where [simp]: "ENODEV = 19"
definition EINVAL :: int where [simp]: "EINVAL = 22"
definition ENOSYS :: int where [simp]: "ENOSYS = 38"
definition ENODATA :: int where [simp]: "ENODATA = 61"
definition EILSEQ :: int where [simp]: "EILSEQ = 84"
definition ECONNRESET :: int where [simp]: "ECONNRESET = 104"
definition ETIMEDOUT :: int where [simp]: "ETIMEDOUT = 110"

text \<open>The first negative code of a sequence of calls, 0 if there is none.\<close>

fun first_error :: "int list \<Rightarrow> int" where
  "first_error [] = 0"
| "first_error (e # es) = (if e < 0 then e else first_error es)"

section \<open>Private data\<close>

text \<open>
  The \<^verbatim>\<open>priv\<close> argument of every handler points to a pointer to the remote control:
  its own address and what it points to.
\<close>

record priv =
  priv_addr :: ptr
  priv_rc :: ptr

definition RCPTR :: "priv \<Rightarrow> ptr" where
  "RCPTR p = (if priv_addr p \<noteq> NULL then priv_rc p else NULL)"

section \<open>Bits\<close>

named_theorems bit_defs

definition BIT :: "nat \<Rightarrow> u32" where
  "BIT x = push_bit x 1"

lemma bit_BIT [bit_defs, simp]: "bit (BIT x) n \<longleftrightarrow> n = x \<and> x < 32"
  by (auto simp: BIT_def bit_simps bit_1_iff)

lemma BIT_inj: "m < 32 \<Longrightarrow> BIT m = BIT n \<longleftrightarrow> m = n"
  by (metis bit_BIT)

lemma bit_u32_imp: "bit (x :: u32) n \<Longrightarrow> n < 32"
  using bit_imp_le_length [of x n] by simp

lemma and_BIT_eq_0 [bit_defs]: "x AND BIT n = 0 \<longleftrightarrow> \<not> bit x n"
proof
  assume "x AND BIT n = 0"
  then have "\<not> bit (x AND BIT n) n" by simp
  then show "\<not> bit x n" by (auto simp: bit_simps dest: bit_u32_imp)
next
  assume "\<not> bit x n"
  then show "x AND BIT n = 0" by (intro bit_eqI) (auto simp: bit_simps)
qed

lemma bit_or_BIT [bit_defs]:
  "bit (x OR BIT n) m \<longleftrightarrow> bit x m \<or> (m = n \<and> n < 32)"
  by (auto simp: bit_simps)

lemma bit_and_not_BIT [bit_defs]:
  "bit (x AND NOT (BIT n)) m \<longleftrightarrow> bit x m \<and> m \<noteq> n"
  by (auto simp: bit_simps dest: bit_u32_imp)

lemma shifted_bit: "uint (drop_bit i (m :: u32) AND 1) = of_bool (bit m i)"
  by (simp add: and_one_eq mod_2_eq_odd bit_iff_odd_drop_bit)

lemma ucast_and_mask16: "(ucast (x AND 0xFFFF :: u32) :: u16) = ucast x"
proof -
  have m: "(0xFFFF :: u32) = Bit_Operations.mask 16" by (simp add: mask_eq_exp_minus_1)
  show ?thesis unfolding m by (intro bit_eqI) (auto simp: bit_simps)
qed

lemma ucast_ucast_u32 [simp]: "(ucast (ucast (v :: u8) :: u32) :: u8) = v"
  by (intro bit_eqI) (simp add: bit_simps)

section \<open>C strings in memory\<close>

text \<open>
  A C string argument is its characters up to the terminator. A piece of memory is the
  list of all its bytes, the terminator included; reading or writing past its end is
  undefined behaviour.
\<close>

definition NUL :: char where
  "NUL = CHR 0x00"

definition cstring :: "string \<Rightarrow> string" where
  "cstring mem = takeWhile (\<lambda>c. c \<noteq> NUL) mem"

definition strlen :: "string \<Rightarrow> c_ub + nat" where
  "strlen mem = (if NUL \<in> set mem then Inr (length (cstring mem)) else Inl OutOfBounds)"

text \<open>\<open>n\<close> bytes written to the start of a piece of memory.\<close>

definition mem_store :: "string \<Rightarrow> string \<Rightarrow> string" where
  "mem_store bs mem = bs @ drop (length bs) mem"

text \<open>
  \<^verbatim>\<open>snprintf\<close> of a text into \<open>n\<close> bytes: the memory after it, and its result, the
  length the whole text has.
\<close>

definition snprintf :: "string \<Rightarrow> nat \<Rightarrow> string \<Rightarrow> int \<times> string" where
  "snprintf mem n s =
     (int (length s), if n = 0 then mem else mem_store (take (n - 1) s @ [NUL]) mem)"

lemma length_mem_store [simp]:
  "length bs \<le> length mem \<Longrightarrow> length (mem_store bs mem) = length mem"
  by (simp add: mem_store_def)

lemma length_snprintf [simp]:
  "n \<le> length mem \<Longrightarrow> length (snd (snprintf mem n s)) = length mem"
  by (cases n) (auto simp: snprintf_def mem_store_def min_def)

lemma cstring_terminated [simp]:
  "NUL \<notin> set s \<Longrightarrow> cstring (s @ NUL # rest) = s"
  unfolding cstring_def by (induction s) (auto simp: NUL_def)

lemma cstring_snprintf:
  assumes "NUL \<notin> set s" "0 < n"
  shows "cstring (snd (snprintf mem n s)) = take (n - 1) s"
proof -
  have "NUL \<notin> set (take (n - Suc 0) s)" using assms(1) by (auto dest: in_set_takeD)
  then show ?thesis using assms(2) by (simp add: snprintf_def mem_store_def)
qed

text \<open>Two lower-case hexadecimal digits, the conversion \<^verbatim>\<open>%02x\<close> of a byte.\<close>

definition hex_digits :: string where
  "hex_digits = ''0123456789abcdef''"

definition hex2 :: "u8 \<Rightarrow> string" where
  "hex2 b = [hex_digits ! (unat b div 16), hex_digits ! (unat b mod 16)]"

definition hex_value :: "char \<Rightarrow> nat" where
  "hex_value c = length (takeWhile (\<lambda>d. d \<noteq> c) hex_digits)"

fun unhex :: "string \<Rightarrow> u8 list" where
  "unhex (c # d # s) = of_nat (16 * hex_value c + hex_value d) # unhex s"
| "unhex _ = []"

lemma length_hex2 [simp]: "length (hex2 b) = 2"
  by (simp add: hex2_def)

lemma unat_u8_lt: "unat (b :: u8) < 256"
  using unsigned_less [of b] by simp

lemma hex_value_nth: "n < 16 \<Longrightarrow> hex_value (hex_digits ! n) = n"
proof -
  have "\<forall>n < 16. hex_value (hex_digits ! n) = n"
    by (simp add: hex_value_def hex_digits_def numeral_nat All_less_Suc)
  then show "n < 16 \<Longrightarrow> hex_value (hex_digits ! n) = n" by blast
qed

lemma hex_digits_no_NUL: "n < 16 \<Longrightarrow> hex_digits ! n \<noteq> NUL"
proof -
  have "\<forall>n < 16. hex_digits ! n \<noteq> NUL"
    by (simp add: NUL_def hex_digits_def numeral_nat All_less_Suc)
  then show "n < 16 \<Longrightarrow> hex_digits ! n \<noteq> NUL" by blast
qed

lemma hex2_no_NUL [simp]: "NUL \<notin> set (hex2 b)"
proof -
  have "unat b div 16 < 16" "unat b mod 16 < 16" using unat_u8_lt [of b] by auto
  then have "hex_digits ! (unat b div 16) \<noteq> NUL" "hex_digits ! (unat b mod 16) \<noteq> NUL"
    by (simp_all only: hex_digits_no_NUL not_False_eq_True)
  then show ?thesis by (auto simp: hex2_def)
qed

lemma unhex_hex2 [simp]: "unhex (hex2 b @ s) = b # unhex s"
proof -
  have "unat b div 16 < 16" "unat b mod 16 < 16" using unat_u8_lt [of b] by auto
  then have "of_nat (16 * hex_value (hex_digits ! (unat b div 16))
      + hex_value (hex_digits ! (unat b mod 16))) = b"
    by (simp only: hex_value_nth mult_div_mod_eq unsigned_of_nat of_nat_unat ucast_id)
  then show ?thesis by (simp add: hex2_def)
qed

section \<open>Invariants of state machines\<close>

inductive reach :: "('s \<Rightarrow> bool) \<Rightarrow> ('s \<Rightarrow> 's \<Rightarrow> bool) \<Rightarrow> 's \<Rightarrow> bool"
  for init :: "'s \<Rightarrow> bool" and step :: "'s \<Rightarrow> 's \<Rightarrow> bool" where
  reach_init: "init s \<Longrightarrow> reach init step s"
| reach_step: "reach init step s \<Longrightarrow> step s t \<Longrightarrow> reach init step t"

locale invariant =
  fixes init :: "'s \<Rightarrow> bool"
    and step :: "'s \<Rightarrow> 's \<Rightarrow> bool"
    and inv :: "'s \<Rightarrow> bool"
  assumes inv_init: "init s \<Longrightarrow> inv s"
    and inv_step: "inv s \<Longrightarrow> step s t \<Longrightarrow> inv t"
begin

lemma inv_reach: "reach init step s \<Longrightarrow> inv s"
  by (induction rule: reach.induct) (auto intro: inv_init inv_step)

lemma inv_steps: "step\<^sup>*\<^sup>* s t \<Longrightarrow> inv s \<Longrightarrow> inv t"
  by (induction rule: rtranclp_induct) (auto intro: inv_step)

end

text \<open>
  A wait that ends: as long as the system waits every step lowers a rank, and a step that ends
  the wait ends it for good.
\<close>

locale bounded_wait = invariant init step inv
  for init :: "'s \<Rightarrow> bool" and step :: "'s \<Rightarrow> 's \<Rightarrow> bool" and inv :: "'s \<Rightarrow> bool" +
  fixes waiting :: "'s \<Rightarrow> bool"
    and over :: "'s \<Rightarrow> bool"
    and rank :: "'s \<Rightarrow> nat"
  assumes wait_step: "inv s \<Longrightarrow> waiting s \<Longrightarrow> step s t \<Longrightarrow> waiting t \<and> rank t < rank s \<or> over t"
    and over_step: "over s \<Longrightarrow> step s t \<Longrightarrow> over t"
    and over_not: "over s \<Longrightarrow> \<not> waiting s"
begin

lemma over_steps: "(step ^^ n) s t \<Longrightarrow> over s \<Longrightarrow> over t"
  by (induction n arbitrary: t) (auto intro: over_step)

lemma wait_bound: "(step ^^ n) s t \<Longrightarrow> inv s \<Longrightarrow> waiting s \<Longrightarrow> waiting t \<Longrightarrow> n + rank t \<le> rank s"
proof (induction n arbitrary: s)
  case (Suc n)
  obtain u where u: "step s u" "(step ^^ n) u t" using relpowp_Suc_D2 [OF Suc.prems(1)] by blast
  have "\<not> over u" using over_steps [OF u(2)] over_not Suc.prems(4) by blast
  then have "waiting u" "rank u < rank s" using wait_step [OF Suc.prems(2,3) u(1)] by auto
  with Suc.IH [OF u(2) inv_step [OF Suc.prems(2) u(1)]] Suc.prems(4) show ?case by simp
qed simp

end

end
