(* ===== verification/Irq.thy ===== *)
theory Irq
  imports Prelude
begin

text \<open>
  The interrupt component of the server, \<^verbatim>\<open>src/src/rcrpc/irq.c\<close>: the
  event manager of the remote control reports events to a callback, which collects
  them in a status word and announces them to the client; the client reads the status
  (\<^verbatim>\<open>irq_get_mask\<close>) and then one source at a time (\<^verbatim>\<open>irq_get_info\<close>), which
  clears what was read. The theory refines the status word to the set of pending
  sources and shows what every operation does to that set.

  The event manager, librpc and the numbers of the event enumerations are not part of the
  repository: they are the fields of \<open>irq_env\<close>, over an unspecified world \<open>'w\<close>.
\<close>

section \<open>Events\<close>

text \<open>
  The enumerations of \<^verbatim>\<open>remote-control.h\<close>, with the enumerators this file names and
  one constructor for every other value (the \<^verbatim>\<open>default\<close> labels).
\<close>

datatype event_source =
    EVENT_SOURCE_MODEM
  | EVENT_SOURCE_IO
  | EVENT_SOURCE_VOIP
  | EVENT_SOURCE_SMARTCARD
  | EVENT_SOURCE_HOOK
  | EVENT_SOURCE_HANDSET
  | EVENT_SOURCE_OTHER int

datatype hook_state =
    EVENT_HOOK_STATE_OFF
  | EVENT_HOOK_STATE_ON
  | EVENT_HOOK_STATE_OTHER int

datatype smartcard_state =
    EVENT_SMARTCARD_STATE_INSERTED
  | EVENT_SMARTCARD_STATE_REMOVED
  | EVENT_SMARTCARD_STATE_OTHER int

datatype voip_state =
    EVENT_VOIP_STATE_IDLE
  | EVENT_VOIP_STATE_LOGGED_ON
  | EVENT_VOIP_STATE_LOGGED_OFF
  | EVENT_VOIP_STATE_OUTGOING
  | EVENT_VOIP_STATE_OUTGOING_CONNECTED
  | EVENT_VOIP_STATE_OUTGOING_DISCONNECTED
  | EVENT_VOIP_STATE_INCOMING
  | EVENT_VOIP_STATE_INCOMING_CONNECTED
  | EVENT_VOIP_STATE_INCOMING_DISCONNECTED
  | EVENT_VOIP_STATE_INCOMING_MISSED
  | EVENT_VOIP_STATE_ERROR_USER_BUSY
  | EVENT_VOIP_STATE_OUTGOING_EARLYMEDIA
  | EVENT_VOIP_STATE_INCOMING_EARLYMEDIA
  | EVENT_VOIP_STATE_OTHER int

datatype modem_state =
    EVENT_MODEM_STATE_RINGING
  | EVENT_MODEM_STATE_CONNECTED
  | EVENT_MODEM_STATE_DISCONNECTED
  | EVENT_MODEM_STATE_ERROR
  | EVENT_MODEM_STATE_OTHER int

record event =
  ev_source :: event_source
  ev_hook :: hook_state
  ev_smartcard :: smartcard_state
  ev_voip :: voip_state
  ev_modem :: modem_state
  ev_keycode :: u32
  ev_pressed :: bool

text \<open>The libraries the component calls.\<close>

record 'w irq_env =
  evpos :: "event_source \<Rightarrow> nat"
    \<comment> \<open>the number of an enumerator, the argument of \<^verbatim>\<open>BIT\<close>\<close>
  event_zero :: event
    \<comment> \<open>what \<^verbatim>\<open>memset\<close> to zero leaves in a \<^verbatim>\<open>struct event\<close>\<close>
  remote_control_get_event_manager :: "ptr \<Rightarrow> ptr"
  rpc_server_from_priv :: "ptr \<Rightarrow> ptr"
  event_manager_get_source_state :: "ptr \<Rightarrow> event \<Rightarrow> 'w \<Rightarrow> int \<times> event \<times> 'w"
  event_manager_set_event_cb :: "ptr \<Rightarrow> ptr \<Rightarrow> 'w \<Rightarrow> int \<times> 'w"
  stub_irq_event :: "ptr \<Rightarrow> u32 \<Rightarrow> 'w \<Rightarrow> int \<times> 'w"
    \<comment> \<open>\<^verbatim>\<open>RPC_STUB(irq_event)\<close>, the notification sent to the client\<close>

section \<open>State\<close>

text \<open>
  \<^verbatim>\<open>struct irq_data\<close>. The global pointer \<^verbatim>\<open>irq_event_data\<close> is an option: null,
  or the one structure that is ever allocated.
\<close>

record irq_data =
  irq_server :: ptr
  irq_status :: u32
  irq_manager :: ptr

type_synonym 'w irq_st = "irq_data option \<times> 'w"

definition irq_data_from_manager :: "irq_data option \<Rightarrow> ptr \<Rightarrow> irq_data option" where
  "irq_data_from_manager gd manager =
     (case gd of
        Some d \<Rightarrow> if irq_manager d = manager then Some d else None
      | None \<Rightarrow> None)"

section \<open>The event callback\<close>

text \<open>The \<^verbatim>\<open>switch\<close> of the callback: \<open>None\<close> is its \<^verbatim>\<open>default\<close> label.\<close>

fun event_irq_status :: "'w irq_env \<Rightarrow> event_source \<Rightarrow> u32 option" where
  "event_irq_status E EVENT_SOURCE_MODEM = Some (0 OR BIT (evpos E EVENT_SOURCE_MODEM))"
| "event_irq_status E EVENT_SOURCE_IO = Some (0 OR BIT (evpos E EVENT_SOURCE_IO))"
| "event_irq_status E EVENT_SOURCE_VOIP = Some (0 OR BIT (evpos E EVENT_SOURCE_VOIP))"
| "event_irq_status E EVENT_SOURCE_SMARTCARD = Some (0 OR BIT (evpos E EVENT_SOURCE_SMARTCARD))"
| "event_irq_status E EVENT_SOURCE_HOOK = Some (0 OR BIT (evpos E EVENT_SOURCE_HOOK))"
| "event_irq_status E EVENT_SOURCE_HANDSET = Some (0 OR BIT (evpos E EVENT_SOURCE_HANDSET))"
| "event_irq_status E (EVENT_SOURCE_OTHER n) = None"

definition irq_event_cb ::
  "'w irq_env \<Rightarrow> irq_data option \<Rightarrow> event option \<Rightarrow> 'w \<Rightarrow> int \<times> 'w irq_st" where
  "irq_event_cb E data ev w =
     (case (data, ev) of
        (Some d, Some e) \<Rightarrow>
          (case event_irq_status E (ev_source e) of
             None \<Rightarrow> (- ENXIO, data, w)
           | Some s \<Rightarrow>
               if s \<noteq> irq_status d
               then (let (ret, w') = stub_irq_event E (irq_server d) 0 w
                     in (if ret < 0 then ret else 0,
                         Some (d\<lparr>irq_status := irq_status d OR s\<rparr>), w'))
               else (0, data, w))
      | _ \<Rightarrow> (- EINVAL, data, w))"

section \<open>Reading the status and one source\<close>

text \<open>\<open>None\<close> for a null pointer; the status is written through \<^verbatim>\<open>statusp\<close>.\<close>

definition irq_data_get_status :: "irq_data option \<Rightarrow> u32 option \<Rightarrow> int \<times> u32 option" where
  "irq_data_get_status irqd statusp =
     (case (irqd, statusp) of
        (Some d, Some _) \<Rightarrow> (0, Some (irq_status d))
      | _ \<Rightarrow> (- EINVAL, statusp))"

text \<open>
  The \<^verbatim>\<open>switch\<close> of \<^verbatim>\<open>irq_data_update_from_source\<close>, on the error code and the
  local copy of the status.
\<close>

fun update_switch :: "'w irq_env \<Rightarrow> event_source \<Rightarrow> int \<Rightarrow> u32 \<Rightarrow> int \<times> u32" where
  "update_switch E EVENT_SOURCE_MODEM err st =
     (err, st AND NOT (BIT (evpos E EVENT_SOURCE_MODEM)))"
| "update_switch E EVENT_SOURCE_VOIP err st =
     (err, st AND NOT (BIT (evpos E EVENT_SOURCE_VOIP)))"
| "update_switch E EVENT_SOURCE_SMARTCARD err st =
     (err, st AND NOT (BIT (evpos E EVENT_SOURCE_SMARTCARD)))"
| "update_switch E EVENT_SOURCE_HOOK err st =
     (err, st AND NOT (BIT (evpos E EVENT_SOURCE_HOOK)))"
| "update_switch E EVENT_SOURCE_HANDSET err st = (err, st)"
| "update_switch E EVENT_SOURCE_IO err st = (- ENOSYS, st)"
| "update_switch E (EVENT_SOURCE_OTHER n) err st = (- ENOSYS, st)"

text \<open>
  The callers pass the address of a local event, so the null test on \<^verbatim>\<open>event\<close> is
  never true and the event is a plain argument.
\<close>

definition irq_data_update_from_source ::
  "'w irq_env \<Rightarrow> ptr \<Rightarrow> event \<Rightarrow> 'w irq_st \<Rightarrow> int \<times> event \<times> 'w irq_st" where
  "irq_data_update_from_source E manager ev s =
     (let (gd, w) = s in
      if manager = NULL then (- EINVAL, ev, gd, w)
      else (case irq_data_from_manager gd manager of
          None \<Rightarrow> (- EINVAL, ev, gd, w)
        | Some irqd \<Rightarrow>
            let (err, ev, w) = event_manager_get_source_state E manager ev w;
                (err, st) =
                  (if err = - ENODATA \<and> ev_source ev = EVENT_SOURCE_HANDSET
                   then (0, irq_status irqd AND NOT (BIT (evpos E EVENT_SOURCE_HANDSET)))
                   else (err, irq_status irqd));
                (err, st) = update_switch E (ev_source ev) err st
            in if st = irq_status irqd
               then (let (err, w) = stub_irq_event E (irq_server irqd) 0 w
                     in (err, ev, gd, w))
               else (err, ev, Some (irqd\<lparr>irq_status := st\<rparr>), w)))"

section \<open>Set-up and clean-up\<close>

definition rpc_irq_init :: "'w irq_env \<Rightarrow> priv \<Rightarrow> 'w irq_st \<Rightarrow> 'w irq_st" where
  "rpc_irq_init E p s =
     (let server = rpc_server_from_priv E (priv_addr p);
          manager = remote_control_get_event_manager E (RCPTR p);
          (_, w) = event_manager_set_event_cb E manager server (snd s)
      in (Some \<lparr>irq_server = server, irq_status = 0, irq_manager = manager\<rparr>, w))"

definition rpc_irq_cleanup :: "'w irq_st \<Rightarrow> 'w irq_st" where
  "rpc_irq_cleanup s = (case fst s of Some _ \<Rightarrow> (None, snd s) | None \<Rightarrow> s)"

section \<open>The RPC handlers\<close>

definition rpc_irq_enable :: "'w irq_env \<Rightarrow> priv \<Rightarrow> u8 \<Rightarrow> 'w irq_st \<Rightarrow> int \<times> 'w irq_st" where
  "rpc_irq_enable E p virtkey s =
     (let server = rpc_server_from_priv E (priv_addr p);
          (err, w) = stub_irq_event E server 0 (snd s)
      in if err < 0 then (err, fst s, w) else (0, fst s, w))"

text \<open>The bit numbers of the answer (the anonymous enumeration of the file).\<close>

definition IRQ_HOOK :: nat where [simp]: "IRQ_HOOK = 0"
definition IRQ_SMARTCARD :: nat where [simp]: "IRQ_SMARTCARD = 1"
definition IRQ_VOIP :: nat where [simp]: "IRQ_VOIP = 2"
definition IRQ_IO :: nat where [simp]: "IRQ_IO = 3"
definition IRQ_MODEM :: nat where [simp]: "IRQ_MODEM = 4"
definition IRQ_HANDSET :: nat where [simp]: "IRQ_HANDSET = 5"

definition or_if :: "bool \<Rightarrow> nat \<Rightarrow> u32 \<Rightarrow> u32" where
  "or_if b n m = (if b then m OR BIT n else m)"

definition rpc_irq_get_mask ::
  "'w irq_env \<Rightarrow> priv \<Rightarrow> u32 option \<Rightarrow> 'w irq_st \<Rightarrow> int \<times> u32 option" where
  "rpc_irq_get_mask E p maskp s =
     (let manager = remote_control_get_event_manager E (RCPTR p) in
      if priv_addr p = NULL \<or> maskp = None then (- EINVAL, maskp)
      else
        let (ret, statusp) =
              irq_data_get_status (irq_data_from_manager (fst s) manager) (Some 0);
            status = the statusp;
            m = the maskp;
            m = or_if (status AND BIT (evpos E EVENT_SOURCE_MODEM) \<noteq> 0) IRQ_MODEM m;
            m = or_if (status AND BIT (evpos E EVENT_SOURCE_VOIP) \<noteq> 0) IRQ_VOIP m;
            m = or_if (status AND BIT (evpos E EVENT_SOURCE_SMARTCARD) \<noteq> 0) IRQ_SMARTCARD m;
            m = or_if (status AND BIT (evpos E EVENT_SOURCE_HOOK) \<noteq> 0) IRQ_HOOK m;
            m = or_if (status AND BIT (evpos E EVENT_SOURCE_HANDSET) \<noteq> 0) IRQ_HANDSET m
        in (ret, Some m))"

text \<open>The numbers of \<^verbatim>\<open>irq_source\<close> in \<^verbatim>\<open>protocol.xml\<close>, counted up from 0.\<close>

definition RPC_IRQ_SOURCE_UNKNOWN :: nat where [simp]: "RPC_IRQ_SOURCE_UNKNOWN = 0"
definition RPC_IRQ_SOURCE_HOOK :: nat where [simp]: "RPC_IRQ_SOURCE_HOOK = 1"
definition RPC_IRQ_SOURCE_CARD :: nat where [simp]: "RPC_IRQ_SOURCE_CARD = 2"
definition RPC_IRQ_SOURCE_VOIP :: nat where [simp]: "RPC_IRQ_SOURCE_VOIP = 3"
definition RPC_IRQ_SOURCE_IO :: nat where [simp]: "RPC_IRQ_SOURCE_IO = 4"
definition RPC_IRQ_SOURCE_MODEM :: nat where [simp]: "RPC_IRQ_SOURCE_MODEM = 5"
definition RPC_IRQ_SOURCE_HANDSET :: nat where [simp]: "RPC_IRQ_SOURCE_HANDSET = 6"

text \<open>The value reported for a state; \<open>None\<close> is the \<^verbatim>\<open>default\<close> label, an error.\<close>

fun hook_info :: "hook_state \<Rightarrow> u32 option" where
  "hook_info EVENT_HOOK_STATE_OFF = Some 1"
| "hook_info EVENT_HOOK_STATE_ON = Some 0"
| "hook_info _ = None"

fun card_info :: "smartcard_state \<Rightarrow> u32 option" where
  "card_info EVENT_SMARTCARD_STATE_INSERTED = Some 1"
| "card_info EVENT_SMARTCARD_STATE_REMOVED = Some 0"
| "card_info _ = None"

fun voip_info :: "voip_state \<Rightarrow> u32 option" where
  "voip_info EVENT_VOIP_STATE_IDLE = Some 0"
| "voip_info EVENT_VOIP_STATE_LOGGED_ON = Some 1"
| "voip_info EVENT_VOIP_STATE_LOGGED_OFF = Some 2"
| "voip_info EVENT_VOIP_STATE_OUTGOING = Some 5"
| "voip_info EVENT_VOIP_STATE_OUTGOING_CONNECTED = Some 3"
| "voip_info EVENT_VOIP_STATE_OUTGOING_DISCONNECTED = Some 4"
| "voip_info EVENT_VOIP_STATE_INCOMING = Some 7"
| "voip_info EVENT_VOIP_STATE_INCOMING_CONNECTED = Some 3"
| "voip_info EVENT_VOIP_STATE_INCOMING_DISCONNECTED = Some 4"
| "voip_info EVENT_VOIP_STATE_INCOMING_MISSED = Some 8"
| "voip_info EVENT_VOIP_STATE_ERROR_USER_BUSY = Some 9"
| "voip_info EVENT_VOIP_STATE_OUTGOING_EARLYMEDIA = Some 10"
| "voip_info EVENT_VOIP_STATE_INCOMING_EARLYMEDIA = Some 11"
| "voip_info _ = None"

fun modem_info :: "modem_state \<Rightarrow> u32 option" where
  "modem_info EVENT_MODEM_STATE_RINGING = Some 7"
| "modem_info EVENT_MODEM_STATE_CONNECTED = Some 3"
| "modem_info EVENT_MODEM_STATE_DISCONNECTED = Some 4"
| "modem_info EVENT_MODEM_STATE_ERROR = Some (- 10)"
| "modem_info _ = None"

definition handset_info :: "event \<Rightarrow> u32 option" where
  "handset_info ev =
     (let info = ev_keycode ev AND 0xffff
      in Some (if ev_pressed ev then info OR push_bit 16 1 else info))"

text \<open>The shape every source's case has: update, then report the state it left.\<close>

definition get_info_from ::
  "'w irq_env \<Rightarrow> ptr \<Rightarrow> event_source \<Rightarrow> (event \<Rightarrow> u32 option) \<Rightarrow> u32 \<Rightarrow> 'w irq_st
    \<Rightarrow> int \<times> u32 \<times> 'w irq_st" where
  "get_info_from E manager src decode info s =
     (let (err, ev, s) =
            irq_data_update_from_source E manager ((event_zero E)\<lparr>ev_source := src\<rparr>) s
      in if err < 0 then (err, info, s)
         else (case decode ev of None \<Rightarrow> (- ENXIO, info, s) | Some v \<Rightarrow> (0, v, s)))"

definition rpc_irq_get_info ::
  "'w irq_env \<Rightarrow> priv \<Rightarrow> nat \<Rightarrow> u32 \<Rightarrow> 'w irq_st \<Rightarrow> int \<times> u32 \<times> 'w irq_st" where
  "rpc_irq_get_info E p source info s =
     (let manager = remote_control_get_event_manager E (RCPTR p) in
      if source = RPC_IRQ_SOURCE_UNKNOWN then (0, info, s)
      else if source = RPC_IRQ_SOURCE_HOOK
      then get_info_from E manager EVENT_SOURCE_HOOK (\<lambda>ev. hook_info (ev_hook ev)) info s
      else if source = RPC_IRQ_SOURCE_CARD
      then get_info_from E manager EVENT_SOURCE_SMARTCARD
             (\<lambda>ev. card_info (ev_smartcard ev)) info s
      else if source = RPC_IRQ_SOURCE_VOIP
      then get_info_from E manager EVENT_SOURCE_VOIP (\<lambda>ev. voip_info (ev_voip ev)) info s
      else if source = RPC_IRQ_SOURCE_IO then (0, info, s)
      else if source = RPC_IRQ_SOURCE_MODEM
      then get_info_from E manager EVENT_SOURCE_MODEM (\<lambda>ev. modem_info (ev_modem ev)) info s
      else if source = RPC_IRQ_SOURCE_HANDSET
      then get_info_from E manager EVENT_SOURCE_HANDSET handset_info info s
      else (- EINVAL, info, s))"

section \<open>The set of pending sources\<close>

text \<open>
  What the component promises: a set of pending sources. An event makes its source
  pending and is announced, unless it was the only one pending already; reading a source
  takes it out of the set (the handset only when its queue is drained) and, when there is
  nothing to take out, announces again.
\<close>

definition irq_sources :: "event_source list" where
  "irq_sources = [EVENT_SOURCE_MODEM, EVENT_SOURCE_IO, EVENT_SOURCE_VOIP,
     EVENT_SOURCE_SMARTCARD, EVENT_SOURCE_HOOK, EVENT_SOURCE_HANDSET]"

definition spec_event :: "event_source \<Rightarrow> event_source set \<Rightarrow> event_source set \<times> bool" where
  "spec_event s S = (insert s S, S \<noteq> {s})"

definition spec_read :: "event_source \<Rightarrow> bool \<Rightarrow> event_source set \<Rightarrow> event_source set" where
  "spec_read s drained S =
     (if s = EVENT_SOURCE_IO \<or> s = EVENT_SOURCE_HANDSET \<and> \<not> drained then S else S - {s})"

definition pending :: "'w irq_env \<Rightarrow> irq_data \<Rightarrow> event_source set" where
  "pending E d = {s \<in> set irq_sources. bit (irq_status d) (evpos E s)}"

definition irq_wf :: "'w irq_env \<Rightarrow> irq_data \<Rightarrow> bool" where
  "irq_wf E d \<longleftrightarrow> (\<forall>n. bit (irq_status d) n \<longrightarrow> n \<in> evpos E ` set irq_sources)"

text \<open>
  What the code relies on of the event numbers: the six enumerators are distinct (C
  requires it of the labels of one \<^verbatim>\<open>switch\<close>) and are bit numbers of a 32-bit word.
\<close>

definition event_enum_ok :: "'w irq_env \<Rightarrow> bool" where
  "event_enum_ok E \<longleftrightarrow>
     inj_on (evpos E) (set irq_sources) \<and> (\<forall>s \<in> set irq_sources. evpos E s < 32)"

lemma enum_inj [dest]:
  "event_enum_ok E \<Longrightarrow> evpos E s = evpos E t \<Longrightarrow> s \<in> set irq_sources \<Longrightarrow>
   t \<in> set irq_sources \<Longrightarrow> s = t"
  by (auto simp: event_enum_ok_def dest: inj_onD)

lemma enum_lt: "event_enum_ok E \<Longrightarrow> s \<in> set irq_sources \<Longrightarrow> evpos E s < 32"
  by (auto simp: event_enum_ok_def)

lemma event_irq_status_known:
  "s \<in> set irq_sources \<Longrightarrow> event_irq_status E s = Some (BIT (evpos E s))"
  by (auto simp: irq_sources_def)

lemma event_irq_status_unknown:
  "s \<notin> set irq_sources \<Longrightarrow> event_irq_status E s = None"
  by (cases s) (auto simp: irq_sources_def)

lemma status_eq_BIT:
  assumes "event_enum_ok E" "irq_wf E d" "s \<in> set irq_sources"
  shows "irq_status d = BIT (evpos E s) \<longleftrightarrow> pending E d = {s}"
proof
  assume "irq_status d = BIT (evpos E s)"
  then show "pending E d = {s}"
    using assms by (auto simp: pending_def enum_lt)
next
  assume p: "pending E d = {s}"
  show "irq_status d = BIT (evpos E s)"
  proof (rule bit_eqI)
    fix n
    have "bit (irq_status d) n \<longleftrightarrow> n = evpos E s"
      using p assms(2) by (auto simp: pending_def irq_wf_def)
    then show "bit (irq_status d) n \<longleftrightarrow> bit (BIT (evpos E s)) n"
      using assms by (auto simp: enum_lt)
  qed
qed

lemma pending_set:
  assumes "event_enum_ok E" "s \<in> set irq_sources"
  shows "pending E (d\<lparr>irq_status := irq_status d OR BIT (evpos E s)\<rparr>) = insert s (pending E d)"
  using assms by (auto simp: pending_def bit_defs enum_lt)

lemma pending_clear:
  assumes "event_enum_ok E" "s \<in> set irq_sources"
  shows "pending E (d\<lparr>irq_status := irq_status d AND NOT (BIT (evpos E s))\<rparr>)
           = pending E d - {s}"
  using assms by (auto simp: pending_def bit_defs)

lemma irq_wf_set:
  "irq_wf E d \<Longrightarrow> s \<in> set irq_sources \<Longrightarrow>
   irq_wf E (d\<lparr>irq_status := irq_status d OR BIT (evpos E s)\<rparr>)"
  by (auto simp: irq_wf_def bit_defs)

lemma irq_wf_clear:
  "irq_wf E d \<Longrightarrow> irq_wf E (d\<lparr>irq_status := irq_status d AND NOT (BIT n)\<rparr>)"
  by (auto simp: irq_wf_def bit_defs)

lemma clear_unchanged:
  fixes st :: u32
  shows "st AND NOT (BIT n) = st \<longleftrightarrow> \<not> bit st n"
proof
  assume "st AND NOT (BIT n) = st"
  then show "\<not> bit st n" using bit_and_not_BIT [of st n n] by simp
next
  assume "\<not> bit st n"
  then show "st AND NOT (BIT n) = st" by (intro bit_eqI) (auto simp: bit_defs)
qed

lemma clear_unchanged_pending:
  assumes "event_enum_ok E" "s \<in> set irq_sources"
  shows "irq_status d AND NOT (BIT (evpos E s)) = irq_status d \<longleftrightarrow> s \<notin> pending E d"
  using assms by (simp add: clear_unchanged pending_def)

section \<open>A concrete environment\<close>

text \<open>
  For the witnesses: the enumerators numbered from 1, an event manager that answers the
  off-hook state, a world that counts the notifications sent.
\<close>

fun ex_evpos :: "event_source \<Rightarrow> nat" where
  "ex_evpos EVENT_SOURCE_MODEM = 1"
| "ex_evpos EVENT_SOURCE_IO = 2"
| "ex_evpos EVENT_SOURCE_VOIP = 3"
| "ex_evpos EVENT_SOURCE_SMARTCARD = 4"
| "ex_evpos EVENT_SOURCE_HOOK = 5"
| "ex_evpos EVENT_SOURCE_HANDSET = 6"
| "ex_evpos (EVENT_SOURCE_OTHER n) = nat n"

definition ex_event :: event where
  "ex_event = \<lparr>ev_source = EVENT_SOURCE_OTHER 0, ev_hook = EVENT_HOOK_STATE_OFF,
     ev_smartcard = EVENT_SMARTCARD_STATE_REMOVED, ev_voip = EVENT_VOIP_STATE_IDLE,
     ev_modem = EVENT_MODEM_STATE_RINGING, ev_keycode = 0, ev_pressed = False\<rparr>"

definition ex_irq_env :: "int \<Rightarrow> nat irq_env" where
  "ex_irq_env r = \<lparr>evpos = ex_evpos, event_zero = ex_event,
     remote_control_get_event_manager = (\<lambda>rc. rc + 1), rpc_server_from_priv = (\<lambda>a. a),
     event_manager_get_source_state = (\<lambda>m e w. (r, e, w)),
     event_manager_set_event_cb = (\<lambda>m s w. (0, w)),
     stub_irq_event = (\<lambda>s t w. (0, Suc w))\<rparr>"

lemma ex_irq_env_simps [simp]:
  "evpos (ex_irq_env r) = ex_evpos"
  "event_zero (ex_irq_env r) = ex_event"
  "remote_control_get_event_manager (ex_irq_env r) rc = rc + 1"
  "rpc_server_from_priv (ex_irq_env r) a = a"
  "event_manager_get_source_state (ex_irq_env r) m e w = (r, e, w)"
  "event_manager_set_event_cb (ex_irq_env r) m b w = (0, w)"
  "stub_irq_event (ex_irq_env r) b t w = (0, Suc w)"
  by (simp_all add: ex_irq_env_def)

lemma ex_irq_env_ok [simp]: "event_enum_ok (ex_irq_env r)"
  by (auto simp: event_enum_ok_def irq_sources_def)

definition ex_irq_data :: "u32 \<Rightarrow> irq_data" where
  "ex_irq_data st = \<lparr>irq_server = 9, irq_status = st, irq_manager = 8\<rparr>"

lemma ex_irq_data_simps [simp]:
  "irq_server (ex_irq_data st) = 9" "irq_status (ex_irq_data st) = st"
  "irq_manager (ex_irq_data st) = 8"
  by (simp_all add: ex_irq_data_def)

lemma ex_pending:
  "pending (ex_irq_env r) (ex_irq_data (BIT 5)) = {EVENT_SOURCE_HOOK}"
  by (auto simp: pending_def irq_sources_def)

lemma ex_irq_wf: "irq_wf (ex_irq_env r) (ex_irq_data (BIT 5))"
  by (auto simp: irq_wf_def irq_sources_def)

section \<open>The callback refines the specification\<close>

text \<open>C1: whatever event of a known source arrives, the callback makes that source
  pending, keeps every other one pending, keeps the status word well formed, and sends
  the notification exactly when the specification does; a failed notification is reported
  but the event is recorded all the same.\<close>

theorem irq_event_cb_refines:
  assumes "event_enum_ok E" "irq_wf E d" "ev_source e \<in> set irq_sources"
    and "spec_event (ev_source e) (pending E d) = (S, notify)"
  shows "\<exists>d'. snd (irq_event_cb E (Some d) (Some e) w) =
           (Some d', if notify then snd (stub_irq_event E (irq_server d) 0 w) else w)
       \<and> fst (irq_event_cb E (Some d) (Some e) w) =
           (if notify then min 0 (fst (stub_irq_event E (irq_server d) 0 w)) else 0)
       \<and> pending E d' = S \<and> irq_wf E d'
       \<and> irq_server d' = irq_server d \<and> irq_manager d' = irq_manager d"
proof -
  let ?s = "ev_source e" and ?d = "d\<lparr>irq_status := irq_status d OR BIT (evpos E (ev_source e))\<rparr>"
  have S: "S = insert ?s (pending E d)" "notify \<longleftrightarrow> pending E d \<noteq> {?s}"
    using assms(4) by (auto simp: spec_event_def)
  show ?thesis
  proof (cases "pending E d = {?s}")
    case True
    with assms status_eq_BIT [OF assms(1-3)] S show ?thesis
      by (auto simp: irq_event_cb_def event_irq_status_known)
  next
    case False
    then have "BIT (evpos E ?s) \<noteq> irq_status d"
      using status_eq_BIT [OF assms(1-3)] by auto
    moreover have "pending E ?d = S" "irq_wf E ?d"
      using S assms by (auto simp: pending_set irq_wf_set)
    ultimately show ?thesis
      using False S assms(3)
      by (auto simp: irq_event_cb_def event_irq_status_known split: prod.splits)
  qed
qed

theorem irq_event_cb_refines_witness:
  "\<exists>d'. snd (irq_event_cb (ex_irq_env 0) (Some (ex_irq_data (BIT 5)))
            (Some (ex_event\<lparr>ev_source := EVENT_SOURCE_VOIP\<rparr>)) 0) = (Some d', Suc 0)
     \<and> pending (ex_irq_env 0) d' = {EVENT_SOURCE_VOIP, EVENT_SOURCE_HOOK}"
proof -
  let ?e = "ex_event\<lparr>ev_source := EVENT_SOURCE_VOIP\<rparr>"
  have src: "ev_source ?e \<in> set irq_sources" by (simp add: irq_sources_def)
  have spec: "spec_event (ev_source ?e) (pending (ex_irq_env 0) (ex_irq_data (BIT 5)))
     = ({EVENT_SOURCE_VOIP, EVENT_SOURCE_HOOK}, True)"
    by (simp add: spec_event_def ex_pending)
  show ?thesis
    using irq_event_cb_refines [OF ex_irq_env_ok ex_irq_wf src spec, where w = 0] by auto
qed

lemma irq_update_refines:
  assumes "event_enum_ok E" "irq_wf E d" "s \<in> set irq_sources"
    and "irq_manager d = m" "m \<noteq> NULL"
    and "event_manager_get_source_state E m ev w = (err, ev', w')" "ev_source ev' = s"
    and "spec_read s (err = - ENODATA) (pending E d) = S"
  shows "\<exists>d'. irq_data_update_from_source E m ev (Some d, w) =
           (if S = pending E d
            then (fst (stub_irq_event E (irq_server d) 0 w'), ev', Some d',
                  snd (stub_irq_event E (irq_server d) 0 w'))
            else (if s = EVENT_SOURCE_HANDSET then 0 else err, ev', Some d', w'))
       \<and> pending E d' = S \<and> irq_wf E d'
       \<and> irq_server d' = irq_server d \<and> irq_manager d' = irq_manager d"
proof -
  let ?n = "evpos E s" and ?clears = "\<not> (s = EVENT_SOURCE_IO \<or> s = EVENT_SOURCE_HANDSET \<and> err \<noteq> - ENODATA)"
  let ?d = "d\<lparr>irq_status := irq_status d AND NOT (BIT ?n)\<rparr>"
  have S: "S = (if ?clears then pending E d - {s} else pending E d)"
    using assms(8) by (auto simp: spec_read_def)
  have upd: "irq_data_update_from_source E m ev (Some d, w) =
     (if ?clears \<and> irq_status d AND NOT (BIT ?n) \<noteq> irq_status d
      then (if s = EVENT_SOURCE_HANDSET then 0 else err, ev', Some ?d, w')
      else (fst (stub_irq_event E (irq_server d) 0 w'), ev', Some d,
            snd (stub_irq_event E (irq_server d) 0 w')))"
    using assms(3-7)
    by (auto simp: irq_data_update_from_source_def irq_data_from_manager_def irq_sources_def
        split: prod.splits)
  show ?thesis
  proof (cases "?clears \<and> s \<in> pending E d")
    case True
    then have "S \<noteq> pending E d" "pending E ?d = S"
      using S assms(1,3) by (auto simp: pending_clear)
    then show ?thesis
      using upd True assms(1-3) clear_unchanged_pending [OF assms(1,3), of d]
      by (auto intro: irq_wf_clear)
  next
    case False
    then have "S = pending E d" using S by auto
    then show ?thesis
      using upd False assms(1-3) clear_unchanged_pending [OF assms(1,3), of d] by auto
  qed
qed

text \<open>C2: reading a source takes it out of the set as the specification says and
  keeps every other one; the answer is the event manager's, but for a handset whose queue has
  been drained, where it is 0 in place of -ENODATA, and unless nothing was taken out: then it is
  the result of the notification that is sent instead.\<close>

theorem irq_read_refines:
  assumes "event_enum_ok E" "irq_wf E d" "s \<in> set irq_sources"
    and "irq_manager d = m" "m \<noteq> NULL"
    and "event_manager_get_source_state E m ev w = (err, ev', w')" "ev_source ev' = s"
    and "spec_read s (err = - ENODATA) (pending E d) = S"
  shows "\<exists>d'. irq_data_update_from_source E m ev (Some d, w) =
           (if S = pending E d
            then (fst (stub_irq_event E (irq_server d) 0 w'), ev', Some d',
                  snd (stub_irq_event E (irq_server d) 0 w'))
            else (if s = EVENT_SOURCE_HANDSET then 0 else err, ev', Some d', w'))
       \<and> pending E d' = S \<and> irq_wf E d'
       \<and> irq_server d' = irq_server d \<and> irq_manager d' = irq_manager d"
  by (rule irq_update_refines [OF assms])

theorem irq_read_refines_witness:
  "\<exists>d' ev'. irq_data_update_from_source (ex_irq_env 0) 8
       (ex_event\<lparr>ev_source := EVENT_SOURCE_HOOK\<rparr>) (Some (ex_irq_data (BIT 5)), 0)
       = (0, ev', Some d', 0) \<and> pending (ex_irq_env 0) d' = {}"
proof -
  let ?e = "ex_event\<lparr>ev_source := EVENT_SOURCE_HOOK\<rparr>"
  have src: "EVENT_SOURCE_HOOK \<in> set irq_sources" by (simp add: irq_sources_def)
  have read: "event_manager_get_source_state (ex_irq_env 0) 8 ?e 0 = (0, ?e, 0)" by simp
  have spec: "spec_read EVENT_SOURCE_HOOK (0 = - ENODATA)
     (pending (ex_irq_env 0) (ex_irq_data (BIT 5))) = {}"
    by (simp add: spec_read_def ex_pending)
  show ?thesis
    using irq_read_refines [OF ex_irq_env_ok ex_irq_wf src _ _ read _ spec]
    by (simp add: ex_pending) blast
qed

section \<open>The answer to the client\<close>

text \<open>The bit of the answer that stands for a source; the IO source has none.\<close>

fun mask_bit :: "event_source \<Rightarrow> nat option" where
  "mask_bit EVENT_SOURCE_MODEM = Some IRQ_MODEM"
| "mask_bit EVENT_SOURCE_VOIP = Some IRQ_VOIP"
| "mask_bit EVENT_SOURCE_SMARTCARD = Some IRQ_SMARTCARD"
| "mask_bit EVENT_SOURCE_HOOK = Some IRQ_HOOK"
| "mask_bit EVENT_SOURCE_HANDSET = Some IRQ_HANDSET"
| "mask_bit _ = None"

lemma bit_or_if: "bit (or_if b n m) k \<longleftrightarrow> bit m k \<or> (b \<and> k = n \<and> n < 32)"
  by (auto simp: or_if_def bit_defs)

lemma Bex_pending:
  "(\<exists>s \<in> pending E d. P s) \<longleftrightarrow> (\<exists>s \<in> set irq_sources. bit (irq_status d) (evpos E s) \<and> P s)"
  by (auto simp: pending_def)

lemma rpc_irq_get_mask_bits:
  assumes "priv_addr p \<noteq> NULL"
    and "remote_control_get_event_manager E (RCPTR p) = irq_manager d"
  shows "\<exists>m'. rpc_irq_get_mask E p (Some m) (Some d, w) = (0, Some m')
     \<and> (\<forall>n. bit m' n \<longleftrightarrow> bit m n \<or> (\<exists>s \<in> pending E d. mask_bit s = Some n))"
proof -
  let ?st = "\<lambda>s. bit (irq_status d) (evpos E s)"
  let ?m = "or_if (?st EVENT_SOURCE_HANDSET) IRQ_HANDSET (or_if (?st EVENT_SOURCE_HOOK) IRQ_HOOK
     (or_if (?st EVENT_SOURCE_SMARTCARD) IRQ_SMARTCARD (or_if (?st EVENT_SOURCE_VOIP) IRQ_VOIP
     (or_if (?st EVENT_SOURCE_MODEM) IRQ_MODEM m))))"
  have "rpc_irq_get_mask E p (Some m) (Some d, w) = (0, Some ?m)"
    using assms
    by (simp add: rpc_irq_get_mask_def irq_data_get_status_def irq_data_from_manager_def
        and_BIT_eq_0 Let_def)
  moreover have "bit ?m n \<longleftrightarrow> bit m n \<or> (\<exists>s \<in> pending E d. mask_bit s = Some n)" for n
    by (simp add: bit_or_if Bex_pending irq_sources_def) metis
  ultimately show ?thesis by blast
qed

text \<open>C16: the mask a client reads has, beside the bits it passed in, exactly the
  bits of the pending sources that have one.\<close>

theorem irq_get_mask_pending:
  assumes "priv_addr p \<noteq> NULL"
    and "remote_control_get_event_manager E (RCPTR p) = irq_manager d"
  shows "\<exists>m'. rpc_irq_get_mask E p (Some m) (Some d, w) = (0, Some m')
     \<and> (\<forall>n. bit m' n \<longleftrightarrow> bit m n \<or> (\<exists>s \<in> pending E d. mask_bit s = Some n))"
  by (rule rpc_irq_get_mask_bits [OF assms])

theorem irq_get_mask_pending_witness:
  "\<exists>m'. rpc_irq_get_mask (ex_irq_env 0) \<lparr>priv_addr = 5, priv_rc = 7\<rparr> (Some 0)
          (Some (ex_irq_data (BIT 5)), 0) = (0, Some m')
     \<and> (\<forall>n. bit m' n \<longleftrightarrow> n = IRQ_HOOK)"
  using irq_get_mask_pending [of "\<lparr>priv_addr = 5, priv_rc = 7\<rparr>" "ex_irq_env 0"
      "ex_irq_data (BIT 5)" 0 0]
  by (auto simp: ex_pending RCPTR_def)

section \<open>The running component\<close>

text \<open>
  Between set-up and clean-up the event manager may call back with any event, the client
  may call any handler with any argument, and the rest of the world may change.
\<close>

inductive irq_step :: "'w irq_env \<Rightarrow> priv \<Rightarrow> 'w irq_st \<Rightarrow> 'w irq_st \<Rightarrow> bool"
  for E :: "'w irq_env" and p :: priv where
  callback: "irq_event_cb E (fst s) (Some e) (snd s) = (ret, t) \<Longrightarrow> irq_step E p s t"
| get_info: "rpc_irq_get_info E p source info s = (ret, info', t) \<Longrightarrow> irq_step E p s t"
| enable: "rpc_irq_enable E p virtkey s = (ret, t) \<Longrightarrow> irq_step E p s t"
| environment: "irq_step E p (gd, w) (gd, w')"

definition irq_start :: "'w irq_env \<Rightarrow> priv \<Rightarrow> 'w irq_st \<Rightarrow> bool" where
  "irq_start E p s \<longleftrightarrow> (\<exists>s0. s = rpc_irq_init E p s0)"

text \<open>The data of the server and manager of \<open>p\<close>, with a property of the status word.\<close>

definition irq_holds :: "'w irq_env \<Rightarrow> priv \<Rightarrow> (u32 \<Rightarrow> bool) \<Rightarrow> 'w irq_st \<Rightarrow> bool" where
  "irq_holds E p P s \<longleftrightarrow> (\<exists>d. fst s = Some d \<and> P (irq_status d)
     \<and> irq_server d = rpc_server_from_priv E (priv_addr p)
     \<and> irq_manager d = remote_control_get_event_manager E (RCPTR p))"

text \<open>A property of the status word that no single change of it breaks.\<close>

definition status_stable :: "'w irq_env \<Rightarrow> (u32 \<Rightarrow> bool) \<Rightarrow> bool" where
  "status_stable E P \<longleftrightarrow> (\<forall>st. P st \<longrightarrow>
     (\<forall>s \<in> set irq_sources. P (st OR BIT (evpos E s)))
     \<and> (\<forall>s \<in> set irq_sources. s \<noteq> EVENT_SOURCE_IO \<longrightarrow> P (st AND NOT (BIT (evpos E s)))))"

lemma status_stable_or:
  "status_stable E P \<Longrightarrow> P st \<Longrightarrow> s \<in> set irq_sources \<Longrightarrow> P (st OR BIT (evpos E s))"
  by (auto simp: status_stable_def)

lemma status_stable_clear:
  "status_stable E P \<Longrightarrow> P st \<Longrightarrow> s \<in> set irq_sources \<Longrightarrow> s \<noteq> EVENT_SOURCE_IO \<Longrightarrow>
   P (st AND NOT (BIT (evpos E s)))"
  by (auto simp: status_stable_def)

lemma update_switch_stable:
  assumes "status_stable E P" "P st" "update_switch E src err st = (err', st')"
  shows "P st'"
  using assms by (cases src) (auto simp: irq_sources_def intro: status_stable_clear)

lemma irq_event_cb_holds:
  assumes "status_stable E P" "irq_holds E p P s"
    and "irq_event_cb E (fst s) ev (snd s) = (ret, t)"
  shows "irq_holds E p P t"
proof -
  obtain d where d: "fst s = Some d" using assms(2) by (auto simp: irq_holds_def)
  show ?thesis
  proof (cases "ev = None \<or> (\<exists>e. ev = Some e \<and> ev_source e \<notin> set irq_sources)")
    case True
    then show ?thesis
      using assms(2,3) d
      by (auto simp: irq_holds_def irq_event_cb_def event_irq_status_unknown)
  next
    case False
    then obtain e where "ev = Some e" "ev_source e \<in> set irq_sources" by auto
    then show ?thesis
      using assms d
      by (auto simp: irq_holds_def irq_event_cb_def event_irq_status_known Let_def
          intro: status_stable_or split: if_splits prod.splits)
  qed
qed

lemma irq_update_holds:
  assumes "status_stable E P" "irq_holds E p P s"
    and "irq_data_update_from_source E m ev s = (err, ev', t)"
  shows "irq_holds E p P t"
proof -
  have hs: "EVENT_SOURCE_HANDSET \<in> set irq_sources" by (simp add: irq_sources_def)
  obtain d where d: "fst s = Some d" "P (irq_status d)"
    using assms(2) by (auto simp: irq_holds_def)
  then have "P (irq_status d AND NOT (BIT (evpos E EVENT_SOURCE_HANDSET)))"
    using assms(1) hs by (auto intro: status_stable_clear)
  then show ?thesis
    using assms d
    by (auto simp: irq_holds_def irq_data_update_from_source_def irq_data_from_manager_def Let_def
        split: if_splits prod.splits dest: update_switch_stable)
qed

lemma get_info_from_holds:
  assumes "status_stable E P" "irq_holds E p P s"
    and "get_info_from E m src decode info s = (ret, info', t)"
  shows "irq_holds E p P t"
  using assms(3) irq_update_holds [OF assms(1,2)]
  by (auto simp: get_info_from_def split: prod.splits if_splits option.splits)

lemma rpc_irq_get_info_holds:
  assumes "status_stable E P" "irq_holds E p P s"
    and "rpc_irq_get_info E p source info s = (ret, info', t)"
  shows "irq_holds E p P t"
  using assms(2,3) get_info_from_holds [OF assms(1,2)]
  by (auto simp: rpc_irq_get_info_def Let_def split: if_splits)

lemma irq_step_holds:
  assumes "irq_step E p s t" "status_stable E P" "irq_holds E p P s"
  shows "irq_holds E p P t"
  using assms
proof (cases rule: irq_step.cases)
  case (enable virtkey ret)
  then show ?thesis
    using assms(3) by (auto simp: rpc_irq_enable_def irq_holds_def split: prod.splits if_splits)
qed (auto simp: irq_holds_def [of E p P "(_, _)"] irq_holds_def [of E p P s]
    dest: irq_event_cb_holds [OF assms(2,3)] rpc_irq_get_info_holds [OF assms(2,3)])

interpretation irq: invariant
  "\<lambda>s. irq_start E p s"
  "irq_step E p"
  "irq_holds E p (\<lambda>st. \<forall>n. bit st n \<longrightarrow> n \<in> evpos E ` set irq_sources)"
  for E :: "'w irq_env" and p :: priv
proof unfold_locales
  show "irq_start E p s \<Longrightarrow>
      irq_holds E p (\<lambda>st. \<forall>n. bit st n \<longrightarrow> n \<in> evpos E ` set irq_sources) s" for s
    by (auto simp: irq_start_def rpc_irq_init_def irq_holds_def Let_def case_prod_beta)
next
  have "status_stable E (\<lambda>st. \<forall>n. bit st n \<longrightarrow> n \<in> evpos E ` set irq_sources)"
    by (auto simp: status_stable_def bit_defs)
  then show "irq_holds E p (\<lambda>st. \<forall>n. bit st n \<longrightarrow> n \<in> evpos E ` set irq_sources) t"
    if "irq_holds E p (\<lambda>st. \<forall>n. bit st n \<longrightarrow> n \<in> evpos E ` set irq_sources) s"
      "irq_step E p s t" for s t
    using that irq_step_holds by blast
qed

interpretation irq_io: invariant
  "\<lambda>s. event_enum_ok E \<and> irq_holds E p (\<lambda>st. bit st (evpos E EVENT_SOURCE_IO)) s"
  "irq_step E p"
  "\<lambda>s. event_enum_ok E \<and> irq_holds E p (\<lambda>st. bit st (evpos E EVENT_SOURCE_IO)) s"
  for E :: "'w irq_env" and p :: priv
proof unfold_locales
  show "event_enum_ok E \<and> irq_holds E p (\<lambda>st. bit st (evpos E EVENT_SOURCE_IO)) t"
    if inv: "event_enum_ok E \<and> irq_holds E p (\<lambda>st. bit st (evpos E EVENT_SOURCE_IO)) s"
      and step: "irq_step E p s t" for s t
  proof -
    have io: "EVENT_SOURCE_IO \<in> set irq_sources" by (simp add: irq_sources_def)
    have "status_stable E (\<lambda>st. bit st (evpos E EVENT_SOURCE_IO))"
      using inv io enum_inj [of E EVENT_SOURCE_IO] by (auto simp: status_stable_def bit_defs)
    then show ?thesis using inv irq_step_holds [OF step] by blast
  qed
qed

text \<open>C17: in every state the component can reach after set-up, the status word holds
  bits of the six known sources only, and the structure still belongs to the server and
  the event manager it was set up for.\<close>

theorem irq_reachable_wf:
  assumes "reach (irq_start E p) (irq_step E p) s"
  shows "\<exists>d. fst s = Some d \<and> irq_wf E d
     \<and> irq_server d = rpc_server_from_priv E (priv_addr p)
     \<and> irq_manager d = remote_control_get_event_manager E (RCPTR p)"
  using irq.inv_reach [OF assms] by (auto simp: irq_holds_def irq_wf_def)

theorem irq_reachable_wf_witness:
  "\<exists>d. fst (rpc_irq_init (ex_irq_env 0) \<lparr>priv_addr = 5, priv_rc = 7\<rparr> (None, 0)) = Some d
     \<and> irq_wf (ex_irq_env 0) d"
proof -
  have "reach (irq_start (ex_irq_env 0) \<lparr>priv_addr = 5, priv_rc = 7\<rparr>)
    (irq_step (ex_irq_env 0) \<lparr>priv_addr = 5, priv_rc = 7\<rparr>)
    (rpc_irq_init (ex_irq_env 0) \<lparr>priv_addr = 5, priv_rc = 7\<rparr> (None, 0))"
    by (rule reach_init) (auto simp: irq_start_def)
  from irq_reachable_wf [OF this] show ?thesis by blast
qed

text \<open>C31: an event of the IO source is never read: once pending it stays pending
  through every later event and call, and no mask a client reads ever shows it.\<close>

theorem irq_io_pending_forever:
  assumes "event_enum_ok E" "priv_addr p \<noteq> NULL"
    and "irq_holds E p (\<lambda>st. bit st (evpos E EVENT_SOURCE_IO)) s" "(irq_step E p)\<^sup>*\<^sup>* s t"
  shows "\<exists>d m. fst t = Some d \<and> EVENT_SOURCE_IO \<in> pending E d
     \<and> rpc_irq_get_mask E p (Some 0) t = (0, Some m) \<and> \<not> bit m IRQ_IO"
proof -
  have "irq_holds E p (\<lambda>st. bit st (evpos E EVENT_SOURCE_IO)) t"
    using irq_io.inv_steps [OF assms(4)] assms(1,3) by blast
  then obtain d where d: "fst t = Some d" "EVENT_SOURCE_IO \<in> pending E d"
      "remote_control_get_event_manager E (RCPTR p) = irq_manager d"
    by (auto simp: irq_holds_def pending_def irq_sources_def)
  have nobit: "mask_bit x \<noteq> Some IRQ_IO" for x by (cases x) auto
  obtain m where "rpc_irq_get_mask E p (Some 0) (Some d, snd t) = (0, Some m)"
      "\<forall>n. bit m n \<longleftrightarrow> bit (0 :: u32) n \<or> (\<exists>s \<in> pending E d. mask_bit s = Some n)"
    using rpc_irq_get_mask_bits [OF assms(2) d(3)] by blast
  then have "rpc_irq_get_mask E p (Some 0) t = (0, Some m)" "\<not> bit m IRQ_IO"
    using nobit d(1) by (cases t, auto)+
  then show ?thesis using d by blast
qed

theorem irq_io_pending_forever_witness:
  "\<exists>d m. fst (snd (rpc_irq_enable (ex_irq_env 0) \<lparr>priv_addr = 9, priv_rc = 7\<rparr> 0
         (Some (ex_irq_data (BIT 2)), 0))) = Some d
     \<and> EVENT_SOURCE_IO \<in> pending (ex_irq_env 0) d
     \<and> rpc_irq_get_mask (ex_irq_env 0) \<lparr>priv_addr = 9, priv_rc = 7\<rparr> (Some 0)
         (snd (rpc_irq_enable (ex_irq_env 0) \<lparr>priv_addr = 9, priv_rc = 7\<rparr> 0
           (Some (ex_irq_data (BIT 2)), 0))) = (0, Some m)
     \<and> \<not> bit m IRQ_IO"
proof -
  let ?p = "\<lparr>priv_addr = 9, priv_rc = 7\<rparr>" and ?s = "(Some (ex_irq_data (BIT 2)), 0)"
  have p: "priv_addr ?p \<noteq> NULL" by simp
  have s: "irq_holds (ex_irq_env 0) ?p (\<lambda>st. bit st (evpos (ex_irq_env 0) EVENT_SOURCE_IO)) ?s"
    by (auto simp: irq_holds_def RCPTR_def)
  have "irq_step (ex_irq_env 0) ?p ?s (snd (rpc_irq_enable (ex_irq_env 0) ?p 0 ?s))"
    by (rule enable [where ret = "fst (rpc_irq_enable (ex_irq_env 0) ?p 0 ?s)"]) simp
  then have steps: "(irq_step (ex_irq_env 0) ?p)\<^sup>*\<^sup>* ?s (snd (rpc_irq_enable (ex_irq_env 0) ?p 0 ?s))"
    by (rule r_into_rtranclp)
  from irq_io_pending_forever [OF ex_irq_env_ok p s steps] show ?thesis by blast
qed

section \<open>The handler of one source\<close>

fun irq_number :: "event_source \<Rightarrow> nat" where
  "irq_number EVENT_SOURCE_HOOK = RPC_IRQ_SOURCE_HOOK"
| "irq_number EVENT_SOURCE_SMARTCARD = RPC_IRQ_SOURCE_CARD"
| "irq_number EVENT_SOURCE_VOIP = RPC_IRQ_SOURCE_VOIP"
| "irq_number EVENT_SOURCE_IO = RPC_IRQ_SOURCE_IO"
| "irq_number EVENT_SOURCE_MODEM = RPC_IRQ_SOURCE_MODEM"
| "irq_number EVENT_SOURCE_HANDSET = RPC_IRQ_SOURCE_HANDSET"
| "irq_number (EVENT_SOURCE_OTHER n) = RPC_IRQ_SOURCE_UNKNOWN"

fun decode_info :: "event_source \<Rightarrow> event \<Rightarrow> u32 option" where
  "decode_info EVENT_SOURCE_HOOK ev = hook_info (ev_hook ev)"
| "decode_info EVENT_SOURCE_SMARTCARD ev = card_info (ev_smartcard ev)"
| "decode_info EVENT_SOURCE_VOIP ev = voip_info (ev_voip ev)"
| "decode_info EVENT_SOURCE_MODEM ev = modem_info (ev_modem ev)"
| "decode_info EVENT_SOURCE_HANDSET ev = handset_info ev"
| "decode_info _ ev = None"

text \<open>The sources that \<^verbatim>\<open>irq_get_info\<close> reads.\<close>

definition readable :: "event_source set" where
  "readable = set irq_sources - {EVENT_SOURCE_IO}"

lemma rpc_irq_get_info_readable:
  "s \<in> readable \<Longrightarrow> rpc_irq_get_info E p (irq_number s) info st =
     get_info_from E (remote_control_get_event_manager E (RCPTR p)) s (decode_info s) info st"
  by (auto simp: readable_def irq_sources_def rpc_irq_get_info_def Let_def
      intro!: arg_cong [where f = "\<lambda>h. get_info_from E m x h info st" for m x])

lemma decode_info_handset: "decode_info EVENT_SOURCE_HANDSET ev \<noteq> None"
  by (simp add: handset_info_def Let_def)

text \<open>A pending source that can be read is reported and taken out, the handset's queue apart.\<close>

lemma rpc_irq_get_info_ok:
  assumes "event_enum_ok E" "irq_wf E d" "s \<in> readable" "s \<in> pending E d" "irq_manager d \<noteq> NULL"
    and "remote_control_get_event_manager E (RCPTR p) = irq_manager d"
    and "event_manager_get_source_state E (irq_manager d)
           ((event_zero E)\<lparr>ev_source := s\<rparr>) w = (0, ev', w')" "ev_source ev' = s"
    and "decode_info s ev' = Some v" "0 \<le> fst (stub_irq_event E (irq_server d) 0 w')"
  shows "\<exists>d' w''. rpc_irq_get_info E p (irq_number s) info (Some d, w) = (0, v, Some d', w'')
     \<and> pending E d' = pending E d - ({s} - {EVENT_SOURCE_HANDSET}) \<and> irq_wf E d'
     \<and> irq_server d' = irq_server d \<and> irq_manager d' = irq_manager d"
proof -
  let ?S = "pending E d - ({s} - {EVENT_SOURCE_HANDSET})"
  have s: "s \<in> set irq_sources" "s \<noteq> EVENT_SOURCE_IO" using assms(3) by (auto simp: readable_def)
  have "spec_read s (0 = - ENODATA) (pending E d) = ?S" using s by (auto simp: spec_read_def)
  from irq_update_refines [OF assms(1,2) s(1) refl assms(5,7,8) this]
  obtain d' err w'' where
    "irq_data_update_from_source E (irq_manager d) ((event_zero E)\<lparr>ev_source := s\<rparr>) (Some d, w)
       = (err, ev', Some d', w'')" "0 \<le> err" "pending E d' = ?S" "irq_wf E d'"
    "irq_server d' = irq_server d" "irq_manager d' = irq_manager d"
    using assms(10) by (auto split: if_splits)
  then show ?thesis using assms(3,6,9) by (auto simp: rpc_irq_get_info_readable get_info_from_def)
qed

text \<open>The handler answers 0 or a negative code, and only an answer of 0 carries
  information: on an error the client's \<^verbatim>\<open>info\<close> is left as it was.\<close>

lemma irq_get_info_error:
  "case rpc_irq_get_info E p source info s of
     (ret, info', s') \<Rightarrow> ret \<le> 0 \<and> (ret = 0 \<or> info' = info)"
  by (auto simp: rpc_irq_get_info_def get_info_from_def Let_def
      split: prod.splits option.splits)

text \<open>C32: where the event manager fails to read a pending source other than the
  handset, the error is reported, but the source is no longer pending: the event is lost
  to a client that polls the mask.\<close>

theorem irq_get_info_loses_event:
  assumes "event_enum_ok E" "irq_wf E d" "s \<in> readable" "s \<noteq> EVENT_SOURCE_HANDSET"
    and "s \<in> pending E d" "irq_manager d \<noteq> NULL"
    and "remote_control_get_event_manager E (RCPTR p) = irq_manager d"
    and "event_manager_get_source_state E (irq_manager d)
           ((event_zero E)\<lparr>ev_source := s\<rparr>) w = (err, ev', w')" "ev_source ev' = s" "err < 0"
  shows "\<exists>d'. rpc_irq_get_info E p (irq_number s) info (Some d, w) = (err, info, Some d', w')
     \<and> pending E d' = pending E d - {s}"
proof -
  have s: "s \<in> set irq_sources" "s \<noteq> EVENT_SOURCE_IO" using assms(3) by (auto simp: readable_def)
  have "spec_read s (err = - ENODATA) (pending E d) = pending E d - {s}"
    using s assms(4) by (simp add: spec_read_def)
  from irq_update_refines [OF assms(1,2) s(1) refl assms(6,8,9) this] assms(4,5)
  obtain d' where "irq_data_update_from_source E (irq_manager d) ((event_zero E)\<lparr>ev_source := s\<rparr>)
      (Some d, w) = (err, ev', Some d', w')" "pending E d' = pending E d - {s}"
    by (auto split: if_splits)
  then show ?thesis
    using assms(3,7,10) by (auto simp: rpc_irq_get_info_readable get_info_from_def)
qed

theorem irq_get_info_loses_event_witness:
  "\<exists>d'. rpc_irq_get_info (ex_irq_env (- 5)) \<lparr>priv_addr = 9, priv_rc = 7\<rparr> 1 77
        (Some (ex_irq_data (BIT 5)), 0) = (- 5, 77, Some d', 0)
     \<and> pending (ex_irq_env (- 5)) d' = {}"
proof -
  let ?p = "\<lparr>priv_addr = 9, priv_rc = 7\<rparr>"
  have r: "EVENT_SOURCE_HOOK \<in> readable" by (simp add: readable_def irq_sources_def)
  have q: "EVENT_SOURCE_HOOK \<in> pending (ex_irq_env (- 5)) (ex_irq_data (BIT 5))"
    by (simp add: ex_pending)
  have m: "remote_control_get_event_manager (ex_irq_env (- 5)) (RCPTR ?p)
     = irq_manager (ex_irq_data (BIT 5))" by (simp add: RCPTR_def)
  show ?thesis
    using irq_get_info_loses_event [OF ex_irq_env_ok ex_irq_wf r _ q _ m, where w = 0
        and err = "- 5" and info = 77]
    by (simp add: ex_pending)
qed

text \<open>C33: where a source is not pending, an error of the event manager is never
  reported. The notification sent in that case takes the place of its code: where the
  notification fails, its code is the answer, and where it succeeds, the answer is the decoded
  event, whatever the event manager left in it (-ENXIO for a state that has no number).\<close>

theorem irq_get_info_masks_error:
  assumes "event_enum_ok E" "irq_wf E d" "s \<in> readable" "s \<notin> pending E d"
    and "irq_manager d \<noteq> NULL"
    and "remote_control_get_event_manager E (RCPTR p) = irq_manager d"
    and "event_manager_get_source_state E (irq_manager d)
           ((event_zero E)\<lparr>ev_source := s\<rparr>) w = (err, ev', w')" "ev_source ev' = s"
    and "stub_irq_event E (irq_server d) 0 w' = (r, w'')"
  shows "\<exists>d'. rpc_irq_get_info E p (irq_number s) info (Some d, w) =
       (if r < 0 then (r, info, Some d', w'')
        else case decode_info s ev' of None \<Rightarrow> (- ENXIO, info, Some d', w'')
        | Some v \<Rightarrow> (0, v, Some d', w'')) \<and> pending E d' = pending E d"
proof -
  have s: "s \<in> set irq_sources" using assms(3) by (auto simp: readable_def)
  have "spec_read s (err = - ENODATA) (pending E d) = pending E d"
    using assms(4) by (auto simp: spec_read_def)
  from irq_update_refines [OF assms(1,2) s refl assms(5,7,8) this] assms(9)
  obtain d' where "irq_data_update_from_source E (irq_manager d) ((event_zero E)\<lparr>ev_source := s\<rparr>)
      (Some d, w) = (r, ev', Some d', w'')" "pending E d' = pending E d"
    by auto
  then show ?thesis
    using assms(3,6)
    by (auto simp: rpc_irq_get_info_readable get_info_from_def split: option.splits)
qed

theorem irq_get_info_masks_error_witness:
  "\<exists>d'. rpc_irq_get_info (ex_irq_env (- 5)) \<lparr>priv_addr = 9, priv_rc = 7\<rparr> 3 77
        (Some (ex_irq_data (BIT 5)), 0) = (0, 0, Some d', 1)"
proof -
  let ?p = "\<lparr>priv_addr = 9, priv_rc = 7\<rparr>"
  have r: "EVENT_SOURCE_VOIP \<in> readable" by (simp add: readable_def irq_sources_def)
  have q: "EVENT_SOURCE_VOIP \<notin> pending (ex_irq_env (- 5)) (ex_irq_data (BIT 5))"
    by (simp add: ex_pending)
  have m: "remote_control_get_event_manager (ex_irq_env (- 5)) (RCPTR ?p)
     = irq_manager (ex_irq_data (BIT 5))" by (simp add: RCPTR_def)
  let ?e = "ex_event\<lparr>ev_source := EVENT_SOURCE_VOIP\<rparr>"
  have e: "event_manager_get_source_state (ex_irq_env (- 5)) (irq_manager (ex_irq_data (BIT 5)))
     ((event_zero (ex_irq_env (- 5)))\<lparr>ev_source := EVENT_SOURCE_VOIP\<rparr>) 0 = (- 5, ?e, 0)"
    by simp
  have stub: "stub_irq_event (ex_irq_env (- 5)) (irq_server (ex_irq_data (BIT 5))) 0 0 = (0, 1)"
    by simp
  have "decode_info EVENT_SOURCE_VOIP ?e = Some 0" by (simp add: ex_event_def)
  then show ?thesis
    using irq_get_info_masks_error [OF ex_irq_env_ok ex_irq_wf r q _ m e _ stub, where info = 77]
    by (simp del: decode_info.simps) blast
qed

end
