(* ===== verification/Net.thy ===== *)
theory Net
  imports Prelude
begin

text \<open>
  The network component of the server, \<^verbatim>\<open>src/src/rcrpc/net.c\<close>: one channel for
  asynchronous datagrams, configured by the client, one for the synchronous broadcast,
  created at start-up; reading and writing through them, and reading the host name and
  the hardware address. Shown here: channels are neither lost nor left open, the blocking
  read ends within a bound, the hardware address can be read back from its text, and
  what the two text reads do to the length of a short buffer.

  The UDP library, the sockets and the kernel are the fields of \<open>net_env\<close>.
\<close>

section \<open>Environment and state\<close>

record 'w net_env =
  remote_control_get_net_udp :: "ptr \<Rightarrow> ptr"
  net_udp_create_channel :: "ptr \<Rightarrow> u32 \<Rightarrow> string \<Rightarrow> u32 \<Rightarrow> 'w \<Rightarrow> int \<times> 'w"
  net_udp_destroy_channel :: "ptr \<Rightarrow> int \<Rightarrow> 'w \<Rightarrow> 'w"
  net_udp_get_channel_by_ref :: "ptr \<Rightarrow> int \<Rightarrow> 'w \<Rightarrow> ptr"
  net_udp_recv :: "ptr \<Rightarrow> string \<Rightarrow> nat \<Rightarrow> 'w \<Rightarrow> int \<times> string \<times> 'w"
    \<comment> \<open>channel, memory, size; the result and the memory after it\<close>
  net_udp_send :: "ptr \<Rightarrow> string \<Rightarrow> nat \<Rightarrow> 'w \<Rightarrow> int \<times> 'w"
  if_lookup_default :: "'w \<Rightarrow> int"
  sys_socket :: "'w \<Rightarrow> int \<times> 'w"
    \<comment> \<open>the descriptor, or a negative value and \<^verbatim>\<open>errno\<close> set in the world\<close>
  sys_close :: "int \<Rightarrow> 'w \<Rightarrow> 'w"
  sys_if_indextoname :: "int \<Rightarrow> 'w \<Rightarrow> string option \<times> 'w"
  sys_ioctl_hwaddr :: "int \<Rightarrow> string \<Rightarrow> 'w \<Rightarrow> int \<times> (nat \<Rightarrow> u8) \<times> 'w"
    \<comment> \<open>\<^verbatim>\<open>SIOCGIFHWADDR\<close>: the result and the \<^verbatim>\<open>sa_data\<close> it fills in\<close>
  sys_select_read :: "int \<Rightarrow> nat \<Rightarrow> nat \<Rightarrow> 'w \<Rightarrow> int \<times> 'w"
    \<comment> \<open>one descriptor, seconds, microseconds\<close>
  sys_usleep :: "nat \<Rightarrow> 'w \<Rightarrow> 'w"
  sys_hostname :: "'w \<Rightarrow> string"
  sys_errno :: "'w \<Rightarrow> int"

record net_data =
  nd_net :: ptr
  async_p2p :: int
  sync_broadcast :: int
  sync_timeout_msec :: u16

record rpc_buffer =
  rx_buf :: string
  rx_num :: nat
  tx_buf :: string
  tx_num :: nat

text \<open>The global pointer \<^verbatim>\<open>net_data\<close> and the world.\<close>

type_synonym 'w net_st = "net_data option \<times> 'w"

section \<open>Set-up, clean-up, configuration\<close>

definition rpc_net_cleanup :: "'w net_env \<Rightarrow> 'w net_st \<Rightarrow> 'w net_st" where
  "rpc_net_cleanup E s =
     (case fst s of
        Some nd \<Rightarrow>
          let w = net_udp_destroy_channel E (nd_net nd) (async_p2p nd) (snd s);
              w = net_udp_destroy_channel E (nd_net nd) (sync_broadcast nd) w
          in (None, w)
      | None \<Rightarrow> s)"

definition rpc_net_init :: "'w net_env \<Rightarrow> priv \<Rightarrow> 'w net_st \<Rightarrow> 'w net_st" where
  "rpc_net_init E p s =
     (let net = remote_control_get_net_udp E (RCPTR p);
          s = (if fst s \<noteq> None then rpc_net_cleanup E s else s);
          nd = \<lparr>nd_net = net, async_p2p = 0, sync_broadcast = 0, sync_timeout_msec = 0\<rparr>;
          (ret, w) = net_udp_create_channel E net 49999 ''255.255.255.255'' 50000 (snd s)
      in (Some (if ret \<ge> 0 then nd\<lparr>sync_broadcast := ret\<rparr> else nd), w))"

definition rpc_net_config ::
  "'w net_env \<Rightarrow> priv \<Rightarrow> u32 \<Rightarrow> u32 \<Rightarrow> u32 \<Rightarrow> string \<Rightarrow> 'w net_st \<Rightarrow> int \<times> 'w net_st" where
  "rpc_net_config E p port timeout repeat host s =
     (let net = remote_control_get_net_udp E (RCPTR p) in
      case fst s of
        None \<Rightarrow> (- EINVAL, s)
      | Some nd \<Rightarrow>
          if net = NULL then (- EINVAL, s)
          else
            let w = (if async_p2p nd \<noteq> 0
                     then net_udp_destroy_channel E (nd_net nd) (async_p2p nd) (snd s)
                     else snd s);
                nd = nd\<lparr>async_p2p := 0\<rparr>;
                (ret, w) = net_udp_create_channel E net 9999 host port w;
                nd = (if ret \<ge> 0 then nd\<lparr>async_p2p := ret\<rparr> else nd);
                nd = nd\<lparr>sync_timeout_msec := ucast (timeout AND 0xFFFF)\<rparr>
            in (if ret > 0 then 0 else ret, Some nd, w))"

section \<open>Reading\<close>

text \<open>
  The loop of the synchronous read: a result other than 0 ends it, and so does a timeout
  that has become negative. The timeout is an \<^verbatim>\<open>int32_t\<close> loaded from 16 bits, so it
  stays far from the ends of its range.
\<close>

function net_read_sync ::
  "'w net_env \<Rightarrow> ptr \<Rightarrow> nat \<Rightarrow> int \<Rightarrow> string \<Rightarrow> 'w \<Rightarrow> int \<times> string \<times> 'w" where
  "net_read_sync E chan num timeout mem w =
     (let (ret, mem, w) = net_udp_recv E chan mem num w in
      if ret \<noteq> 0 then (ret, mem, w)
      else
        let w = sys_usleep E 5000 w in
        if timeout - 5 < 0 then (- ETIMEDOUT, mem, w)
        else net_read_sync E chan num (timeout - 5) mem w)"
  by pat_completeness auto
termination
  by (relation "measure (\<lambda>(E, chan, num, timeout, mem, w). nat (timeout + 1))") auto

declare net_read_sync.simps [simp del]

definition gethwaddr :: "'w net_env \<Rightarrow> string \<Rightarrow> nat \<Rightarrow> 'w \<Rightarrow> int \<times> string \<times> 'w" where
  "gethwaddr E hwaddr len w =
     (let (skt, w) = sys_socket E w in
      if skt < 0 then (- sys_errno E w, hwaddr, w)
      else
        let ifindex = if_lookup_default E w in
        if ifindex = 0 then (- ENODEV, hwaddr, sys_close E skt w)
        else (case sys_if_indextoname E ifindex w of
          (None, w) \<Rightarrow> (- sys_errno E w, hwaddr, sys_close E skt w)
        | (Some ifname, w) \<Rightarrow>
            let (err, sa_data, w) = sys_ioctl_hwaddr E skt (take 15 ifname) w in
            if err < 0 then (- sys_errno E w, hwaddr, sys_close E skt w)
            else
              let (err, hwaddr) = snprintf hwaddr len
                    (hex2 (sa_data 0) @ hex2 (sa_data 1) @ hex2 (sa_data 2) @
                     hex2 (sa_data 3) @ hex2 (sa_data 4) @ hex2 (sa_data 5))
              in (err, hwaddr, sys_close E skt w)))"

text \<open>
  \<^verbatim>\<open>gethostname\<close> stores as much of the name and its terminator as fits, so a name
  that does not fit is left without one; \<^verbatim>\<open>strlen\<close> then reads on past the buffer.
\<close>

definition gethostname :: "'w net_env \<Rightarrow> string \<Rightarrow> nat \<Rightarrow> 'w \<Rightarrow> string" where
  "gethostname E mem n w = mem_store (take n (sys_hostname E w @ [NUL])) mem"

definition NET_READ_MODE_UDP_NONBLOCK :: u32 where [simp]: "NET_READ_MODE_UDP_NONBLOCK = 0x0"
definition NET_READ_MODE_UDP :: u32 where [simp]: "NET_READ_MODE_UDP = 0x1"
definition NET_READ_MODE_HOSTNAME :: u32 where [simp]: "NET_READ_MODE_HOSTNAME = 0xa"
definition NET_READ_MODE_HWADDR :: u32 where [simp]: "NET_READ_MODE_HWADDR = 0xb"
definition NET_WRITE_MODE_UDP_NONBLOCK :: u32 where [simp]: "NET_WRITE_MODE_UDP_NONBLOCK = 0x0"
definition NET_WRITE_MODE_UDP :: u32 where [simp]: "NET_WRITE_MODE_UDP = 0x1"

definition rpc_net_read ::
  "'w net_env \<Rightarrow> priv \<Rightarrow> u32 \<Rightarrow> rpc_buffer \<Rightarrow> 'w net_st
    \<Rightarrow> c_ub + int \<times> rpc_buffer \<times> 'w net_st" where
  "rpc_net_read E p mode buf s =
     (let net = remote_control_get_net_udp E (RCPTR p); (gd, w) = s in
      case gd of
        None \<Rightarrow> Inr (- EINVAL, buf, gd, w)
      | Some nd \<Rightarrow>
          if net = NULL then Inr (- EINVAL, buf, gd, w)
          else
            let async_chan = net_udp_get_channel_by_ref E net (async_p2p nd) w;
                sync_chan = net_udp_get_channel_by_ref E net (sync_broadcast nd) w
            in
            if mode = NET_READ_MODE_UDP_NONBLOCK then
              (let (ret, mem, w) = net_udp_recv E async_chan (tx_buf buf) (tx_num buf) w
               in Inr (ret, buf\<lparr>tx_buf := mem\<rparr>, gd, w))
            else if mode = NET_READ_MODE_UDP then
              (let (ret, mem, w) =
                     net_read_sync E sync_chan (tx_num buf)
                       (int (unat (sync_timeout_msec nd))) (tx_buf buf) w
               in Inr (ret, buf\<lparr>tx_buf := mem\<rparr>, gd, w))
            else if mode = NET_READ_MODE_HOSTNAME then
              (let mem = gethostname E (tx_buf buf) (tx_num buf) w in
               case strlen mem of
                 Inl ub \<Rightarrow> Inl ub
               | Inr n \<Rightarrow> Inr (int n, buf\<lparr>tx_buf := mem, tx_num := n\<rparr>, gd, w))
            else if mode = NET_READ_MODE_HWADDR then
              (let (ret, mem, w) = gethwaddr E (tx_buf buf) (tx_num buf) w
               in Inr (ret, buf\<lparr>tx_buf := mem, tx_num := if ret > 0 then nat ret else 0\<rparr>,
                       gd, w))
            else Inr (- ENOSYS, buf, gd, w))"

section \<open>Writing\<close>

definition rpc_net_write ::
  "'w net_env \<Rightarrow> priv \<Rightarrow> u32 \<Rightarrow> rpc_buffer \<Rightarrow> 'w net_st \<Rightarrow> int \<times> 'w net_st" where
  "rpc_net_write E p mode buf s =
     (let net = remote_control_get_net_udp E (RCPTR p); (gd, w) = s in
      case gd of
        None \<Rightarrow> (- EINVAL, gd, w)
      | Some nd \<Rightarrow>
          if net = NULL then (- EINVAL, gd, w)
          else
            let async_chan = net_udp_get_channel_by_ref E net (async_p2p nd) w;
                sync_chan = net_udp_get_channel_by_ref E net (sync_broadcast nd) w
            in
            if mode = NET_WRITE_MODE_UDP_NONBLOCK then
              (let (ret, w) = net_udp_send E async_chan (rx_buf buf) (rx_num buf) w
               in (ret, gd, w))
            else if mode = NET_WRITE_MODE_UDP then
              (let (ret, w) = net_udp_send E sync_chan (rx_buf buf) (rx_num buf) w in
               if ret < 0 then (ret, gd, w)
               else
                 let msec = unat (sync_timeout_msec nd);
                     (ret, w) = sys_select_read E (sync_broadcast nd) (msec div 1000)
                                  (msec mod 1000 * 1000) w
                 in (if ret < 0 then - sys_errno E w
                     else if ret = 0 then - ETIMEDOUT else ret, gd, w))
            else (- ENOSYS, gd, w))"

section \<open>A concrete environment\<close>

text \<open>
  For the witnesses: a world that holds the open channels and descriptors and counts the
  receives; a new channel or descriptor gets a number above all open ones, nothing ever
  arrives, the address is that of one interface.
\<close>

record ex_world =
  ex_chans :: "nat list"
  ex_fds :: "nat list"
  ex_recvs :: nat

definition ex_net_env :: "'a ex_world_scheme net_env" where
  "ex_net_env = \<lparr>remote_control_get_net_udp = (\<lambda>rc. rc + 1),
     net_udp_create_channel = (\<lambda>n l h p w. (int (Suc (sum_list (ex_chans w))),
        w\<lparr>ex_chans := Suc (sum_list (ex_chans w)) # ex_chans w\<rparr>)),
     net_udp_destroy_channel = (\<lambda>n c w. w\<lparr>ex_chans := filter (\<lambda>x. int x \<noteq> c) (ex_chans w)\<rparr>),
     net_udp_get_channel_by_ref = (\<lambda>n c w. nat c),
     net_udp_recv = (\<lambda>c mem n w. (0, mem, w\<lparr>ex_recvs := Suc (ex_recvs w)\<rparr>)),
     net_udp_send = (\<lambda>c mem n w. (int n, w)),
     if_lookup_default = (\<lambda>w. 1),
     sys_socket = (\<lambda>w. (int (Suc (sum_list (ex_fds w))),
        w\<lparr>ex_fds := Suc (sum_list (ex_fds w)) # ex_fds w\<rparr>)),
     sys_close = (\<lambda>f w. w\<lparr>ex_fds := filter (\<lambda>x. int x \<noteq> f) (ex_fds w)\<rparr>),
     sys_if_indextoname = (\<lambda>i w. (Some ''eth0'', w)),
     sys_ioctl_hwaddr = (\<lambda>f n w. (0, \<lambda>i. of_nat (200 + i), w)),
     sys_select_read = (\<lambda>c a b w. (1, w)),
     sys_usleep = (\<lambda>n w. w), sys_hostname = (\<lambda>w. ''panel''), sys_errno = (\<lambda>w. 5)\<rparr>"

definition ex_net_world :: ex_world where
  "ex_net_world = \<lparr>ex_chans = [], ex_fds = [], ex_recvs = 0\<rparr>"

definition ex_net_data :: net_data where
  "ex_net_data = \<lparr>nd_net = 8, async_p2p = 0, sync_broadcast = 1, sync_timeout_msec = 12\<rparr>"

abbreviation ex_priv :: priv where
  "ex_priv \<equiv> \<lparr>priv_addr = 5, priv_rc = 7\<rparr>"

definition ex_buf :: "nat \<Rightarrow> rpc_buffer" where
  "ex_buf n = \<lparr>rx_buf = [], rx_num = 0, tx_buf = replicate n NUL, tx_num = n\<rparr>"

lemmas ex_net_defs = ex_net_env_def ex_net_world_def ex_net_data_def ex_buf_def RCPTR_def

section \<open>The blocking read\<close>

text \<open>
  The reference: up to \<open>n\<close> receives, the first one that answers wins, with a pause after
  every one that does not.
\<close>

fun first_reply ::
  "'w net_env \<Rightarrow> ptr \<Rightarrow> nat \<Rightarrow> nat \<Rightarrow> string \<Rightarrow> 'w \<Rightarrow> int \<times> string \<times> 'w" where
  "first_reply E chan num 0 mem w = (- ETIMEDOUT, mem, w)"
| "first_reply E chan num (Suc n) mem w =
     (let (ret, mem, w) = net_udp_recv E chan mem num w in
      if ret \<noteq> 0 then (ret, mem, w) else first_reply E chan num n mem (sys_usleep E 5000 w))"

lemma net_read_sync_first_reply:
  "net_read_sync E chan num (int t) mem w = first_reply E chan num (t div 5 + 1) mem w"
proof (induction t arbitrary: mem w rule: less_induct)
  case (less t)
  show ?case
  proof (cases "t < 5")
    case True
    then show ?thesis
      by (simp add: net_read_sync.simps [of E chan num "int t"] split: prod.split)
  next
    case False
    then have t: "int t - 5 = int (t - 5)" "t div 5 = Suc ((t - 5) div 5)" "t - 5 < t"
      by (auto simp: div_if of_nat_diff)
    then show ?thesis
      using False less [OF t(3)]
      by (simp add: net_read_sync.simps [of E chan num "int t"] t(1,2) split: prod.split
          del: of_nat_diff)
  qed
qed

lemma unat_u16_lt: "unat (x :: u16) < 65536"
  using unsigned_less [of x] by simp

text \<open>C13: the synchronous read returns, after at most one receive for every five
  milliseconds of the configured timeout and one more, never more than 13108; it returns
  the first answer that is not 0, or \<^verbatim>\<open>-ETIMEDOUT\<close>.\<close>

theorem net_read_bounded:
  assumes "remote_control_get_net_udp E (RCPTR p) = net" "net \<noteq> NULL"
    and "net_udp_get_channel_by_ref E net (sync_broadcast nd) w = chan"
    and "first_reply E chan (tx_num buf) (unat (sync_timeout_msec nd) div 5 + 1) (tx_buf buf) w
           = (ret, mem, w')"
  shows "rpc_net_read E p NET_READ_MODE_UDP buf (Some nd, w)
           = Inr (ret, buf\<lparr>tx_buf := mem\<rparr>, Some nd, w')
       \<and> unat (sync_timeout_msec nd) div 5 + 1 \<le> 13108"
  using assms unat_u16_lt [of "sync_timeout_msec nd"]
  by (simp add: rpc_net_read_def net_read_sync_first_reply del: of_nat_unat first_reply.simps)

theorem net_read_bounded_witness:
  "rpc_net_read ex_net_env ex_priv NET_READ_MODE_UDP (ex_buf 4)
       (Some ex_net_data, ex_net_world)
     = Inr (- ETIMEDOUT, ex_buf 4, Some ex_net_data, ex_net_world\<lparr>ex_recvs := 3\<rparr>)"
proof -
  let ?r = "first_reply ex_net_env 1 4 3 (tx_buf (ex_buf 4)) ex_net_world"
  have r: "?r = (- ETIMEDOUT, tx_buf (ex_buf 4), ex_net_world\<lparr>ex_recvs := 3\<rparr>)"
    by (simp add: ex_net_defs numeral_3_eq_3)
  have "remote_control_get_net_udp ex_net_env (RCPTR ex_priv) = 8"
       "net_udp_get_channel_by_ref ex_net_env 8 (sync_broadcast ex_net_data) ex_net_world = 1"
       "unat (sync_timeout_msec ex_net_data) div 5 + 1 = 3" "tx_num (ex_buf 4) = 4"
    by (simp_all add: ex_net_defs)
  then show ?thesis
    using r net_read_bounded [of ex_net_env ex_priv 8 ex_net_data ex_net_world 1 "ex_buf 4"]
    by auto
qed

section \<open>The hardware address\<close>

text \<open>What a library's calls do to the set of open descriptors, or of channels.\<close>

definition fds_ok :: "'w net_env \<Rightarrow> ('w \<Rightarrow> int set) \<Rightarrow> bool" where
  "fds_ok E fds \<longleftrightarrow>
     (\<forall>w r w'. sys_socket E w = (r, w') \<longrightarrow>
        (if r < 0 then fds w' = fds w else r \<notin> fds w \<and> fds w' = insert r (fds w))) \<and>
     (\<forall>f w. fds (sys_close E f w) = fds w - {f}) \<and>
     (\<forall>i w. fds (snd (sys_if_indextoname E i w)) = fds w) \<and>
     (\<forall>f n w. fds (snd (snd (sys_ioctl_hwaddr E f n w))) = fds w)"

lemma fds_ok_close: "fds_ok E fds \<Longrightarrow> fds (sys_close E f w) = fds w - {f}"
  by (simp add: fds_ok_def)

lemma fds_ok_name:
  "fds_ok E fds \<Longrightarrow> sys_if_indextoname E i w = (a, w') \<Longrightarrow> fds w' = fds w"
  unfolding fds_ok_def by (metis snd_conv)

lemma fds_ok_ioctl:
  "fds_ok E fds \<Longrightarrow> sys_ioctl_hwaddr E f n w = (r, hw, w') \<Longrightarrow> fds w' = fds w"
  unfolding fds_ok_def by (metis snd_conv)

lemma fds_ok_socket:
  assumes "fds_ok E fds" "sys_socket E w = (r, w')"
  shows "r < 0 \<Longrightarrow> fds w' = fds w" "\<not> r < 0 \<Longrightarrow> fds w' - {r} = fds w"
proof -
  have "if r < 0 then fds w' = fds w else r \<notin> fds w \<and> fds w' = insert r (fds w)"
    using assms unfolding fds_ok_def by blast
  then show "r < 0 \<Longrightarrow> fds w' = fds w" "\<not> r < 0 \<Longrightarrow> fds w' - {r} = fds w" by auto
qed

text \<open>C26: the socket that \<^verbatim>\<open>gethwaddr\<close> opens is closed again on every path, the
  error paths included: the set of open descriptors is the same before and after.\<close>

theorem gethwaddr_closes_socket:
  assumes "fds_ok E fds" "gethwaddr E mem len w = (err, mem', w')"
  shows "fds w' = fds w"
proof -
  obtain skt w1 where s: "sys_socket E w = (skt, w1)" by (cases "sys_socket E w")
  obtain n w2 where n: "sys_if_indextoname E (if_lookup_default E w1) w1 = (n, w2)"
    by (cases "sys_if_indextoname E (if_lookup_default E w1) w1")
  obtain r hw w3 where r: "sys_ioctl_hwaddr E skt (take 15 (the n)) w2 = (r, hw, w3)"
    by (cases "sys_ioctl_hwaddr E skt (take 15 (the n)) w2")
  have "fds w2 = fds w1" "fds w3 = fds w2"
    using assms(1) n r by (auto dest: fds_ok_name fds_ok_ioctl)
  then show ?thesis
    using assms(2) s n r fds_ok_socket [OF assms(1) s]
    by (auto simp: gethwaddr_def Let_def fds_ok_close [OF assms(1)]
        split: if_splits option.splits prod.splits)
qed

lemma sum_list_fresh: "Suc (sum_list xs) \<notin> set (xs :: nat list)"
  using member_le_sum_list [of "Suc (sum_list xs)" xs] by auto

lemma sum_list_fresh_int: "1 + int (sum_list xs) = int x \<Longrightarrow> x \<notin> set xs"
  using sum_list_fresh [of xs] by (metis of_nat_Suc of_nat_eq_iff)

lemma ex_fds_ok: "fds_ok ex_net_env (\<lambda>w. int ` set (ex_fds w))"
  unfolding fds_ok_def by (auto simp: ex_net_env_def dest: sum_list_fresh_int)

theorem gethwaddr_closes_socket_witness:
  "int ` set (ex_fds (snd (snd (gethwaddr ex_net_env [NUL] 1 ex_net_world)))) = {}"
  using gethwaddr_closes_socket [OF ex_fds_ok, of "[NUL]" 1 ex_net_world]
  by (cases "gethwaddr ex_net_env [NUL] 1 ex_net_world") (simp add: ex_net_world_def)

text \<open>The environment's answers under which \<^verbatim>\<open>gethwaddr\<close> succeeds.\<close>

definition hwaddr_known :: "'w net_env \<Rightarrow> 'w \<Rightarrow> (nat \<Rightarrow> u8) \<Rightarrow> bool" where
  "hwaddr_known E w hw \<longleftrightarrow>
     (\<exists>skt w1 n w2 r w3. sys_socket E w = (skt, w1) \<and> 0 \<le> skt \<and> if_lookup_default E w1 \<noteq> 0
        \<and> sys_if_indextoname E (if_lookup_default E w1) w1 = (Some n, w2)
        \<and> sys_ioctl_hwaddr E skt (take 15 n) w2 = (r, hw, w3) \<and> 0 \<le> r)"

definition hwaddr_text :: "(nat \<Rightarrow> u8) \<Rightarrow> string" where
  "hwaddr_text hw = concat (map (\<lambda>i. hex2 (hw i)) [0..<6])"

lemma hwaddr_text_unfold:
  "hwaddr_text hw = hex2 (hw 0) @ hex2 (hw 1) @ hex2 (hw 2) @ hex2 (hw 3) @ hex2 (hw 4) @ hex2 (hw 5)"
  by (simp add: hwaddr_text_def upt_conv_Cons eval_nat_numeral)

lemma length_hwaddr_text [simp]: "length (hwaddr_text hw) = 12"
  by (simp add: hwaddr_text_unfold)

lemma hwaddr_text_no_NUL: "NUL \<notin> set (hwaddr_text hw)"
  by (simp add: hwaddr_text_unfold)

lemma unhex_hwaddr_text: "unhex (hwaddr_text hw) = map hw [0..<6]"
proof -
  have "unhex (concat (map (\<lambda>i. hex2 (hw i)) is)) = map hw is" for "is"
    by (induction "is") simp_all
  then show ?thesis by (simp add: hwaddr_text_def)
qed

lemma gethwaddr_known:
  assumes "hwaddr_known E w hw"
  shows "\<exists>w'. gethwaddr E mem len w = (12, snd (snprintf mem len (hwaddr_text hw)), w')"
proof -
  obtain skt w1 n w2 r w3 where "sys_socket E w = (skt, w1)" "0 \<le> skt" "if_lookup_default E w1 \<noteq> 0"
      "sys_if_indextoname E (if_lookup_default E w1) w1 = (Some n, w2)"
      "sys_ioctl_hwaddr E skt (take 15 n) w2 = (r, hw, w3)" "0 \<le> r"
    using assms by (auto simp: hwaddr_known_def)
  then show ?thesis
    by (auto simp: gethwaddr_def Let_def hwaddr_text_unfold snprintf_def)
qed

text \<open>C25: with room for 13 bytes the client gets the hardware address as 12
  hexadecimal digits, and decoding them gives the six bytes back.\<close>

theorem net_read_hwaddr_roundtrip:
  assumes "remote_control_get_net_udp E (RCPTR p) \<noteq> NULL" "hwaddr_known E w hw"
    and "13 \<le> tx_num buf" "tx_num buf \<le> length (tx_buf buf)"
  shows "\<exists>mem w'. rpc_net_read E p NET_READ_MODE_HWADDR buf (Some nd, w)
           = Inr (12, buf\<lparr>tx_buf := mem, tx_num := 12\<rparr>, Some nd, w')
       \<and> NUL \<notin> set (take 12 mem) \<and> unhex (take 12 mem) = map hw [0..<6]"
proof -
  let ?mem = "snd (snprintf (tx_buf buf) (tx_num buf) (hwaddr_text hw))"
  have 12: "take 12 ?mem = hwaddr_text hw"
    using assms(3) by (simp add: snprintf_def mem_store_def)
  obtain w' where "gethwaddr E (tx_buf buf) (tx_num buf) w = (12, ?mem, w')"
    using gethwaddr_known [OF assms(2)] by blast
  then have "rpc_net_read E p NET_READ_MODE_HWADDR buf (Some nd, w)
      = Inr (12, buf\<lparr>tx_buf := ?mem, tx_num := 12\<rparr>, Some nd, w')"
    using assms(1) by (simp add: rpc_net_read_def Let_def)
  then show ?thesis
    using 12 by (metis hwaddr_text_no_NUL unhex_hwaddr_text)
qed

lemma ex_hwaddr_known: "hwaddr_known ex_net_env ex_net_world (\<lambda>i. of_nat (200 + i))"
  by (auto simp: hwaddr_known_def ex_net_env_def)

lemma ex_net_udp: "remote_control_get_net_udp ex_net_env (RCPTR ex_priv) \<noteq> NULL"
  by (simp add: ex_net_env_def)

theorem net_read_hwaddr_roundtrip_witness:
  "\<exists>mem w'. rpc_net_read ex_net_env ex_priv NET_READ_MODE_HWADDR (ex_buf 16) (Some ex_net_data, ex_net_world)
     = Inr (12, (ex_buf 16)\<lparr>tx_buf := mem, tx_num := 12\<rparr>, Some ex_net_data, w')
     \<and> unhex (take 12 mem) = [200, 201, 202, 203, 204, 205]"
proof -
  have "13 \<le> tx_num (ex_buf 16)" "tx_num (ex_buf 16) \<le> length (tx_buf (ex_buf 16))"
    by (simp_all add: ex_buf_def)
  moreover have "map (\<lambda>i. of_nat (200 + i)) [0..<6] = [200, 201, 202, 203, 204, 205 :: u8]"
    by (simp add: upt_conv_Cons eval_nat_numeral)
  ultimately show ?thesis
    using net_read_hwaddr_roundtrip [OF ex_net_udp ex_hwaddr_known, of "ex_buf 16" ex_net_data]
    by metis
qed

text \<open>C36: the length reported for the hardware address is 12 whatever the size of the
  buffer, so with a buffer of fewer than 12 bytes the answer claims more than the buffer
  holds.\<close>

theorem net_read_hwaddr_overrun:
  assumes "remote_control_get_net_udp E (RCPTR p) \<noteq> NULL" "hwaddr_known E w hw"
    and "tx_num buf = length (tx_buf buf)"
  shows "\<exists>buf' w'. rpc_net_read E p NET_READ_MODE_HWADDR buf (Some nd, w)
           = Inr (12, buf', Some nd, w')
       \<and> (length (tx_buf buf') < tx_num buf' \<longleftrightarrow> length (tx_buf buf) < 12)"
proof -
  let ?mem = "snd (snprintf (tx_buf buf) (tx_num buf) (hwaddr_text hw))"
  obtain w' where "gethwaddr E (tx_buf buf) (tx_num buf) w = (12, ?mem, w')"
    using gethwaddr_known [OF assms(2)] by blast
  then have "rpc_net_read E p NET_READ_MODE_HWADDR buf (Some nd, w)
      = Inr (12, buf\<lparr>tx_buf := ?mem, tx_num := 12\<rparr>, Some nd, w')"
    using assms(1) by (simp add: rpc_net_read_def Let_def)
  moreover have "length ?mem = length (tx_buf buf)" using assms(3) by simp
  ultimately show ?thesis by fastforce
qed

theorem net_read_hwaddr_overrun_witness:
  "\<exists>buf' w'. rpc_net_read ex_net_env ex_priv NET_READ_MODE_HWADDR (ex_buf 4)
       (Some ex_net_data, ex_net_world) = Inr (12, buf', Some ex_net_data, w')
     \<and> length (tx_buf buf') < tx_num buf'"
  using net_read_hwaddr_overrun [OF ex_net_udp ex_hwaddr_known, of "ex_buf 4" ex_net_data]
  by (simp add: ex_buf_def)

text \<open>C35: a host name that fits is returned with its length; one that fills the
  buffer is left without a terminator, and the length is then taken past the buffer's
  end.\<close>

theorem net_read_hostname:
  assumes "remote_control_get_net_udp E (RCPTR p) \<noteq> NULL"
    and "NUL \<notin> set (sys_hostname E w)" "tx_num buf = length (tx_buf buf)"
  shows "rpc_net_read E p NET_READ_MODE_HOSTNAME buf (Some nd, w) =
     (let n = length (sys_hostname E w); mem = gethostname E (tx_buf buf) (tx_num buf) w in
      if n < length (tx_buf buf)
      then Inr (int n, buf\<lparr>tx_buf := mem, tx_num := n\<rparr>, Some nd, w)
      else Inl OutOfBounds)
   \<and> (length (sys_hostname E w) < length (tx_buf buf) \<longrightarrow>
        cstring (gethostname E (tx_buf buf) (tx_num buf) w) = sys_hostname E w)"
proof -
  let ?n = "length (sys_hostname E w)" and ?mem = "gethostname E (tx_buf buf) (tx_num buf) w"
  have fits: "cstring ?mem = sys_hostname E w \<and> NUL \<in> set ?mem" if "?n < length (tx_buf buf)"
    using that assms(2,3) by (simp add: gethostname_def mem_store_def)
  have full: "NUL \<notin> set ?mem" if "\<not> ?n < length (tx_buf buf)"
    using that assms(2,3) by (auto simp: gethostname_def mem_store_def dest: in_set_takeD)
  show ?thesis
    using assms(1) fits full by (auto simp: rpc_net_read_def strlen_def Let_def)
qed

theorem net_read_hostname_witness:
  "rpc_net_read ex_net_env ex_priv NET_READ_MODE_HOSTNAME (ex_buf 4)
     (Some ex_net_data, ex_net_world) = Inl OutOfBounds"
proof -
  have n: "sys_hostname ex_net_env ex_net_world = ''panel''" by (simp add: ex_net_env_def)
  then have "NUL \<notin> set (sys_hostname ex_net_env ex_net_world)" by (simp add: NUL_def)
  then show ?thesis
    using net_read_hostname [OF ex_net_udp, of ex_net_world "ex_buf 4" ex_net_data] n
    by (simp add: ex_buf_def)
qed

section \<open>Channels\<close>

text \<open>
  What the component relies on of the libraries: a new channel has a positive reference
  that no open channel has, a failed creation opens nothing, destroying a reference closes
  that channel only, and no other call it makes (a receive, a send, a pause, those of the
  socket) opens or closes a channel.
\<close>

definition channels_ok :: "'w net_env \<Rightarrow> ('w \<Rightarrow> int set) \<Rightarrow> bool" where
  "channels_ok E chans \<longleftrightarrow>
     (\<forall>net lp host port w r w'. net_udp_create_channel E net lp host port w = (r, w') \<longrightarrow>
        (if r < 0 then chans w' = chans w
         else 0 < r \<and> r \<notin> chans w \<and> chans w' = insert r (chans w))) \<and>
     (\<forall>net c w. chans (net_udp_destroy_channel E net c w) = chans w - {c}) \<and>
     (\<forall>c mem n w. chans (snd (snd (net_udp_recv E c mem n w))) = chans w) \<and>
     (\<forall>c mem n w. chans (snd (net_udp_send E c mem n w)) = chans w) \<and>
     (\<forall>n w. chans (sys_usleep E n w) = chans w) \<and>
     (\<forall>f a b w. chans (snd (sys_select_read E f a b w)) = chans w) \<and>
     (\<forall>w. chans (snd (sys_socket E w)) = chans w) \<and>
     (\<forall>f w. chans (sys_close E f w) = chans w) \<and>
     (\<forall>i w. chans (snd (sys_if_indextoname E i w)) = chans w) \<and>
     (\<forall>f n w. chans (snd (snd (sys_ioctl_hwaddr E f n w))) = chans w)"

definition refs :: "net_data \<Rightarrow> int set" where
  "refs nd = {async_p2p nd, sync_broadcast nd} - {0}"

text \<open>The channels that are open are those there were before, and the component's own.\<close>

definition net_owns :: "('w \<Rightarrow> int set) \<Rightarrow> int set \<Rightarrow> 'w net_st \<Rightarrow> bool" where
  "net_owns chans base s \<longleftrightarrow> (\<exists>nd. fst s = Some nd \<and> chans (snd s) = base \<union> refs nd
     \<and> refs nd \<inter> base = {} \<and> (async_p2p nd = sync_broadcast nd \<longrightarrow> async_p2p nd = 0))"

inductive net_step ::
  "'w net_env \<Rightarrow> priv \<Rightarrow> ('w \<Rightarrow> int set) \<Rightarrow> 'w net_st \<Rightarrow> 'w net_st \<Rightarrow> bool"
  for E :: "'w net_env" and p :: priv and chans :: "'w \<Rightarrow> int set" where
  configures: "rpc_net_config E p port timeout repeat host s = (ret, t) \<Longrightarrow> net_step E p chans s t"
| reads: "rpc_net_read E p mode buf s = Inr (ret, buf', t) \<Longrightarrow> net_step E p chans s t"
| writes: "rpc_net_write E p mode buf s = (ret, t) \<Longrightarrow> net_step E p chans s t"
| environment: "chans w' = chans w \<Longrightarrow> net_step E p chans (gd, w) (gd, w')"

lemma channels_ok_create:
  assumes "channels_ok E chans" "net_udp_create_channel E net lp host port w = (r, w')"
  shows "r < 0 \<Longrightarrow> chans w' = chans w"
    "\<not> r < 0 \<Longrightarrow> 0 < r \<and> r \<notin> chans w \<and> chans w' = insert r (chans w)"
proof -
  have "if r < 0 then chans w' = chans w else 0 < r \<and> r \<notin> chans w \<and> chans w' = insert r (chans w)"
    by (rule iffD1 [OF channels_ok_def assms(1), THEN conjunct1, rule_format, OF assms(2)])
  then show "r < 0 \<Longrightarrow> chans w' = chans w"
    "\<not> r < 0 \<Longrightarrow> 0 < r \<and> r \<notin> chans w \<and> chans w' = insert r (chans w)" by auto
qed

lemma channels_ok_destroy:
  "channels_ok E chans \<Longrightarrow> chans (net_udp_destroy_channel E net c w) = chans w - {c}"
  by (simp add: channels_ok_def)

lemma channels_ok_keep:
  assumes "channels_ok E chans"
  shows "chans (snd (snd (net_udp_recv E c mem n w))) = chans w"
    and "chans (snd (net_udp_send E c mem n w)) = chans w"
    and "chans (sys_usleep E k w) = chans w"
    and "chans (snd (sys_select_read E f a b w)) = chans w"
    and "chans (snd (sys_socket E w)) = chans w"
    and "chans (sys_close E f w) = chans w"
    and "chans (snd (sys_if_indextoname E i w)) = chans w"
    and "chans (snd (snd (sys_ioctl_hwaddr E f x w))) = chans w"
  using assms by (simp_all add: channels_ok_def)

lemma first_reply_chans:
  assumes "channels_ok E chans"
  shows "chans (snd (snd (first_reply E c num n mem w))) = chans w"
  by (induction n arbitrary: mem w)
    (simp_all add: case_prod_beta Let_def channels_ok_keep [OF assms])

lemma net_read_sync_chans:
  assumes "channels_ok E chans" "0 \<le> t"
  shows "chans (snd (snd (net_read_sync E c num t mem w))) = chans w"
  using net_read_sync_first_reply [of E c num "nat t" mem w]
    first_reply_chans [OF assms(1), of c num "nat t div 5 + 1" mem w] assms(2)
  by (simp del: first_reply.simps Suc_eq_plus1 add: nat_div_distrib)

lemma gethwaddr_chans:
  assumes "channels_ok E chans"
  shows "chans (snd (snd (gethwaddr E mem n w))) = chans w"
  using channels_ok_keep(5,7) [OF assms]
  by (auto simp: gethwaddr_def Let_def case_prod_beta channels_ok_keep [OF assms]
      split: option.split)

lemma rpc_net_read_chans:
  assumes "channels_ok E chans" "rpc_net_read E p mode buf s = Inr (ret, buf', t)"
  shows "chans (snd t) = chans (snd s)"
  using assms(2)
  by (auto simp: rpc_net_read_def Let_def case_prod_beta channels_ok_keep [OF assms(1)]
      net_read_sync_chans [OF assms(1)] gethwaddr_chans [OF assms(1)]
      split: option.splits if_splits sum.splits)

lemma rpc_net_write_chans:
  assumes "channels_ok E chans" "rpc_net_write E p mode buf s = (ret, t)"
  shows "chans (snd t) = chans (snd s)"
  using assms(2)
  by (auto simp: rpc_net_write_def Let_def case_prod_beta channels_ok_keep [OF assms(1)]
      split: option.splits if_splits)

lemma rpc_net_config_eq:
  assumes "remote_control_get_net_udp E (RCPTR p) = net" "net \<noteq> NULL" "fst s = Some nd"
    and "net_udp_create_channel E net 9999 host port
           (if async_p2p nd \<noteq> 0 then net_udp_destroy_channel E (nd_net nd) (async_p2p nd) (snd s)
            else snd s) = (r, w')"
  shows "rpc_net_config E p port timeout repeat host s =
     (if r > 0 then 0 else r, Some (nd\<lparr>async_p2p := if r < 0 then 0 else r,
        sync_timeout_msec := ucast timeout\<rparr>), w')"
  using assms by (simp add: rpc_net_config_def Let_def ucast_and_mask16)

lemma rpc_net_config_owns:
  assumes "channels_ok E chans" "net_owns chans base s"
    and "rpc_net_config E p port timeout repeat host s = (ret, t)"
  shows "net_owns chans base t"
proof -
  obtain nd where nd: "fst s = Some nd" "chans (snd s) = base \<union> refs nd" "refs nd \<inter> base = {}"
      "async_p2p nd = sync_broadcast nd \<longrightarrow> async_p2p nd = 0"
    using assms(2) by (auto simp: net_owns_def)
  let ?net = "remote_control_get_net_udp E (RCPTR p)"
  let ?w = "if async_p2p nd \<noteq> 0 then net_udp_destroy_channel E (nd_net nd) (async_p2p nd) (snd s)
            else snd s"
  have w: "chans ?w = base \<union> refs (nd\<lparr>async_p2p := 0\<rparr>)"
  proof (cases "async_p2p nd = 0")
    case True
    then show ?thesis using nd(2) by (simp add: refs_def)
  next
    case False
    then have "async_p2p nd \<notin> base" "async_p2p nd \<noteq> sync_broadcast nd"
      using nd(3,4) by (auto simp: refs_def)
    then have "base \<union> refs nd - {async_p2p nd} = base \<union> refs (nd\<lparr>async_p2p := 0\<rparr>)"
      by (auto simp: refs_def)
    then show ?thesis using False nd(2) by (simp add: channels_ok_destroy [OF assms(1)])
  qed
  obtain r w' where r: "net_udp_create_channel E ?net 9999 host port ?w = (r, w')"
    by (cases "net_udp_create_channel E ?net 9999 host port ?w")
  show ?thesis
  proof (cases "?net = NULL")
    case True
    then show ?thesis using assms(2,3) nd(1) by (auto simp: rpc_net_config_def)
  next
    case False
    then have t: "t = (Some (nd\<lparr>async_p2p := if r < 0 then 0 else r,
        sync_timeout_msec := ucast timeout\<rparr>), w')"
      using assms(3) rpc_net_config_eq [OF refl False nd(1) r] by simp
    show ?thesis
      using channels_ok_create [OF assms(1) r] w nd t
      by (cases "r < 0") (auto simp: net_owns_def refs_def)
  qed
qed

lemma rpc_net_read_data:
  "rpc_net_read E p mode buf s = Inr (ret, buf', t) \<Longrightarrow> fst t = fst s"
  by (auto simp: rpc_net_read_def Let_def split: prod.splits option.splits if_splits sum.splits)

lemma rpc_net_write_data:
  "rpc_net_write E p mode buf s = (ret, t) \<Longrightarrow> fst t = fst s"
  by (auto simp: rpc_net_write_def Let_def split: prod.splits option.splits if_splits)

lemma net_owns_cong:
  "fst t = fst s \<Longrightarrow> chans (snd t) = chans (snd s) \<Longrightarrow> net_owns chans base s \<Longrightarrow>
   net_owns chans base t"
  by (simp add: net_owns_def)

lemma rpc_net_read_owns:
  assumes "channels_ok E chans" "net_owns chans base s"
    and "rpc_net_read E p mode buf s = Inr (ret, buf', t)"
  shows "net_owns chans base t"
  by (rule net_owns_cong [OF rpc_net_read_data [OF assms(3)] _ assms(2)])
    (rule rpc_net_read_chans [OF assms(1,3)])

lemma rpc_net_write_owns:
  assumes "channels_ok E chans" "net_owns chans base s" "rpc_net_write E p mode buf s = (ret, t)"
  shows "net_owns chans base t"
  by (rule net_owns_cong [OF rpc_net_write_data [OF assms(3)] _ assms(2)])
    (rule rpc_net_write_chans [OF assms(1,3)])

interpretation net: invariant
  "\<lambda>s. channels_ok E chans \<and> net_owns chans base s"
  "net_step E p chans"
  "\<lambda>s. channels_ok E chans \<and> net_owns chans base s"
  for E :: "'w net_env" and p :: priv and chans :: "'w \<Rightarrow> int set" and base :: "int set"
proof unfold_locales
  show "channels_ok E chans \<and> net_owns chans base t"
    if "channels_ok E chans \<and> net_owns chans base s" "net_step E p chans s t" for s t
    using that(2,1)
  proof cases
    case (environment w' w gd)
    then show ?thesis
      using that(1) by (auto intro: net_owns_cong [where s = "(gd, w)"])
  qed (auto intro: rpc_net_config_owns rpc_net_read_owns rpc_net_write_owns)
qed

lemma rpc_net_init_owns:
  assumes "channels_ok E chans" "0 \<notin> chans w"
  shows "net_owns chans (chans w) (rpc_net_init E p (None, w))"
proof -
  obtain r w' where r: "net_udp_create_channel E (remote_control_get_net_udp E (RCPTR p)) 49999
      ''255.255.255.255'' 50000 w = (r, w')"
    by (cases "net_udp_create_channel E (remote_control_get_net_udp E (RCPTR p)) 49999
      ''255.255.255.255'' 50000 w")
  then show ?thesis
    using channels_ok_create [OF assms(1) r]
    by (cases "r < 0") (auto simp: rpc_net_init_def net_owns_def refs_def)
qed

text \<open>C6: no channel is ever lost. Through any sequence of configurations, reads and writes,
  in every mode and whether they fail or not, and of changes of the world that open and close no
  channel, the component has open exactly the channels it remembers, and clean-up closes them
  all: the channels that are open then are those that were open before set-up. Of the library
  only its own calls are assumed to create and destroy what they say.\<close>

theorem net_channels_released:
  assumes "channels_ok E chans" "0 \<notin> chans w"
    and "(net_step E p chans)\<^sup>*\<^sup>* (rpc_net_init E p (None, w)) t"
  shows "\<exists>nd. fst t = Some nd \<and> chans (snd t) = chans w \<union> refs nd
     \<and> fst (rpc_net_cleanup E t) = None \<and> chans (snd (rpc_net_cleanup E t)) = chans w"
proof -
  have "net_owns chans (chans w) t"
    using net.inv_steps [OF assms(3)] assms(1) rpc_net_init_owns [OF assms(1,2)] by blast
  then obtain nd where nd: "fst t = Some nd" "chans (snd t) = chans w \<union> refs nd"
      "refs nd \<inter> chans w = {}"
    by (auto simp: net_owns_def)
  then have "chans (snd (rpc_net_cleanup E t)) = chans w"
    using assms(2) by (auto simp: rpc_net_cleanup_def Let_def channels_ok_destroy [OF assms(1)] refs_def)
  then show ?thesis using nd by (auto simp: rpc_net_cleanup_def Let_def)
qed

lemma ex_channels_ok: "channels_ok ex_net_env (\<lambda>w. int ` set (ex_chans w))"
  unfolding channels_ok_def by (auto simp: ex_net_env_def dest: sum_list_fresh_int)

theorem net_channels_released_witness:
  "int ` set (ex_chans (snd (rpc_net_cleanup ex_net_env
     (snd (rpc_net_config ex_net_env ex_priv 7 40 0 ''peer''
        (rpc_net_init ex_net_env ex_priv (None, ex_net_world))))))) = {}"
proof -
  let ?s = "rpc_net_init ex_net_env ex_priv (None, ex_net_world)"
  let ?t = "rpc_net_config ex_net_env ex_priv 7 40 0 ''peer'' ?s"
  have "net_step ex_net_env ex_priv (\<lambda>w. int ` set (ex_chans w)) ?s (snd ?t)"
    by (rule configures [where ret = "fst ?t"]) simp
  then have steps: "(net_step ex_net_env ex_priv (\<lambda>w. int ` set (ex_chans w)))\<^sup>*\<^sup>* ?s (snd ?t)"
    by (rule r_into_rtranclp)
  have none: "int ` set (ex_chans ex_net_world) = {}" by (simp add: ex_net_world_def)
  then have "0 \<notin> int ` set (ex_chans ex_net_world)" by simp
  from net_channels_released [OF ex_channels_ok this steps] show ?thesis
    unfolding none by blast
qed

text \<open>Configuring answers 0 exactly when a channel was created and a negative
  code otherwise, leaving no asynchronous channel then. It keeps the broadcast channel but,
  against its comment, not that channel's timeout: whatever the outcome, this becomes the
  low 16 bits of the argument.\<close>

lemma net_config_result:
  assumes "remote_control_get_net_udp E (RCPTR p) = net" "net \<noteq> NULL"
    and "net_udp_create_channel E net 9999 host port
           (if async_p2p nd = 0 then w
            else net_udp_destroy_channel E (nd_net nd) (async_p2p nd) w) = (r, w')"
  shows "rpc_net_config E p port timeout repeat host (Some nd, w) =
     (min r 0, Some \<lparr>nd_net = nd_net nd, async_p2p = max r 0,
        sync_broadcast = sync_broadcast nd, sync_timeout_msec = ucast timeout\<rparr>, w')"
proof -
  have "net_udp_create_channel E net 9999 host port
      (if async_p2p nd \<noteq> 0 then net_udp_destroy_channel E (nd_net nd) (async_p2p nd)
         (snd (Some nd, w)) else snd (Some nd, w)) = (r, w')"
    using assms(3) by (simp split: if_splits)
  from rpc_net_config_eq [OF assms(1,2) _ this] show ?thesis
    by (cases "r < 0") (auto simp: min_def max_def)
qed

lemma net_config_result_example:
  "\<exists>nd' w'. rpc_net_config ex_net_env ex_priv 7 70000 0 ''peer'' (Some ex_net_data, ex_net_world)
     = (0, Some nd', w') \<and> sync_broadcast nd' = 1 \<and> sync_timeout_msec nd' = 4464"
proof -
  have net: "remote_control_get_net_udp ex_net_env (RCPTR ex_priv) = 8" "(8 :: nat) \<noteq> NULL"
    by (simp_all add: ex_net_env_def RCPTR_def)
  have "net_udp_create_channel ex_net_env 8 9999 ''peer'' 7
      (if async_p2p ex_net_data = 0 then ex_net_world
       else net_udp_destroy_channel ex_net_env (nd_net ex_net_data) (async_p2p ex_net_data)
              ex_net_world) = (1, ex_net_world\<lparr>ex_chans := [1]\<rparr>)"
    by (simp add: ex_net_defs)
  from net_config_result [OF net this] show ?thesis
    by (simp add: ex_net_data_def)
qed

end
