(* ===== verification/Rpc_Source.thy ===== *)
theory Rpc_Source
  imports Irq Net
begin

text \<open>
  The core of the server, \<^verbatim>\<open>src/src/rcrpc/rcrpc.c\<close>: the GLib source that
  accepts one client at a time, waits for its requests and dispatches them, and the
  function that sets the server up. The callbacks are the transitions of a state machine;
  the main loop that calls them in GLib's order is a step relation over phases.

  librpc, GLib and the socket calls are the fields of \<open>rpc_env\<close>. The generated
  dispatcher, which runs the handlers of the other theories, is one of them
  (\<open>rpc_dispatch\<close>): it may change all of the server's state.
\<close>

section \<open>State\<close>

datatype io_cond = G_IO_IN | G_IO_HUP | G_IO_ERR

record poll_fd =
  pfd_fd :: int
  pfd_events :: "io_cond set"
  pfd_revents :: "io_cond set"

datatype remote_control_state =
    REMOTE_CONTROL_UNCONNECTED
  | REMOTE_CONTROL_CONNECTED
  | REMOTE_CONTROL_IDLE
  | REMOTE_CONTROL_DISCONNECTED

text \<open>
  \<^verbatim>\<open>struct rpc_source\<close>. The embedded \<^verbatim>\<open>GSource\<close> is the list of the poll
  structures added to it: \<^verbatim>\<open>g_source_add_poll\<close> adds one, \<^verbatim>\<open>g_source_remove_poll\<close>
  takes one out.
\<close>

datatype poll_ref = Poll_Listen | Poll_Client

record rpc_source =
  src_polls :: "poll_ref list"
  src_server :: ptr
  src_state :: remote_control_state
  src_peer :: string
  poll_listen :: poll_fd
  poll_client :: poll_fd

definition g_source_add_poll :: "poll_ref \<Rightarrow> rpc_source \<Rightarrow> rpc_source" where
  "g_source_add_poll r src = src\<lparr>src_polls := r # src_polls src\<rparr>"

definition g_source_remove_poll :: "poll_ref \<Rightarrow> rpc_source \<Rightarrow> rpc_source" where
  "g_source_remove_poll r src = src\<lparr>src_polls := remove1 r (src_polls src)\<rparr>"

text \<open>The state of the whole server: the globals of the other components and the world.\<close>

record 'w sstate =
  st_irq :: "irq_data option"
  st_net :: "net_data option"
  st_world :: 'w

datatype log_level = G_LOG_LEVEL_ERROR | G_LOG_LEVEL_CRITICAL | G_LOG_LEVEL_INFO

record 'w rpc_env =
  e_irq :: "'w irq_env"
  e_net :: "'w net_env"
  g_log_returns :: "log_level \<Rightarrow> bool"
    \<comment> \<open>whether the process survives a message of the level\<close>
  rpc_server_create :: "'w \<Rightarrow> int \<times> ptr \<times> 'w"
  rpc_server_listen :: "ptr \<Rightarrow> nat \<Rightarrow> 'w \<Rightarrow> int \<times> 'w"
  rpc_server_priv :: "ptr \<Rightarrow> ptr"
  rpc_server_free :: "ptr \<Rightarrow> 'w \<Rightarrow> 'w"
  rpc_server_get_listen_socket :: "ptr \<Rightarrow> 'w \<Rightarrow> int"
  rpc_server_get_client_socket :: "ptr \<Rightarrow> 'w \<Rightarrow> int"
  rpc_server_accept :: "ptr \<Rightarrow> 'w \<Rightarrow> int \<times> 'w"
  rpc_server_get_peer :: "ptr \<Rightarrow> 'w \<Rightarrow> int \<times> ptr \<times> 'w"
  rpc_server_recv :: "ptr \<Rightarrow> 'w \<Rightarrow> int \<times> ptr \<times> 'w"
  rpc_dispatch :: "ptr \<Rightarrow> ptr \<Rightarrow> 'w sstate \<Rightarrow> int \<times> 'w sstate"
  rpc_packet_free :: "ptr \<Rightarrow> 'w \<Rightarrow> 'w"
  c_getnameinfo :: "ptr \<Rightarrow> int \<Rightarrow> 'w \<Rightarrow> int \<times> string"
  c_free :: "ptr \<Rightarrow> 'w \<Rightarrow> 'w"
  g_source_new :: "'w \<Rightarrow> bool \<times> 'w"
  g_source_attach :: "ptr \<Rightarrow> 'w \<Rightarrow> 'w"
    \<comment> \<open>\<^verbatim>\<open>g_source_add_child_source\<close> to the source of the remote control, and
      \<^verbatim>\<open>g_source_unref\<close>\<close>
  g_key_file_get_boolean :: "ptr \<Rightarrow> string \<Rightarrow> string \<Rightarrow> bool option"
    \<comment> \<open>\<open>None\<close> when an error is set\<close>
  c_setsockopt_keepalive :: "int \<Rightarrow> int \<Rightarrow> 'w \<Rightarrow> int \<times> 'w"

section \<open>The callbacks of the source\<close>

text \<open>The result of a callback, or \<open>None\<close> where a fatal message ends the process.\<close>

definition rpc_source_prepare ::
  "'w rpc_env \<Rightarrow> rpc_source \<Rightarrow> 'w sstate \<Rightarrow> (bool \<times> int \<times> rpc_source) option" where
  "rpc_source_prepare E src s =
     map_option (\<lambda>src. (False, - 1, src))
       (case src_state src of
          REMOTE_CONTROL_UNCONNECTED \<Rightarrow> Some src
        | REMOTE_CONTROL_CONNECTED \<Rightarrow>
            (let err = rpc_server_get_client_socket E (src_server src) (st_world s) in
             if err < 0
             then (if g_log_returns E G_LOG_LEVEL_ERROR
                   then Some (src\<lparr>src_state := REMOTE_CONTROL_UNCONNECTED\<rparr>) else None)
             else
               let src = src\<lparr>poll_client := (poll_client src)
                           \<lparr>pfd_events := {G_IO_IN, G_IO_HUP, G_IO_ERR}, pfd_fd := err\<rparr>\<rparr>;
                   src = g_source_add_poll Poll_Client src
               in Some (src\<lparr>src_state := REMOTE_CONTROL_IDLE\<rparr>))
        | REMOTE_CONTROL_IDLE \<Rightarrow> Some src
        | REMOTE_CONTROL_DISCONNECTED \<Rightarrow>
            (let src = g_source_remove_poll Poll_Client src;
                 src = src\<lparr>poll_client := (poll_client src)
                         \<lparr>pfd_events := {}, pfd_fd := - 1\<rparr>\<rparr>
             in Some (src\<lparr>src_state := REMOTE_CONTROL_UNCONNECTED\<rparr>)))"

definition rpc_source_check :: "rpc_source \<Rightarrow> bool \<times> rpc_source" where
  "rpc_source_check src =
     (if G_IO_HUP \<in> pfd_revents (poll_listen src) \<or> G_IO_ERR \<in> pfd_revents (poll_listen src)
      then (False, src)
      else if G_IO_IN \<in> pfd_revents (poll_listen src) then (True, src)
      else if G_IO_HUP \<in> pfd_revents (poll_client src) \<or> G_IO_ERR \<in> pfd_revents (poll_client src)
      then (True, src\<lparr>src_state := REMOTE_CONTROL_DISCONNECTED\<rparr>)
      else if G_IO_IN \<in> pfd_revents (poll_client src) then (True, src)
      else (False, src))"

definition remote_control_dispatch ::
  "'w rpc_env \<Rightarrow> ptr \<Rightarrow> ptr \<Rightarrow> 'w sstate \<Rightarrow> int \<times> 'w sstate" where
  "remote_control_dispatch E server request s = rpc_dispatch E server request s"

text \<open>The \<^verbatim>\<open>UNCONNECTED\<close> case: accept, and note the name of the peer if it has one.\<close>

definition dispatch_accept ::
  "'w rpc_env \<Rightarrow> rpc_source \<Rightarrow> 'w sstate \<Rightarrow> (bool \<times> rpc_source \<times> 'w sstate) option" where
  "dispatch_accept E src s =
     (let (err, w) = rpc_server_accept E (src_server src) (st_world s) in
      if err < 0
      then (if g_log_returns E G_LOG_LEVEL_ERROR then Some (True, src, s\<lparr>st_world := w\<rparr>) else None)
      else
        let (err, addr, w) = rpc_server_get_peer E (src_server src) w;
            (src, w) =
              (if err > 0 \<and> addr \<noteq> NULL
               then (let (err, name) = c_getnameinfo E addr err w
                     in (if err = 0 then src\<lparr>src_peer := name\<rparr> else src, c_free E addr w))
               else (src, w))
        in Some (True, src\<lparr>src_state := REMOTE_CONTROL_CONNECTED\<rparr>, s\<lparr>st_world := w\<rparr>))"

text \<open>The \<^verbatim>\<open>IDLE\<close> case: receive one request and run it.\<close>

definition dispatch_request ::
  "'w rpc_env \<Rightarrow> rpc_source \<Rightarrow> 'w sstate \<Rightarrow> bool \<times> rpc_source \<times> 'w sstate" where
  "dispatch_request E src s =
     (let (err, request, w) = rpc_server_recv E (src_server src) (st_world s);
          s = s\<lparr>st_world := w\<rparr>
      in
      if err < 0 \<and> err \<noteq> - ECONNRESET then (False, src, s)
      else if err = 0 \<or> err = - ECONNRESET
      then (True, src\<lparr>src_state := REMOTE_CONTROL_DISCONNECTED\<rparr>, s)
      else
        let (err, s) = remote_control_dispatch E (src_server src) request s in
        if err = - ENOSYS
        then (True, src, s\<lparr>st_world := rpc_packet_free E request (st_world s)\<rparr>)
        else if err < 0
        then (False, src, s\<lparr>st_world := rpc_packet_free E request (st_world s)\<rparr>)
        else (True, src, s\<lparr>st_world := rpc_packet_free E request (st_world s)\<rparr>))"

definition rpc_source_dispatch ::
  "'w rpc_env \<Rightarrow> rpc_source \<Rightarrow> 'w sstate \<Rightarrow> (bool \<times> rpc_source \<times> 'w sstate) option" where
  "rpc_source_dispatch E src s =
     (case src_state src of
        REMOTE_CONTROL_UNCONNECTED \<Rightarrow> dispatch_accept E src s
      | REMOTE_CONTROL_CONNECTED \<Rightarrow> Some (True, src, s)
      | REMOTE_CONTROL_IDLE \<Rightarrow> Some (dispatch_request E src s)
      | REMOTE_CONTROL_DISCONNECTED \<Rightarrow> Some (True, src, s))"

text \<open>Clean-up of the server; the components' own clean-up comes first.\<close>

definition rcrpc_free :: "'w rpc_env \<Rightarrow> ptr \<Rightarrow> 'w sstate \<Rightarrow> int \<times> 'w sstate" where
  "rcrpc_free E server s =
     (if server = NULL then (- EINVAL, s)
      else
        let (irq, w) = rpc_irq_cleanup (st_irq s, st_world s);
            (net, w) = rpc_net_cleanup (e_net E) (st_net s, w);
            w = rpc_server_free E server w
        in (0, \<lparr>st_irq = irq, st_net = net, st_world = w\<rparr>))"

definition rpc_source_finalize :: "'w rpc_env \<Rightarrow> rpc_source \<Rightarrow> 'w sstate \<Rightarrow> 'w sstate" where
  "rpc_source_finalize E src s = snd (rcrpc_free E (src_server src) s)"

section \<open>Set-up\<close>

definition config_get_socket_keepalive :: "'w rpc_env \<Rightarrow> ptr \<Rightarrow> bool" where
  "config_get_socket_keepalive E config =
     (if config = NULL then False
      else (case g_key_file_get_boolean E config ''general'' ''rpc-socket-keepalive'' of
          Some enable \<Rightarrow> enable
        | None \<Rightarrow> False))"

definition socket_enable_keepalive :: "'w rpc_env \<Rightarrow> int \<Rightarrow> bool \<Rightarrow> 'w \<Rightarrow> int \<times> 'w" where
  "socket_enable_keepalive E socket enable w =
     c_setsockopt_keepalive E socket (if enable then 1 else 0) w"

text \<open>What \<^verbatim>\<open>g_source_new\<close> returns: every field zero.\<close>

definition new_source :: rpc_source where
  "new_source = \<lparr>src_polls = [], src_server = NULL, src_state = REMOTE_CONTROL_UNCONNECTED,
     src_peer = [], poll_listen = \<lparr>pfd_fd = 0, pfd_events = {}, pfd_revents = {}\<rparr>,
     poll_client = \<lparr>pfd_fd = 0, pfd_events = {}, pfd_revents = {}\<rparr>\<rparr>"

text \<open>The result, the source where one was attached, and the state.\<close>

definition rcrpc_create ::
  "'w rpc_env \<Rightarrow> ptr \<Rightarrow> ptr \<Rightarrow> 'w sstate \<Rightarrow> int \<times> rpc_source option \<times> 'w sstate" where
  "rcrpc_create E rc config s =
     (if rc = NULL then (- EINVAL, None, s)
      else
        let (err, server, w) = rpc_server_create E (st_world s) in
        if err < 0 then (err, None, s\<lparr>st_world := w\<rparr>)
        else
          let (err, w) = rpc_server_listen E server 7482 w in
          if err < 0 then (err, None, s\<lparr>st_world := w\<rparr>)
          else
            let priv = \<lparr>priv_addr = rpc_server_priv E server, priv_rc = rc\<rparr>;
                (ok, w) = g_source_new E w
            in
            if \<not> ok then (- ENOMEM, None, s\<lparr>st_world := w\<rparr>)
            else
              let src = new_source\<lparr>src_server := server\<rparr>;
                  socket = rpc_server_get_listen_socket E server w
              in
              if socket < 0 then (socket, None, s\<lparr>st_world := w\<rparr>)
              else
                let (err, w) =
                      socket_enable_keepalive E socket (config_get_socket_keepalive E config) w
                in
                if err < 0 then (err, None, s\<lparr>st_world := w\<rparr>)
                else
                  let src = src\<lparr>poll_listen := (poll_listen src)
                              \<lparr>pfd_events := {G_IO_IN, G_IO_HUP, G_IO_ERR}, pfd_fd := socket\<rparr>\<rparr>;
                      src = g_source_add_poll Poll_Listen src;
                      w = g_source_attach E rc w;
                      (irq, w) = rpc_irq_init (e_irq E) priv (st_irq s, w);
                      (net, w) = rpc_net_init (e_net E) priv (st_net s, w)
                  in (0, Some src, \<lparr>st_irq = irq, st_net = net, st_world = w\<rparr>))"

section \<open>The main loop\<close>

text \<open>
  GLib calls \<^verbatim>\<open>prepare\<close>, polls the descriptors of the structures added to the
  source, calls \<^verbatim>\<open>check\<close>, and calls \<^verbatim>\<open>dispatch\<close> where that answers true; a source
  whose \<^verbatim>\<open>dispatch\<close> answers false is destroyed. Polling sets the received events of
  the added structures, to anything at all, and of no other.
\<close>

datatype phase = Preparing | Polling | Checking | Dispatching | Destroyed

type_synonym 'w loop = "phase \<times> rpc_source \<times> 'w sstate"

definition set_revents :: "io_cond set \<Rightarrow> io_cond set \<Rightarrow> rpc_source \<Rightarrow> rpc_source" where
  "set_revents rl rc src = src
     \<lparr>poll_listen := (if Poll_Listen \<in> set (src_polls src)
        then (poll_listen src)\<lparr>pfd_revents := rl\<rparr> else poll_listen src),
      poll_client := (if Poll_Client \<in> set (src_polls src)
        then (poll_client src)\<lparr>pfd_revents := rc\<rparr> else poll_client src)\<rparr>"

inductive callback_step :: "'w rpc_env \<Rightarrow> 'w loop \<Rightarrow> 'w loop \<Rightarrow> bool"
  for E :: "'w rpc_env" where
  prepares: "rpc_source_prepare E src s = Some (False, timeout, src') \<Longrightarrow>
     callback_step E (Preparing, src, s) (Polling, src', s)"
| polls: "callback_step E (Polling, src, s) (Checking, set_revents rl rc src, s)"
| checks: "rpc_source_check src = (ready, src') \<Longrightarrow>
     callback_step E (Checking, src, s) (if ready then Dispatching else Preparing, src', s)"
| dispatches: "rpc_source_dispatch E src s = Some (True, src', s') \<Longrightarrow>
     callback_step E (Dispatching, src, s) (Preparing, src', s')"
| destroys: "rpc_source_dispatch E src s = Some (False, src', s') \<Longrightarrow>
     callback_step E (Dispatching, src, s) (Destroyed, src', rpc_source_finalize E src' s')"

inductive_cases prepare_stepE: "callback_step E (Preparing, src, s) t"
inductive_cases check_stepE: "callback_step E (Checking, src, s) t"
inductive_cases dispatch_stepE: "callback_step E (Dispatching, src, s) t"
inductive_cases destroyed_stepE: "callback_step E (Destroyed, src, s) t"

text \<open>Between the callbacks anything may happen to the rest of the state.\<close>

inductive loop_step :: "'w rpc_env \<Rightarrow> 'w loop \<Rightarrow> 'w loop \<Rightarrow> bool"
  for E :: "'w rpc_env" where
  callbacks: "callback_step E t u \<Longrightarrow> loop_step E t u"
| environment: "loop_step E (ph, src, s) (ph, src, s')"

definition client_polled :: "rpc_source \<Rightarrow> bool" where
  "client_polled src \<longleftrightarrow> Poll_Client \<in> set (src_polls src)"

text \<open>
  The client's descriptor is polled while the session is idle, and until the next
  \<^verbatim>\<open>prepare\<close> after its end; it is never added twice.
\<close>

fun phase_states :: "phase \<Rightarrow> remote_control_state set" where
  "phase_states Preparing = UNIV"
| "phase_states Polling = {REMOTE_CONTROL_UNCONNECTED, REMOTE_CONTROL_IDLE}"
| "phase_states Checking = {REMOTE_CONTROL_UNCONNECTED, REMOTE_CONTROL_IDLE}"
| "phase_states Dispatching = UNIV - {REMOTE_CONTROL_CONNECTED}"
| "phase_states Destroyed = {REMOTE_CONTROL_IDLE}"

definition source_inv :: "rpc_source \<Rightarrow> bool" where
  "source_inv src \<longleftrightarrow> distinct (src_polls src) \<and> Poll_Listen \<in> set (src_polls src)
     \<and> (src_state src = REMOTE_CONTROL_IDLE \<longrightarrow> client_polled src)
     \<and> (client_polled src \<longrightarrow>
          src_state src \<in> {REMOTE_CONTROL_IDLE, REMOTE_CONTROL_DISCONNECTED})"

definition loop_inv :: "ptr \<Rightarrow> 'w loop \<Rightarrow> bool" where
  "loop_inv server t \<longleftrightarrow> (case t of (ph, src, s) \<Rightarrow>
     source_inv src \<and> src_state src \<in> phase_states ph \<and> src_server src = server)"

lemmas source_inv_defs = source_inv_def client_polled_def

lemma prepare_inv:
  assumes "source_inv src" "rpc_source_prepare E src s = Some (b, timeout, src')"
  shows "source_inv src' \<and> src_state src' \<in> phase_states Polling
     \<and> src_server src' = src_server src"
  using assms
  by (auto simp: rpc_source_prepare_def source_inv_defs g_source_add_poll_def
      g_source_remove_poll_def Let_def split: remote_control_state.splits if_splits)

lemma set_revents_inv:
  "source_inv src \<Longrightarrow> source_inv (set_revents rl rc src)"
  by (simp add: source_inv_defs set_revents_def)

lemma set_revents_simps [simp]:
  "src_state (set_revents rl rc src) = src_state src"
  "src_server (set_revents rl rc src) = src_server src"
  by (simp_all add: set_revents_def)

lemma check_inv:
  assumes "source_inv src" "src_state src \<in> phase_states Checking"
    and "rpc_source_check src = (ready, src')"
  shows "source_inv src' \<and> src_state src' \<noteq> REMOTE_CONTROL_CONNECTED
     \<and> src_server src' = src_server src"
  using assms by (auto simp: rpc_source_check_def source_inv_defs split: if_splits)

lemma dispatch_accept_inv:
  assumes "source_inv src" "src_state src = REMOTE_CONTROL_UNCONNECTED"
    and "dispatch_accept E src s = Some (b, src', s')"
  shows "source_inv src' \<and> b \<and> src_server src' = src_server src"
  using assms
  by (auto simp: dispatch_accept_def source_inv_defs Let_def split: prod.splits if_splits)

lemma dispatch_request_inv:
  assumes "source_inv src" "src_state src = REMOTE_CONTROL_IDLE"
    and "dispatch_request E src s = (b, src', s')"
  shows "source_inv src' \<and> src_server src' = src_server src
     \<and> (\<not> b \<longrightarrow> src_state src' = REMOTE_CONTROL_IDLE)"
  using assms
  by (auto simp: dispatch_request_def source_inv_defs Let_def split: prod.splits if_splits)

lemma dispatch_inv:
  assumes "source_inv src" "src_state src \<in> phase_states Dispatching"
    and "rpc_source_dispatch E src s = Some (b, src', s')"
  shows "source_inv src' \<and> src_server src' = src_server src
     \<and> (\<not> b \<longrightarrow> src_state src' = REMOTE_CONTROL_IDLE)"
  using assms dispatch_accept_inv [of src E s b src' s'] dispatch_request_inv [of src E s b src' s']
  by (auto simp: rpc_source_dispatch_def split: remote_control_state.splits)

lemma callback_inv:
  assumes "callback_step E t u" "loop_inv server t"
  shows "loop_inv server u"
  using assms
proof cases
  case (prepares src s timeout src')
  then show ?thesis using assms(2) by (auto simp: loop_inv_def dest: prepare_inv)
next
  case (polls src s rl rc)
  then show ?thesis using assms(2) by (auto simp: loop_inv_def intro: set_revents_inv)
next
  case (checks src ready src' s)
  then show ?thesis using assms(2) by (auto simp: loop_inv_def dest: check_inv)
next
  case (dispatches src s src' s')
  then show ?thesis using assms(2) by (auto simp: loop_inv_def dest: dispatch_inv)
next
  case (destroys src s src' s')
  then show ?thesis using assms(2) by (auto simp: loop_inv_def dest: dispatch_inv)
qed

lemma loop_inv_step:
  assumes "loop_step E t u" "loop_inv server t"
  shows "loop_inv server u"
  using assms
proof cases
  case callbacks
  then show ?thesis using assms(2) by (rule callback_inv)
next
  case (environment ph src s s')
  then show ?thesis using assms(2) by (auto simp: loop_inv_def)
qed

text \<open>The loop starts with the source that \<^verbatim>\<open>rcrpc_create\<close> attached.\<close>

definition loop_start :: "'w rpc_env \<Rightarrow> ptr \<Rightarrow> 'w loop \<Rightarrow> bool" where
  "loop_start E server t \<longleftrightarrow> (\<exists>rc config s src s'.
     rcrpc_create E rc config s = (0, Some src, s') \<and> src_server src = server
     \<and> t = (Preparing, src, s'))"

lemma rcrpc_create_source:
  assumes "rcrpc_create E rc config s = (r, Some src, s')"
  shows "source_inv src \<and> src_state src = REMOTE_CONTROL_UNCONNECTED \<and> r = 0"
  using assms
  by (auto simp: rcrpc_create_def source_inv_defs new_source_def g_source_add_poll_def Let_def
      split: prod.splits if_splits)

interpretation loop: invariant "loop_start E server" "loop_step E" "loop_inv server"
  for E :: "'w rpc_env" and server :: ptr
proof unfold_locales
  show "loop_start E server t \<Longrightarrow> loop_inv server t" for t
    by (auto simp: loop_start_def loop_inv_def dest: rcrpc_create_source)
  show "loop_inv server t \<Longrightarrow> loop_step E t u \<Longrightarrow> loop_inv server u" for t u
    by (rule loop_inv_step)
qed

section \<open>A concrete environment\<close>

text \<open>For the witnesses: the world of the network component and the blocks allocated.\<close>

definition ex_irq :: "'w irq_env" where
  "ex_irq = \<lparr>evpos = ex_evpos, event_zero = ex_event,
     remote_control_get_event_manager = (\<lambda>rc. rc + 1), rpc_server_from_priv = (\<lambda>a. a),
     event_manager_get_source_state = (\<lambda>m e w. (0, e, w)),
     event_manager_set_event_cb = (\<lambda>m b w. (0, w)), stub_irq_event = (\<lambda>b t w. (0, w))\<rparr>"

record ex_heap = ex_world +
  ex_blocks :: "ptr list"

definition ex_net_of :: "ex_heap net_env" where
  "ex_net_of = \<lparr>remote_control_get_net_udp = (\<lambda>rc. rc + 1),
     net_udp_create_channel = (\<lambda>n l h p w. (1, w)),
     net_udp_destroy_channel = (\<lambda>n c w. w), net_udp_get_channel_by_ref = (\<lambda>n c w. nat c),
     net_udp_recv = (\<lambda>c mem n w. (0, mem, w)), net_udp_send = (\<lambda>c mem n w. (int n, w)),
     if_lookup_default = (\<lambda>w. 1), sys_socket = (\<lambda>w. (3, w)), sys_close = (\<lambda>f w. w),
     sys_if_indextoname = (\<lambda>i w. (Some ''eth0'', w)),
     sys_ioctl_hwaddr = (\<lambda>f n w. (0, \<lambda>i. of_nat i, w)), sys_select_read = (\<lambda>c a b w. (1, w)),
     sys_usleep = (\<lambda>n w. w), sys_hostname = (\<lambda>w. ''panel''), sys_errno = (\<lambda>w. 5)\<rparr>"

text \<open>Block 40 is the server, 50 an address, 60 a request; \<open>l\<close> is what \<^verbatim>\<open>listen\<close> answers.\<close>

definition ex_rpc_env :: "int \<Rightarrow> int \<Rightarrow> ex_heap rpc_env" where
  "ex_rpc_env l a = \<lparr>e_irq = ex_irq, e_net = ex_net_of, g_log_returns = (\<lambda>v. v \<noteq> G_LOG_LEVEL_ERROR),
     rpc_server_create = (\<lambda>w. (0, 40, w\<lparr>ex_blocks := 40 # ex_blocks w\<rparr>)),
     rpc_server_listen = (\<lambda>b n w. (l, w)), rpc_server_priv = (\<lambda>b. b + 1),
     rpc_server_free = (\<lambda>b w. w\<lparr>ex_blocks := removeAll b (ex_blocks w)\<rparr>),
     rpc_server_get_listen_socket = (\<lambda>b w. 4), rpc_server_get_client_socket = (\<lambda>b w. 5),
     rpc_server_accept = (\<lambda>b w. (a, w)),
     rpc_server_get_peer = (\<lambda>b w. if 50 \<in> set (ex_blocks w) then (- 1, 0, w)
        else (16, 50, w\<lparr>ex_blocks := 50 # ex_blocks w\<rparr>)),
     rpc_server_recv = (\<lambda>b w. if 60 \<in> set (ex_blocks w) then (- EBUSY, 0, w)
        else (20, 60, w\<lparr>ex_blocks := 60 # ex_blocks w\<rparr>)),
     rpc_dispatch = (\<lambda>b q s. (- ENOSYS, s)),
     rpc_packet_free = (\<lambda>q w. w\<lparr>ex_blocks := removeAll q (ex_blocks w)\<rparr>),
     c_getnameinfo = (\<lambda>b n w. (0, ''10.0.0.1'')),
     c_free = (\<lambda>b w. w\<lparr>ex_blocks := removeAll b (ex_blocks w)\<rparr>),
     g_source_new = (\<lambda>w. (True, w)), g_source_attach = (\<lambda>b w. w),
     g_key_file_get_boolean = (\<lambda>c g k. Some True), c_setsockopt_keepalive = (\<lambda>f v w. (0, w))\<rparr>"

definition ex_sstate :: "ex_heap sstate" where
  "ex_sstate = \<lparr>st_irq = None, st_net = None,
     st_world = \<lparr>ex_chans = [], ex_fds = [], ex_recvs = 0, ex_blocks = []\<rparr>\<rparr>"

lemmas ex_rpc_defs = ex_rpc_env_def ex_sstate_def ex_irq_def ex_net_of_def

definition ex_src :: "remote_control_state \<Rightarrow> rpc_source" where
  "ex_src st = new_source\<lparr>src_server := 40, src_state := st\<rparr>"

lemma ex_src_simps [simp]:
  "src_server (ex_src st) = 40" "src_state (ex_src st) = st" "src_polls (ex_src st) = []"
  by (simp_all add: ex_src_def new_source_def)

lemma ex_loop_start:
  "\<exists>src s. loop_start (ex_rpc_env 0 0) 40 (Preparing, src, s)
     \<and> src_state src = REMOTE_CONTROL_UNCONNECTED \<and> src_polls src = [Poll_Listen]"
  unfolding loop_start_def
  by (rule exI, rule exI, rule conjI, rule exI [of _ 7], rule exI [of _ 0],
      rule exI [of _ ex_sstate])
    (simp add: rcrpc_create_def ex_rpc_defs new_source_def g_source_add_poll_def Let_def
      socket_enable_keepalive_def case_prod_beta, simp)

section \<open>Properties\<close>

text \<open>C11: in every state the loop can reach, the listening socket is polled, no
  descriptor is added to the source twice, a client is polled only during its own
  session, and exactly in an idle session once \<^verbatim>\<open>prepare\<close> has run: the server has at
  most one client, and never accepts while it polls one.\<close>

theorem loop_poll_registration:
  assumes "reach (loop_start E server) (loop_step E) (ph, src, s)"
  shows "distinct (src_polls src) \<and> Poll_Listen \<in> set (src_polls src) \<and> src_server src = server
     \<and> (src_state src = REMOTE_CONTROL_IDLE \<longrightarrow> client_polled src)
     \<and> (client_polled src \<longrightarrow> src_state src \<noteq> REMOTE_CONTROL_UNCONNECTED)
     \<and> (ph \<in> {Polling, Checking} \<longrightarrow>
          (client_polled src \<longleftrightarrow> src_state src = REMOTE_CONTROL_IDLE)
        \<and> src_state src \<in> {REMOTE_CONTROL_UNCONNECTED, REMOTE_CONTROL_IDLE})"
  using loop.inv_reach [OF assms] by (auto simp: loop_inv_def source_inv_def)

theorem loop_poll_registration_witness:
  "\<exists>src s. reach (loop_start (ex_rpc_env 0 0) 40) (loop_step (ex_rpc_env 0 0)) (Polling, src, s)
     \<and> \<not> client_polled src \<and> Poll_Listen \<in> set (src_polls src)"
proof -
  obtain src s where s: "loop_start (ex_rpc_env 0 0) 40 (Preparing, src, s)"
      "src_state src = REMOTE_CONTROL_UNCONNECTED"
    using ex_loop_start by blast
  have "loop_step (ex_rpc_env 0 0) (Preparing, src, s) (Polling, src, s)"
    by (rule callbacks, rule prepares [where timeout = "- 1"])
      (simp add: rpc_source_prepare_def s(2))
  then have r: "reach (loop_start (ex_rpc_env 0 0) 40) (loop_step (ex_rpc_env 0 0)) (Polling, src, s)"
    by (blast intro: reach_step reach_init s(1))
  with loop_poll_registration [OF r] s(2) show ?thesis by auto
qed

text \<open>A client that connects gets a session: one pass of the loop accepts it, and the next
  \<^verbatim>\<open>prepare\<close> has its descriptor polled.\<close>

lemma session_starts:
  assumes "src_state src = REMOTE_CONTROL_UNCONNECTED" "src_polls src = [Poll_Listen]"
    and "0 \<le> fst (rpc_server_accept E (src_server src) (st_world s))"
    and "\<And>w. 0 \<le> rpc_server_get_client_socket E (src_server src) w"
  shows "\<exists>src' s'. (callback_step E)\<^sup>*\<^sup>* (Preparing, src, s) (Polling, src', s')
     \<and> src_state src' = REMOTE_CONTROL_IDLE \<and> src_server src' = src_server src
     \<and> src_polls src' = [Poll_Client, Poll_Listen]
     \<and> (\<exists>polled d. dispatch_accept E polled s = Some (True, d, s'))"
proof -
  let ?p = "set_revents {G_IO_IN} {} src"
  have a: "callback_step E (Preparing, src, s) (Polling, src, s)"
    by (rule prepares) (simp add: rpc_source_prepare_def assms(1))
  have c: "callback_step E (Checking, ?p, s) (Dispatching, ?p, s)"
    using checks [of ?p True ?p E s] assms(2) by (simp add: rpc_source_check_def set_revents_def)
  obtain d s' where d: "dispatch_accept E ?p s = Some (True, d, s')"
      "src_state d = REMOTE_CONTROL_CONNECTED" "src_server d = src_server src"
      "src_polls d = [Poll_Listen]"
    using assms(2,3) by (auto simp: dispatch_accept_def case_prod_beta Let_def set_revents_def)
  have e: "callback_step E (Dispatching, ?p, s) (Preparing, d, s')"
    by (rule dispatches) (simp add: rpc_source_dispatch_def assms(1) d(1))
  obtain src' where p: "rpc_source_prepare E d s' = Some (False, - 1, src')"
      "src_state src' = REMOTE_CONTROL_IDLE" "src_server src' = src_server src"
      "src_polls src' = [Poll_Client, Poll_Listen]"
    using d(2-4) assms(4)
    by (auto simp: rpc_source_prepare_def g_source_add_poll_def Let_def not_less [symmetric])
  have "(callback_step E)\<^sup>*\<^sup>* (Preparing, src, s) (Polling, src', s')"
    using a polls [of E src s "{G_IO_IN}" "{}"] c e prepares [OF p(1)]
    by (meson converse_rtranclp_into_rtranclp rtranclp.rtrancl_refl)
  then show ?thesis using p d(1) by blast
qed

section \<open>Allocated blocks\<close>

text \<open>
  What the callbacks rely on: \<^verbatim>\<open>recv\<close> and \<^verbatim>\<open>get_peer\<close> hand out a fresh block when
  they succeed, the two free functions give an allocated block back, nothing else touches the
  set. Nothing is known of a free of a block that is not allocated: after a second free of the
  same block no set of blocks can be derived.
\<close>

definition blocks_ok :: "'w rpc_env \<Rightarrow> ('w \<Rightarrow> ptr set) \<Rightarrow> bool" where
  "blocks_ok E live \<longleftrightarrow>
     (\<forall>b w. live (snd (rpc_server_accept E b w)) = live w)
   \<and> (\<forall>b w r a w'. rpc_server_get_peer E b w = (r, a, w') \<longrightarrow>
        (if 0 < r \<and> a \<noteq> NULL then a \<notin> live w \<and> live w' = insert a (live w) else live w' = live w))
   \<and> (\<forall>b w r q w'. rpc_server_recv E b w = (r, q, w') \<longrightarrow>
        (if 0 < r then q \<notin> live w \<and> live w' = insert q (live w) else live w' = live w))
   \<and> (\<forall>b q s. live (st_world (snd (rpc_dispatch E b q s))) = live (st_world s))
   \<and> (\<forall>a w. a \<in> live w \<longrightarrow> live (c_free E a w) = live w - {a})
   \<and> (\<forall>q w. q \<in> live w \<longrightarrow> live (rpc_packet_free E q w) = live w - {q})"

lemma blocks_ok_accept: "blocks_ok E live \<Longrightarrow> live (snd (rpc_server_accept E b w)) = live w"
  by (simp add: blocks_ok_def)

lemma blocks_ok_peer:
  assumes "blocks_ok E live" "rpc_server_get_peer E b w = (r, a, w')"
  shows "(if 0 < r \<and> a \<noteq> NULL then a \<notin> live w \<and> live w' = insert a (live w) else live w' = live w)"
  by (rule iffD1 [OF blocks_ok_def assms(1), THEN conjunct2, THEN conjunct1, rule_format, OF assms(2)])

lemma blocks_ok_recv:
  assumes "blocks_ok E live" "rpc_server_recv E b w = (r, q, w')"
  shows "(if 0 < r then q \<notin> live w \<and> live w' = insert q (live w) else live w' = live w)"
  by (rule iffD1 [OF blocks_ok_def assms(1), THEN conjunct2, THEN conjunct2, THEN conjunct1, rule_format, OF assms(2)])

lemma blocks_ok_dispatch:
  "blocks_ok E live \<Longrightarrow> live (st_world (snd (rpc_dispatch E b q s))) = live (st_world s)"
  by (simp add: blocks_ok_def)

lemma blocks_ok_free:
  "blocks_ok E live \<Longrightarrow> a \<in> live w \<Longrightarrow> live (c_free E a w) = live w - {a}"
  "blocks_ok E live \<Longrightarrow> q \<in> live w \<Longrightarrow> live (rpc_packet_free E q w) = live w - {q}"
  by (simp_all add: blocks_ok_def)

lemma dispatch_accept_blocks:
  assumes ok: "blocks_ok E live" and d: "dispatch_accept E src s = Some (b, src', s')"
  shows "live (st_world s') = live (st_world s)"
proof -
  obtain err w where a: "rpc_server_accept E (src_server src) (st_world s) = (err, w)" by fastforce
  obtain r addr w1 where p: "rpc_server_get_peer E (src_server src) w = (r, addr, w1)"
    by (metis prod_cases3)
  have w: "live w = live (st_world s)"
    using blocks_ok_accept [OF ok, of "src_server src" "st_world s"] by (simp add: a)
  show ?thesis
  proof (cases "err < 0")
    case True
    then show ?thesis using d a w by (auto simp: dispatch_accept_def split: if_splits)
  next
    case False
    then show ?thesis using d a p w blocks_ok_peer [OF ok p]
      by (auto simp: dispatch_accept_def case_prod_beta Let_def blocks_ok_free [OF ok]
          split: if_splits)
  qed
qed

lemma dispatch_request_blocks:
  assumes ok: "blocks_ok E live" and d: "dispatch_request E src s = (b, src', s')"
  shows "live (st_world s') = live (st_world s)"
proof -
  obtain err q w where r: "rpc_server_recv E (src_server src) (st_world s) = (err, q, w)"
    by (metis prod_cases3)
  show ?thesis
  proof (cases "0 < err")
    case True
    then show ?thesis using d r blocks_ok_recv [OF ok r]
      blocks_ok_dispatch [OF ok, of "src_server src" q "s\<lparr>st_world := w\<rparr>"]
      by (auto simp: dispatch_request_def remote_control_dispatch_def case_prod_beta Let_def
          blocks_ok_free [OF ok] split: if_splits)
  next
    case False
    then have "live w = live (st_world s)" using blocks_ok_recv [OF ok r] by simp
    moreover have "dispatch_request E src s = (if err < 0 \<and> err \<noteq> - ECONNRESET
        then (False, src, s\<lparr>st_world := w\<rparr>)
        else (True, src\<lparr>src_state := REMOTE_CONTROL_DISCONNECTED\<rparr>, s\<lparr>st_world := w\<rparr>))"
      using False r by (simp add: dispatch_request_def Let_def)
    ultimately show ?thesis using d by (simp split: if_splits)
  qed
qed

text \<open>C10: a dispatch neither leaks nor frees twice: the request it receives and the
  address of the peer are freed on every path, those of the errors included, so the set of
  allocated blocks is the one before.\<close>

theorem dispatch_frees_blocks:
  assumes "blocks_ok E live" and "rpc_source_dispatch E src s = Some (b, src', s')"
  shows "live (st_world s') = live (st_world s)"
  using assms(2) dispatch_accept_blocks [OF assms(1)] dispatch_request_blocks [OF assms(1)]
  by (auto simp: rpc_source_dispatch_def split: remote_control_state.splits)

lemma ex_blocks_ok: "blocks_ok (ex_rpc_env l a) (\<lambda>w. set (ex_blocks w))"
  unfolding blocks_ok_def by (auto simp: ex_rpc_env_def split: if_splits)

theorem dispatch_frees_blocks_witness:
  "\<exists>src' s'. rpc_source_dispatch (ex_rpc_env 0 0) (ex_src REMOTE_CONTROL_IDLE) ex_sstate
       = Some (True, src', s') \<and> set (ex_blocks (st_world s')) = {}"
proof -
  obtain src' s' where d: "rpc_source_dispatch (ex_rpc_env 0 0) (ex_src REMOTE_CONTROL_IDLE)
      ex_sstate = Some (True, src', s')"
    by (simp add: rpc_source_dispatch_def dispatch_request_def remote_control_dispatch_def
        ex_rpc_defs Let_def)
  from dispatch_frees_blocks [OF ex_blocks_ok d] d show ?thesis by (auto simp: ex_sstate_def)
qed

section \<open>Survival and set-up\<close>

text \<open>
  \<^verbatim>\<open>G_LOG_LEVEL_ERROR\<close> is always fatal in GLib, the other levels are not.
\<close>

definition glib_logging :: "'w rpc_env \<Rightarrow> bool" where
  "glib_logging E \<longleftrightarrow> (\<forall>v. g_log_returns E v \<longleftrightarrow> v \<noteq> G_LOG_LEVEL_ERROR)"

text \<open>The server process ends in a callback exactly when a connection can not be
  accepted, or an accepted one has lost its socket; the assignment that \<^verbatim>\<open>prepare\<close> has
  after the message of the second case is never reached.\<close>

lemma callbacks_survive:
  assumes "glib_logging E"
  shows "(rpc_source_dispatch E src s = None \<longleftrightarrow>
      src_state src = REMOTE_CONTROL_UNCONNECTED
    \<and> fst (rpc_server_accept E (src_server src) (st_world s)) < 0)
   \<and> (rpc_source_prepare E src s = None \<longleftrightarrow>
      src_state src = REMOTE_CONTROL_CONNECTED
    \<and> rpc_server_get_client_socket E (src_server src) (st_world s) < 0)"
  using assms
  by (auto simp: glib_logging_def rpc_source_dispatch_def rpc_source_prepare_def
      dispatch_accept_def Let_def split: remote_control_state.splits prod.splits)

text \<open>
  What \<^verbatim>\<open>rcrpc_create\<close> relies on of the server's life: \<^verbatim>\<open>create\<close> allocates one,
  and no other call here touches the set.
\<close>

definition servers_ok :: "'w rpc_env \<Rightarrow> ('w \<Rightarrow> ptr set) \<Rightarrow> bool" where
  "servers_ok E srvs \<longleftrightarrow>
     (\<forall>w. srvs (snd (snd (rpc_server_create E w)))
        = (if fst (rpc_server_create E w) < 0 then srvs w
           else insert (fst (snd (rpc_server_create E w))) (srvs w)))
   \<and> (\<forall>b n w. srvs (snd (rpc_server_listen E b n w)) = srvs w)
   \<and> (\<forall>w. srvs (snd (g_source_new E w)) = srvs w)
   \<and> (\<forall>f v w. srvs (snd (c_setsockopt_keepalive E f v w)) = srvs w)"

lemma servers_okD:
  assumes "servers_ok E srvs"
  shows "rpc_server_create E w = (err, server, w') \<Longrightarrow>
      srvs w' = (if err < 0 then srvs w else insert server (srvs w))"
    and "rpc_server_listen E b n w = (r, w') \<Longrightarrow> srvs w' = srvs w"
    and "g_source_new E w = (ok, w') \<Longrightarrow> srvs w' = srvs w"
    and "socket_enable_keepalive E f e w = (r, w') \<Longrightarrow> srvs w' = srvs w"
  using assms unfolding servers_ok_def socket_enable_keepalive_def by (metis fst_conv snd_conv)+

text \<open>C30: the set-up of the server returns the first negative code of its steps, in their order:
  creating the server, listening, allocating the source (-ENOMEM), asking for the socket, setting
  its keepalive option; without a remote control it is -EINVAL. On a failure no source is
  attached and the interrupt and network components are untouched, but a server that was created
  before is still allocated: no error path frees it.\<close>

theorem rcrpc_create_failure:
  assumes "servers_ok E srvs" and "rcrpc_create E rc config s = (r, src, s')"
    and "rpc_server_create E (st_world s) = (e1, server, w1)"
    and "rpc_server_listen E server 7482 w1 = (e2, w2)" and "g_source_new E w2 = (ok, w3)"
    and "rpc_server_get_listen_socket E server w3 = sock"
    and "socket_enable_keepalive E sock (config_get_socket_keepalive E config) w3 = (e4, w4)"
  shows "r = (if rc = NULL then - EINVAL
              else first_error [e1, e2, if ok then 0 else - ENOMEM, sock, e4])
     \<and> (src = None \<longleftrightarrow> r \<noteq> 0)
     \<and> (r \<noteq> 0 \<longrightarrow> st_irq s' = st_irq s \<and> st_net s' = st_net s
        \<and> srvs (st_world s') =
            (if rc \<noteq> NULL \<and> 0 \<le> e1 then insert server (srvs (st_world s)) else srvs (st_world s)))"
  using assms(2-) servers_okD(1) [OF assms(1,3)] servers_okD(2) [OF assms(1,4)]
    servers_okD(3) [OF assms(1,5)] servers_okD(4) [OF assms(1,7)]
  by (auto simp: rcrpc_create_def Let_def split: if_splits prod.splits)

theorem rcrpc_create_failure_witness:
  "\<exists>s'. rcrpc_create (ex_rpc_env (- 98) 0) 7 0 ex_sstate = (- 98, None, s')
     \<and> 40 \<in> set (ex_blocks (st_world s'))"
proof -
  have ok: "servers_ok (ex_rpc_env (- 98) 0) (\<lambda>w. set (ex_blocks w))"
    by (simp add: servers_ok_def ex_rpc_env_def)
  obtain s' where r: "rcrpc_create (ex_rpc_env (- 98) 0) 7 0 ex_sstate = (- 98, None, s')"
    by (simp add: rcrpc_create_def ex_rpc_env_def)
  obtain w1 where w: "rpc_server_create (ex_rpc_env (- 98) 0) (st_world ex_sstate) = (0, 40, w1)"
      "rpc_server_listen (ex_rpc_env (- 98) 0) 40 7482 w1 = (- 98, w1)"
      "g_source_new (ex_rpc_env (- 98) 0) w1 = (True, w1)"
      "rpc_server_get_listen_socket (ex_rpc_env (- 98) 0) 40 w1 = 4"
      "socket_enable_keepalive (ex_rpc_env (- 98) 0) 4
         (config_get_socket_keepalive (ex_rpc_env (- 98) 0) 0) w1 = (0, w1)"
    by (simp add: ex_rpc_env_def socket_enable_keepalive_def)
  from rcrpc_create_failure [OF ok r w] r show ?thesis by auto
qed

section \<open>Stale events\<close>

text \<open>
  \<^verbatim>\<open>prepare\<close> takes the client out of the poll set at the end of its session, and from
  then on nothing refreshes its received events. A turn of the loop is quiet when polling has
  found nothing at the listening socket: nobody connects.
\<close>

definition quiet_callback :: "'w rpc_env \<Rightarrow> 'w loop \<Rightarrow> 'w loop \<Rightarrow> bool" where
  "quiet_callback E t u \<longleftrightarrow> callback_step E t u
     \<and> (case u of (ph, src, s) \<Rightarrow> ph = Checking \<longrightarrow> pfd_revents (poll_listen src) = {})"

definition quiet_step :: "'w rpc_env \<Rightarrow> 'w loop \<Rightarrow> 'w loop \<Rightarrow> bool" where
  "quiet_step E t u \<longleftrightarrow> quiet_callback E t u \<or> (\<exists>ph src s s'. t = (ph, src, s) \<and> u = (ph, src, s'))"

text \<open>What holds from the hang-up on.\<close>

definition hung_up :: "'w loop \<Rightarrow> bool" where
  "hung_up t \<longleftrightarrow> (case t of (ph, src, s) \<Rightarrow>
     source_inv src \<and> G_IO_HUP \<in> pfd_revents (poll_client src) \<and> pfd_revents (poll_listen src) = {}
     \<and> (client_polled src \<or> pfd_events (poll_client src) = {} \<and> pfd_fd (poll_client src) = - 1)
     \<and> src_state src \<in> (case ph of
          Polling \<Rightarrow> {REMOTE_CONTROL_UNCONNECTED}
        | Checking \<Rightarrow> {REMOTE_CONTROL_UNCONNECTED, REMOTE_CONTROL_IDLE}
        | Destroyed \<Rightarrow> {}
        | _ \<Rightarrow> {REMOTE_CONTROL_DISCONNECTED}))"

text \<open>One callback from each phase: what it must be.\<close>

lemma hung_up_polls:
  assumes "hung_up (Polling, src, s)"
  shows "quiet_callback E (Polling, src, s) u \<longleftrightarrow> u = (Checking, src, s)"
proof -
  have in_polls: "Poll_Listen \<in> set (src_polls src)" "Poll_Client \<notin> set (src_polls src)"
    using assms by (auto simp: hung_up_def source_inv_defs)
  have none: "pfd_revents (poll_listen src) = {}" using assms by (simp add: hung_up_def)
  have same: "set_revents {} rc src = src" for rc using none in_polls by (simp add: set_revents_def)
  have rl: "set_revents rl rc src = src" if "pfd_revents (poll_listen (set_revents rl rc src)) = {}" for rl rc
    using that in_polls none by (simp add: set_revents_def)
  show ?thesis
  proof
    assume "quiet_callback E (Polling, src, s) u"
    then show "u = (Checking, src, s)"
      unfolding quiet_callback_def by (auto elim!: callback_step.cases intro: rl)
  next
    assume "u = (Checking, src, s)"
    then show "quiet_callback E (Polling, src, s) u"
      using polls [of E src s "{}" "{}"] none by (simp add: quiet_callback_def same)
  qed
qed

lemma hung_up_checks:
  assumes "hung_up (Checking, src, s)"
  shows "callback_step E (Checking, src, s) u \<longleftrightarrow>
    u = (Dispatching, src\<lparr>src_state := REMOTE_CONTROL_DISCONNECTED\<rparr>, s)"
proof -
  have c: "rpc_source_check src = (True, src\<lparr>src_state := REMOTE_CONTROL_DISCONNECTED\<rparr>)"
    using assms by (simp add: rpc_source_check_def hung_up_def)
  have "callback_step E (Checking, src, s)
      (Dispatching, src\<lparr>src_state := REMOTE_CONTROL_DISCONNECTED\<rparr>, s)"
    using checks [OF c, of E s] by simp
  then show ?thesis using c by (auto elim: check_stepE)
qed

lemma hung_up_dispatches:
  assumes "hung_up (Dispatching, src, s)"
  shows "callback_step E (Dispatching, src, s) u \<longleftrightarrow> u = (Preparing, src, s)"
proof -
  have "rpc_source_dispatch E src s = Some (True, src, s)"
    using assms by (simp add: rpc_source_dispatch_def hung_up_def)
  then show ?thesis by (auto elim: dispatch_stepE intro: dispatches)
qed

lemma hung_up_prepares:
  assumes "hung_up (Preparing, src, s)"
  shows "callback_step E (Preparing, src, s) u \<longleftrightarrow>
    u = (Polling, (g_source_remove_poll Poll_Client src)\<lparr>
      poll_client := (poll_client src)\<lparr>pfd_events := {}, pfd_fd := - 1\<rparr>,
      src_state := REMOTE_CONTROL_UNCONNECTED\<rparr>, s)" (is "_ \<longleftrightarrow> u = (Polling, ?src, s)")
proof -
  have "rpc_source_prepare E src s = Some (False, - 1, ?src)"
    using assms by (simp add: rpc_source_prepare_def hung_up_def g_source_remove_poll_def)
  then show ?thesis by (auto elim: prepare_stepE intro: prepares)
qed

lemma hung_up_callback:
  assumes "hung_up t" "quiet_callback E t u"
  shows "hung_up u"
proof -
  obtain ph src s where t: "t = (ph, src, s)" by (metis prod_cases3)
  have step: "callback_step E t u" using assms(2) by (simp add: quiet_callback_def)
  show ?thesis
  proof (cases ph)
    case Preparing
    then have u: "u = (Polling, (g_source_remove_poll Poll_Client src)\<lparr>
        poll_client := (poll_client src)\<lparr>pfd_events := {}, pfd_fd := - 1\<rparr>,
        src_state := REMOTE_CONTROL_UNCONNECTED\<rparr>, s)"
      using step assms(1) hung_up_prepares [of src s E u] by (simp add: t)
    then show ?thesis using assms(1) unfolding t Preparing u
      by (auto simp: hung_up_def source_inv_defs g_source_remove_poll_def)
  next
    case Polling
    then have "u = (Checking, src, s)" using assms hung_up_polls [of src s E u] by (simp add: t)
    then show ?thesis using assms(1) by (simp add: t Polling hung_up_def)
  next
    case Checking
    then have "u = (Dispatching, src\<lparr>src_state := REMOTE_CONTROL_DISCONNECTED\<rparr>, s)"
      using step assms(1) hung_up_checks [of src s E u] by (simp add: t)
    then show ?thesis using assms(1) by (auto simp: t Checking hung_up_def source_inv_defs)
  next
    case Dispatching
    then have "u = (Preparing, src, s)"
      using step assms(1) hung_up_dispatches [of src s E u] by (simp add: t)
    then show ?thesis using assms(1) by (simp add: t Dispatching hung_up_def)
  next
    case Destroyed
    then show ?thesis using assms(1) by (simp add: t hung_up_def)
  qed
qed

lemma hung_up_world: "hung_up (ph, src, s) \<Longrightarrow> hung_up (ph, src, s')"
  by (simp add: hung_up_def)

interpretation quiet: invariant hung_up "quiet_step E" hung_up for E :: "'w rpc_env"
proof unfold_locales
  show "hung_up t \<Longrightarrow> quiet_step E t u \<Longrightarrow> hung_up u" for t u
    unfolding quiet_step_def by (metis hung_up_callback hung_up_world)
qed simp

text \<open>A pass: four callbacks from \<^verbatim>\<open>poll\<close> to \<^verbatim>\<open>poll\<close>.\<close>

lemma hung_up_pass:
  assumes "hung_up (Polling, src, s)"
  shows "(quiet_callback E ^^ 4) (Polling, src, s) u \<longleftrightarrow> u = (Polling, src, s)"
proof -
  let ?d = "src\<lparr>src_state := REMOTE_CONTROL_DISCONNECTED\<rparr>"
  have src: "src_state src = REMOTE_CONTROL_UNCONNECTED" "Poll_Client \<notin> set (src_polls src)"
      "pfd_events (poll_client src) = {}" "pfd_fd (poll_client src) = - 1"
    using assms by (auto simp: hung_up_def source_inv_defs)
  then have same: "(g_source_remove_poll Poll_Client ?d)\<lparr>
      poll_client := (poll_client src)\<lparr>pfd_events := {}, pfd_fd := - 1\<rparr>,
      src_state := REMOTE_CONTROL_UNCONNECTED\<rparr> = src"
    by (simp add: g_source_remove_poll_def remove1_idem)
  have h: "hung_up (Checking, src, s)" "hung_up (Dispatching, ?d, s)" "hung_up (Preparing, ?d, s)"
    using assms by (auto simp: hung_up_def source_inv_defs)
  have "quiet_callback E (Checking, src, s) v \<longleftrightarrow> v = (Dispatching, ?d, s)"
    "quiet_callback E (Dispatching, ?d, s) v \<longleftrightarrow> v = (Preparing, ?d, s)"
    "quiet_callback E (Preparing, ?d, s) v \<longleftrightarrow> v = (Polling, src, s)" for v
    using hung_up_checks [OF h(1)] hung_up_dispatches [OF h(2)] hung_up_prepares [OF h(3)]
    by (auto simp: quiet_callback_def same)
  then show ?thesis
    using hung_up_polls [OF assms]
    by (simp add: numeral_eq_Suc relcompp_apply)
qed


lemma ex_reach_hangup:
  "\<exists>src s. reach (loop_start (ex_rpc_env 0 0) 40) (loop_step (ex_rpc_env 0 0)) (Checking, src, s)
     \<and> src_state src = REMOTE_CONTROL_IDLE \<and> pfd_revents (poll_client src) = {G_IO_HUP}
     \<and> pfd_revents (poll_listen src) = {}"
proof -
  let ?E = "ex_rpc_env 0 0"
  obtain src s where i: "loop_start ?E 40 (Preparing, src, s)"
      "src_state src = REMOTE_CONTROL_UNCONNECTED" "src_polls src = [Poll_Listen]"
    using ex_loop_start by blast
  have acc: "0 \<le> fst (rpc_server_accept ?E b w)" "0 \<le> rpc_server_get_client_socket ?E b w" for b w
    by (simp_all add: ex_rpc_env_def)
  obtain src' s' where r: "(callback_step ?E)\<^sup>*\<^sup>* (Preparing, src, s) (Polling, src', s')"
      "src_state src' = REMOTE_CONTROL_IDLE" "src_polls src' = [Poll_Client, Poll_Listen]"
    using session_starts [OF i(2,3) acc] by blast
  have "(callback_step ?E)\<^sup>*\<^sup>* (Preparing, src, s) (Checking, set_revents {} {G_IO_HUP} src', s')"
    using r(1) polls by (rule rtranclp.rtrancl_into_rtrancl)
  then have "(loop_step ?E)\<^sup>*\<^sup>* (Preparing, src, s) (Checking, set_revents {} {G_IO_HUP} src', s')"
    by (rule mono_rtranclp [rule_format, rotated]) (rule callbacks)
  then have "reach (loop_start ?E 40) (loop_step ?E) (Checking, set_revents {} {G_IO_HUP} src', s')"
    by (induction rule: rtranclp_induct) (use i(1) in \<open>auto intro: reach_init reach_step\<close>)
  then show ?thesis using r(2,3)
    by (intro exI conjI) (assumption, simp_all add: set_revents_def)
qed


end
