(* ===== verification/Server.thy ===== *)
theory Server
  imports Rpc_Source
begin

text \<open>
  The server as a whole: the source in the main loop of \<open>Rpc_Source\<close> with requests that
  run the handlers of \<open>Irq\<close> and \<open>Net\<close> (\<^verbatim>\<open>rcrpc.c\<close>, \<^verbatim>\<open>irq.c\<close> and
  \<^verbatim>\<open>net.c\<close> together). Shown here: the invariants of the three parts hold together from
  \<^verbatim>\<open>rcrpc_create\<close> on, and when the source is destroyed everything is given back; a single bad
  request destroys it, and the event manager keeps a pointer into freed memory.
\<close>

section \<open>Requests and events\<close>

text \<open>
  What may happen to the state of the server between the callbacks of the source: the event
  callback or a handler of the interrupt component, a handler of the network component, and
  (a step of the network component) changes of the world that open and close no channel, which
  the handlers of the devices make.
\<close>

inductive server_call ::
  "'w rpc_env \<Rightarrow> priv \<Rightarrow> ('w \<Rightarrow> int set) \<Rightarrow> 'w sstate \<Rightarrow> 'w sstate \<Rightarrow> bool"
  for E :: "'w rpc_env" and p :: priv and chans :: "'w \<Rightarrow> int set" where
  irq_event: "irq_event_cb (e_irq E) (st_irq s) (Some ev) (st_world s) = (ret, irq, w) \<Longrightarrow>
     server_call E p chans s (s\<lparr>st_irq := irq, st_world := w\<rparr>)"
| irq_get_info: "rpc_irq_get_info (e_irq E) p source info (st_irq s, st_world s)
       = (ret, info', irq, w) \<Longrightarrow>
     server_call E p chans s (s\<lparr>st_irq := irq, st_world := w\<rparr>)"
| irq_enable: "rpc_irq_enable (e_irq E) p virtkey (st_irq s, st_world s) = (ret, irq, w) \<Longrightarrow>
     server_call E p chans s (s\<lparr>st_irq := irq, st_world := w\<rparr>)"
| net_call: "net_step (e_net E) p chans (st_net s, st_world s) (net, w) \<Longrightarrow>
     server_call E p chans s (s\<lparr>st_net := net, st_world := w\<rparr>)"

text \<open>The dispatcher that is generated from the protocol runs handlers and nothing else.\<close>

definition dispatcher_ok :: "'w rpc_env \<Rightarrow> priv \<Rightarrow> ('w \<Rightarrow> int set) \<Rightarrow> bool" where
  "dispatcher_ok E p chans \<longleftrightarrow>
     (\<forall>b q s. (server_call E p chans)\<^sup>*\<^sup>* s (snd (rpc_dispatch E b q s)))"

text \<open>No other call of the source opens or closes a channel.\<close>

definition transport_ok :: "'w rpc_env \<Rightarrow> ('w \<Rightarrow> int set) \<Rightarrow> bool" where
  "transport_ok E chans \<longleftrightarrow>
     (\<forall>w. chans (snd (snd (rpc_server_create E w))) = chans w)
   \<and> (\<forall>b n w. chans (snd (rpc_server_listen E b n w)) = chans w)
   \<and> (\<forall>w. chans (snd (g_source_new E w)) = chans w)
   \<and> (\<forall>f v w. chans (snd (c_setsockopt_keepalive E f v w)) = chans w)
   \<and> (\<forall>rc w. chans (g_source_attach E rc w) = chans w)
   \<and> (\<forall>m b w. chans (snd (event_manager_set_event_cb (e_irq E) m b w)) = chans w)
   \<and> (\<forall>m ev w. chans (snd (snd (event_manager_get_source_state (e_irq E) m ev w))) = chans w)
   \<and> (\<forall>b t w. chans (snd (stub_irq_event (e_irq E) b t w)) = chans w)
   \<and> (\<forall>b w. chans (snd (rpc_server_accept E b w)) = chans w)
   \<and> (\<forall>b w. chans (snd (snd (rpc_server_get_peer E b w))) = chans w)
   \<and> (\<forall>b w. chans (snd (snd (rpc_server_recv E b w))) = chans w)
   \<and> (\<forall>q w. chans (rpc_packet_free E q w) = chans w)
   \<and> (\<forall>a w. chans (c_free E a w) = chans w)
   \<and> (\<forall>b w. chans (rpc_server_free E b w) = chans w)"

lemma transport_okD:
  assumes "transport_ok E chans"
  shows "rpc_server_create E w = (err, server, w') \<Longrightarrow> chans w' = chans w"
    and "rpc_server_listen E b n w = (r, w') \<Longrightarrow> chans w' = chans w"
    and "g_source_new E w = (ok, w') \<Longrightarrow> chans w' = chans w"
    and "socket_enable_keepalive E f e w = (r, w') \<Longrightarrow> chans w' = chans w"
    and "chans (g_source_attach E rc w) = chans w"
    and "event_manager_set_event_cb (e_irq E) m b w = (r, w') \<Longrightarrow> chans w' = chans w"
    and "rpc_server_accept E b w = (r, w') \<Longrightarrow> chans w' = chans w"
    and "rpc_server_get_peer E b w = (r, a, w') \<Longrightarrow> chans w' = chans w"
    and "rpc_server_recv E b w = (r, q, w') \<Longrightarrow> chans w' = chans w"
    and "chans (rpc_packet_free E q w) = chans w"
    and "chans (c_free E a w) = chans w"
    and "chans (rpc_server_free E b w) = chans w"
  using assms unfolding transport_ok_def socket_enable_keepalive_def by (metis snd_conv)+

lemma transport_ok_irq:
  assumes "transport_ok E chans"
  shows "chans (snd (snd (event_manager_get_source_state (e_irq E) m ev w))) = chans w"
    and "chans (snd (stub_irq_event (e_irq E) b t w)) = chans w"
  using assms by (simp_all add: transport_ok_def)

text \<open>So the interrupt component opens and closes none.\<close>

lemma irq_event_cb_chans:
  assumes "transport_ok E chans" "irq_event_cb (e_irq E) d ev w = (ret, irq, w')"
  shows "chans w' = chans w"
  using assms(2)
  by (auto simp: irq_event_cb_def case_prod_beta Let_def transport_ok_irq [OF assms(1)]
      split: option.splits if_splits)

lemma irq_update_chans:
  assumes "transport_ok E chans"
  shows "chans (snd (snd (snd (irq_data_update_from_source (e_irq E) m ev s)))) = chans (snd s)"
  by (simp add: irq_data_update_from_source_def case_prod_beta Let_def
      transport_ok_irq [OF assms] split: option.split)

lemma irq_get_info_chans:
  assumes "transport_ok E chans" "rpc_irq_get_info (e_irq E) p source info s = (ret, info', t)"
  shows "chans (snd t) = chans (snd s)"
proof -
  have "chans (snd (snd (snd (get_info_from (e_irq E) m src decode info s)))) = chans (snd s)"
    for m src decode
    by (simp add: get_info_from_def case_prod_beta Let_def irq_update_chans [OF assms(1)]
        split: option.split)
  then have "chans (snd (snd (snd (rpc_irq_get_info (e_irq E) p source info s)))) = chans (snd s)"
    by (simp add: rpc_irq_get_info_def Let_def)
  then show ?thesis by (simp add: assms(2))
qed

lemma irq_enable_chans:
  assumes "transport_ok E chans" "rpc_irq_enable (e_irq E) p virtkey s = (ret, t)"
  shows "chans (snd t) = chans (snd s)"
  using assms(2)
  by (auto simp: rpc_irq_enable_def case_prod_beta Let_def transport_ok_irq [OF assms(1)]
      split: if_splits)

inductive server_step ::
  "'w rpc_env \<Rightarrow> priv \<Rightarrow> ('w \<Rightarrow> int set) \<Rightarrow> 'w loop \<Rightarrow> 'w loop \<Rightarrow> bool"
  for E :: "'w rpc_env" and p :: priv and chans :: "'w \<Rightarrow> int set" where
  turns: "callback_step E t u \<Longrightarrow> server_step E p chans t u"
| happens: "server_call E p chans s s' \<Longrightarrow> ph \<noteq> Destroyed \<Longrightarrow>
     server_step E p chans (ph, src, s) (ph, src, s')"

section \<open>The invariant\<close>

abbreviation status_known :: "'w irq_env \<Rightarrow> u32 \<Rightarrow> bool" where
  "status_known E st \<equiv> \<forall>n. bit st n \<longrightarrow> n \<in> evpos E ` set irq_sources"

definition parts_inv ::
  "'w rpc_env \<Rightarrow> priv \<Rightarrow> ('w \<Rightarrow> int set) \<Rightarrow> int set \<Rightarrow> 'w sstate \<Rightarrow> bool" where
  "parts_inv E p chans base s \<longleftrightarrow>
     irq_holds (e_irq E) p (status_known (e_irq E)) (st_irq s, st_world s)
   \<and> net_owns chans base (st_net s, st_world s)"

definition given_back :: "('w \<Rightarrow> int set) \<Rightarrow> int set \<Rightarrow> 'w sstate \<Rightarrow> bool" where
  "given_back chans base s \<longleftrightarrow> st_irq s = None \<and> st_net s = None \<and> chans (st_world s) = base"

definition server_inv ::
  "'w rpc_env \<Rightarrow> priv \<Rightarrow> ptr \<Rightarrow> ('w \<Rightarrow> int set) \<Rightarrow> int set \<Rightarrow> 'w loop \<Rightarrow> bool" where
  "server_inv E p server chans base t \<longleftrightarrow> loop_inv server t \<and> (case t of (ph, src, s) \<Rightarrow>
     if ph = Destroyed then given_back chans base s else parts_inv E p chans base s)"

text \<open>What the parts rely on.\<close>

definition server_env ::
  "'w rpc_env \<Rightarrow> priv \<Rightarrow> ptr \<Rightarrow> ('w \<Rightarrow> int set) \<Rightarrow> int set \<Rightarrow> bool" where
  "server_env E p server chans base \<longleftrightarrow>
     channels_ok (e_net E) chans \<and> transport_ok E chans \<and> dispatcher_ok E p chans
   \<and> server \<noteq> NULL \<and> priv_addr p = rpc_server_priv E server \<and> 0 \<notin> base"

lemma server_envD:
  assumes "server_env E p server chans base"
  shows "channels_ok (e_net E) chans" "transport_ok E chans" "server \<noteq> NULL" "0 \<notin> base"
    "priv_addr p = rpc_server_priv E server"
    "(server_call E p chans)\<^sup>*\<^sup>* s (snd (rpc_dispatch E b q s))"
  using assms by (simp_all add: server_env_def dispatcher_ok_def)

lemma parts_inv_world:
  assumes "parts_inv E p chans base s" "chans w = chans (st_world s)"
  shows "parts_inv E p chans base (s\<lparr>st_world := w\<rparr>)"
  using assms by (simp add: parts_inv_def irq_holds_def net_owns_def)

lemma parts_inv_irq:
  assumes "parts_inv E p chans base s" "irq_step (e_irq E) p (st_irq s, st_world s) (irq, w)"
    and "chans w = chans (st_world s)"
  shows "parts_inv E p chans base (s\<lparr>st_irq := irq, st_world := w\<rparr>)"
proof -
  have "irq_holds (e_irq E) p (status_known (e_irq E)) (irq, w)"
    using irq.inv_step [OF _ assms(2)] assms(1) by (simp add: parts_inv_def)
  then show ?thesis using assms(1,3) by (simp add: parts_inv_def net_owns_def)
qed

lemma parts_inv_call:
  assumes "server_env E p server chans base" "parts_inv E p chans base s" "server_call E p chans s t"
  shows "parts_inv E p chans base t"
  using assms(3)
proof cases
  case (irq_event ev ret irq w)
  have "irq_step (e_irq E) p (st_irq s, st_world s) (irq, w)" 
    by (rule callback [where e = ev and ret = ret]) (simp add: irq_event)
  then show ?thesis unfolding irq_event(1)
    by (rule parts_inv_irq [OF assms(2)])
      (rule irq_event_cb_chans [OF server_envD(2) [OF assms(1)] irq_event(2)])
next
  case (irq_get_info source info ret info' irq w)
  show ?thesis unfolding irq_get_info(1)
    using irq_get_info_chans [OF server_envD(2) [OF assms(1)] irq_get_info(2)]
    by (intro parts_inv_irq [OF assms(2) get_info [OF irq_get_info(2)]]) simp
next
  case (irq_enable virtkey ret irq w)
  show ?thesis unfolding irq_enable(1)
    using irq_enable_chans [OF server_envD(2) [OF assms(1)] irq_enable(2)]
    by (intro parts_inv_irq [OF assms(2) enable [OF irq_enable(2)]]) simp
next
  case (net_call net w)
  have "net_owns chans base (net, w)"
    using net.inv_step [OF _ net_call(2)] server_envD(1) [OF assms(1)] assms(2)
    by (simp add: parts_inv_def)
  then show ?thesis using assms(2) net_call(1) by (simp add: parts_inv_def irq_holds_def)
qed

lemma parts_inv_calls:
  assumes "server_env E p server chans base" "(server_call E p chans)\<^sup>*\<^sup>* s t"
    and "parts_inv E p chans base s"
  shows "parts_inv E p chans base t"
  using assms(2,3) by (induction rule: rtranclp_induct) (auto intro: parts_inv_call [OF assms(1)])

lemma dispatch_accept_parts:
  assumes "transport_ok E chans" "parts_inv E p chans base s"
    and "dispatch_accept E src s = Some (b, src', s')"
  shows "parts_inv E p chans base s'"
proof -
  obtain err w where a: "rpc_server_accept E (src_server src) (st_world s) = (err, w)" by fastforce
  obtain r addr w1 where g: "rpc_server_get_peer E (src_server src) w = (r, addr, w1)"
    by (metis prod_cases3)
  have w: "chans w = chans (st_world s)" "chans w1 = chans (st_world s)"
    using transport_okD(7) [OF assms(1) a] transport_okD(8) [OF assms(1) g] by simp_all
  have "\<exists>w'. s' = s\<lparr>st_world := w'\<rparr> \<and> chans w' = chans (st_world s)"
  proof (cases "err < 0")
    case True
    then show ?thesis using assms(3) a w by (auto simp: dispatch_accept_def split: if_splits)
  next
    case False
    then show ?thesis using assms(3) a g w transport_okD(11) [OF assms(1)]
      by (auto simp: dispatch_accept_def case_prod_beta Let_def split: if_splits)
  qed
  then show ?thesis using parts_inv_world [OF assms(2)] by auto
qed

lemma dispatch_request_parts:
  assumes env: "server_env E p server chans base" and inv: "parts_inv E p chans base s"
    and d: "dispatch_request E src s = (b, src', s')"
  shows "parts_inv E p chans base s'"
proof -
  note ok = server_envD(2) [OF env]
  obtain err q w where r: "rpc_server_recv E (src_server src) (st_world s) = (err, q, w)"
    by (metis prod_cases3)
  obtain e s1 where x: "rpc_dispatch E (src_server src) q (s\<lparr>st_world := w\<rparr>) = (e, s1)"
    by fastforce
  have 0: "parts_inv E p chans base (s\<lparr>st_world := w\<rparr>)"
    using parts_inv_world [OF inv] transport_okD(9) [OF ok r] by simp
  have 1: "parts_inv E p chans base s1"
    using parts_inv_calls [OF env server_envD(6) [OF env] 0] x by (metis snd_conv)
  have 2: "parts_inv E p chans base (s1\<lparr>st_world := rpc_packet_free E q (st_world s1)\<rparr>)"
    using parts_inv_world [OF 1] transport_okD(10) [OF ok] by simp
  have "s' \<in> {s\<lparr>st_world := w\<rparr>, s1\<lparr>st_world := rpc_packet_free E q (st_world s1)\<rparr>}"
    using d r x by (auto simp: dispatch_request_def remote_control_dispatch_def Let_def split: if_splits)
  then show ?thesis using 0 2 by auto
qed

lemma dispatch_parts:
  assumes "server_env E p server chans base" "parts_inv E p chans base s"
    and "rpc_source_dispatch E src s = Some (b, src', s')"
  shows "parts_inv E p chans base s'"
  using assms dispatch_accept_parts [OF server_envD(2) [OF assms(1)] assms(2)]
    dispatch_request_parts [OF assms(1,2)]
  by (auto simp: rpc_source_dispatch_def split: remote_control_state.splits)

lemma finalize_gives_back:
  assumes env: "server_env E p server chans base" and inv: "parts_inv E p chans base s"
    and "src_server src = server"
  shows "given_back chans base (rpc_source_finalize E src s)"
proof -
  obtain d nd where d: "st_irq s = Some d" "st_net s = Some nd"
      "chans (st_world s) = base \<union> refs nd" "refs nd \<inter> base = {}"
    using inv by (auto simp: parts_inv_def irq_holds_def net_owns_def)
  have "base \<union> refs nd - {async_p2p nd} - {sync_broadcast nd} = base"
    using d(4) server_envD(4) [OF env] by (auto simp: refs_def)
  then show ?thesis
    using d assms(3) server_envD(3) [OF env]
    by (simp add: given_back_def rpc_source_finalize_def rcrpc_free_def rpc_irq_cleanup_def
        rpc_net_cleanup_def Let_def channels_ok_destroy [OF server_envD(1) [OF env]]
        transport_okD(12) [OF server_envD(2) [OF env]])
qed

lemma server_inv_step:
  assumes env: "server_env E p server chans base" and inv: "server_inv E p server chans base t"
    and step: "server_step E p chans t u"
  shows "server_inv E p server chans base u"
  using step
proof cases
  case turns
  have "loop_inv server t" using inv by (simp add: server_inv_def)
  with turns have loop: "loop_inv server u" by (rule callback_inv)
  from turns show ?thesis
  proof cases
    case (dispatches src s src' s')
    then show ?thesis using loop inv dispatch_parts [OF env] by (auto simp: server_inv_def)
  next
    case (destroys src s src' s')
    then have "parts_inv E p chans base s'" "src_server src' = server"
      using loop inv dispatch_parts [OF env] by (auto simp: server_inv_def loop_inv_def)
    then show ?thesis using loop destroys finalize_gives_back [OF env] by (simp add: server_inv_def)
  qed (use loop inv in \<open>auto simp: server_inv_def\<close>)
next
  case (happens s s' ph src)
  then show ?thesis using inv parts_inv_call [OF env] by (auto simp: server_inv_def loop_inv_def)
qed

definition server_start ::
  "'w rpc_env \<Rightarrow> priv \<Rightarrow> ptr \<Rightarrow> ('w \<Rightarrow> int set) \<Rightarrow> int set \<Rightarrow> 'w loop \<Rightarrow> bool" where
  "server_start E p server chans base t \<longleftrightarrow> (\<exists>config w src s.
     rcrpc_create E (priv_rc p) config \<lparr>st_irq = None, st_net = None, st_world = w\<rparr> = (0, Some src, s)
     \<and> src_server src = server \<and> chans w = base \<and> t = (Preparing, src, s))"


lemma rcrpc_create_parts:
  assumes ok: "transport_ok E chans" and ch: "channels_ok (e_net E) chans" and z: "0 \<notin> chans w"
    and c: "rcrpc_create E rc config \<lparr>st_irq = None, st_net = None, st_world = w\<rparr> = (0, Some src, s)"
    and p: "p = \<lparr>priv_addr = rpc_server_priv E (src_server src), priv_rc = rc\<rparr>"
  shows "parts_inv E p chans (chans w) s"
proof -
  obtain err server w1 where a: "rpc_server_create E w = (err, server, w1)" by (metis prod_cases3)
  obtain err2 w2 where b: "rpc_server_listen E server 7482 w1 = (err2, w2)" by fastforce
  obtain g w3 where g: "g_source_new E w2 = (g, w3)" by fastforce
  let ?sock = "rpc_server_get_listen_socket E server w3"
  obtain err3 w4 where k: "socket_enable_keepalive E ?sock (config_get_socket_keepalive E config) w3
      = (err3, w4)" by fastforce
  let ?w5 = "g_source_attach E rc w4"
  let ?p = "\<lparr>priv_addr = rpc_server_priv E server, priv_rc = rc\<rparr>"
  obtain irq w6 where i: "rpc_irq_init (e_irq E) ?p (None, ?w5) = (irq, w6)" by fastforce
  obtain net w7 where n: "rpc_net_init (e_net E) ?p (None, w6) = (net, w7)" by fastforce
  have fin: "src_server src = server \<and> s = \<lparr>st_irq = irq, st_net = net, st_world = w7\<rparr>"
    using c a b g k i n
    by (auto simp: rcrpc_create_def Let_def new_source_def g_source_add_poll_def
        split: if_splits)
  have w6: "chans w6 = chans w"
  proof -
    have "chans w6 = chans ?w5"
      using i transport_okD(6) [OF ok] by (auto simp: rpc_irq_init_def Let_def split: prod.splits)
    also have "\<dots> = chans w"
      using transport_okD(1) [OF ok a] transport_okD(2) [OF ok b] transport_okD(3) [OF ok g]
        transport_okD(4) [OF ok k] transport_okD(5) [OF ok, of rc w4] by simp
    finally show ?thesis .
  qed
  have "net_owns chans (chans w) (net, w7)"
    using rpc_net_init_owns [OF ch, of w6 ?p] n z w6 by simp
  moreover have "irq_holds (e_irq E) ?p (status_known (e_irq E)) (irq, w7)"
    using i by (auto simp: rpc_irq_init_def irq_holds_def Let_def split: prod.splits)
  ultimately show ?thesis using fin p by (simp add: parts_inv_def)
qed

interpretation server: invariant
  "\<lambda>t. server_env E p server chans base \<and> server_start E p server chans base t"
  "server_step E p chans"
  "\<lambda>t. server_env E p server chans base \<and> server_inv E p server chans base t"
  for E :: "'w rpc_env" and p :: priv and server :: ptr and chans :: "'w \<Rightarrow> int set"
    and base :: "int set"
proof unfold_locales
  fix t
  assume asm: "server_env E p server chans base \<and> server_start E p server chans base t"
  then obtain config w src s where c: "src_server src = server" "chans w = base" "t = (Preparing, src, s)"
      "rcrpc_create E (priv_rc p) config \<lparr>st_irq = None, st_net = None, st_world = w\<rparr> = (0, Some src, s)"
    by (auto simp: server_start_def)
  have env: "server_env E p server chans base" using asm by simp
  have "p = \<lparr>priv_addr = rpc_server_priv E (src_server src), priv_rc = priv_rc p\<rparr>"
    using server_envD(5) [OF env] c(1) by (cases p) simp
  from rcrpc_create_parts [OF server_envD(2,1) [OF env] _ c(4) this]
  have "parts_inv E p chans base s" using server_envD(4) [OF env] c(2) by simp
  moreover have "loop_inv server t" using rcrpc_create_source [OF c(4)] c(1,3) by (simp add: loop_inv_def)
  ultimately show "server_env E p server chans base \<and> server_inv E p server chans base t"
    using env c(3) by (simp add: server_inv_def)
next
  show "server_env E p server chans base \<and> server_inv E p server chans base u"
    if "server_env E p server chans base \<and> server_inv E p server chans base t"
      "server_step E p chans t u" for t u
    using that server_inv_step by blast
qed

section \<open>A concrete server\<close>

text \<open>
  For the witnesses: the world of the network component with the servers that are allocated and
  the server whose events the event manager reports, a dispatcher that configures the network and
  answers \<open>e\<close>; block 40 is the server.
\<close>

record ex_site = ex_world +
  ex_servers :: "ptr list"
  ex_event_cb :: "ptr option"

definition ex_server_priv :: priv where
  "ex_server_priv = \<lparr>priv_addr = 41, priv_rc = 7\<rparr>"

definition ex_site_irq :: "ex_site irq_env" where
  "ex_site_irq = ex_irq\<lparr>event_manager_set_event_cb := (\<lambda>m b w. (0, w\<lparr>ex_event_cb := Some b\<rparr>))\<rparr>"

definition ex_server :: "int \<Rightarrow> ex_site rpc_env" where
  "ex_server e = \<lparr>e_irq = ex_site_irq, e_net = ex_net_env,
     g_log_returns = (\<lambda>v. v \<noteq> G_LOG_LEVEL_ERROR),
     rpc_server_create = (\<lambda>w. (0, 40, w\<lparr>ex_servers := 40 # ex_servers w\<rparr>)),
     rpc_server_listen = (\<lambda>b n w. (0, w)), rpc_server_priv = (\<lambda>b. b + 1),
     rpc_server_free = (\<lambda>b w. w\<lparr>ex_servers := removeAll b (ex_servers w)\<rparr>),
     rpc_server_get_listen_socket = (\<lambda>b w. 4), rpc_server_get_client_socket = (\<lambda>b w. 5),
     rpc_server_accept = (\<lambda>b w. (0, w)), rpc_server_get_peer = (\<lambda>b w. (- 1, 0, w)),
     rpc_server_recv = (\<lambda>b w. (20, 60, w)),
     rpc_dispatch = (\<lambda>b q s. case rpc_net_config ex_net_env ex_server_priv 7 40 0 ''peer''
         (st_net s, st_world s) of (r, net, w) \<Rightarrow> (e, s\<lparr>st_net := net, st_world := w\<rparr>)),
     rpc_packet_free = (\<lambda>q w. w), c_getnameinfo = (\<lambda>b n w. (- 2, [])), c_free = (\<lambda>b w. w),
     g_source_new = (\<lambda>w. (True, w)), g_source_attach = (\<lambda>b w. w),
     g_key_file_get_boolean = (\<lambda>c g k. None), c_setsockopt_keepalive = (\<lambda>f v w. (0, w))\<rparr>"

abbreviation ex_chan_set :: "ex_site \<Rightarrow> int set" where
  "ex_chan_set w \<equiv> int ` set (ex_chans w)"

lemma ex_server_simps [simp]:
  "e_irq (ex_server e) = ex_site_irq" "e_net (ex_server e) = ex_net_env"
  "rpc_server_priv (ex_server e) b = b + 1" "rpc_server_recv (ex_server e) b w = (20, 60, w)"
  "rpc_packet_free (ex_server e) q w = w"
  "rpc_server_free (ex_server e) b w = w\<lparr>ex_servers := removeAll b (ex_servers w)\<rparr>"
  "rpc_server_accept (ex_server e) b w = (0, w)"
  "rpc_server_get_client_socket (ex_server e) b w = 5"
  by (simp_all add: ex_server_def)

lemma ex_server_dispatch:
  "server_call (ex_server e) ex_server_priv ex_chan_set s (snd (rpc_dispatch (ex_server e) b q s))"
proof -
  obtain r net w where c: "rpc_net_config ex_net_env ex_server_priv 7 40 0 ''peer''
      (st_net s, st_world s) = (r, net, w)" by (metis prod_cases3)
  have "net_step ex_net_env ex_server_priv ex_chan_set (st_net s, st_world s) (net, w)"
    by (rule configures [OF c])
  then have "server_call (ex_server e) ex_server_priv ex_chan_set s (s\<lparr>st_net := net, st_world := w\<rparr>)"
    by (intro net_call) simp
  then show ?thesis using c by (simp add: ex_server_def)
qed

lemma ex_server_env: "server_env (ex_server e) ex_server_priv 40 ex_chan_set {}"
proof -
  have "transport_ok (ex_server e) ex_chan_set" 
    by (simp add: transport_ok_def ex_server_def ex_site_irq_def ex_irq_def)
  moreover have "dispatcher_ok (ex_server e) ex_server_priv ex_chan_set"
    using ex_server_dispatch by (auto simp: dispatcher_ok_def)
  ultimately show ?thesis using ex_channels_ok by (simp add: server_env_def ex_server_priv_def)
qed

definition ex_server_source :: rpc_source where
  "ex_server_source = new_source\<lparr>src_server := 40, src_polls := [Poll_Listen],
     poll_listen := \<lparr>pfd_fd = 4, pfd_events = {G_IO_IN, G_IO_HUP, G_IO_ERR}, pfd_revents = {}\<rparr>\<rparr>"

definition ex_site_world :: ex_site where
  "ex_site_world = \<lparr>ex_chans = [], ex_fds = [], ex_recvs = 0, ex_servers = [], ex_event_cb = None\<rparr>"

definition ex_server_state :: "ex_site sstate" where
  "ex_server_state = \<lparr>st_irq = Some \<lparr>irq_server = 41, irq_status = 0, irq_manager = 8\<rparr>,
     st_net = Some \<lparr>nd_net = 8, async_p2p = 0, sync_broadcast = 1, sync_timeout_msec = 0\<rparr>,
     
     st_world = ex_site_world\<lparr>ex_chans := [1], ex_servers := [40], ex_event_cb := Some 41\<rparr>\<rparr>"

lemma ex_server_start:
  "server_start (ex_server e) ex_server_priv 40 ex_chan_set {} (Preparing, ex_server_source, ex_server_state)"
proof -
  have "rcrpc_create (ex_server e) (priv_rc ex_server_priv) 0
      \<lparr>st_irq = None, st_net = None, st_world = ex_site_world\<rparr>
    = (0, Some ex_server_source, ex_server_state)"
    by (simp add: rcrpc_create_def ex_server_def ex_server_priv_def ex_server_source_def
        ex_server_state_def g_source_add_poll_def socket_enable_keepalive_def new_source_def Let_def
        rpc_irq_init_def rpc_net_init_def ex_irq_def ex_site_irq_def ex_net_env_def ex_site_world_def
        RCPTR_def)
  moreover have "src_server ex_server_source = 40" by (simp add: ex_server_source_def)
  moreover have "ex_chan_set ex_site_world = {}" by (simp add: ex_site_world_def)
  ultimately show ?thesis unfolding server_start_def by blast
qed

section \<open>Properties\<close>

text \<open>C3: from its creation on, through any turns of the main loop, requests, events and
  changes of the world, the server's interrupt status stays well formed and belongs to it,
  and its network component has open exactly the channels it remembers; destroying the source
  at any moment frees both components and leaves open exactly the channels there were before
  the server was created. The changes of the world are those that open and close no
  channel.\<close>

theorem server_lifecycle:
  assumes "server_env E p server chans base" "server_start E p server chans base t"
    and "(server_step E p chans)\<^sup>*\<^sup>* t (ph, src, s)"
  shows "if ph = Destroyed
    then st_irq s = None \<and> st_net s = None \<and> chans (st_world s) = base
    else (\<exists>d nd. st_irq s = Some d \<and> irq_wf (e_irq E) d
      \<and> irq_server d = rpc_server_from_priv (e_irq E) (priv_addr p)
      \<and> st_net s = Some nd \<and> chans (st_world s) = base \<union> refs nd
      \<and> (\<exists>s'. rpc_source_finalize E src s = s' \<and> st_irq s' = None \<and> st_net s' = None
           \<and> chans (st_world s') = base))"
proof -
  have inv: "server_inv E p server chans base (ph, src, s)"
    using server.inv_steps [OF assms(3)] server.inv_init assms(1,2) by blast
  show ?thesis
  proof (cases "ph = Destroyed")
    case True
    then show ?thesis using inv by (simp add: server_inv_def given_back_def)
  next
    case False
    then have "parts_inv E p chans base s" "src_server src = server"
      using inv by (simp_all add: server_inv_def loop_inv_def)
    then show ?thesis using False finalize_gives_back [OF assms(1), of s src]
      by (auto simp: parts_inv_def given_back_def irq_holds_def irq_wf_def net_owns_def)
  qed
qed

theorem server_lifecycle_witness:
  "\<exists>src s. (server_step (ex_server 0) ex_server_priv ex_chan_set)\<^sup>*\<^sup>*
       (Preparing, ex_server_source, ex_server_state) (Polling, src, s)
     \<and> ex_chan_set (st_world s) = {1, 2}
     \<and> ex_chan_set (st_world (rpc_source_finalize (ex_server 0) src s)) = {}"
proof -
  let ?E = "ex_server 0" and ?s = "snd (rpc_dispatch (ex_server 0) 40 60 ex_server_state)"
  have a: "server_step ?E ex_server_priv ex_chan_set (Preparing, ex_server_source, ex_server_state)
      (Preparing, ex_server_source, ?s)"
    by (rule happens [OF ex_server_dispatch]) simp
  have "rpc_source_prepare ?E ex_server_source ?s = Some (False, - 1, ex_server_source)"
    by (simp add: rpc_source_prepare_def ex_server_source_def new_source_def)
  then have b: "server_step ?E ex_server_priv ex_chan_set (Preparing, ex_server_source, ?s)
      (Polling, ex_server_source, ?s)" by (intro turns prepares)
  have ab: "(server_step ?E ex_server_priv ex_chan_set)\<^sup>*\<^sup>*
      (Preparing, ex_server_source, ex_server_state) (Polling, ex_server_source, ?s)"
    using a b by (meson converse_rtranclp_into_rtranclp r_into_rtranclp)
  have "ex_chan_set (st_world ?s) = {1, 2}"
    by (auto simp: ex_server_def rpc_net_config_def ex_server_state_def ex_server_priv_def
        ex_net_env_def ex_site_world_def RCPTR_def)
  then show ?thesis
    using server_lifecycle [OF ex_server_env ex_server_start ab] ab by auto
qed

text \<open>
  A part of the world that receiving and dispatching a request and closing a channel leave as it
  is: the callback registered at the event manager, which only registering one changes, and the
  set of allocated servers.
\<close>

definition session_keeps :: "'w rpc_env \<Rightarrow> ('w \<Rightarrow> 'b) \<Rightarrow> bool" where
  "session_keeps E f \<longleftrightarrow>
     (\<forall>b w. f (snd (snd (rpc_server_recv E b w))) = f w)
   \<and> (\<forall>b q s. f (st_world (snd (rpc_dispatch E b q s))) = f (st_world s))
   \<and> (\<forall>q w. f (rpc_packet_free E q w) = f w)
   \<and> (\<forall>n c w. f (net_udp_destroy_channel (e_net E) n c w) = f w)"

lemma dispatch_request_keeps:
  assumes "session_keeps E f" "dispatch_request E src s = (b, src', s')"
  shows "f (st_world s') = f (st_world s)"
  using assms
  by (auto simp: session_keeps_def dispatch_request_def remote_control_dispatch_def case_prod_beta
      Let_def split: if_splits)

lemma finalize_keeps:
  assumes "session_keeps E f" "src_server src \<noteq> NULL"
  shows "\<exists>w. st_world (rpc_source_finalize E src s) = rpc_server_free E (src_server src) w
     \<and> f w = f (st_world s)"
  using assms
  by (auto simp: session_keeps_def rpc_source_finalize_def rcrpc_free_def rpc_irq_cleanup_def
      rpc_net_cleanup_def Let_def split: option.splits)

text \<open>C12: one request ends the service for good. Where, in any session that the loop can reach,
  receiving fails with anything but a reset of the connection, or the dispatcher reports an error
  other than -ENOSYS, the source is destroyed, whatever else happens: the server is freed, all
  channels of the network component are closed and the interrupt data is freed; but the event
  manager keeps the callback that points to that data.\<close>

theorem bad_request_stops_server:
  assumes env: "server_env E p server chans base" and start: "server_start E p server chans base t"
    and steps: "(server_step E p chans)\<^sup>*\<^sup>* t (Dispatching, src, s)"
    and idle: "src_state src = REMOTE_CONTROL_IDLE"
    and recv: "rpc_server_recv E server (st_world s) = (err, q, w)"
    and disp: "rpc_dispatch E server q (s\<lparr>st_world := w\<rparr>) = (e, s1)"
    and bad: "err < 0 \<and> err \<noteq> - ECONNRESET \<or> 0 < err \<and> e < 0 \<and> e \<noteq> - ENOSYS"
    and reg: "session_keeps E reg" "\<forall>b w. reg (rpc_server_free E b w) = reg w"
    and srvs: "session_keeps E srvs" "server \<in> srvs (st_world s)"
      "\<forall>b w. b \<in> srvs w \<longrightarrow> srvs (rpc_server_free E b w) = srvs w - {b}"
  shows "\<exists>s'. (\<forall>u. callback_step E (Dispatching, src, s) u \<longleftrightarrow> u = (Destroyed, src, s'))
     \<and> st_irq s' = None \<and> st_net s' = None \<and> chans (st_world s') = base
     \<and> srvs (st_world s') = srvs (st_world s) - {server} \<and> reg (st_world s') = reg (st_world s)"
proof -
  have "server_inv E p server chans base (Dispatching, src, s)"
    using server.inv_steps [OF steps] server.inv_init env start by blast
  then have inv: "parts_inv E p chans base s" "src_server src = server"
    by (simp_all add: server_inv_def loop_inv_def)
  obtain s2 where d: "dispatch_request E src s = (False, src, s2)"
    using bad recv disp inv(2)
    by (auto simp: dispatch_request_def remote_control_dispatch_def Let_def)
  let ?s' = "rpc_source_finalize E src s2"
  have x: "rpc_source_dispatch E src s = Some (False, src, s2)"
    by (simp add: rpc_source_dispatch_def idle d)
  have "callback_step E (Dispatching, src, s) u \<longleftrightarrow> u = (Destroyed, src, ?s')" for u
    using x by (auto elim: dispatch_stepE intro: destroys)
  moreover have "given_back chans base ?s'"
    using finalize_gives_back [OF env dispatch_request_parts [OF env inv(1) d] inv(2)] .
  moreover have "reg (st_world ?s') = reg (st_world s)"
    using finalize_keeps [OF reg(1), of src s2] dispatch_request_keeps [OF reg(1) d] reg(2)
      server_envD(3) [OF env] inv(2) by auto
  moreover have "srvs (st_world ?s') = srvs (st_world s) - {server}"
    using finalize_keeps [OF srvs(1), of src s2] dispatch_request_keeps [OF srvs(1) d] srvs(2,3)
      server_envD(3) [OF env] inv(2) by auto
  ultimately show ?thesis unfolding given_back_def by blast
qed

text \<open>The client of the witness connects and sends one request, which is answered with -EINVAL.\<close>

lemma callbacks_server_steps:
  "(callback_step E)\<^sup>*\<^sup>* t u \<Longrightarrow> (server_step E p chans)\<^sup>*\<^sup>* t u"
  by (induction rule: rtranclp_induct) (auto intro: turns rtranclp.rtrancl_into_rtrancl)

lemma ex_server_session:
  "\<exists>src. (callback_step (ex_server e))\<^sup>*\<^sup>* (Preparing, ex_server_source, ex_server_state)
       (Dispatching, src, ex_server_state) \<and> src_state src = REMOTE_CONTROL_IDLE"
proof -
  let ?E = "ex_server e"
  have src: "src_state ex_server_source = REMOTE_CONTROL_UNCONNECTED"
      "src_polls ex_server_source = [Poll_Listen]"
    by (simp_all add: ex_server_source_def new_source_def)
  have acc: "0 \<le> fst (rpc_server_accept ?E b w)" "0 \<le> rpc_server_get_client_socket ?E b w" for b w
    by simp_all
  have same: "dispatch_accept ?E polled s = Some (True, d, s') \<Longrightarrow> s' = s" for polled s d s'
    by (auto simp: dispatch_accept_def ex_server_def)
  obtain src' where i: "(callback_step ?E)\<^sup>*\<^sup>* (Preparing, ex_server_source, ex_server_state)
      (Polling, src', ex_server_state)" "src_state src' = REMOTE_CONTROL_IDLE"
      "src_polls src' = [Poll_Client, Poll_Listen]"
    using session_starts [OF src acc] same by blast
  let ?p = "set_revents {} {G_IO_IN} src'"
  have "rpc_source_check ?p = (True, ?p)" using i(3) by (simp add: rpc_source_check_def set_revents_def)
  from checks [OF this, of ?E ex_server_state]
  have "callback_step ?E (Checking, ?p, ex_server_state) (Dispatching, ?p, ex_server_state)" by simp
  with i(1) polls have "(callback_step ?E)\<^sup>*\<^sup>* (Preparing, ex_server_source, ex_server_state)
      (Dispatching, ?p, ex_server_state)"
    by (meson rtranclp.rtrancl_into_rtrancl)
  then show ?thesis using i(2) by (intro exI [of _ ?p]) simp
qed

theorem bad_request_stops_server_witness:
  "\<exists>src s'. callback_step (ex_server (- EINVAL)) (Dispatching, src, ex_server_state) (Destroyed, src, s')
     \<and> ex_chan_set (st_world s') = {} \<and> set (ex_servers (st_world s')) = {}
     \<and> ex_event_cb (st_world s') = Some 41"
proof -
  let ?E = "ex_server (- EINVAL)" and ?srvs = "\<lambda>w :: ex_site. set (ex_servers w)"
  obtain src where s: "(callback_step ?E)\<^sup>*\<^sup>* (Preparing, ex_server_source, ex_server_state)
       (Dispatching, src, ex_server_state)" "src_state src = REMOTE_CONTROL_IDLE"
    using ex_server_session by blast
  have r: "rpc_server_recv ?E 40 (st_world ex_server_state) = (20, 60, st_world ex_server_state)"
    by simp
  obtain e s1 where d: "rpc_dispatch ?E 40 60 (ex_server_state\<lparr>st_world :=
      st_world ex_server_state\<rparr>) = (e, s1)" by fastforce
  then have "e = - EINVAL" by (auto simp: ex_server_def split: prod.splits)
  then have bad: "(20 :: int) < 0 \<and> (20 :: int) \<noteq> - ECONNRESET \<or> 0 < (20 :: int) \<and> e < 0 \<and> e \<noteq> - ENOSYS"
    by simp
  have keeps: "session_keeps ?E ex_event_cb" "session_keeps ?E ?srvs"
    by (auto simp: session_keeps_def ex_server_def rpc_net_config_def ex_net_env_def Let_def
        split: prod.splits option.splits)
  have free: "\<forall>b w. ex_event_cb (rpc_server_free ?E b w) = ex_event_cb w"
      "\<forall>b w. b \<in> ?srvs w \<longrightarrow> ?srvs (rpc_server_free ?E b w) = ?srvs w - {b}"
    by auto
  have srv: "40 \<in> ?srvs (st_world ex_server_state)" by (simp add: ex_server_state_def)
  from bad_request_stops_server [OF ex_server_env ex_server_start callbacks_server_steps [OF s(1)] s(2)
      r d bad keeps(1) free(1) keeps(2) srv free(2)]
  obtain s' where e: "callback_step ?E (Dispatching, src, ex_server_state) (Destroyed, src, s')"
      "ex_chan_set (st_world s') = {}" "?srvs (st_world s') = ?srvs (st_world ex_server_state) - {40}"
      "ex_event_cb (st_world s') = ex_event_cb (st_world ex_server_state)"
    by blast
  have "?srvs (st_world s') = {}" "ex_event_cb (st_world s') = Some 41"
    using e(3,4) by (simp_all add: ex_server_state_def)
  then show ?thesis using e(1,2) by blast
qed

end
