(* ===== verification/Enums.thy ===== *)
theory Enums
  imports Prelude
begin

text \<open>
  The enumerations that cross the connection, twice each: as the client's header declares
  them (\<^verbatim>\<open>src/src/rcrpc-client/rcrpc-client.h\<close>, prefix \<^verbatim>\<open>REMOTE_\<close>) and as
  the protocol does (\<^verbatim>\<open>src/src/protocol.xml\<close>, prefix \<^verbatim>\<open>RPC_\<close>). The client
  assigns one to the other, which in C keeps the number; the theory says when that keeps the
  enumerator. A number without an enumerator is the constructor \<open>OTHER\<close>.
\<close>

definition enum_of :: "('a \<Rightarrow> int) \<Rightarrow> 'a list \<Rightarrow> (int \<Rightarrow> 'a) \<Rightarrow> int \<Rightarrow> 'a" where
  "enum_of val all other i = (case find (\<lambda>e. val e = i) all of Some e \<Rightarrow> e | None \<Rightarrow> other i)"

section \<open>Audio state\<close>

datatype rpc_audio_state =
    RPC_AUDIO_STATE_UNKNOWN
  | RPC_AUDIO_STATE_INACTIVE
  | RPC_AUDIO_STATE_HIFI_PLAYBACK_SPEAKER
  | RPC_AUDIO_STATE_HIFI_PLAYBACK_HEADSET
  | RPC_AUDIO_STATE_VOICECALL_HANDSET
  | RPC_AUDIO_STATE_VOICECALL_HEADSET
  | RPC_AUDIO_STATE_VOICECALL_SPEAKER
  | RPC_AUDIO_STATE_VOICECALL_IP_HANDSET
  | RPC_AUDIO_STATE_VOICECALL_IP_HEADSET
  | RPC_AUDIO_STATE_VOICECALL_IP_SPEAKER
  | RPC_AUDIO_STATE_LINEIN_SPEAKER
  | RPC_AUDIO_STATE_LINEIN_HEADSET
  | RPC_AUDIO_STATE_MAX
  | RPC_AUDIO_STATE_OTHER int

fun rpc_audio_state_value :: "rpc_audio_state \<Rightarrow> int" where
  "rpc_audio_state_value RPC_AUDIO_STATE_UNKNOWN = - 1"
| "rpc_audio_state_value RPC_AUDIO_STATE_INACTIVE = 0"
| "rpc_audio_state_value RPC_AUDIO_STATE_HIFI_PLAYBACK_SPEAKER = 10"
| "rpc_audio_state_value RPC_AUDIO_STATE_HIFI_PLAYBACK_HEADSET = 11"
| "rpc_audio_state_value RPC_AUDIO_STATE_VOICECALL_HANDSET = 20"
| "rpc_audio_state_value RPC_AUDIO_STATE_VOICECALL_HEADSET = 21"
| "rpc_audio_state_value RPC_AUDIO_STATE_VOICECALL_SPEAKER = 22"
| "rpc_audio_state_value RPC_AUDIO_STATE_VOICECALL_IP_HANDSET = 30"
| "rpc_audio_state_value RPC_AUDIO_STATE_VOICECALL_IP_HEADSET = 31"
| "rpc_audio_state_value RPC_AUDIO_STATE_VOICECALL_IP_SPEAKER = 32"
| "rpc_audio_state_value RPC_AUDIO_STATE_LINEIN_SPEAKER = 40"
| "rpc_audio_state_value RPC_AUDIO_STATE_LINEIN_HEADSET = 41"
| "rpc_audio_state_value RPC_AUDIO_STATE_MAX = 42"
| "rpc_audio_state_value (RPC_AUDIO_STATE_OTHER i) = i"

definition rpc_audio_states :: "rpc_audio_state list" where
  "rpc_audio_states = [RPC_AUDIO_STATE_UNKNOWN, RPC_AUDIO_STATE_INACTIVE,
     RPC_AUDIO_STATE_HIFI_PLAYBACK_SPEAKER, RPC_AUDIO_STATE_HIFI_PLAYBACK_HEADSET,
     RPC_AUDIO_STATE_VOICECALL_HANDSET, RPC_AUDIO_STATE_VOICECALL_HEADSET,
     RPC_AUDIO_STATE_VOICECALL_SPEAKER, RPC_AUDIO_STATE_VOICECALL_IP_HANDSET,
     RPC_AUDIO_STATE_VOICECALL_IP_HEADSET, RPC_AUDIO_STATE_VOICECALL_IP_SPEAKER,
     RPC_AUDIO_STATE_LINEIN_SPEAKER, RPC_AUDIO_STATE_LINEIN_HEADSET, RPC_AUDIO_STATE_MAX]"

definition rpc_audio_state_of :: "int \<Rightarrow> rpc_audio_state" where
  "rpc_audio_state_of = enum_of rpc_audio_state_value rpc_audio_states RPC_AUDIO_STATE_OTHER"

datatype remote_audio_state =
    REMOTE_AUDIO_STATE_UNKNOWN
  | REMOTE_AUDIO_STATE_INACTIVE
  | REMOTE_AUDIO_STATE_HIFI_PLAYBACK_SPEAKER
  | REMOTE_AUDIO_STATE_HIFI_PLAYBACK_HEADSET
  | REMOTE_AUDIO_STATE_VOICECALL_HANDSET
  | REMOTE_AUDIO_STATE_VOICECALL_HEADSET
  | REMOTE_AUDIO_STATE_VOICECALL_SPEAKER
  | REMOTE_AUDIO_STATE_VOICECALL_IP_HANDSET
  | REMOTE_AUDIO_STATE_VOICECALL_IP_HEADSET
  | REMOTE_AUDIO_STATE_VOICECALL_IP_SPEAKER
  | REMOTE_AUDIO_STATE_LINEIN_SPEAKER
  | REMOTE_AUDIO_STATE_LINEIN_HEADSET
  | REMOTE_AUDIO_STATE_MAX
  | REMOTE_AUDIO_STATE_OTHER int

fun remote_audio_state_value :: "remote_audio_state \<Rightarrow> int" where
  "remote_audio_state_value REMOTE_AUDIO_STATE_UNKNOWN = - 1"
| "remote_audio_state_value REMOTE_AUDIO_STATE_INACTIVE = 0"
| "remote_audio_state_value REMOTE_AUDIO_STATE_HIFI_PLAYBACK_SPEAKER = 10"
| "remote_audio_state_value REMOTE_AUDIO_STATE_HIFI_PLAYBACK_HEADSET = 11"
| "remote_audio_state_value REMOTE_AUDIO_STATE_VOICECALL_HANDSET = 20"
| "remote_audio_state_value REMOTE_AUDIO_STATE_VOICECALL_HEADSET = 21"
| "remote_audio_state_value REMOTE_AUDIO_STATE_VOICECALL_SPEAKER = 22"
| "remote_audio_state_value REMOTE_AUDIO_STATE_VOICECALL_IP_HANDSET = 30"
| "remote_audio_state_value REMOTE_AUDIO_STATE_VOICECALL_IP_HEADSET = 31"
| "remote_audio_state_value REMOTE_AUDIO_STATE_VOICECALL_IP_SPEAKER = 32"
| "remote_audio_state_value REMOTE_AUDIO_STATE_LINEIN_SPEAKER = 40"
| "remote_audio_state_value REMOTE_AUDIO_STATE_LINEIN_HEADSET = 41"
| "remote_audio_state_value REMOTE_AUDIO_STATE_MAX = 42"
| "remote_audio_state_value (REMOTE_AUDIO_STATE_OTHER i) = i"

definition remote_audio_states :: "remote_audio_state list" where
  "remote_audio_states = [REMOTE_AUDIO_STATE_UNKNOWN, REMOTE_AUDIO_STATE_INACTIVE,
     REMOTE_AUDIO_STATE_HIFI_PLAYBACK_SPEAKER, REMOTE_AUDIO_STATE_HIFI_PLAYBACK_HEADSET,
     REMOTE_AUDIO_STATE_VOICECALL_HANDSET, REMOTE_AUDIO_STATE_VOICECALL_HEADSET,
     REMOTE_AUDIO_STATE_VOICECALL_SPEAKER, REMOTE_AUDIO_STATE_VOICECALL_IP_HANDSET,
     REMOTE_AUDIO_STATE_VOICECALL_IP_HEADSET, REMOTE_AUDIO_STATE_VOICECALL_IP_SPEAKER,
     REMOTE_AUDIO_STATE_LINEIN_SPEAKER, REMOTE_AUDIO_STATE_LINEIN_HEADSET,
     REMOTE_AUDIO_STATE_MAX]"

definition remote_audio_state_of :: "int \<Rightarrow> remote_audio_state" where
  "remote_audio_state_of =
     enum_of remote_audio_state_value remote_audio_states REMOTE_AUDIO_STATE_OTHER"

section \<open>Mixer control and input source\<close>

text \<open>The handlers hand the number of a control on without looking at it.\<close>

datatype rpc_mixer_control = RPC_MIXER_CONTROL int

datatype remote_mixer_control =
    REMOTE_MIXER_CONTROL_UNKNOWN
  | REMOTE_MIXER_CONTROL_PLAYBACK_MASTER
  | REMOTE_MIXER_CONTROL_PLAYBACK_PCM
  | REMOTE_MIXER_CONTROL_PLAYBACK_HEADSET
  | REMOTE_MIXER_CONTROL_PLAYBACK_SPEAKER
  | REMOTE_MIXER_CONTROL_PLAYBACK_HANDSET
  | REMOTE_MIXER_CONTROL_CAPTURE_MASTER
  | REMOTE_MIXER_CONTROL_CAPTURE_HEADSET
  | REMOTE_MIXER_CONTROL_CAPTURE_HANDSET
  | REMOTE_MIXER_CONTROL_CAPTURE_LINE
  | REMOTE_MIXER_CONTROL_MAX

fun remote_mixer_control_value :: "remote_mixer_control \<Rightarrow> int" where
  "remote_mixer_control_value REMOTE_MIXER_CONTROL_UNKNOWN = 0"
| "remote_mixer_control_value REMOTE_MIXER_CONTROL_PLAYBACK_MASTER = 1"
| "remote_mixer_control_value REMOTE_MIXER_CONTROL_PLAYBACK_PCM = 2"
| "remote_mixer_control_value REMOTE_MIXER_CONTROL_PLAYBACK_HEADSET = 3"
| "remote_mixer_control_value REMOTE_MIXER_CONTROL_PLAYBACK_SPEAKER = 4"
| "remote_mixer_control_value REMOTE_MIXER_CONTROL_PLAYBACK_HANDSET = 5"
| "remote_mixer_control_value REMOTE_MIXER_CONTROL_CAPTURE_MASTER = 6"
| "remote_mixer_control_value REMOTE_MIXER_CONTROL_CAPTURE_HEADSET = 7"
| "remote_mixer_control_value REMOTE_MIXER_CONTROL_CAPTURE_HANDSET = 8"
| "remote_mixer_control_value REMOTE_MIXER_CONTROL_CAPTURE_LINE = 9"
| "remote_mixer_control_value REMOTE_MIXER_CONTROL_MAX = 10"

datatype rpc_mixer_input_source =
    RPC_MIXER_INPUT_SOURCE_UNKNOWN
  | RPC_MIXER_INPUT_SOURCE_HEADSET
  | RPC_MIXER_INPUT_SOURCE_HANDSET
  | RPC_MIXER_INPUT_SOURCE_LINE
  | RPC_MIXER_INPUT_SOURCE_OTHER int

fun rpc_mixer_input_source_value :: "rpc_mixer_input_source \<Rightarrow> int" where
  "rpc_mixer_input_source_value RPC_MIXER_INPUT_SOURCE_UNKNOWN = 0"
| "rpc_mixer_input_source_value RPC_MIXER_INPUT_SOURCE_HEADSET = 1"
| "rpc_mixer_input_source_value RPC_MIXER_INPUT_SOURCE_HANDSET = 2"
| "rpc_mixer_input_source_value RPC_MIXER_INPUT_SOURCE_LINE = 3"
| "rpc_mixer_input_source_value (RPC_MIXER_INPUT_SOURCE_OTHER i) = i"

definition rpc_mixer_input_source_of :: "int \<Rightarrow> rpc_mixer_input_source" where
  "rpc_mixer_input_source_of = enum_of rpc_mixer_input_source_value
     [RPC_MIXER_INPUT_SOURCE_UNKNOWN, RPC_MIXER_INPUT_SOURCE_HEADSET,
      RPC_MIXER_INPUT_SOURCE_HANDSET, RPC_MIXER_INPUT_SOURCE_LINE] RPC_MIXER_INPUT_SOURCE_OTHER"

datatype remote_mixer_input_source =
    REMOTE_MIXER_INPUT_SOURCE_UNKNOWN
  | REMOTE_MIXER_INPUT_SOURCE_HEADSET
  | REMOTE_MIXER_INPUT_SOURCE_HANDSET
  | REMOTE_MIXER_INPUT_SOURCE_LINE
  | REMOTE_MIXER_INPUT_SOURCE_OTHER int

fun remote_mixer_input_source_value :: "remote_mixer_input_source \<Rightarrow> int" where
  "remote_mixer_input_source_value REMOTE_MIXER_INPUT_SOURCE_UNKNOWN = 0"
| "remote_mixer_input_source_value REMOTE_MIXER_INPUT_SOURCE_HEADSET = 1"
| "remote_mixer_input_source_value REMOTE_MIXER_INPUT_SOURCE_HANDSET = 2"
| "remote_mixer_input_source_value REMOTE_MIXER_INPUT_SOURCE_LINE = 3"
| "remote_mixer_input_source_value (REMOTE_MIXER_INPUT_SOURCE_OTHER i) = i"

definition remote_mixer_input_source_of :: "int \<Rightarrow> remote_mixer_input_source" where
  "remote_mixer_input_source_of = enum_of remote_mixer_input_source_value
     [REMOTE_MIXER_INPUT_SOURCE_UNKNOWN, REMOTE_MIXER_INPUT_SOURCE_HEADSET,
      REMOTE_MIXER_INPUT_SOURCE_HANDSET, REMOTE_MIXER_INPUT_SOURCE_LINE]
     REMOTE_MIXER_INPUT_SOURCE_OTHER"

section \<open>Card type, icons, interrupt sources\<close>

text \<open>
  The protocol writes the number of its first card type with an attribute in capital
  letters, so the number the generator gives it is a parameter.
\<close>

datatype rpc_card_type =
    RPC_CARD_TYPE_NONE
  | RPC_CARD_TYPE_UNKNOWN
  | RPC_CARD_TYPE_SERIAL
  | RPC_CARD_TYPE_T0
  | RPC_CARD_TYPE_T1
  | RPC_CARD_TYPE_I2C
  | RPC_CARD_TYPE_SLE4418
  | RPC_CARD_TYPE_SLE4428
  | RPC_CARD_TYPE_SLE4432
  | RPC_CARD_TYPE_SLE4442

fun rpc_card_type_value :: "int \<Rightarrow> rpc_card_type \<Rightarrow> int" where
  "rpc_card_type_value b RPC_CARD_TYPE_NONE = b"
| "rpc_card_type_value b RPC_CARD_TYPE_UNKNOWN = b + 1"
| "rpc_card_type_value b RPC_CARD_TYPE_SERIAL = b + 2"
| "rpc_card_type_value b RPC_CARD_TYPE_T0 = b + 3"
| "rpc_card_type_value b RPC_CARD_TYPE_T1 = b + 4"
| "rpc_card_type_value b RPC_CARD_TYPE_I2C = b + 5"
| "rpc_card_type_value b RPC_CARD_TYPE_SLE4418 = b + 6"
| "rpc_card_type_value b RPC_CARD_TYPE_SLE4428 = b + 7"
| "rpc_card_type_value b RPC_CARD_TYPE_SLE4432 = b + 8"
| "rpc_card_type_value b RPC_CARD_TYPE_SLE4442 = b + 9"

datatype remote_card_type =
    REMOTE_CARD_TYPE_UNKNOWN
  | REMOTE_CARD_TYPE_I2C
  | REMOTE_CARD_TYPE_MAX
  | REMOTE_CARD_TYPE_OTHER int

fun remote_card_type_value :: "remote_card_type \<Rightarrow> int" where
  "remote_card_type_value REMOTE_CARD_TYPE_UNKNOWN = 0"
| "remote_card_type_value REMOTE_CARD_TYPE_I2C = 1"
| "remote_card_type_value REMOTE_CARD_TYPE_MAX = 2"
| "remote_card_type_value (REMOTE_CARD_TYPE_OTHER i) = i"

definition remote_card_type_of :: "int \<Rightarrow> remote_card_type" where
  "remote_card_type_of = enum_of remote_card_type_value
     [REMOTE_CARD_TYPE_UNKNOWN, REMOTE_CARD_TYPE_I2C, REMOTE_CARD_TYPE_MAX]
     REMOTE_CARD_TYPE_OTHER"

datatype remote_handset_icon =
    REMOTE_HANDSET_ICON_PHONE
  | REMOTE_HANDSET_ICON_RADIO
  | REMOTE_HANDSET_ICON_TV
  | REMOTE_HANDSET_ICON_LOGO

fun remote_handset_icon_value :: "remote_handset_icon \<Rightarrow> int" where
  "remote_handset_icon_value REMOTE_HANDSET_ICON_PHONE = 0"
| "remote_handset_icon_value REMOTE_HANDSET_ICON_RADIO = 1"
| "remote_handset_icon_value REMOTE_HANDSET_ICON_TV = 2"
| "remote_handset_icon_value REMOTE_HANDSET_ICON_LOGO = 3"

datatype remote_irq_source =
    REMOTE_IRQ_SOURCE_UNKNOWN
  | REMOTE_IRQ_SOURCE_HOOK
  | REMOTE_IRQ_SOURCE_SMARTCARD
  | REMOTE_IRQ_SOURCE_VOIP
  | REMOTE_IRQ_SOURCE_IO
  | REMOTE_IRQ_SOURCE_MODEM
  | REMOTE_IRQ_SOURCE_HANDSET
  | REMOTE_IRQ_SOURCE_MAX

fun remote_irq_source_value :: "remote_irq_source \<Rightarrow> nat" where
  "remote_irq_source_value REMOTE_IRQ_SOURCE_UNKNOWN = 0"
| "remote_irq_source_value REMOTE_IRQ_SOURCE_HOOK = 1"
| "remote_irq_source_value REMOTE_IRQ_SOURCE_SMARTCARD = 2"
| "remote_irq_source_value REMOTE_IRQ_SOURCE_VOIP = 3"
| "remote_irq_source_value REMOTE_IRQ_SOURCE_IO = 4"
| "remote_irq_source_value REMOTE_IRQ_SOURCE_MODEM = 5"
| "remote_irq_source_value REMOTE_IRQ_SOURCE_HANDSET = 6"
| "remote_irq_source_value REMOTE_IRQ_SOURCE_MAX = 7"

text \<open>Interrupt sources are ordered by their numbers.\<close>

lemma remote_irq_source_value_inj: "remote_irq_source_value s = remote_irq_source_value t \<Longrightarrow> s = t"
  by (cases s; cases t) simp_all

instantiation remote_irq_source :: linorder
begin

definition less_eq_remote_irq_source :: "remote_irq_source \<Rightarrow> remote_irq_source \<Rightarrow> bool" where
  "less_eq_remote_irq_source s t \<longleftrightarrow> remote_irq_source_value s \<le> remote_irq_source_value t"

definition less_remote_irq_source :: "remote_irq_source \<Rightarrow> remote_irq_source \<Rightarrow> bool" where
  "less_remote_irq_source s t \<longleftrightarrow> remote_irq_source_value s < remote_irq_source_value t"

instance
  by standard (auto simp: less_eq_remote_irq_source_def less_remote_irq_source_def
      dest: remote_irq_source_value_inj)

end

section \<open>Numbers and enumerators\<close>

text \<open>An enumeration whose enumerators have different numbers can be read back.\<close>

locale enumeration =
  fixes val :: "'a \<Rightarrow> int"
    and all :: "'a list"
    and other :: "int \<Rightarrow> 'a"
  assumes distinct_values: "distinct (map val all)"
    and other_value: "val (other i) = i"
begin

lemma of_value: "e \<in> set all \<Longrightarrow> enum_of val all other (val e) = e"
proof -
  assume e: "e \<in> set all"
  then obtain e' where f: "find (\<lambda>e'. val e' = val e) all = Some e'"
    by (cases "find (\<lambda>e'. val e' = val e) all") (auto simp: find_None_iff)
  then have "e' \<in> set all" "val e' = val e" by (auto simp: find_Some_iff)
  then have "e' = e" using e distinct_values by (auto simp: distinct_map inj_on_def)
  then show ?thesis by (simp add: enum_of_def f)
qed

lemma of_other: "i \<notin> val ` set all \<Longrightarrow> enum_of val all other i = other i"
  by (auto simp: enum_of_def find_None_iff split: option.split dest: find_Some_iff [THEN iffD1])

lemma value_of: "val (enum_of val all other i) = i"
  by (auto simp: enum_of_def other_value split: option.split dest: find_Some_iff [THEN iffD1])

end

interpretation rpc_audio: enumeration rpc_audio_state_value rpc_audio_states RPC_AUDIO_STATE_OTHER
  by unfold_locales (simp_all add: rpc_audio_states_def)

interpretation remote_audio:
  enumeration remote_audio_state_value remote_audio_states REMOTE_AUDIO_STATE_OTHER
  by unfold_locales (simp_all add: remote_audio_states_def)

interpretation rpc_input: enumeration rpc_mixer_input_source_value
  "[RPC_MIXER_INPUT_SOURCE_UNKNOWN, RPC_MIXER_INPUT_SOURCE_HEADSET,
    RPC_MIXER_INPUT_SOURCE_HANDSET, RPC_MIXER_INPUT_SOURCE_LINE]" RPC_MIXER_INPUT_SOURCE_OTHER
  by unfold_locales simp_all

interpretation remote_input: enumeration remote_mixer_input_source_value
  "[REMOTE_MIXER_INPUT_SOURCE_UNKNOWN, REMOTE_MIXER_INPUT_SOURCE_HEADSET,
    REMOTE_MIXER_INPUT_SOURCE_HANDSET, REMOTE_MIXER_INPUT_SOURCE_LINE]"
  REMOTE_MIXER_INPUT_SOURCE_OTHER
  by unfold_locales simp_all

interpretation remote_card: enumeration remote_card_type_value
  "[REMOTE_CARD_TYPE_UNKNOWN, REMOTE_CARD_TYPE_I2C, REMOTE_CARD_TYPE_MAX]"
  REMOTE_CARD_TYPE_OTHER
  by unfold_locales simp_all

lemmas enum_reads = rpc_audio.value_of remote_audio.value_of rpc_input.value_of
  remote_input.value_of remote_card.value_of

lemma enum_of_values [simp]:
  "rpc_audio_state_value (rpc_audio_state_of i) = i"
  "remote_audio_state_value (remote_audio_state_of i) = i"
  "rpc_mixer_input_source_value (rpc_mixer_input_source_of i) = i"
  "remote_mixer_input_source_value (remote_mixer_input_source_of i) = i"
  "remote_card_type_value (remote_card_type_of i) = i"
  by (simp_all add: rpc_audio_state_of_def remote_audio_state_of_def enum_reads
      rpc_mixer_input_source_of_def remote_mixer_input_source_of_def remote_card_type_of_def)

end
