(* ===== verification/C_Lib.thy ===== *)
theory C_Lib
  imports Prelude
begin

text \<open>
  The part of the C library that the command line client computes with: the character
  classes of the C locale, comparison without case, the number scanners
  \<^verbatim>\<open>strtoul\<close>, \<^verbatim>\<open>atol\<close> and \<^verbatim>\<open>sscanf\<close>, the number conversions of
  \<^verbatim>\<open>printf\<close>, and pointers to strings, which may be null.
\<close>

section \<open>Characters\<close>

abbreviation code :: "char \<Rightarrow> nat" where
  "code c \<equiv> of_char c"

definition isspace :: "char \<Rightarrow> bool" where
  "isspace c \<longleftrightarrow> code c = 32 \<or> (9 \<le> code c \<and> code c \<le> 13)"

definition isprint :: "char \<Rightarrow> bool" where
  "isprint c \<longleftrightarrow> 32 \<le> code c \<and> code c \<le> 126"

definition tolower :: "char \<Rightarrow> char" where
  "tolower c = (if 65 \<le> code c \<and> code c \<le> 90 then char_of (code c + 32) else c)"

text \<open>\<^verbatim>\<open>strcasecmp (s, t) == 0\<close>\<close>

definition strcaseeq :: "string \<Rightarrow> string \<Rightarrow> bool" where
  "strcaseeq s t \<longleftrightarrow> map tolower s = map tolower t"

lemma not_isspace_NUL [simp]: "\<not> isspace NUL"
  by (simp add: isspace_def NUL_def)

lemma not_isspace_quote [simp]: "\<not> isspace CHR 0x22" "\<not> isspace CHR 0x27"
  by (simp_all add: isspace_def)

lemma strcaseeq_refl [simp]: "strcaseeq s s"
  by (simp add: strcaseeq_def)

lemma strcaseeq_sym: "strcaseeq s t \<Longrightarrow> strcaseeq t s"
  by (simp add: strcaseeq_def)

lemma strcaseeq_trans: "strcaseeq s t \<Longrightarrow> strcaseeq t u \<Longrightarrow> strcaseeq s u"
  by (simp add: strcaseeq_def)

section \<open>Scanning numbers\<close>

definition digit_value :: "char \<Rightarrow> nat option" where
  "digit_value c =
     (if 48 \<le> code c \<and> code c \<le> 57 then Some (code c - 48)
      else if 97 \<le> code c \<and> code c \<le> 122 then Some (code c - 87)
      else if 65 \<le> code c \<and> code c \<le> 90 then Some (code c - 55)
      else None)"

definition is_digit :: "nat \<Rightarrow> char \<Rightarrow> bool" where
  "is_digit b c \<longleftrightarrow> (case digit_value c of Some d \<Rightarrow> d < b | None \<Rightarrow> False)"

definition digits_value :: "nat \<Rightarrow> string \<Rightarrow> int" where
  "digits_value b ds =
     foldl (\<lambda>n c. n * int b + (case digit_value c of Some d \<Rightarrow> int d | None \<Rightarrow> 0)) 0 ds"

text \<open>An optional sign, and the base with the prefix that announces it taken off.\<close>

definition scan_sign :: "string \<Rightarrow> bool \<times> string" where
  "scan_sign s = (case s of
       c # r \<Rightarrow> (if c = CHR ''-'' then (True, r) else if c = CHR ''+'' then (False, r) else (False, s))
     | [] \<Rightarrow> (False, s))"

definition scan_base :: "nat \<Rightarrow> string \<Rightarrow> nat \<times> string" where
  "scan_base b s = (case s of
       c # r \<Rightarrow>
         (if c = CHR ''0'' \<and> b \<in> {0, 16} \<and> r \<noteq> [] \<and> hd r \<in> {CHR ''x'', CHR ''X''}
             \<and> tl r \<noteq> [] \<and> is_digit 16 (hd (tl r))
          then (16, tl r)
          else if b = 0 then (if c = CHR ''0'' then 8 else 10, s)
          else (b, s))
     | [] \<Rightarrow> (b, s))"

text \<open>The sign and the magnitude, or \<open>None\<close> where no digit is converted.\<close>

definition scan_number :: "nat \<Rightarrow> string \<Rightarrow> (bool \<times> int) option" where
  "scan_number b s =
     (let (neg, s) = scan_sign (dropWhile isspace s);
          (b, s) = scan_base b s;
          ds = takeWhile (is_digit b) s
      in if ds = [] then None else Some (neg, digits_value b ds))"

text \<open>
  \<^verbatim>\<open>strtoul\<close>: \<open>None\<close> where the end pointer stays at the start; out of range is
  \<^verbatim>\<open>ULONG_MAX\<close>, a minus sign negates in the unsigned type.
\<close>

definition strtoul :: "nat \<Rightarrow> string \<Rightarrow> u64 option" where
  "strtoul b s = map_option (\<lambda>(neg, v).
     if v < 18446744073709551616 then of_int (if neg then - v else v) else - 1) (scan_number b s)"

definition long_of :: "bool \<times> int \<Rightarrow> int" where
  "long_of = (\<lambda>(neg, v).
     if neg then max (- 9223372036854775808) (- v) else min 9223372036854775807 v)"

definition atol :: "string \<Rightarrow> int" where
  "atol s = (case scan_number 10 s of Some n \<Rightarrow> long_of n | None \<Rightarrow> 0)"

text \<open>Conversion to a 32-bit \<open>int\<close>.\<close>

definition to_int32 :: "int \<Rightarrow> int" where
  "to_int32 x = signed_take_bit 31 x"

definition int_of_ulong :: "u64 \<Rightarrow> int" where
  "int_of_ulong x = sint (ucast x :: u32)"

text \<open>\<^verbatim>\<open>sscanf (s, "%d", \<dots>)\<close>: the converted value where one conversion succeeds.\<close>

definition sscanf_d :: "string \<Rightarrow> int option" where
  "sscanf_d s = map_option (to_int32 \<circ> long_of) (scan_number 10 s)"

lemma sscanf_d_None: "s \<noteq> [] \<Longrightarrow> \<not> isspace (hd s) \<Longrightarrow> hd s \<noteq> CHR ''-'' \<Longrightarrow> hd s \<noteq> CHR ''+'' \<Longrightarrow>
    \<not> is_digit 10 (hd s) \<Longrightarrow> sscanf_d s = None"
  by (cases s) (auto simp: sscanf_d_def scan_number_def scan_sign_def scan_base_def Let_def)

section \<open>Printing numbers\<close>

fun show_base :: "nat \<Rightarrow> nat \<Rightarrow> string" where
  "show_base b n =
     (if n < b \<or> b \<le> 1 then [hex_digits ! n]
      else show_base b (n div b) @ [hex_digits ! (n mod b)])"

declare show_base.simps [simp del]

definition show_nat :: "nat \<Rightarrow> string" where
  "show_nat n = show_base 10 n"

definition show_int :: "int \<Rightarrow> string" where
  "show_int i = (if i < 0 then CHR ''-'' # show_nat (nat (- i)) else show_nat (nat i))"

text \<open>A minimal number of digits, and a minimal field width to the left.\<close>

definition zero_pad :: "nat \<Rightarrow> string \<Rightarrow> string" where
  "zero_pad n s = replicate (n - length s) CHR ''0'' @ s"

definition left_pad :: "nat \<Rightarrow> string \<Rightarrow> string" where
  "left_pad n s = s @ replicate (n - length s) CHR '' ''"

definition show_hex8 :: "nat \<Rightarrow> string" where
  "show_hex8 n = zero_pad 8 (show_base 16 n)"

section \<open>Pointers to strings\<close>

definition deref :: "'a option \<Rightarrow> c_ub + 'a" where
  "deref p = (case p of Some s \<Rightarrow> Inr s | None \<Rightarrow> Inl NullDeref)"

definition bind_ub :: "c_ub + 'a \<Rightarrow> ('a \<Rightarrow> c_ub + 'b) \<Rightarrow> c_ub + 'b" where
  "bind_ub r f = (case r of Inl u \<Rightarrow> Inl u | Inr x \<Rightarrow> f x)"

lemma bind_ub_simps [simp]: "bind_ub (Inl u) f = Inl u" "bind_ub (Inr x) f = f x"
  by (simp_all add: bind_ub_def)

lemma deref_simps [simp]: "deref (Some s) = Inr s" "deref None = Inl NullDeref"
  by (simp_all add: deref_def)

end
