(* ===== verification/Remote_Client.thy ===== *)
theory Remote_Client
  imports Irq Enums C_Lib
begin

text \<open>
  The core of the client library: connecting and disconnecting, and the thread that polls for
  events (\<^verbatim>\<open>src/src/rcrpc-client/rcrpc-client.c\<close>), the event functions that are not
  implemented (\<^verbatim>\<open>events.c\<close>), and the interrupt functions (\<^verbatim>\<open>irq.c\<close>), which are
  connected to the server's interrupt component here. Shown: what every failure of the
  set-up leaves behind, when the thread stops, and that the client reads the pending
  sources from the mask.
\<close>

section \<open>Set-up and clean-up\<close>

text \<open>
  librpc and the thread library. The state of a client, its \<^verbatim>\<open>done\<close> flag, is part of the
  world: the main thread and the polling thread share it. Running the thread is not an
  effect of creating it here: the two interleave through the world.
\<close>

record 'w client_env =
  rpc_client_create :: "'w \<Rightarrow> int \<times> ptr \<times> 'w"
  rpc_client_connect :: "ptr \<Rightarrow> string \<Rightarrow> string \<Rightarrow> 'w \<Rightarrow> int \<times> 'w"
  rpc_client_set_event_handler :: "ptr \<Rightarrow> 'w \<Rightarrow> int \<times> 'w"
  rpc_client_priv :: "ptr \<Rightarrow> ptr"
  rpc_client_from_priv :: "ptr \<Rightarrow> ptr"
  rpc_client_free :: "ptr \<Rightarrow> 'w \<Rightarrow> 'w"
  rpc_client_poll :: "ptr \<Rightarrow> nat \<Rightarrow> 'w \<Rightarrow> int \<times> 'w"
  rpc_client_process_events :: "ptr \<Rightarrow> 'w \<Rightarrow> int \<times> 'w"
  c_pthread_create :: "ptr \<Rightarrow> 'w \<Rightarrow> int \<times> 'w"
  c_pthread_join :: "ptr \<Rightarrow> 'w \<Rightarrow> 'w"
  thread_joinable :: "ptr \<Rightarrow> 'w \<Rightarrow> bool"
    \<comment> \<open>whether the member \<^verbatim>\<open>thread\<close> names a thread that was created and not joined yet\<close>
  get_done :: "ptr \<Rightarrow> 'w \<Rightarrow> bool"
  set_done :: "ptr \<Rightarrow> bool \<Rightarrow> 'w \<Rightarrow> 'w"

text \<open>The result, and what is stored through \<^verbatim>\<open>clientp\<close>, which is \<open>None\<close> if null.\<close>

definition remote_init ::
  "'w client_env \<Rightarrow> ptr option \<Rightarrow> string option \<Rightarrow> string option \<Rightarrow> 'w \<Rightarrow> int \<times> ptr option \<times> 'w" where
  "remote_init E clientp hostname service w =
     (if clientp = None then (- EINVAL, clientp, w)
      else
        let (err, rpc, w) = rpc_client_create E w in
        if err < 0 then (err, clientp, w)
        else
          let hostname = (case hostname of Some h \<Rightarrow> h | None \<Rightarrow> ''localhost'');
              service = (case service of Some s \<Rightarrow> s | None \<Rightarrow> ''7482'');
              (err, w) = rpc_client_connect E rpc hostname service w
          in
          if err < 0 then (err, clientp, rpc_client_free E rpc w)
          else
            let (err, w) = rpc_client_set_event_handler E rpc w in
            if err < 0 then (err, clientp, rpc_client_free E rpc w)
            else
              let client = rpc_client_priv E rpc;
                  w = set_done E client False w;
                  (err, w) = c_pthread_create E client w
              in
              if err < 0 then (err, clientp, rpc_client_free E rpc w)
              else (0, Some client, w))"

text \<open>Joining a thread that was never created, or has been joined, is undefined.\<close>

definition join_thread :: "'w client_env \<Rightarrow> ptr \<Rightarrow> 'w \<Rightarrow> c_ub + 'w" where
  "join_thread E client w =
     (if thread_joinable E client w then Inr (c_pthread_join E client w) else Inl NoThread)"

definition remote_exit :: "'w client_env \<Rightarrow> ptr \<Rightarrow> 'w \<Rightarrow> c_ub + int \<times> 'w" where
  "remote_exit E client w =
     (let rpc = rpc_client_from_priv E client in
      if client = NULL then Inr (- EINVAL, w)
      else
        let w = set_done E client True w in
        bind_ub (join_thread E client w) (\<lambda>w. Inr (0, rpc_client_free E rpc w)))"

text \<open>
  One round of the polling thread, and the thread: the value \<open>None\<close> is a thread that does
  not end.
\<close>

definition poll_round :: "'w client_env \<Rightarrow> ptr \<Rightarrow> 'w \<Rightarrow> 'w" where
  "poll_round E client w =
     (let rpc = rpc_client_from_priv E client;
          (ret, w) = rpc_client_poll E rpc 250 w
      in if ret < 0 then (if ret \<noteq> - ETIMEDOUT then set_done E client True w else w)
         else snd (rpc_client_process_events E rpc w))"

partial_function (option) poll_event_thread :: "'w client_env \<Rightarrow> ptr \<Rightarrow> 'w \<Rightarrow> 'w option" where
  "poll_event_thread E client w =
     (if get_done E client w then Some w else poll_event_thread E client (poll_round E client w))"

section \<open>Events\<close>

definition remote_register_event_handler :: "ptr \<Rightarrow> nat \<Rightarrow> ptr \<Rightarrow> ptr \<Rightarrow> int" where
  "remote_register_event_handler client queue handler data = - ENOSYS"

definition remote_unregister_event_handler :: "ptr \<Rightarrow> nat \<Rightarrow> ptr \<Rightarrow> int" where
  "remote_unregister_event_handler client queue handler = - ENOSYS"

definition remote_call_events :: "ptr \<Rightarrow> nat \<Rightarrow> u32 \<Rightarrow> int" where
  "remote_call_events client queue type = - ENOSYS"

text \<open>
  The handlers that the dispatcher of the client runs for the events of the protocol: those
  of card, modem and telephony hand them on to the function above, so that they are lost, the
  one of interrupts prints the pointer, in the form \<open>show_ptr\<close> of the C library, and the
  type; \<open>func\<close> is the name that the generated macro gives the function.
\<close>

definition REMOTE_EVENT_CARD :: nat where [simp]: "REMOTE_EVENT_CARD = 0"
definition REMOTE_EVENT_MODEM :: nat where [simp]: "REMOTE_EVENT_MODEM = 1"
definition REMOTE_EVENT_VOIP :: nat where [simp]: "REMOTE_EVENT_VOIP = 2"

definition rpc_card_event :: "ptr \<Rightarrow> u32 \<Rightarrow> int" where
  "rpc_card_event p type = remote_call_events p REMOTE_EVENT_CARD type"

definition rpc_modem_event :: "ptr \<Rightarrow> u32 \<Rightarrow> int" where
  "rpc_modem_event p type = remote_call_events p REMOTE_EVENT_MODEM type"

definition rpc_voip_event :: "ptr \<Rightarrow> u32 \<Rightarrow> int" where
  "rpc_voip_event p type = remote_call_events p REMOTE_EVENT_VOIP type"

definition rpc_irq_event :: "string \<Rightarrow> (ptr \<Rightarrow> string) \<Rightarrow> ptr \<Rightarrow> u32 \<Rightarrow> string list" where
  "rpc_irq_event func show_ptr p type =
     [''> '' @ func @ ''(priv='' @ show_ptr p @ '', type='' @ show_base 16 (unat type) @ '')''
        @ [CHR 0x0A],
      ''< '' @ func @ ''()'' @ [CHR 0x0A]]"

section \<open>Interrupts\<close>

record 'w irq_stubs =
  irq_client_from_priv :: "ptr \<Rightarrow> ptr"
  stub_irq_enable :: "ptr \<Rightarrow> u8 \<Rightarrow> 'w \<Rightarrow> int \<times> int \<times> 'w"
  stub_irq_get_mask :: "ptr \<Rightarrow> u32 \<Rightarrow> 'w \<Rightarrow> int \<times> int \<times> u32 \<times> 'w"
  stub_irq_get_info :: "ptr \<Rightarrow> nat \<Rightarrow> u32 \<Rightarrow> 'w \<Rightarrow> int \<times> int \<times> u32 \<times> 'w"

definition remote_irq_enable :: "'w irq_stubs \<Rightarrow> ptr \<Rightarrow> u8 \<Rightarrow> 'w \<Rightarrow> int \<times> 'w" where
  "remote_irq_enable C p virtkey w =
     (let (err, ret, w) = stub_irq_enable C (irq_client_from_priv C p) virtkey w
      in (if err < 0 then err else ret, w))"

text \<open>\<open>maskp\<close> and \<open>info\<close> are the variables the arguments point to, if they are not null.\<close>

definition remote_irq_get_mask ::
  "'w irq_stubs \<Rightarrow> ptr \<Rightarrow> u32 option \<Rightarrow> 'w \<Rightarrow> int \<times> u32 option \<times> 'w" where
  "remote_irq_get_mask C p maskp w =
     (case maskp of
        None \<Rightarrow> (- EINVAL, None, w)
      | Some m \<Rightarrow>
          let (err, ret, m, w) = stub_irq_get_mask C (irq_client_from_priv C p) m w
          in (if err < 0 then err else ret, Some m, w))"

definition remote_irq_get_info ::
  "'w irq_stubs \<Rightarrow> ptr \<Rightarrow> nat \<Rightarrow> u32 option \<Rightarrow> 'w \<Rightarrow> int \<times> u32 option \<times> 'w" where
  "remote_irq_get_info C p source info w =
     (case info of
        None \<Rightarrow> (- EINVAL, None, w)
      | Some i \<Rightarrow>
          let (err, ret, i, w) = stub_irq_get_info C (irq_client_from_priv C p) source i w
          in (if err < 0 then err else ret, Some i, w))"

section \<open>Properties\<close>

text \<open>
  What the set-up relies on: \<^verbatim>\<open>create\<close> allocates a client, \<^verbatim>\<open>free\<close> gives an
  allocated one back, the other calls touch none; a client and its private data point at each
  other; there is a thread to be joined exactly when \<^verbatim>\<open>pthread_create\<close> answered 0; and the
  flag is a variable.
\<close>

definition clients_ok :: "'w client_env \<Rightarrow> ('w \<Rightarrow> ptr set) \<Rightarrow> bool" where
  "clients_ok E live \<longleftrightarrow>
     (\<forall>w r c w'. rpc_client_create E w = (r, c, w') \<longrightarrow>
        (if r < 0 then live w' = live w else c \<notin> live w \<and> live w' = insert c (live w)))
   \<and> (\<forall>c h s w. live (snd (rpc_client_connect E c h s w)) = live w)
   \<and> (\<forall>c w. live (snd (rpc_client_set_event_handler E c w)) = live w)
   \<and> (\<forall>c w. live (snd (c_pthread_create E c w)) = live w)
   \<and> (\<forall>c w. live (c_pthread_join E c w) = live w)
   \<and> (\<forall>c b w. live (set_done E c b w) = live w)
   \<and> (\<forall>c w. c \<in> live w \<longrightarrow> live (rpc_client_free E c w) = live w - {c})
   \<and> (\<forall>c. rpc_client_from_priv E (rpc_client_priv E c) = c \<and> rpc_client_priv E c \<noteq> NULL)
   \<and> (\<forall>c w. thread_joinable E c (snd (c_pthread_create E c w)) \<longleftrightarrow> fst (c_pthread_create E c w) = 0)
   \<and> (\<forall>c b w. thread_joinable E c (set_done E c b w) = thread_joinable E c w)
   \<and> (\<forall>c b w. get_done E c (set_done E c b w) = b)"

lemma clients_ok_create:
  assumes "clients_ok E live" "rpc_client_create E w = (r, c, w')"
  shows "if r < 0 then live w' = live w else c \<notin> live w \<and> live w' = insert c (live w)"
  by (rule iffD1 [OF clients_ok_def assms(1), THEN conjunct1, rule_format, OF assms(2)])

lemma clients_ok_others:
  assumes "clients_ok E live"
  shows "rpc_client_connect E c h s w = (r, w') \<Longrightarrow> live w' = live w"
    and "rpc_client_set_event_handler E c w = (r, w') \<Longrightarrow> live w' = live w"
    and "c_pthread_create E c w = (r, w') \<Longrightarrow> live w' = live w"
    and "live (c_pthread_join E c w) = live w"
    and "live (set_done E c b w) = live w"
    and "c \<in> live w \<Longrightarrow> live (rpc_client_free E c w) = live w - {c}"
    and "rpc_client_from_priv E (rpc_client_priv E c) = c" "rpc_client_priv E c \<noteq> NULL"
    and "c_pthread_create E c w = (r, w') \<Longrightarrow> thread_joinable E c w' \<longleftrightarrow> r = 0"
    and "thread_joinable E c (set_done E c b w) = thread_joinable E c w"
    and "get_done E c (set_done E c b w) = b"
  using assms unfolding clients_ok_def by (metis fst_conv snd_conv)+

text \<open>Set-up on every path, from the results of the calls it makes.\<close>

lemma remote_init_cases:
  assumes ok: "clients_ok E live"
    and cr: "rpc_client_create E w = (e1, rpc, w1)"
    and co: "rpc_client_connect E rpc (case h of Some h \<Rightarrow> h | None \<Rightarrow> ''localhost'')
      (case s of Some s \<Rightarrow> s | None \<Rightarrow> ''7482'') w1 = (e2, w2)"
    and ev: "rpc_client_set_event_handler E rpc w2 = (e3, w3)"
    and th: "c_pthread_create E c (set_done E c False w3) = (e4, w4)" "c = rpc_client_priv E rpc"
    and i: "remote_init E (Some c0) h s w = (r, cp, w')"
  shows "r = first_error [e1, e2, e3, e4]
     \<and> (if r < 0 then cp = Some c0 \<and> live w' = live w
        else cp = Some c \<and> w' = w4 \<and> rpc \<notin> live w \<and> live w' = insert rpc (live w))"
proof -
  note l = clients_ok_create [OF ok cr] clients_ok_others(1) [OF ok co]
    clients_ok_others(2) [OF ok ev] clients_ok_others(3) [OF ok th(1)] clients_ok_others(4-6) [OF ok]
  have absent: "live w - {rpc} = live w" if "0 \<le> e1" using l(1) that by auto
  show ?thesis
    using i cr co ev th l absent by (auto simp: remote_init_def Let_def split: if_splits)
qed

lemma remote_init_result:
  assumes ok: "clients_ok E live"
    and i: "remote_init E (Some c0) h s w = (r, cp, w')"
  shows "(r < 0 \<and> cp = Some c0 \<and> live w' = live w)
    \<or> (r = 0 \<and> (\<exists>c. cp = Some c \<and> c \<noteq> NULL \<and> rpc_client_from_priv E c \<notin> live w
         \<and> live w' = insert (rpc_client_from_priv E c) (live w)))"
proof -
  obtain e rpc w1 where cr: "rpc_client_create E w = (e, rpc, w1)" by (metis prod_cases3)
  let ?h = "case h of Some h \<Rightarrow> h | None \<Rightarrow> ''localhost''"
  let ?s = "case s of Some s \<Rightarrow> s | None \<Rightarrow> ''7482''"
  obtain e2 w2 where co: "rpc_client_connect E rpc ?h ?s w1 = (e2, w2)" by fastforce
  obtain e3 w3 where ev: "rpc_client_set_event_handler E rpc w2 = (e3, w3)" by fastforce
  let ?c = "rpc_client_priv E rpc"
  obtain e4 w4 where th: "c_pthread_create E ?c (set_done E ?c False w3) = (e4, w4)" by fastforce
  from remote_init_cases [OF ok cr co ev th refl i] show ?thesis
    using clients_ok_others(7,8) [OF ok, of rpc] by (auto split: if_splits)
qed

text \<open>What \<open>remote_exit\<close> does with a client: the flag is set, the thread joined, the client freed.\<close>

lemma remote_exit_eq:
  "c \<noteq> NULL \<Longrightarrow> remote_exit E c w = (let v = set_done E c True w in
     if thread_joinable E c v
     then Inr (0, rpc_client_free E (rpc_client_from_priv E c) (c_pthread_join E c v))
     else Inl NoThread)"
  by (simp add: remote_exit_def join_thread_def Let_def)

lemma remote_exit_frees:
  assumes "clients_ok E live" "c \<noteq> NULL" "rpc_client_from_priv E c \<in> live w"
    and "remote_exit E c w = Inr (r, w')"
  shows "r = 0 \<and> live w' = live w - {rpc_client_from_priv E c}"
  using assms(2-) clients_ok_others(4-6) [OF assms(1)]
  by (auto simp: remote_exit_eq Let_def split: if_splits)

text \<open>C19: setting a client up answers the first negative code of its steps: creating the
  client, connecting, installing the handler of events, creating the thread. When it fails nothing
  is stored and no client is left allocated, whatever step it fails at; when it succeeds it has
  stored a client that \<^verbatim>\<open>remote_exit\<close> ends and frees: the flag that ends the thread is set
  before the thread is joined, and exactly this client is given back. But the error of
  \<^verbatim>\<open>pthread_create\<close> is a positive number, which the test for a negative one does not find:
  the set-up then succeeds without a thread, and \<^verbatim>\<open>remote_exit\<close> joins a thread that was never
  created.\<close>

theorem remote_init_accounting:
  assumes ok: "clients_ok E live"
    and cr: "rpc_client_create E w = (e1, rpc, w1)"
    and co: "rpc_client_connect E rpc (case h of Some h \<Rightarrow> h | None \<Rightarrow> ''localhost'')
      (case s of Some s \<Rightarrow> s | None \<Rightarrow> ''7482'') w1 = (e2, w2)"
    and ev: "rpc_client_set_event_handler E rpc w2 = (e3, w3)"
    and th: "c_pthread_create E c (set_done E c False w3) = (e4, w4)" "c = rpc_client_priv E rpc"
    and i: "remote_init E (Some c0) h s w = (r, cp, w')"
  shows "r = first_error [e1, e2, e3, e4]
     \<and> (r < 0 \<longrightarrow> cp = Some c0 \<and> live w' = live w)
     \<and> (0 \<le> r \<longrightarrow> cp = Some c
        \<and> (if e4 = 0
           then \<exists>v w''. get_done E c v \<and> thread_joinable E c v
             \<and> w'' = rpc_client_free E rpc (c_pthread_join E c v)
             \<and> remote_exit E c w' = Inr (0, w'') \<and> live w'' = live w
           else 0 < e4 \<and> remote_exit E c w' = Inl NoThread))"
proof -
  note cases = remote_init_cases [OF assms]
  note priv = clients_ok_others(7,8) [OF ok, of rpc, folded th(2)]
  note flag = clients_ok_others(9) [OF ok th(1)] clients_ok_others(10,11) [OF ok, of c]
  have exit: "if e4 = 0
      then \<exists>v w''. get_done E c v \<and> thread_joinable E c v
        \<and> w'' = rpc_client_free E rpc (c_pthread_join E c v)
        \<and> remote_exit E c w' = Inr (0, w'') \<and> live w'' = live w
      else 0 < e4 \<and> remote_exit E c w' = Inl NoThread" if "0 \<le> r"
  proof (cases "e4 = 0")
    case True
    let ?v = "set_done E c True w'"
    have j: "get_done E c ?v" "thread_joinable E c ?v"
      using True that cases flag by (auto split: if_splits)
    then have x: "remote_exit E c w' = Inr (0, rpc_client_free E rpc (c_pthread_join E c ?v))"
      using priv by (simp add: remote_exit_eq Let_def)
    have "rpc_client_from_priv E c \<in> live w'" "live w' - {rpc} = live w"
      using that cases priv(1) by (auto split: if_splits)
    then have "live (rpc_client_free E rpc (c_pthread_join E c ?v)) = live w"
      using remote_exit_frees [OF ok priv(2) _ x] priv(1) by simp
    then show ?thesis using True j x by auto
  next
    case False
    then have "0 < e4" "w' = w4" using that cases by (auto split: if_splits)
    then show ?thesis using False flag priv(2) by (simp add: remote_exit_eq Let_def)
  qed
  then show ?thesis using cases by auto
qed

text \<open>
  A library in which the connection succeeds, and the thread or not: the world is the
  allocated clients and the flag.
\<close>

definition ex_client_env :: "int \<Rightarrow> (ptr list \<times> bool) client_env" where
  "ex_client_env t = \<lparr>rpc_client_create = (\<lambda>w. (0, Suc (sum_list (fst w)), Suc (sum_list (fst w)) # fst w, snd w)),
     rpc_client_connect = (\<lambda>c h s w. (0, w)), rpc_client_set_event_handler = (\<lambda>c w. (0, w)),
     rpc_client_priv = Suc, rpc_client_from_priv = (\<lambda>p. p - 1),
     rpc_client_free = (\<lambda>c w. (removeAll c (fst w), snd w)),
     rpc_client_poll = (\<lambda>c n w. (- 5, w)), rpc_client_process_events = (\<lambda>c w. (0, w)),
     c_pthread_create = (\<lambda>c w. (t, w)), c_pthread_join = (\<lambda>c w. w),
     thread_joinable = (\<lambda>c w. t = 0),
     get_done = (\<lambda>c w. snd w), set_done = (\<lambda>c b w. (fst w, b))\<rparr>"

lemma fresh_sum: "Suc (sum_list xs) \<notin> set (xs :: nat list)"
  using member_le_sum_list [of "Suc (sum_list xs)" xs] by auto

lemma ex_clients_ok: "clients_ok (ex_client_env t) (\<lambda>w. set (fst w))"
  unfolding clients_ok_def by (simp add: ex_client_env_def fresh_sum)

theorem remote_init_accounting_witness:
  "(\<exists>cp w'. remote_init (ex_client_env (- 11)) (Some 9) None (Some ''7000'') ([], False) = (- 11, cp, w')
      \<and> cp = Some 9 \<and> set (fst w') = {})
   \<and> (\<exists>w'. remote_init (ex_client_env 11) (Some 9) None None ([], False) = (0, Some 2, w')
      \<and> remote_exit (ex_client_env 11) 2 w' = Inl NoThread)"
proof -
  have calls: "rpc_client_create (ex_client_env t) ([], False) = (0, 1, [1], False)"
    "rpc_client_connect (ex_client_env t) c h s w = (0, w)"
    "rpc_client_set_event_handler (ex_client_env t) c w = (0, w)"
    "c_pthread_create (ex_client_env t) c (set_done (ex_client_env t) c False w) = (t, fst w, False)"
    "2 = rpc_client_priv (ex_client_env t) 1" for t c h s w
    by (simp_all add: ex_client_env_def)
  obtain cp w' where i: "remote_init (ex_client_env (- 11)) (Some 9) None (Some ''7000'') ([], False)
      = (- 11, cp, w')"
    by (simp add: remote_init_def ex_client_env_def)
  obtain w2 where j: "remote_init (ex_client_env 11) (Some 9) None None ([], False) = (0, Some 2, w2)"
    by (simp add: remote_init_def ex_client_env_def)
  show ?thesis
    using remote_init_accounting [OF ex_clients_ok calls i] i
      remote_init_accounting [OF ex_clients_ok calls j] j by simp
qed

section \<open>The polling thread\<close>

lemma poll_round_Suc: "(poll_round E c ^^ n) (poll_round E c w) = (poll_round E c ^^ Suc n) w"
  by (simp add: funpow_swap1)

lemma poll_thread_rounds:
  assumes "get_done E c ((poll_round E c ^^ n) w)" "\<forall>m < n. \<not> get_done E c ((poll_round E c ^^ m) w)"
  shows "poll_event_thread E c w = Some ((poll_round E c ^^ n) w)"
  using assms
proof (induction n arbitrary: w)
  case 0
  then show ?case by (simp add: poll_event_thread.simps)
next
  case (Suc n)
  have "\<not> get_done E c w" using Suc.prems(2) by auto
  moreover have "poll_event_thread E c (poll_round E c w) = Some ((poll_round E c ^^ n) (poll_round E c w))"
    using Suc.prems by (intro Suc.IH) (simp_all only: poll_round_Suc, blast intro: Suc_mono)
  ultimately show ?case
    by (subst poll_event_thread.simps) (simp add: poll_round_Suc del: funpow.simps)
qed

lemma poll_thread_result:
  assumes "poll_event_thread E c w = Some w'"
  shows "\<exists>n. w' = (poll_round E c ^^ n) w \<and> get_done E c w'"
proof (rule poll_event_thread.raw_induct [OF _ assms])
  fix thread E c w w'
  assume IH: "\<And>E c w w'. thread E c w = Some w' \<Longrightarrow>
      \<exists>n. w' = (poll_round E c ^^ n) w \<and> get_done E c w'"
    and eq: "(if get_done E c w then Some w else thread E c (poll_round E c w)) = Some w'"
  show "\<exists>n. w' = (poll_round E c ^^ n) w \<and> get_done E c w'"
  proof (cases "get_done E c w")
    case True
    then show ?thesis using eq by (intro exI [of _ 0]) auto
  next
    case False
    then obtain n where "w' = (poll_round E c ^^ n) (poll_round E c w)" "get_done E c w'"
      using eq IH by fastforce
    then show ?thesis by (metis poll_round_Suc)
  qed
qed

lemma poll_thread_least:
  assumes "poll_event_thread E c w = Some w'"
  shows "\<exists>n. w' = (poll_round E c ^^ n) w \<and> get_done E c w'
     \<and> (\<forall>m < n. \<not> get_done E c ((poll_round E c ^^ m) w))"
proof -
  let ?P = "\<lambda>n. get_done E c ((poll_round E c ^^ n) w)"
  have "\<exists>n. ?P n" using poll_thread_result [OF assms] by blast
  then have l: "?P (LEAST n. ?P n)" by (rule LeastI_ex)
  have m: "\<forall>m < (LEAST n. ?P n). \<not> ?P m" by (blast dest: not_less_Least)
  have "w' = (poll_round E c ^^ (LEAST n. ?P n)) w"
    using poll_thread_rounds [OF l m] assms by simp
  then show ?thesis using l m by blast
qed

text \<open>The polling thread ends exactly when its flag is found set after some number of
  rounds, by the main thread or by itself; it sets the flag when polling fails with anything
  but a time-out, and not when processing the events fails.\<close>

lemma poll_event_thread_ends:
  "((\<exists>w'. poll_event_thread E c w = Some w') \<longleftrightarrow> (\<exists>n. get_done E c ((poll_round E c ^^ n) w)))
   \<and> poll_round E c w =
      (case rpc_client_poll E (rpc_client_from_priv E c) 250 w of (ret, w1) \<Rightarrow>
         if ret = - ETIMEDOUT then w1
         else if ret < 0 then set_done E c True w1
         else snd (rpc_client_process_events E (rpc_client_from_priv E c) w1))"
proof
  show "(\<exists>w'. poll_event_thread E c w = Some w') \<longleftrightarrow> (\<exists>n. get_done E c ((poll_round E c ^^ n) w))"
  proof
    assume "\<exists>n. get_done E c ((poll_round E c ^^ n) w)"
    then have "\<exists>n. get_done E c ((poll_round E c ^^ n) w)
        \<and> (\<forall>m < n. \<not> get_done E c ((poll_round E c ^^ m) w))"
      by (simp only: exists_least_iff [of "\<lambda>n. get_done E c ((poll_round E c ^^ n) w)"])
    then obtain n where n: "get_done E c ((poll_round E c ^^ n) w)
        \<and> (\<forall>m < n. \<not> get_done E c ((poll_round E c ^^ m) w))" by (rule exE)
    show "\<exists>w'. poll_event_thread E c w = Some w'"
      by (rule exI, rule poll_thread_rounds [OF conjunct1 [OF n] conjunct2 [OF n]])
  next
    assume "\<exists>w'. poll_event_thread E c w = Some w'"
    then obtain w' where "poll_event_thread E c w = Some w'" by (rule exE)
    then show "\<exists>n. get_done E c ((poll_round E c ^^ n) w)" using poll_thread_result by metis
  qed
next
  obtain ret w1 where p: "rpc_client_poll E (rpc_client_from_priv E c) 250 w = (ret, w1)" by fastforce
  show "poll_round E c w =
      (case rpc_client_poll E (rpc_client_from_priv E c) 250 w of (ret, w1) \<Rightarrow>
         if ret = - ETIMEDOUT then w1
         else if ret < 0 then set_done E c True w1
         else snd (rpc_client_process_events E (rpc_client_from_priv E c) w1))"
    by (simp add: poll_round_def p)
qed

end
