(* ===== verification/Client_Threads.thy ===== *)
theory Client_Threads
  imports Remote_Client
begin

text \<open>
  The two threads of a client (\<^verbatim>\<open>src/src/rcrpc-client/rcrpc-client.c\<close>): the polling
  thread of \<^verbatim>\<open>poll_event_thread\<close>, cut into the steps between which the other thread can
  run, and the main thread, which makes calls and ends in \<^verbatim>\<open>remote_exit\<close>. Shown here:
  undisturbed, the steps compute what \<open>poll_event_thread\<close> does; under any interleaving
  \<^verbatim>\<open>remote_exit\<close> never gets stuck, the thread takes at most four more steps once it has been
  told to stop, and it never runs when the client is freed.
\<close>

section \<open>The polling thread in steps\<close>

text \<open>
  Where the thread is: before the test of the loop, before \<^verbatim>\<open>rpc_client_poll\<close>, behind it
  with its result, before \<^verbatim>\<open>rpc_client_process_events\<close>, or at its end.
\<close>

datatype poll_pc = At_Test | At_Poll | At_Result int | At_Process | At_End

fun thread_step :: "'w client_env \<Rightarrow> ptr \<Rightarrow> poll_pc \<times> 'w \<Rightarrow> poll_pc \<times> 'w" where
  "thread_step E client (At_Test, w) = (if get_done E client w then At_End else At_Poll, w)"
| "thread_step E client (At_Poll, w) =
     (let (ret, w) = rpc_client_poll E (rpc_client_from_priv E client) 250 w in (At_Result ret, w))"
| "thread_step E client (At_Result ret, w) =
     (if ret < 0
      then (At_Test, if ret \<noteq> - ETIMEDOUT then set_done E client True w else w)
      else (At_Process, w))"
| "thread_step E client (At_Process, w) =
     (At_Test, snd (rpc_client_process_events E (rpc_client_from_priv E client) w))"
| "thread_step E client (At_End, w) = (At_End, w)"

text \<open>How many steps a round has.\<close>

definition round_steps :: "'w client_env \<Rightarrow> ptr \<Rightarrow> 'w \<Rightarrow> nat" where
  "round_steps E c w = (if fst (rpc_client_poll E (rpc_client_from_priv E c) 250 w) < 0 then 3 else 4)"

lemma thread_round:
  assumes "\<not> get_done E c w"
  shows "(thread_step E c ^^ round_steps E c w) (At_Test, w) = (At_Test, poll_round E c w)"
  using assms
  by (auto simp: round_steps_def poll_round_def eval_nat_numeral Let_def split: prod.splits)

lemma thread_end: "(thread_step E c ^^ n) (At_End, w) = (At_End, w)"
  by (induction n) simp_all

lemma thread_from_rounds:
  assumes "\<forall>m < n. \<not> get_done E c ((poll_round E c ^^ m) w)"
  shows "\<exists>k. (thread_step E c ^^ k) (At_Test, w) = (At_Test, (poll_round E c ^^ n) w)"
  using assms
proof (induction n)
  case 0
  show ?case by (rule exI [of _ 0]) simp
next
  case (Suc n)
  then obtain k where k: "(thread_step E c ^^ k) (At_Test, w) = (At_Test, (poll_round E c ^^ n) w)"
    by auto
  let ?w = "(poll_round E c ^^ n) w"
  have "\<not> get_done E c ?w" using Suc.prems by simp
  from thread_round [OF this] show ?case
    by (intro exI [of _ "round_steps E c ?w + k"]) (simp add: funpow_add k)
qed

text \<open>A thread that has ended was at its test, with the flag set, some rounds after its start.\<close>

definition thread_pos :: "'w client_env \<Rightarrow> ptr \<Rightarrow> 'w \<Rightarrow> poll_pc \<times> 'w \<Rightarrow> bool" where
  "thread_pos E c w t \<longleftrightarrow> (\<exists>n.
     let v = (poll_round E c ^^ n) w; r = rpc_client_poll E (rpc_client_from_priv E c) 250 v in
     (\<forall>m < n. \<not> get_done E c ((poll_round E c ^^ m) w)) \<and>
     (t = (At_Test, v) \<or> t = (At_End, v) \<and> get_done E c v \<or> \<not> get_done E c v \<and>
        (t = (At_Poll, v) \<or> t = (At_Result (fst r), snd r) \<or> t = (At_Process, snd r) \<and> 0 \<le> fst r)))"

lemma thread_pos_step:
  assumes "thread_pos E c w t"
  shows "thread_pos E c w (thread_step E c t)"
proof -
  obtain n where n: "\<forall>m < n. \<not> get_done E c ((poll_round E c ^^ m) w)"
    and t: "let v = (poll_round E c ^^ n) w; r = rpc_client_poll E (rpc_client_from_priv E c) 250 v in
      t = (At_Test, v) \<or> t = (At_End, v) \<and> get_done E c v \<or> \<not> get_done E c v \<and>
        (t = (At_Poll, v) \<or> t = (At_Result (fst r), snd r) \<or> t = (At_Process, snd r) \<and> 0 \<le> fst r)"
    using assms unfolding thread_pos_def Let_def by blast
  define v where "v = (poll_round E c ^^ n) w"
  define r where "r = rpc_client_poll E (rpc_client_from_priv E c) 250 v"
  have stay: "thread_pos E c w u" if "u = (At_Test, v) \<or> u = (At_End, v) \<and> get_done E c v
      \<or> \<not> get_done E c v \<and> (u = (At_Poll, v) \<or> u = (At_Result (fst r), snd r)
          \<or> u = (At_Process, snd r) \<and> 0 \<le> fst r)" for u
    unfolding thread_pos_def Let_def using n that by (intro exI [of _ n]) (simp add: v_def r_def)
  have next': "thread_pos E c w (At_Test, poll_round E c v)" if "\<not> get_done E c v"
  proof -
    have "\<forall>m < Suc n. \<not> get_done E c ((poll_round E c ^^ m) w)"
      using n that by (auto simp: v_def less_Suc_eq)
    then show ?thesis unfolding thread_pos_def Let_def by (intro exI [of _ "Suc n"]) (simp add: v_def)
  qed
  have round: "poll_round E c v = (if fst r < 0
      then (if fst r \<noteq> - ETIMEDOUT then set_done E c True (snd r) else snd r)
      else snd (rpc_client_process_events E (rpc_client_from_priv E c) (snd r)))"
    by (simp add: poll_round_def r_def case_prod_beta Let_def)
  consider "t = (At_Test, v)" | "t = (At_End, v)" "get_done E c v" | "\<not> get_done E c v" "t = (At_Poll, v)"
    | "\<not> get_done E c v" "t = (At_Result (fst r), snd r)"
    | "\<not> get_done E c v" "t = (At_Process, snd r)" "0 \<le> fst r"
    using t by (auto simp: Let_def v_def r_def)
  then show ?thesis
  proof cases
    case 1
    then show ?thesis by (intro stay) simp
  next
    case 2
    then show ?thesis by (intro stay) simp
  next
    case 3
    then show ?thesis by (intro stay) (simp add: r_def case_prod_beta)
  next
    case 4
    then show ?thesis using next' [OF 4(1)] stay [of "(At_Process, snd r)"]
      by (cases "fst r < 0"; cases "fst r = - ETIMEDOUT") (simp_all add: round)
  next
    case 5
    then show ?thesis using next' [OF 5(1)] by (simp add: round)
  qed
qed

lemma thread_pos_steps: "thread_pos E c w ((thread_step E c ^^ n) (At_Test, w))"
proof (induction n)
  case 0
  show ?case unfolding thread_pos_def Let_def by (intro exI [of _ 0]) simp
next
  case (Suc n)
  then show ?case by (simp add: thread_pos_step)
qed

text \<open>Undisturbed, the steps of the thread compute exactly what the loop of
  \<^verbatim>\<open>poll_event_thread\<close> computes: they reach the end in the state the loop returns, and they
  reach no end where it does not return.\<close>

lemma thread_steps_run_loop:
  "(\<exists>n. (thread_step E c ^^ n) (At_Test, w) = (At_End, w')) \<longleftrightarrow> poll_event_thread E c w = Some w'"
proof
  assume "\<exists>n. (thread_step E c ^^ n) (At_Test, w) = (At_End, w')"
  then have "thread_pos E c w (At_End, w')" using thread_pos_steps by metis
  then show "poll_event_thread E c w = Some w'"
    by (auto simp: thread_pos_def Let_def dest: poll_thread_rounds)
next
  assume "poll_event_thread E c w = Some w'"
  from poll_thread_least [OF this] obtain n where n: "w' = (poll_round E c ^^ n) w" "get_done E c w'"
      "\<forall>m < n. \<not> get_done E c ((poll_round E c ^^ m) w)" by (elim exE conjE)
  obtain k where "(thread_step E c ^^ k) (At_Test, w) = (At_Test, w')"
    using thread_from_rounds [OF n(3)] n(1) by blast
  then have "(thread_step E c ^^ Suc k) (At_Test, w) = (At_End, w')" using n(2) by simp
  then show "\<exists>n. (thread_step E c ^^ n) (At_Test, w) = (At_End, w')" by (rule exI)
qed

section \<open>Both threads\<close>

text \<open>
  Where the main thread is: in a call of the library or between two of them; in
  \<^verbatim>\<open>remote_exit\<close> before \<^verbatim>\<open>pthread_join\<close>, with the flag set, and before
  \<^verbatim>\<open>rpc_client_free\<close>, with the thread joined; or behind it. The three steps of
  \<^verbatim>\<open>remote_exit\<close>, as the other thread can run between them.
\<close>

datatype main_pc = Calling | Joining | Joined | Freed

fun exit_step :: "'w client_env \<Rightarrow> ptr \<Rightarrow> main_pc \<times> 'w \<Rightarrow> c_ub + main_pc \<times> 'w" where
  "exit_step E c (Calling, w) = Inr (Joining, set_done E c True w)"
| "exit_step E c (Joining, w) = bind_ub (join_thread E c w) (\<lambda>w. Inr (Joined, w))"
| "exit_step E c (Joined, w) = Inr (Freed, rpc_client_free E (rpc_client_from_priv E c) w)"
| "exit_step E c (Freed, w) = Inr (Freed, w)"

text \<open>
  Both threads: the main thread calls the library and at any time begins to run
  \<^verbatim>\<open>remote_exit\<close>, in which \<^verbatim>\<open>pthread_join\<close> waits for the end of the thread. What the calls
  of the library do: they leave the flag and the thread, which are in the private data of the
  client, as they are.
\<close>

type_synonym 'w threads = "main_pc \<times> poll_pc \<times> 'w"

inductive client_step :: "'w client_env \<Rightarrow> ptr \<Rightarrow> 'w threads \<Rightarrow> 'w threads \<Rightarrow> bool"
  for E :: "'w client_env" and c :: ptr where
  polls: "th \<noteq> At_End \<Longrightarrow> thread_step E c (th, w) = (th', w') \<Longrightarrow>
     client_step E c (m, th, w) (m, th', w')"
| calls: "get_done E c w' = get_done E c w \<Longrightarrow> thread_joinable E c w' = thread_joinable E c w \<Longrightarrow>
     client_step E c (Calling, th, w) (Calling, th, w')"
| exits: "exit_step E c (m, w) = Inr (m', w') \<Longrightarrow> m \<noteq> Freed \<Longrightarrow> (m = Joining \<Longrightarrow> th = At_End) \<Longrightarrow>
     client_step E c (m, th, w) (m', th, w')"

inductive_cases freed_stepE: "client_step E c (Freed, th, w) t"

text \<open>Only setting the flag changes it, and of the calls made only joining changes the thread.\<close>

definition flag_ok :: "'w client_env \<Rightarrow> ptr \<Rightarrow> bool" where
  "flag_ok E c \<longleftrightarrow> (\<forall>w b. get_done E c (set_done E c b w) = b)
     \<and> (\<forall>k n w. get_done E c (snd (rpc_client_poll E k n w)) = get_done E c w)
     \<and> (\<forall>k w. get_done E c (snd (rpc_client_process_events E k w)) = get_done E c w)
     \<and> (\<forall>w b. thread_joinable E c (set_done E c b w) = thread_joinable E c w)
     \<and> (\<forall>k n w. thread_joinable E c (snd (rpc_client_poll E k n w)) = thread_joinable E c w)
     \<and> (\<forall>k w. thread_joinable E c (snd (rpc_client_process_events E k w)) = thread_joinable E c w)"

definition threads_inv :: "'w client_env \<Rightarrow> ptr \<Rightarrow> 'w threads \<Rightarrow> bool" where
  "threads_inv E c t \<longleftrightarrow> (case t of (m, th, w) \<Rightarrow>
     (m \<in> {Calling, Joining} \<longrightarrow> thread_joinable E c w)
   \<and> (m = Joining \<longrightarrow> get_done E c w) \<and> (m \<in> {Joined, Freed} \<longrightarrow> th = At_End))"

fun steps_left :: "poll_pc \<Rightarrow> nat" where
  "steps_left At_End = 0"
| "steps_left At_Test = 1"
| "steps_left At_Process = 2"
| "steps_left (At_Result ret) = 3"
| "steps_left At_Poll = 4"

lemma thread_step_joinable:
  assumes "flag_ok E c" "thread_step E c (th, w) = (th', w')"
  shows "thread_joinable E c w' = thread_joinable E c w"
  using assms by (cases th) (auto simp: flag_ok_def case_prod_beta Let_def split: if_splits)

lemma thread_step_done:
  assumes "flag_ok E c" "get_done E c w" "thread_step E c (th, w) = (th', w')" "th \<noteq> At_End"
  shows "get_done E c w' \<and> steps_left th' < steps_left th"
  using assms by (cases th) (auto simp: flag_ok_def case_prod_beta Let_def split: if_splits)

lemma exit_step_inv:
  assumes "flag_ok E c" "threads_inv E c (m, th, w)" "exit_step E c (m, w) = Inr (m', w')"
    and "m = Joining \<Longrightarrow> th = At_End" "m \<noteq> Freed"
  shows "threads_inv E c (m', th, w')"
  using assms by (cases m) (auto simp: threads_inv_def flag_ok_def join_thread_def split: if_splits)

lemma exit_step_next:
  assumes "exit_step E c (m, w) = Inr (m', w')" "m \<noteq> Freed"
  shows "m' = (case m of Calling \<Rightarrow> Joining | Joining \<Rightarrow> Joined | _ \<Rightarrow> Freed)"
  using assms by (cases m) (auto simp: join_thread_def split: if_splits)

text \<open>Waiting for the thread: every step of it lowers its rank, and the wait ends for good.\<close>

interpretation threads: bounded_wait
  "\<lambda>t. flag_ok E c \<and> (\<exists>w. t = (Calling, At_Test, w) \<and> thread_joinable E c w)" "client_step E c"
  "\<lambda>t. flag_ok E c \<and> threads_inv E c t"
  "\<lambda>t. fst t = Joining" "\<lambda>t. fst t \<in> {Joined, Freed}" "\<lambda>t. steps_left (fst (snd t))"
  for E :: "'w client_env" and c :: ptr
proof unfold_locales
  show "flag_ok E c \<and> (\<exists>w. t = (Calling, At_Test, w) \<and> thread_joinable E c w) \<Longrightarrow>
      flag_ok E c \<and> threads_inv E c t" for t
    by (auto simp: threads_inv_def)
  show "flag_ok E c \<and> threads_inv E c u"
    if "flag_ok E c \<and> threads_inv E c t" "client_step E c t u" for t u
    using that(2)
  proof cases
    case (polls th w th' w' m)
    then show ?thesis using that(1) thread_step_done [of E c w th th' w'] thread_step_joinable [of E c th w th' w']
      by (auto simp: threads_inv_def)
  next
    case (exits m w m' w' th)
    then show ?thesis using that(1) exit_step_inv [of E c m th w m' w'] by simp
  qed (use that(1) in \<open>auto simp: threads_inv_def\<close>)
  show "fst u = Joining \<and> steps_left (fst (snd u)) < steps_left (fst (snd t)) \<or> fst u \<in> {Joined, Freed}"
    if "flag_ok E c \<and> threads_inv E c t" "fst t = Joining" "client_step E c t u" for t u
    using that(3)
  proof cases
    case (polls th w th' w' m)
    then show ?thesis using that(1,2) thread_step_done [of E c w th th' w']
      by (simp add: threads_inv_def)
  next
    case (exits m w m' w' th)
    then show ?thesis using that(2) exit_step_next [OF exits(3,4)] by (simp del: exit_step.simps)
  qed (use that(2) in simp_all)
  show "fst t \<in> {Joined, Freed} \<Longrightarrow> client_step E c t u \<Longrightarrow> fst u \<in> {Joined, Freed}" for t u
    by (erule client_step.cases) (auto dest: exit_step_next)
  show "fst t \<in> {Joined, Freed} \<Longrightarrow> fst t \<noteq> Joining" for t :: "'w threads"
    by auto
qed

lemma steps_left_4: "steps_left th \<le> 4"
  by (cases th) simp_all

lemma joining_progress:
  assumes "thread_joinable E c w"
  shows "\<exists>t. client_step E c (Joining, th, w) t"
proof (cases "th = At_End")
  case True
  have "exit_step E c (Joining, w) = Inr (Joined, c_pthread_join E c w)"
    using assms by (simp add: join_thread_def)
  from exits [OF this] True show ?thesis by blast
next
  case False
  then show ?thesis by (cases "thread_step E c (th, w)") (blast intro: polls)
qed

text \<open>Undisturbed, the steps of the main thread are \<^verbatim>\<open>remote_exit\<close>.\<close>

lemma exit_steps_remote_exit:
  "c \<noteq> NULL \<Longrightarrow> remote_exit E c w = bind_ub (exit_step E c (Calling, w)) (\<lambda>t.
     bind_ub (exit_step E c t) (\<lambda>t. bind_ub (exit_step E c t) (\<lambda>(m, w). Inr (0, w))))"
  by (simp add: remote_exit_eq join_thread_def Let_def)

text \<open>C7: however the two threads of a connected client interleave, its exit is safe and comes to
  an end. The steps that the main thread takes are those of \<^verbatim>\<open>remote_exit\<close>: set the flag,
  join, free. While it waits for the thread it can never be stuck, and the thread it waits for,
  which finds the flag set, takes at most four more steps, so it polls at most once more; joining
  is always defined; and when the client has been joined and freed, the thread has ended and takes
  no further step.\<close>

theorem exit_waits_for_thread:
  assumes "flag_ok E c" "c \<noteq> NULL" "thread_joinable E c w0"
    and "(client_step E c)\<^sup>*\<^sup>* (Calling, At_Test, w0) (m, th, w)"
  shows "remote_exit E c v = bind_ub (exit_step E c (Calling, v)) (\<lambda>t.
       bind_ub (exit_step E c t) (\<lambda>t. bind_ub (exit_step E c t) (\<lambda>(m, v). Inr (0, v))))
   \<and> (m = Joining \<longrightarrow> get_done E c w \<and> (\<exists>t. client_step E c (m, th, w) t)
        \<and> (\<forall>n th' w'. (client_step E c ^^ n) (m, th, w) (Joining, th', w') \<longrightarrow> n \<le> 4))
   \<and> (\<exists>t. exit_step E c (m, w) = Inr t)
   \<and> (m \<in> {Joined, Freed} \<longrightarrow> th = At_End)
   \<and> (m = Freed \<longrightarrow> (\<forall>t. \<not> client_step E c (m, th, w) t))"
proof -
  have inv: "threads_inv E c (m, th, w)"
    using threads.inv_steps [OF assms(4)] threads.inv_init assms(1,3) by blast
  have "n \<le> 4" if "m = Joining" "(client_step E c ^^ n) (m, th, w) (Joining, th', w')" for n th' w'
    using threads.wait_bound [OF that(2)] that(1) assms(1) inv steps_left_4 [of th] by fastforce
  moreover have "\<not> client_step E c (Freed, At_End, w) t" for t by (blast elim: freed_stepE)
  moreover have "\<exists>t. exit_step E c (m, w) = Inr t"
    using inv by (cases m) (auto simp: threads_inv_def join_thread_def)
  ultimately show ?thesis
    using inv joining_progress [of E c w th] exit_steps_remote_exit [OF assms(2), of E v]
    by (auto simp: threads_inv_def)
qed

text \<open>A client whose polls time out, so that only the main thread ends its thread.\<close>

definition ex_idle_client :: "(ptr list \<times> bool) client_env" where
  "ex_idle_client = (ex_client_env 0)\<lparr>rpc_client_poll := (\<lambda>c n w. (- ETIMEDOUT, w))\<rparr>"

lemma ex_idle_simps [simp]:
  "get_done ex_idle_client c w = snd w" "set_done ex_idle_client c b w = (fst w, b)"
  "rpc_client_poll ex_idle_client k n w = (- ETIMEDOUT, w)"
  "rpc_client_process_events ex_idle_client k w = (0, w)" "thread_joinable ex_idle_client c w"
  by (simp_all add: ex_idle_client_def ex_client_env_def)

theorem exit_waits_for_thread_witness:
  "\<exists>w. (client_step ex_idle_client 9)\<^sup>*\<^sup>* (Calling, At_Test, ([8], False)) (Joining, At_Poll, w)
     \<and> (\<forall>n th w'. (client_step ex_idle_client 9 ^^ n) (Joining, At_Poll, w) (Joining, th, w') \<longrightarrow> n \<le> 4)"
proof -
  have ok: "flag_ok ex_idle_client 9" by (simp add: flag_ok_def)
  have "client_step ex_idle_client 9 (Calling, At_Test, ([8], False)) (Calling, At_Poll, ([8], False))"
    by (rule polls) simp_all
  moreover have "client_step ex_idle_client 9 (Calling, At_Poll, ([8], False)) (Joining, At_Poll, ([8], True))"
    by (rule exits) simp_all
  ultimately have r: "(client_step ex_idle_client 9)\<^sup>*\<^sup>* (Calling, At_Test, ([8], False))
      (Joining, At_Poll, ([8], True))" by (meson converse_rtranclp_into_rtranclp r_into_rtranclp)
  have c: "(9 :: nat) \<noteq> NULL" "thread_joinable ex_idle_client 9 ([8], False)" by simp_all
  from exit_waits_for_thread [OF ok c r] r show ?thesis by blast
qed

end
