(* ===== verification/Cli_Utils.thy ===== *)
theory Cli_Utils
  imports C_Lib Enums "HOL-Library.Monad_Syntax"
begin

text \<open>
  The helpers of the command line client, \<^verbatim>\<open>src/bin/utils.c\<close>: booleans, the tables
  that name audio states, mixer controls and inputs, the hexadecimal dump, copying and
  freeing argument vectors, and the test for arguments that have to be quoted. Shown here:
  what the name tables accept and that they can be read back, that names of audio states
  are never accepted, and that the dump ends and loses no byte.
\<close>

section \<open>Booleans\<close>

definition true_values :: "string list" where
  "true_values = [''true'', ''on'', ''yes'', ''enable'']"

definition false_values :: "string list" where
  "false_values = [''false'', ''off'', ''no'', ''disable'']"

definition parse_bool :: "string \<Rightarrow> int + bool" where
  "parse_bool s =
     (if list_ex (strcaseeq s) true_values then Inr True
      else if list_ex (strcaseeq s) false_values then Inr False
      else Inl (- EILSEQ))"

section \<open>Name tables\<close>

text \<open>
  The two loops over a table: the first entry with the number, the first one with the
  name, without regard to case.
\<close>

definition find_id :: "'a \<Rightarrow> ('a \<times> string) list \<Rightarrow> string option" where
  "find_id x tbl = map_option snd (find (\<lambda>e. fst e = x) tbl)"

definition find_name :: "string \<Rightarrow> ('a \<times> string) list \<Rightarrow> 'a option" where
  "find_name s tbl = map_option fst (find (\<lambda>e. strcaseeq s (snd e)) tbl)"

definition audio_state_map :: "(remote_audio_state \<times> string) list" where
  "audio_state_map = [
     (REMOTE_AUDIO_STATE_UNKNOWN, ''Unknown''),
     (REMOTE_AUDIO_STATE_INACTIVE, ''Inactive''),
     (REMOTE_AUDIO_STATE_HIFI_PLAYBACK_SPEAKER, ''Hifi-Playback-Speaker''),
     (REMOTE_AUDIO_STATE_HIFI_PLAYBACK_HEADSET, ''Hifi-Playback-Headset''),
     (REMOTE_AUDIO_STATE_VOICECALL_HANDSET, ''VoiceCall-Handset''),
     (REMOTE_AUDIO_STATE_VOICECALL_HEADSET, ''VoiceCall-Headset''),
     (REMOTE_AUDIO_STATE_VOICECALL_SPEAKER, ''VoiceCall-Speaker''),
     (REMOTE_AUDIO_STATE_VOICECALL_IP_HANDSET, ''VoiceCallIP-Handset''),
     (REMOTE_AUDIO_STATE_VOICECALL_IP_HEADSET, ''VoiceCallIP-Headset''),
     (REMOTE_AUDIO_STATE_VOICECALL_IP_SPEAKER, ''VoiceCallIP-Speaker'')]"

definition mixer_control_map :: "(remote_mixer_control \<times> string) list" where
  "mixer_control_map = [
     (REMOTE_MIXER_CONTROL_PLAYBACK_MASTER, ''master''),
     (REMOTE_MIXER_CONTROL_PLAYBACK_PCM, ''pcm''),
     (REMOTE_MIXER_CONTROL_PLAYBACK_HEADSET, ''headset''),
     (REMOTE_MIXER_CONTROL_PLAYBACK_SPEAKER, ''speaker''),
     (REMOTE_MIXER_CONTROL_PLAYBACK_HANDSET, ''handset''),
     (REMOTE_MIXER_CONTROL_CAPTURE_MASTER, ''capture'')]"

definition mixer_input_map :: "(remote_mixer_input_source \<times> string) list" where
  "mixer_input_map = [
     (REMOTE_MIXER_INPUT_SOURCE_HEADSET, ''headset''),
     (REMOTE_MIXER_INPUT_SOURCE_HANDSET, ''handset''),
     (REMOTE_MIXER_INPUT_SOURCE_LINE, ''line'')]"

text \<open>The text has to start with a number; only then are the ids and the names looked at.\<close>

definition parse_audio_state :: "string option \<Rightarrow> remote_audio_state" where
  "parse_audio_state state =
     (case state of
        None \<Rightarrow> REMOTE_AUDIO_STATE_UNKNOWN
      | Some s \<Rightarrow>
          (case sscanf_d s of
             None \<Rightarrow> REMOTE_AUDIO_STATE_UNKNOWN
           | Some v \<Rightarrow>
               (case find (\<lambda>e. remote_audio_state_value (fst e) = v) audio_state_map of
                  Some e \<Rightarrow> fst e
                | None \<Rightarrow>
                    (case find_name s audio_state_map of
                       Some st \<Rightarrow> st
                     | None \<Rightarrow> REMOTE_AUDIO_STATE_UNKNOWN))))"

text \<open>
  The result and the buffer. \<^verbatim>\<open>snprintf\<close> of a string can not fail, so the branch that
  returns \<^verbatim>\<open>-errno\<close> is not there.
\<close>

definition print_name :: "string option \<Rightarrow> string \<Rightarrow> nat \<Rightarrow> int \<times> string" where
  "print_name name buffer sz =
     (let (ret, buffer) =
            (case name of Some n \<Rightarrow> snprintf buffer sz n | None \<Rightarrow> (0, buffer))
      in if ret = 0 then snprintf buffer sz ''unknown'' else (ret, buffer))"

definition audio_state_name :: "remote_audio_state \<Rightarrow> string \<Rightarrow> nat \<Rightarrow> int \<times> string" where
  "audio_state_name state buffer sz = print_name (find_id state audio_state_map) buffer sz"

text \<open>The conversion \<^verbatim>\<open>%.02d\<close> has at least two digits.\<close>

definition audio_state_print_names :: string where
  "audio_state_print_names = concat (map (\<lambda>(st, name).
     ''   '' @ zero_pad 2 (show_int (remote_audio_state_value st)) @ '': '' @ name @ [CHR 0x0A])
     (tl audio_state_map))"

definition parse_mixer_control :: "string \<Rightarrow> remote_mixer_control" where
  "parse_mixer_control control =
     (case find_name control mixer_control_map of
        Some st \<Rightarrow> st | None \<Rightarrow> REMOTE_MIXER_CONTROL_UNKNOWN)"

definition mixer_input_source_name ::
  "remote_mixer_input_source \<Rightarrow> string \<Rightarrow> nat \<Rightarrow> int \<times> string" where
  "mixer_input_source_name source buffer sz =
     print_name (find_id source mixer_input_map) buffer sz"

definition parse_mixer_input_source :: "string \<Rightarrow> remote_mixer_input_source" where
  "parse_mixer_input_source source =
     (case find_name source mixer_input_map of
        Some st \<Rightarrow> st | None \<Rightarrow> REMOTE_MIXER_INPUT_SOURCE_UNKNOWN)"

section \<open>The hexadecimal dump\<close>

datatype dump_prefix = DUMP_PREFIX_NONE | DUMP_PREFIX_ADDRESS | DUMP_PREFIX_OFFSET

text \<open>
  The row size is an \<^verbatim>\<open>int\<close> that the code adds to and compares with offsets of type
  \<^verbatim>\<open>size_t\<close>, of 64 bits: it is converted, so that a negative one is a huge one, and the
  sums wrap.
\<close>

definition size_of_int :: "int \<Rightarrow> nat" where
  "size_of_int n = nat (n mod 2 ^ 64)"

definition size_add :: "nat \<Rightarrow> nat \<Rightarrow> nat" where
  "size_add j i = (j + i) mod 2 ^ 64"

lemma size_add_small: "j + i < 2 ^ 64 \<Longrightarrow> size_add j i = j + i"
  by (simp add: size_add_def)

lemma size_of_int_small: "0 \<le> n \<Longrightarrow> n < 2 ^ 64 \<Longrightarrow> size_of_int n = nat n"
  by (simp add: size_of_int_def)

text \<open>
  \<open>show_ptr\<close> is the conversion \<^verbatim>\<open>%p\<close> of an address, \<open>base\<close> the address of the
  buffer. One round of the outer loop prints one row; its two inner loops are the columns.
\<close>

definition hex_column :: "nat \<Rightarrow> u8 list \<Rightarrow> nat \<Rightarrow> nat \<Rightarrow> string" where
  "hex_column rowsize buf len j = concat (map (\<lambda>i.
     (if i = 0 then '''' else '' '')
     @ (if size_add j i < len then hex2 (buf ! size_add j i) else ''  '')) [0..<rowsize])"

definition ascii_column :: "nat \<Rightarrow> u8 list \<Rightarrow> nat \<Rightarrow> nat \<Rightarrow> string" where
  "ascii_column rowsize buf len j = map (\<lambda>i.
     if size_add j i < len
     then (let c = char_of (unat (buf ! size_add j i)) in if isprint c then c else CHR ''.'')
     else CHR '' '') [0..<rowsize]"

definition dump_row ::
  "(ptr \<Rightarrow> string) \<Rightarrow> ptr \<Rightarrow> string \<Rightarrow> dump_prefix \<Rightarrow> nat \<Rightarrow> u8 list \<Rightarrow> nat \<Rightarrow> nat \<Rightarrow> string" where
  "dump_row show_ptr base prefix prefix_type rowsize buf len j =
     (case prefix_type of
        DUMP_PREFIX_ADDRESS \<Rightarrow> prefix @ show_ptr (base + j) @ '': ''
      | DUMP_PREFIX_OFFSET \<Rightarrow> prefix @ show_hex8 j @ '': ''
      | DUMP_PREFIX_NONE \<Rightarrow> prefix)
     @ hex_column rowsize buf len j @ '' | '' @ ascii_column rowsize buf len j
     @ '' |'' @ [CHR 0x0A]"

text \<open>
  The text of the rows from offset \<open>j\<close> on; \<open>len\<close> is a \<^verbatim>\<open>size_t\<close>. A row that reads behind
  the end of the buffer is undefined behaviour (a row that wraps has read all the offsets from
  \<open>j\<close> to the end before); a row size of 0 never gets on, which is the value \<open>None\<close>. The
  group size and the switch for the text column are arguments the code ignores.
\<close>

partial_function (option) dump_rows ::
  "(ptr \<Rightarrow> string) \<Rightarrow> ptr \<Rightarrow> string \<Rightarrow> dump_prefix \<Rightarrow> nat \<Rightarrow> u8 list \<Rightarrow> nat \<Rightarrow> nat
    \<Rightarrow> (c_ub + string) option" where
  "dump_rows show_ptr base prefix prefix_type rowsize buf len j =
     (if j < len
      then if length buf < min len (j + rowsize) then Some (Inl OutOfBounds)
      else Option.bind
        (dump_rows show_ptr base prefix prefix_type rowsize buf len (size_add j rowsize))
        (\<lambda>r. Some (bind_ub r (\<lambda>rest.
           Inr (dump_row show_ptr base prefix prefix_type rowsize buf len j @ rest))))
      else Some (Inr ''''))"

definition print_hex_dump ::
  "(ptr \<Rightarrow> string) \<Rightarrow> ptr \<Rightarrow> string \<Rightarrow> dump_prefix \<Rightarrow> int \<Rightarrow> u8 list \<Rightarrow> nat
    \<Rightarrow> (c_ub + string) option" where
  "print_hex_dump show_ptr base prefix prefix_type rowsize buf len =
     dump_rows show_ptr base prefix prefix_type (size_of_int rowsize) buf len 0"

section \<open>Argument vectors\<close>

text \<open>
  A vector of \<^verbatim>\<open>n\<close> string pointers and the null pointer after them is the list of the
  \<open>n\<close>. Copying a null pointer, or reading behind the terminator, is undefined; \<open>mem\<close> says
  whether the allocation of the vector succeeds.
\<close>

definition slice_strdup ::
  "bool \<Rightarrow> string option list option \<Rightarrow> int \<Rightarrow> int \<Rightarrow> c_ub + string option list option" where
  "slice_strdup mem argv start stop =
     (case argv of
        None \<Rightarrow> Inr None
      | Some av \<Rightarrow>
          if stop > start then
            if \<not> mem then Inr None
            else if start < 0 \<or> int (length av) < stop then Inl OutOfBounds
            else
              let slice = take (nat (stop - start)) (drop (nat start) av)
              in if None \<in> set slice then Inl NullDeref else Inr (Some slice)
          else Inr None)"

text \<open>
  A heap of strings: the blocks of a vector are freed in order, up to the first null
  pointer, and then the vector itself.
\<close>

definition strfreev :: "(ptr \<times> ptr list) option \<Rightarrow> ptr set \<Rightarrow> ptr set" where
  "strfreev strv heap =
     (case strv of
        Some (vec, blocks) \<Rightarrow> heap - set (takeWhile (\<lambda>b. b \<noteq> NULL) blocks) - {vec}
      | None \<Rightarrow> heap)"

definition shell_str_needs_escape :: "string \<Rightarrow> bool" where
  "shell_str_needs_escape s \<longleftrightarrow> dropWhile (\<lambda>c. \<not> isspace c) s \<noteq> []"

lemma needs_escape_iff: "shell_str_needs_escape s \<longleftrightarrow> (\<exists>c \<in> set s. isspace c)"
  by (auto simp: shell_str_needs_escape_def)

section \<open>What the tables give\<close>

text \<open>A table whose entries have different ids and, without regard to case, different names.\<close>

locale name_table =
  fixes tbl :: "('a \<times> string) list"
  assumes distinct_ids: "distinct (map fst tbl)"
    and distinct_names: "distinct (map (map tolower \<circ> snd) tbl)"
begin

lemma find_id_entry: "(x, n) \<in> set tbl \<Longrightarrow> find_id x tbl = Some n"
proof -
  assume e: "(x, n) \<in> set tbl"
  then obtain e' where f: "find (\<lambda>e. fst e = x) tbl = Some e'"
    by (cases "find (\<lambda>e. fst e = x) tbl") (auto simp: find_None_iff)
  then have "e' \<in> set tbl" "fst e' = x" by (auto simp: find_Some_iff)
  then have "e' = (x, n)" using e distinct_ids by (auto simp: distinct_map inj_on_def)
  then show ?thesis by (simp add: find_id_def f)
qed

lemma find_name_entry: "(x, n) \<in> set tbl \<Longrightarrow> strcaseeq s n \<Longrightarrow> find_name s tbl = Some x"
proof -
  assume e: "(x, n) \<in> set tbl" and s: "strcaseeq s n"
  then obtain e' where f: "find (\<lambda>e. strcaseeq s (snd e)) tbl = Some e'"
    by (cases "find (\<lambda>e. strcaseeq s (snd e)) tbl") (auto simp: find_None_iff)
  then have "e' \<in> set tbl" "strcaseeq s (snd e')" by (auto simp: find_Some_iff)
  then have "map tolower (snd e') = map tolower n" using s by (simp add: strcaseeq_def)
  then have "e' = (x, n)" using e \<open>e' \<in> set tbl\<close> distinct_names
    by (auto simp: distinct_map inj_on_def)
  then show ?thesis by (simp add: find_name_def f)
qed

lemma find_name_Some: "find_name s tbl = Some x \<longleftrightarrow> (\<exists>n. (x, n) \<in> set tbl \<and> strcaseeq s n)"
proof
  assume "find_name s tbl = Some x"
  then obtain e where "find (\<lambda>e. strcaseeq s (snd e)) tbl = Some e" "fst e = x"
    by (auto simp: find_name_def)
  then show "\<exists>n. (x, n) \<in> set tbl \<and> strcaseeq s n"
    by (metis find_Some_iff nth_mem prod.collapse)
qed (auto intro: find_name_entry)

end

interpretation audio_names: name_table audio_state_map
  by unfold_locales (simp_all add: audio_state_map_def tolower_def)

interpretation control_names: name_table mixer_control_map
  by unfold_locales (simp_all add: mixer_control_map_def tolower_def)

interpretation input_names: name_table mixer_input_map
  by unfold_locales (simp_all add: mixer_input_map_def tolower_def)

lemma print_name_cstring:
  assumes "n \<noteq> []" "NUL \<notin> set n" "length n < sz"
  shows "cstring (snd (print_name (Some n) buffer sz)) = n"
  using assms cstring_snprintf [of n sz buffer] by (simp add: print_name_def snprintf_def)

section \<open>Properties\<close>

text \<open>A text is a boolean exactly when it is one of the eight words in any
  capitalisation, and means what the word means; no word means both.\<close>

lemma parse_bool_words:
  "(parse_bool s = Inr b \<longleftrightarrow>
      (\<exists>v \<in> set (if b then true_values else false_values). map tolower s = map tolower v))
   \<and> (parse_bool s = Inl e \<longleftrightarrow> e = - EILSEQ
      \<and> (\<forall>v \<in> set true_values \<union> set false_values. map tolower s \<noteq> map tolower v))"
  by (cases b) (auto simp: parse_bool_def strcaseeq_def true_values_def false_values_def
      tolower_def split: if_splits)

lemma parse_bool_words_example:
  "parse_bool ''Enable'' = Inr True \<and> parse_bool ''OFF'' = Inr False
   \<and> parse_bool ''maybe'' = Inl (- EILSEQ)"
proof -
  have "map tolower ''Enable'' = ''enable''" "map tolower ''OFF'' = ''off''"
    "map tolower ''maybe'' = ''maybe''" by code_simp+
  moreover have "\<exists>v \<in> set true_values. ''enable'' = map tolower v"
    "\<exists>v \<in> set false_values. ''off'' = map tolower v"
    "\<forall>v \<in> set true_values \<union> set false_values. ''maybe'' \<noteq> map tolower v" by code_simp+
  ultimately show ?thesis
    using parse_bool_words [of "''Enable''" True 0] parse_bool_words [of "''OFF''" False 0]
      parse_bool_words [of "''maybe''" True "- EILSEQ"] by simp
qed

text \<open>The mixer inputs can be read back: what is printed for an input into a buffer of at
  least eight bytes parses to the input, and a mixer control is parsed from its name in any
  capitalisation, every other text being the unknown control.\<close>

lemma mixer_names_roundtrip:
  assumes "source \<in> fst ` set mixer_input_map" "8 \<le> sz"
  shows "parse_mixer_input_source (cstring (snd (mixer_input_source_name source buffer sz))) = source
   \<and> (control \<noteq> REMOTE_MIXER_CONTROL_UNKNOWN \<longrightarrow> (parse_mixer_control s = control \<longleftrightarrow>
        (\<exists>n. (control, n) \<in> set mixer_control_map \<and> map tolower s = map tolower n)))"
proof
  obtain n where n: "(source, n) \<in> set mixer_input_map" using assms(1) by auto
  then have "n \<noteq> []" "NUL \<notin> set n" "length n < sz"
    using assms(2) by (auto simp: mixer_input_map_def NUL_def)
  then show "parse_mixer_input_source (cstring (snd (mixer_input_source_name source buffer sz)))
      = source"
    using input_names.find_id_entry [OF n] input_names.find_name_entry [OF n]
    by (simp add: parse_mixer_input_source_def mixer_input_source_name_def print_name_cstring)
  show "control \<noteq> REMOTE_MIXER_CONTROL_UNKNOWN \<longrightarrow> (parse_mixer_control s = control \<longleftrightarrow>
      (\<exists>n. (control, n) \<in> set mixer_control_map \<and> map tolower s = map tolower n))"
    unfolding strcaseeq_def [symmetric] control_names.find_name_Some [symmetric]
    by (auto simp: parse_mixer_control_def split: option.split)
qed

lemma mixer_names_roundtrip_example:
  "parse_mixer_input_source (cstring (snd (mixer_input_source_name
      REMOTE_MIXER_INPUT_SOURCE_HANDSET (replicate 16 NUL) 16))) = REMOTE_MIXER_INPUT_SOURCE_HANDSET
   \<and> parse_mixer_control ''PCM'' = REMOTE_MIXER_CONTROL_PLAYBACK_PCM"
proof -
  have "(REMOTE_MIXER_CONTROL_PLAYBACK_PCM, ''pcm'') \<in> set mixer_control_map"
    by (simp add: mixer_control_map_def)
  moreover have "map tolower ''PCM'' = map tolower ''pcm''" by code_simp
  moreover have "REMOTE_MIXER_INPUT_SOURCE_HANDSET \<in> fst ` set mixer_input_map"
    by (simp add: mixer_input_map_def)
  ultimately show ?thesis
    using mixer_names_roundtrip [of REMOTE_MIXER_INPUT_SOURCE_HANDSET 16 "replicate 16 NUL"
        REMOTE_MIXER_CONTROL_PLAYBACK_PCM "''PCM''"] by auto
qed

lemma audio_state_names_letter:
  "\<forall>e \<in> set audio_state_map. snd e \<noteq> [] \<and> 65 \<le> code (hd (snd e)) \<and> code (hd (snd e)) \<le> 90"
  by (simp add: audio_state_map_def)

lemma audio_state_numbers:
  "\<forall>e \<in> set audio_state_map.
     parse_audio_state (Some (show_int (remote_audio_state_value (fst e)))) = fst e"
  by code_simp

lemma sscanf_d_letter:
  assumes "65 \<le> code c \<and> code c \<le> 90" "tolower d = tolower c"
  shows "sscanf_d (d # s) = None"
proof -
  have "code (tolower c) = code c + 32" using assms(1) by (simp add: tolower_def)
  then have "code (tolower d) = code c + 32" using assms(2) by simp
  then have "65 \<le> code d" "code d \<le> 122" using assms(1)
    by (auto simp: tolower_def split: if_splits)
  then have "\<not> isspace d" "\<not> is_digit 10 d" "d \<noteq> CHR ''-''" "d \<noteq> CHR ''+''"
    by (auto simp: isspace_def is_digit_def digit_value_def)
  then show ?thesis by (intro sscanf_d_None) simp_all
qed

text \<open>C40: the name of an audio state is never recognised, in any capitalisation, because
  the text is scanned for a number first; the number of a state in the table is.\<close>

theorem parse_audio_state_names:
  assumes "(st, name) \<in> set audio_state_map"
  shows "(map tolower s = map tolower name \<longrightarrow> parse_audio_state (Some s) = REMOTE_AUDIO_STATE_UNKNOWN)
   \<and> parse_audio_state (Some (show_int (remote_audio_state_value st))) = st"
proof
  have n: "name \<noteq> []" "65 \<le> code (hd name) \<and> code (hd name) \<le> 90"
    using audio_state_names_letter assms by fastforce+
  show "map tolower s = map tolower name \<longrightarrow> parse_audio_state (Some s) = REMOTE_AUDIO_STATE_UNKNOWN"
    using n(1) sscanf_d_letter [OF n(2)]
    by (cases s; cases name) (simp_all add: parse_audio_state_def)
  show "parse_audio_state (Some (show_int (remote_audio_state_value st))) = st"
    using audio_state_numbers assms by fastforce
qed

theorem parse_audio_state_names_witness:
  "parse_audio_state (Some ''VoiceCall-Handset'') = REMOTE_AUDIO_STATE_UNKNOWN
   \<and> parse_audio_state (Some (show_int 20)) = REMOTE_AUDIO_STATE_VOICECALL_HANDSET"
  using parse_audio_state_names [of REMOTE_AUDIO_STATE_VOICECALL_HANDSET "''VoiceCall-Handset''"
      "''VoiceCall-Handset''"]
  by (simp add: audio_state_map_def)

section \<open>The dump\<close>

definition dump_text ::
  "(ptr \<Rightarrow> string) \<Rightarrow> ptr \<Rightarrow> string \<Rightarrow> dump_prefix \<Rightarrow> nat \<Rightarrow> u8 list \<Rightarrow> nat \<Rightarrow> nat list \<Rightarrow> string" where
  "dump_text show_ptr base prefix prefix_type rowsize buf len js =
     concat (map (dump_row show_ptr base prefix prefix_type rowsize buf len) js)"

text \<open>The offsets of the rows.\<close>

definition row_offsets :: "nat \<Rightarrow> nat \<Rightarrow> nat list" where
  "row_offsets rowsize len = map (\<lambda>k. k * rowsize) [0..<(len + rowsize - 1) div rowsize]"

lemma dump_rows_upto:
  assumes "0 < rowsize" "len \<le> length buf" "j + k * rowsize \<ge> len" "k = 0 \<or> j + (k - 1) * rowsize < len"
    and "j + k * rowsize < 2 ^ 64"
  shows "dump_rows show_ptr base prefix prefix_type rowsize buf len j
    = Some (Inr (dump_text show_ptr base prefix prefix_type rowsize buf len
        (map (\<lambda>i. j + i * rowsize) [0..<k])))"
  using assms(3-5)
proof (induction k arbitrary: j)
  case 0
  then show ?case by (subst dump_rows.simps) (simp add: dump_text_def)
next
  case (Suc k)
  have j: "j < len" using Suc.prems(2) by (cases k) auto
  have "dump_rows show_ptr base prefix prefix_type rowsize buf len (j + rowsize)
    = Some (Inr (dump_text show_ptr base prefix prefix_type rowsize buf len
        (map (\<lambda>i. j + rowsize + i * rowsize) [0..<k])))"
  proof (rule Suc.IH)
    show "len \<le> j + rowsize + k * rowsize" using Suc.prems(1) by (simp add: algebra_simps)
    show "k = 0 \<or> j + rowsize + (k - 1) * rowsize < len"
      using Suc.prems(2) by (cases k) (auto simp: algebra_simps)
    show "j + rowsize + k * rowsize < 2 ^ 64" using Suc.prems(3) by (simp add: algebra_simps)
  qed
  then have "dump_rows show_ptr base prefix prefix_type rowsize buf len (size_add j rowsize)
    = Some (Inr (dump_text show_ptr base prefix prefix_type rowsize buf len
        (map (\<lambda>i. j + rowsize + i * rowsize) [0..<k])))"
    using Suc.prems(3) by (simp add: size_add_small)
  moreover have "map (\<lambda>i. j + i * rowsize) [0..<Suc k]
      = j # map (\<lambda>i. j + rowsize + i * rowsize) [0..<k]"
    by (subst map_upt_Suc) (simp add: add.assoc)
  ultimately show ?case using j assms(2)
    by (subst dump_rows.simps) (simp add: dump_text_def del: upt_Suc)
qed

lemma row_count:
  assumes "0 < (r :: nat)"
  shows "len \<le> (len + r - 1) div r * r" "(len + r - 1) div r = 0 \<or> ((len + r - 1) div r - 1) * r < len"
proof -
  let ?k = "(len + r - 1) div r"
  have k: "?k * r + (len + r - 1) mod r = len + r - 1" "(len + r - 1) mod r < r"
    using assms by simp_all
  show "len \<le> ?k * r" using k assms by linarith
  show "?k = 0 \<or> (?k - 1) * r < len"
  proof (cases ?k)
    case (Suc n)
    then have "r + n * r + (len + r - 1) mod r = len + r - 1" using k(1) by simp
    then show ?thesis using Suc k(2) assms by simp
  qed simp
qed

lemma filter_hex2: "filter (\<lambda>c. c \<noteq> CHR '' '') (hex2 b) = hex2 b"
proof -
  have "\<forall>n < 16. hex_digits ! n \<noteq> CHR '' ''"
    by (simp add: hex_digits_def numeral_nat All_less_Suc)
  moreover have "unat b div 16 < 16" "unat b mod 16 < 16" using unat_u8_lt [of b] by auto
  ultimately show ?thesis by (simp add: hex2_def)
qed

text \<open>The bytes that the hexadecimal column of a row shows.\<close>

definition row_bytes :: "nat \<Rightarrow> u8 list \<Rightarrow> nat \<Rightarrow> nat \<Rightarrow> u8 list" where
  "row_bytes rowsize buf len j =
     unhex (filter (\<lambda>c. c \<noteq> CHR '' '') (hex_column rowsize buf len j))"

lemma unhex_concat: "unhex (concat (map hex2 bs)) = bs"
  by (induction bs) simp_all

lemma hex_column_filter:
  "j + n \<le> 2 ^ 64 \<Longrightarrow> filter (\<lambda>c. c \<noteq> CHR '' '') (hex_column n buf len j)
    = concat (map hex2 (map (\<lambda>i. buf ! (j + i)) (filter (\<lambda>i. j + i < len) [0..<n])))"
  by (induction n) (auto simp: hex_column_def filter_hex2 size_add_small)

lemma row_bytes_map:
  "j + n \<le> 2 ^ 64 \<Longrightarrow>
    row_bytes n buf len j = map (\<lambda>i. buf ! (j + i)) (filter (\<lambda>i. j + i < len) [0..<n])"
  by (simp only: row_bytes_def hex_column_filter unhex_concat)

lemma row_bytes_slice:
  assumes "len \<le> length buf" "j + rowsize \<le> 2 ^ 64"
  shows "row_bytes rowsize buf len j = take rowsize (drop j (take len buf))"
  using assms(2)
proof (induction rowsize)
  case (Suc n)
  then show ?case using assms(1) by (auto simp: row_bytes_map take_Suc_conv_app_nth)
qed (simp add: row_bytes_map)

lemma concat_slices:
  "0 < r \<Longrightarrow> concat (map (\<lambda>k. take r (drop (k * r) xs)) [0..<n]) = take (n * r) xs"
proof (induction n)
  case (Suc n)
  then show ?case using take_add [of "n * r" r xs] by (simp add: add.commute)
qed simp

text \<open>The offsets do not wrap, for any row size in the range of an \<^verbatim>\<open>int\<close>.\<close>

lemma rows_fit:
  assumes "rowsize \<noteq> 0" "- (2 ^ 31) \<le> rowsize" "rowsize < 2 ^ 31" "len < 2 ^ 63"
  defines "r \<equiv> size_of_int rowsize"
  shows "0 < r" "(len + r - 1) div r * r < 2 ^ 64"
proof -
  have r: "if 0 < rowsize then 0 < r \<and> r < 2 ^ 31 else 2 ^ 63 < r \<and> r < 2 ^ 64"
  proof (cases "0 < rowsize")
    case False
    have "rowsize mod 2 ^ 64 = (rowsize + 2 ^ 64) mod 2 ^ 64" by (rule mod_add_self2 [symmetric])
    also have "\<dots> = rowsize + 2 ^ 64" using False assms(1,2) by (intro mod_pos_pos_trivial) auto
    finally show ?thesis using False assms(1,2)
      by (auto simp: r_def size_of_int_def zless_nat_eq_int_zless nat_less_iff)
  qed (use assms(3) in \<open>simp add: r_def size_of_int_small\<close>)
  then show p: "0 < r" by (auto split: if_splits)
  let ?k = "(len + r - 1) div r"
  show "?k * r < 2 ^ 64"
  proof (cases "0 < rowsize")
    case True
    have "r < 2 ^ 31" using r True by simp
    then have "len + r < 2 ^ 64" using assms(4) by simp
    then have "len + r - 1 < 2 ^ 64" by (rule le_less_trans [OF diff_le_self])
    with div_times_less_eq_dividend show ?thesis by (rule le_less_trans)
  next
    case False
    then have "len < r" using r assms(4) by simp
    then have "len + r - 1 < 2 * r" by linarith
    then have "?k < 2" by (rule less_mult_imp_div_less)
    then have "?k * r \<le> 1 * r" by (intro mult_le_mono1) simp
    then have "?k * r \<le> r" by (simp only: mult_1)
    moreover have "r < 2 ^ 64" using r False by simp
    ultimately show ?thesis by (rule le_less_trans)
  qed
qed

text \<open>C14: the hexadecimal dump ends, for every row size but 0 and every length within the
  buffer: it prints one row per started group, in order, and read back from their hexadecimal
  columns the rows give all the bytes and nothing else. The row size is any \<^verbatim>\<open>int\<close>: a negative
  one is converted to a size above \<open>2 ^ 63\<close>, which no object has (the last hypothesis), and the
  dump is a single row.\<close>

theorem print_hex_dump_complete:
  assumes "rowsize \<noteq> 0" "- (2 ^ 31) \<le> rowsize" "rowsize < 2 ^ 31"
    and "len \<le> length buf" "length buf < 2 ^ 63"
  shows "let r = size_of_int rowsize in
      print_hex_dump show_ptr base prefix prefix_type rowsize buf len
        = Some (Inr (dump_text show_ptr base prefix prefix_type r buf len (row_offsets r len)))
    \<and> concat (map (row_bytes r buf len) (row_offsets r len)) = take len buf"
proof -
  let ?r = "size_of_int rowsize"
  let ?k = "(len + ?r - 1) div ?r"
  have l: "len < 2 ^ 63" using assms(4,5) by simp
  note fit = rows_fit [OF assms(1-3) l]
  have "print_hex_dump show_ptr base prefix prefix_type rowsize buf len
      = Some (Inr (dump_text show_ptr base prefix prefix_type ?r buf len (row_offsets ?r len)))"
    using dump_rows_upto [OF fit(1) assms(4), of 0 ?k] row_count [OF fit(1)] fit(2)
    by (simp add: print_hex_dump_def row_offsets_def)
  moreover have "row_bytes ?r buf len (i * ?r) = take ?r (drop (i * ?r) (take len buf))" if "i < ?k" for i
  proof (rule row_bytes_slice [OF assms(4)])
    have "Suc i * ?r \<le> ?k * ?r" using that by (intro mult_le_mono1) simp
    then show "i * ?r + ?r \<le> 2 ^ 64" using fit(2) by simp
  qed
  then have "map (row_bytes ?r buf len) (row_offsets ?r len)
      = map (\<lambda>k. take ?r (drop (k * ?r) (take len buf))) [0..<?k]"
    by (simp add: row_offsets_def)
  then have "concat (map (row_bytes ?r buf len) (row_offsets ?r len)) = take (?k * ?r) (take len buf)"
    by (simp only: concat_slices [OF fit(1)])
  then have "concat (map (row_bytes ?r buf len) (row_offsets ?r len)) = take len buf"
    using row_count(1) [OF fit(1), of len] by (simp add: min_def)
  ultimately show ?thesis by (simp only: Let_def simp_thms)
qed

theorem print_hex_dump_complete_witness:
  "print_hex_dump (\<lambda>a. show_base 16 a) 0 ''  '' DUMP_PREFIX_OFFSET 16 (replicate 20 65) 20
      = Some (Inr (dump_row (\<lambda>a. show_base 16 a) 0 ''  '' DUMP_PREFIX_OFFSET 16 (replicate 20 65) 20 0
          @ dump_row (\<lambda>a. show_base 16 a) 0 ''  '' DUMP_PREFIX_OFFSET 16 (replicate 20 65) 20 16))"
proof -
  have o: "row_offsets 16 20 = [0, 16]" by code_simp
  have r: "size_of_int 16 = 16" by (simp add: size_of_int_small)
  show ?thesis
    using print_hex_dump_complete [of 16 20 "replicate 20 65" "\<lambda>a. show_base 16 a" 0 "''  ''"
        DUMP_PREFIX_OFFSET]
    by (simp add: o r dump_text_def)
qed

end
