(* ===== verification/Cli_Shell.thy ===== *)
theory Cli_Shell
  imports Cli_Utils
begin

text \<open>
  The command line parser of the interactive client, \<^verbatim>\<open>src/bin/main.c\<close>: splitting a
  line into arguments at white space outside quotes, taking the quotes out of an argument,
  and the two calls that count the arguments and then fill a vector with them. Shown here:
  the two calls agree, the vector holds the arguments of a reference splitting, and an
  argument whose quotes are not closed can overflow the block allocated for it.

  A line is its characters before the terminator. \<open>mok\<close> says which sizes \<^verbatim>\<open>malloc\<close>
  can allocate.
\<close>

section \<open>Taking quotes out\<close>

definition skip_spaces :: "string \<Rightarrow> string" where
  "skip_spaces s = dropWhile isspace s"

definition is_quote :: "char \<Rightarrow> bool" where
  "is_quote c \<longleftrightarrow> c = CHR 0x22 \<or> c = CHR 0x27"

text \<open>
  The first loop of \<^verbatim>\<open>unquote\<close>: the quote that is open, if any, and the length. The
  second loop writes into the block; writing at or behind its end is an overflow.
\<close>

fun unquote_count :: "char option \<Rightarrow> nat \<Rightarrow> string \<Rightarrow> char option \<times> nat" where
  "unquote_count quote n [] = (quote, n)"
| "unquote_count quote n (c # s) =
     (if is_quote c then
        (case quote of
           Some q \<Rightarrow> if q = c then unquote_count None n s else unquote_count quote (Suc n) s
         | None \<Rightarrow> unquote_count (Some c) n s)
      else unquote_count quote (Suc n) s)"

definition put :: "string \<Rightarrow> nat \<Rightarrow> char \<Rightarrow> c_ub + string" where
  "put mem n c = (if n < length mem then Inr (mem[n := c]) else Inl HeapOverflow)"

fun unquote_write :: "char option \<Rightarrow> nat \<Rightarrow> string \<Rightarrow> string \<Rightarrow> c_ub + nat \<times> string" where
  "unquote_write quote n mem [] = Inr (n, mem)"
| "unquote_write quote n mem (c # s) =
     (if is_quote c then
        (case quote of
           Some q \<Rightarrow>
             if q = c then unquote_write None n mem s
             else bind_ub (put mem n c) (\<lambda>mem. unquote_write quote (Suc n) mem s)
         | None \<Rightarrow> unquote_write (Some c) n mem s)
      else bind_ub (put mem n c) (\<lambda>mem. unquote_write quote (Suc n) mem s))"

text \<open>
  The second loop starts with the quote the first one ended with. What a fresh block holds
  does not matter: everything up to the terminator is written.
\<close>

definition unquote :: "(nat \<Rightarrow> bool) \<Rightarrow> string \<Rightarrow> c_ub + string option" where
  "unquote mok s =
     (let (quote, n) = unquote_count None 0 s in
      if \<not> mok (n + 1) then Inr None
      else bind_ub (unquote_write quote 0 (replicate (n + 1) NUL) s) (\<lambda>(n, mem).
        bind_ub (put mem n NUL) (\<lambda>mem. Inr (Some (cstring mem)))))"

section \<open>Splitting a line\<close>

text \<open>
  \<open>token\<close> is the text from \<^verbatim>\<open>last\<close> to \<^verbatim>\<open>ptr\<close>, the string argument the text from
  \<^verbatim>\<open>ptr\<close> on.
\<close>

definition store_token ::
  "(nat \<Rightarrow> bool) \<Rightarrow> nat \<Rightarrow> nat \<Rightarrow> string \<Rightarrow> string option list \<Rightarrow> c_ub + string option list" where
  "store_token mok argc count token argv =
     (if count < argc then bind_ub (unquote mok token) (\<lambda>r. Inr (argv[count := r])) else Inr argv)"

definition toggle_quote :: "char option \<Rightarrow> char \<Rightarrow> char option" where
  "toggle_quote quote c =
     (case quote of Some q \<Rightarrow> if q = c then None else quote | None \<Rightarrow> Some c)"

function shell_loop ::
  "(nat \<Rightarrow> bool) \<Rightarrow> nat \<Rightarrow> char option \<Rightarrow> nat \<Rightarrow> string \<Rightarrow> string \<Rightarrow> string option list
    \<Rightarrow> c_ub + nat \<times> string option list" where
  "shell_loop mok argc quote count token [] argv =
     (if token \<noteq> []
      then bind_ub (store_token mok argc count token argv) (\<lambda>argv. Inr (Suc count, argv))
      else Inr (count, argv))"
| "shell_loop mok argc quote count token (c # s) argv =
     (if is_quote c then shell_loop mok argc (toggle_quote quote c) count (token @ [c]) s argv
      else if quote = None \<and> isspace c
      then bind_ub (store_token mok argc count token argv) (\<lambda>argv.
        shell_loop mok argc quote (Suc count) [] (skip_spaces (c # s)) argv)
      else shell_loop mok argc quote count (token @ [c]) s argv)"
  by pat_completeness auto
termination
  by (relation "measure (\<lambda>(mok, argc, quote, count, token, s, argv). length s)")
    (auto simp: skip_spaces_def intro: le_less_trans [OF length_dropWhile_le])

definition shell_parse ::
  "(nat \<Rightarrow> bool) \<Rightarrow> string \<Rightarrow> nat \<Rightarrow> string option list \<Rightarrow> c_ub + nat \<times> string option list" where
  "shell_parse mok s argc argv = shell_loop mok argc None 0 [] (skip_spaces s) argv"

section \<open>The application context\<close>

record cli =
  cli_client :: ptr
  cli_hostname :: string
  cli_service :: string
  cli_quiet :: nat
  cli_verbose :: nat
  cli_argv :: "string option list option"
  cli_argc :: int

text \<open>\<open>cmem\<close> says whether the vector can be allocated.\<close>

definition cli_parse_command ::
  "(nat \<Rightarrow> bool) \<Rightarrow> bool \<Rightarrow> cli \<Rightarrow> string \<Rightarrow> c_ub + int \<times> cli" where
  "cli_parse_command mok cmem cli command =
     (let cli = cli\<lparr>cli_argv := None, cli_argc := 0\<rparr> in
      bind_ub (shell_parse mok command 0 []) (\<lambda>(ret, _).
        if \<not> cmem then Inr (- ENOMEM, cli)
        else
          let cli = cli\<lparr>cli_argc := int ret\<rparr> in
          bind_ub (shell_parse mok command ret (replicate ret None)) (\<lambda>(ret, argv).
            Inr (int ret, cli\<lparr>cli_argv := Some argv\<rparr>))))"

section \<open>Reference: tokens and their text\<close>

fun tokens :: "char option \<Rightarrow> string \<Rightarrow> string \<Rightarrow> string list" where
  "tokens q token [] = (if token = [] then [] else [token])"
| "tokens q token (c # s) =
     (if is_quote c then tokens (toggle_quote q c) (token @ [c]) s
      else if q = None \<and> isspace c
      then (if token = [] then tokens q [] s else token # tokens q [] s)
      else tokens q (token @ [c]) s)"

text \<open>The characters that are not the quotes that open or close, and the quote left open.\<close>

fun plain :: "char option \<Rightarrow> string \<Rightarrow> string" where
  "plain q [] = []"
| "plain q (c # s) =
     (if is_quote c then
        (case q of Some d \<Rightarrow> if d = c then plain None s else c # plain q s
         | None \<Rightarrow> plain (Some c) s)
      else c # plain q s)"

fun open_quote :: "char option \<Rightarrow> string \<Rightarrow> char option" where
  "open_quote q [] = q"
| "open_quote q (c # s) = open_quote (if is_quote c then toggle_quote q c else q) s"

lemma unquote_count_plain:
  "unquote_count q n s = (open_quote q s, n + length (plain q s))"
  by (induction q n s rule: unquote_count.induct) (auto simp: toggle_quote_def split: option.splits)

lemma put_append:
  "put (pre @ rest) (length pre) c
    = (case rest of [] \<Rightarrow> Inl HeapOverflow | _ # r \<Rightarrow> Inr (pre @ c # r))"
  by (cases rest) (auto simp: put_def list_update_append)

lemma unquote_write_plain:
  "unquote_write q (length pre) (pre @ rest) s
    = (if length (plain q s) \<le> length rest
       then Inr (length pre + length (plain q s), pre @ plain q s @ drop (length (plain q s)) rest)
       else Inl HeapOverflow)"
proof (induction s arbitrary: q pre rest)
  case (Cons c s)
  have step: "bind_ub (put (pre @ rest) (length pre) c) (\<lambda>mem. unquote_write q (Suc (length pre)) mem s)
    = (if Suc (length (plain q s)) \<le> length rest
       then Inr (length pre + Suc (length (plain q s)),
          pre @ c # plain q s @ drop (Suc (length (plain q s))) rest)
       else Inl HeapOverflow)" for q
    using Cons.IH [of q "pre @ [c]"] by (cases rest) (simp_all add: put_append put_append [of pre "[]", simplified])
  show ?case by (simp add: Cons.IH step split: option.split)
qed simp

lemma unquote_eq:
  assumes "NUL \<notin> set s"
  shows "unquote mok s =
    (if \<not> mok (length (plain None s) + 1) then Inr None
     else if length (plain (open_quote None s) s) \<le> length (plain None s)
     then Inr (Some (plain (open_quote None s) s)) else Inl HeapOverflow)"
proof -
  let ?n = "length (plain None s)" and ?q = "open_quote None s"
  have sub: "set (plain q s) \<subseteq> set s" for q
    by (induction s arbitrary: q) (auto split: option.splits)
  then have nul: "NUL \<notin> set (plain ?q s)" using assms by blast
  have w: "unquote_write ?q 0 (replicate (Suc ?n) NUL) s
    = (if length (plain ?q s) \<le> Suc ?n
       then Inr (length (plain ?q s), plain ?q s @ replicate (Suc ?n - length (plain ?q s)) NUL)
       else Inl HeapOverflow)"
    using unquote_write_plain [of ?q "[]" "replicate (Suc ?n) NUL" s]
    by (simp only: list.size append_Nil length_replicate drop_replicate add_0)
  show ?thesis
  proof (cases "length (plain ?q s) \<le> ?n")
    case True
    then have "replicate (Suc ?n - length (plain ?q s)) NUL
        = NUL # replicate (?n - length (plain ?q s)) NUL"
      by (simp add: Suc_diff_le)
    then show ?thesis using True nul
      by (simp add: unquote_def unquote_count_plain w put_append del: replicate_Suc)
  next
    case False
    then show ?thesis
      by (auto simp: unquote_def unquote_count_plain w put_def simp del: replicate_Suc)
  qed
qed

section \<open>The loop splits into tokens\<close>

fun store_tokens ::
  "(nat \<Rightarrow> bool) \<Rightarrow> nat \<Rightarrow> nat \<Rightarrow> string list \<Rightarrow> string option list
    \<Rightarrow> c_ub + nat \<times> string option list" where
  "store_tokens mok argc count [] argv = Inr (count, argv)"
| "store_tokens mok argc count (t # ts) argv =
     bind_ub (store_token mok argc count t argv) (\<lambda>argv.
       store_tokens mok argc (Suc count) ts argv)"

lemma store_tokens_Nil: "store_tokens mok argc count [] = (\<lambda>argv. Inr (count, argv))"
  by (rule ext) simp

lemma tokens_skip: "tokens None [] (skip_spaces s) = tokens None [] s"
  by (induction s) (auto simp: skip_spaces_def is_quote_def)

lemma skip_spaces_hd: "skip_spaces s = [] \<or> \<not> isspace (hd (skip_spaces s))"
  unfolding skip_spaces_def by (induction s) auto

lemma shell_loop_tokens:
  assumes "token = [] \<longrightarrow> q = None \<and> (s = [] \<or> \<not> isspace (hd s))"
  shows "shell_loop mok argc q count token s argv
    = store_tokens mok argc count (tokens q token s) argv"
  using assms
proof (induction mok argc q count token s argv rule: shell_loop.induct)
  case (1 mok argc q count token argv)
  then show ?case by (simp add: store_tokens_Nil)
next
  case (2 mok argc q count token c s argv)
  consider "is_quote c" | "\<not> is_quote c" "q = None" "isspace c" "token \<noteq> []"
    | "\<not> is_quote c" "\<not> (q = None \<and> isspace c)"
    using 2(4) by auto
  then show ?case
  proof cases
    case 1
    then show ?thesis using 2(1) by simp
  next
    case 2
    have "shell_loop mok argc None (Suc count) [] (skip_spaces (c # s)) argv'
        = store_tokens mok argc (Suc count) (tokens None [] s) argv'" for argv'
      using "2.IH"(2) [of argv'] 2 skip_spaces_hd [of s] tokens_skip [of s]
      by (simp add: skip_spaces_def)
    then have "shell_loop mok argc None (Suc count) [] (skip_spaces (c # s))
        = store_tokens mok argc (Suc count) (tokens None [] s)" by (rule ext)
    then show ?thesis using 2 by simp
  next
    case 3
    then show ?thesis using 2(3) by auto
  qed
qed

lemma shell_parse_tokens:
  "shell_parse mok s argc argv = store_tokens mok argc 0 (tokens None [] s) argv"
  using skip_spaces_hd [of s]
  by (simp add: shell_parse_def shell_loop_tokens tokens_skip)

lemma store_tokens_count:
  "argc \<le> count \<Longrightarrow> store_tokens mok argc count ts argv = Inr (count + length ts, argv)"
  by (induction ts arbitrary: count) (simp_all add: store_token_def)

lemma tokens_chars: "t \<in> set (tokens q token s) \<Longrightarrow> set t \<subseteq> set token \<union> set s"
  by (induction q token s rule: tokens.induct) (auto split: if_splits)

lemma open_quote_append: "open_quote q (s @ t) = open_quote (open_quote q s) t"
  by (induction s arbitrary: q) simp_all

lemma plain_append: "plain q (s @ t) = plain q s @ plain (open_quote q s) t"
  by (induction s arbitrary: q) (auto simp: toggle_quote_def split: option.splits)

text \<open>On a line with its quotes closed, every token has its quotes closed.\<close>

lemma tokens_closed:
  assumes "open_quote None token = q" "open_quote q s = None" "t \<in> set (tokens q token s)"
  shows "open_quote None t = None"
  using assms
  by (induction q token s rule: tokens.induct)
    (auto simp: open_quote_append split: if_splits)

lemma tokens_nonempty: "t \<in> set (tokens q token s) \<Longrightarrow> t \<noteq> []"
  by (induction q token s rule: tokens.induct) (auto split: if_splits)

lemma store_tokens_closed:
  assumes "\<And>t. t \<in> set ts \<Longrightarrow> open_quote None t = None \<and> NUL \<notin> set t" "\<And>n. mok n"
  shows "store_tokens mok (length pre + length ts) (length pre) ts
      (pre @ replicate (length ts) None)
    = Inr (length pre + length ts, pre @ map (\<lambda>t. Some (plain None t)) ts)"
  using assms(1)
proof (induction ts arbitrary: pre)
  case (Cons t ts)
  have "unquote mok t = Inr (Some (plain None t))"
    using Cons.prems [of t] unquote_eq [of t mok] assms(2) by simp
  then have "store_token mok (length pre + length (t # ts)) (length pre) t
      (pre @ replicate (length (t # ts)) None)
    = Inr ((pre @ [Some (plain None t)]) @ replicate (length ts) None)"
    by (simp add: store_token_def list_update_append)
  then show ?case using Cons.IH [of "pre @ [Some (plain None t)]"] Cons.prems by simp
qed simp

lemma cli_parse_command_eq:
  "cli_parse_command mok True cli command =
     (let ts = tokens None [] command in
      bind_ub (store_tokens mok (length ts) 0 ts (replicate (length ts) None)) (\<lambda>(ret, argv).
        Inr (int ret, cli\<lparr>cli_argc := int (length ts), cli_argv := Some argv\<rparr>)))"
  by (simp add: cli_parse_command_def shell_parse_tokens store_tokens_count Let_def)

section \<open>Properties\<close>

text \<open>C8: a line whose quotes are closed is parsed into one argument per token of the
  reference splitting, each with its quotes taken out: the count of the first call and the
  vector filled by the second agree, nothing is undefined, and no other field changes.\<close>

theorem cli_parse_command_closed:
  assumes "open_quote None command = None" "NUL \<notin> set command" "\<And>n. mok n"
  shows "cli_parse_command mok True cli command
    = Inr (int (length (tokens None [] command)),
        cli\<lparr>cli_argv := Some (map (\<lambda>t. Some (plain None t)) (tokens None [] command)),
          cli_argc := int (length (tokens None [] command))\<rparr>)"
proof -
  have "open_quote None t = None \<and> NUL \<notin> set t" if "t \<in> set (tokens None [] command)" for t
    using that assms tokens_closed [of "[]" None command t] tokens_chars [of t None "[]" command]
    by auto
  from store_tokens_closed [OF this assms(3), where pre = "[]" and ts = "tokens None [] command"]
  show ?thesis by (simp add: cli_parse_command_eq Let_def)
qed

definition ex_cli :: cli where
  "ex_cli = \<lparr>cli_client = 1, cli_hostname = ''localhost'', cli_service = ''7482'', cli_quiet = 0,
     cli_verbose = 0, cli_argv = None, cli_argc = 0\<rparr>"

theorem cli_parse_command_closed_witness:
  "cli_parse_command (\<lambda>n. True) True ex_cli ''voip-call 'a b'  c''
    = Inr (3, ex_cli\<lparr>cli_argv := Some [Some ''voip-call'', Some ''a b'', Some ''c''], cli_argc := 3\<rparr>)"
proof -
  have t: "tokens None [] ''voip-call 'a b'  c'' = [''voip-call'', [CHR 0x27] @ ''a b'' @ [CHR 0x27], ''c'']"
      "map (\<lambda>t. Some (plain None t)) [''voip-call'', [CHR 0x27] @ ''a b'' @ [CHR 0x27], ''c'']
        = [Some ''voip-call'', Some ''a b'', Some ''c'']"
      "open_quote None ''voip-call 'a b'  c'' = None" "NUL \<notin> set ''voip-call 'a b'  c''"
    by (simp_all add: is_quote_def toggle_quote_def isspace_def NUL_def)
  have "length [''voip-call'', [CHR 0x27] @ ''a b'' @ [CHR 0x27], ''c''] = 3" by simp
  with cli_parse_command_closed [OF t(3,4), of "\<lambda>n. True" ex_cli]
  show ?thesis unfolding t(1) t(2) by simp
qed

text \<open>C37: an argument with an open quote at its end can write behind the block that was
  allocated for it, because the second pass starts inside the quote that the first one left
  open: a line of pairs of double quotes with a single quote after them overflows, and by
  any number of bytes.\<close>

theorem cli_parse_command_overflow:
  assumes "0 < n" "mok 1"
  shows "cli_parse_command mok True cli (replicate (2 * n) CHR 0x22 @ [CHR 0x27]) = Inl HeapOverflow
   \<and> length (plain (open_quote None (replicate (2 * n) CHR 0x22 @ [CHR 0x27]))
        (replicate (2 * n) CHR 0x22 @ [CHR 0x27])) = 2 * n
   \<and> length (plain None (replicate (2 * n) CHR 0x22 @ [CHR 0x27])) = 0"
proof -
  let ?d = "CHR 0x22" and ?s = "CHR 0x27"
  let ?l = "replicate (2 * n) ?d @ [?s]"
  have none: "open_quote None (replicate (2 * n) ?d) = None" "plain None (replicate (2 * n) ?d) = []"
    for n by (induction n) (simp_all add: is_quote_def toggle_quote_def)
  have inside: "plain (Some ?s) (replicate n ?d) = replicate n ?d"
      "open_quote (Some ?s) (replicate n ?d) = Some ?s" for n
    by (induction n) (simp_all add: is_quote_def toggle_quote_def)
  have tok: "tokens q t (replicate n ?d @ [?s]) = [t @ replicate n ?d @ [?s]]" for n q t
    by (induction n arbitrary: q t) (simp_all add: is_quote_def)
  have p: "plain None ?l = []" "open_quote None ?l = Some ?s"
      "plain (Some ?s) ?l = replicate (2 * n) ?d"
    by (simp_all add: plain_append open_quote_append none inside is_quote_def toggle_quote_def)
  have "NUL \<notin> set ?l" by (simp add: NUL_def)
  then have u: "unquote mok ?l = Inl HeapOverflow"
    using unquote_eq [of ?l mok] assms by (simp add: p)
  have t: "tokens None [] ?l = [?l]" using tok [of None "[]" "2 * n"] by simp
  have "cli_parse_command mok True cli ?l = Inl HeapOverflow"
    by (simp only: cli_parse_command_eq t Let_def) (simp add: store_token_def u)
  then show ?thesis by (simp only: p) simp
qed

theorem cli_parse_command_overflow_witness:
  "cli_parse_command (\<lambda>n. n < 1000) True ex_cli [CHR 0x22, CHR 0x22, CHR 0x27] = Inl HeapOverflow"
  using cli_parse_command_overflow [of 1 "\<lambda>n. n < 1000" ex_cli] by (simp add: numeral_2_eq_2)

section \<open>Quoting arguments\<close>

text \<open>
  Arguments joined with blanks, those with white space in single quotes, are tokens again.
\<close>

definition quote_arg :: "string \<Rightarrow> string" where
  "quote_arg a = (if shell_str_needs_escape a then [CHR 0x27] @ a @ [CHR 0x27] else a)"

fun join_args :: "string list \<Rightarrow> string" where
  "join_args [] = []"
| "join_args [a] = quote_arg a"
| "join_args (a # as) = quote_arg a @ '' '' @ join_args as"

definition plain_arg :: "string \<Rightarrow> bool" where
  "plain_arg a \<longleftrightarrow> a \<noteq> [] \<and> (\<forall>c \<in> set a. \<not> is_quote c) \<and> NUL \<notin> set a"

lemma tokens_quoted:
  "\<forall>c \<in> set a. \<not> is_quote c \<Longrightarrow> q \<noteq> None \<or> (\<forall>c \<in> set a. \<not> isspace c) \<Longrightarrow>
    tokens q t (a @ s) = tokens q (t @ a) s"
  by (induction a arbitrary: t) auto

lemma plain_unquoted: "\<forall>c \<in> set a. \<not> is_quote c \<Longrightarrow> plain q a = a \<and> open_quote q a = q"
  by (induction a) auto

lemma quote_arg_closed:
  "plain_arg a \<Longrightarrow> plain None (quote_arg a) = a \<and> open_quote None (quote_arg a) = None
     \<and> quote_arg a \<noteq> [] \<and> NUL \<notin> set (quote_arg a)"
  using plain_unquoted [of a]
  by (auto simp: plain_arg_def quote_arg_def plain_append open_quote_append is_quote_def
      toggle_quote_def NUL_def)

lemma tokens_quote_arg:
  assumes "plain_arg a"
  shows "tokens None [] (quote_arg a @ s) = tokens None (quote_arg a) s"
proof (cases "shell_str_needs_escape a")
  case True
  have "tokens (Some CHR 0x27) [CHR 0x27] (a @ CHR 0x27 # s)
      = tokens (Some CHR 0x27) (CHR 0x27 # a) (CHR 0x27 # s)"
    using assms tokens_quoted [of a "Some CHR 0x27" "[CHR 0x27]"] by (simp add: plain_arg_def)
  then show ?thesis using True by (simp add: quote_arg_def is_quote_def toggle_quote_def)
next
  case False
  then show ?thesis using assms tokens_quoted [of a None "[]" s]
    by (simp add: quote_arg_def plain_arg_def needs_escape_iff)
qed

lemma tokens_join:
  "list_all plain_arg as \<Longrightarrow> tokens None [] (join_args as) = map quote_arg as"
proof (induction as rule: join_args.induct)
  case (2 a)
  then show ?case using tokens_quote_arg [of a "[]"] quote_arg_closed [of a] by simp
next
  case (3 a b as)
  then show ?case using tokens_quote_arg [of a "'' '' @ join_args (b # as)"] quote_arg_closed [of a]
    by (simp add: is_quote_def isspace_def)
qed simp

lemma join_args_closed:
  "list_all plain_arg as \<Longrightarrow> open_quote None (join_args as) = None \<and> NUL \<notin> set (join_args as)"
  by (induction as rule: join_args.induct)
    (simp_all add: quote_arg_closed open_quote_append is_quote_def, simp_all add: NUL_def)

end
