(* ===== verification/Audio.thy ===== *)
theory Audio
  imports Enums
begin

text \<open>
  Audio, on both sides of the connection: the handlers of \<^verbatim>\<open>src/src/rcrpc/audio.c\<close> and
  \<^verbatim>\<open>src/src/rcrpc/mixer.c\<close>, and the client library over them,
  \<^verbatim>\<open>src/src/rcrpc-client/audio.c\<close> and \<^verbatim>\<open>src/src/rcrpc-client/mixer.c\<close>. An
  audio state or an input source is three enumerations on its way: the client's, the
  protocol's and the device library's. Shown here: the ways there and back fit together.

  The device library is \<open>audio_ops\<close> and \<open>mixer_ops\<close>, the generated stubs are
  \<open>audio_stubs\<close> and \<open>mixer_stubs\<close>. A stub gives the transport's result and, where
  that is not negative, the handler's; an output argument is passed with its current value.
\<close>

section \<open>The server's audio handlers\<close>

text \<open>The enumeration of \<^verbatim>\<open>remote-control.h\<close>, and every other value.\<close>

datatype audio_state =
    AUDIO_STATE_INACTIVE
  | AUDIO_STATE_HIFI_PLAYBACK_SPEAKER
  | AUDIO_STATE_HIFI_PLAYBACK_HEADSET
  | AUDIO_STATE_VOICECALL_HANDSET
  | AUDIO_STATE_VOICECALL_HEADSET
  | AUDIO_STATE_VOICECALL_SPEAKER
  | AUDIO_STATE_VOICECALL_IP_HANDSET
  | AUDIO_STATE_VOICECALL_IP_HEADSET
  | AUDIO_STATE_VOICECALL_IP_SPEAKER
  | AUDIO_STATE_LINEIN_SPEAKER
  | AUDIO_STATE_LINEIN_HEADSET
  | AUDIO_STATE_OTHER nat

record 'w audio_ops =
  remote_control_get_audio :: "ptr \<Rightarrow> ptr"
  audio_set_state :: "ptr \<Rightarrow> audio_state \<Rightarrow> 'w \<Rightarrow> int \<times> 'w"
  audio_get_state :: "ptr \<Rightarrow> 'w \<Rightarrow> int \<times> audio_state \<times> 'w"
  audio_set_volume :: "ptr \<Rightarrow> u8 \<Rightarrow> 'w \<Rightarrow> int \<times> 'w"
  audio_get_volume :: "ptr \<Rightarrow> u8 \<Rightarrow> 'w \<Rightarrow> int \<times> u8 \<times> 'w"
  audio_set_speakers_enable :: "ptr \<Rightarrow> bool \<Rightarrow> 'w \<Rightarrow> int \<times> 'w"
  audio_get_speakers_enable :: "ptr \<Rightarrow> bool \<Rightarrow> 'w \<Rightarrow> int \<times> bool \<times> 'w"

text \<open>The \<^verbatim>\<open>switch\<close> of \<^verbatim>\<open>audio_set_state\<close>; \<open>None\<close> is its default label.\<close>

fun audio_state_of_rpc :: "rpc_audio_state \<Rightarrow> audio_state option" where
  "audio_state_of_rpc RPC_AUDIO_STATE_INACTIVE = Some AUDIO_STATE_INACTIVE"
| "audio_state_of_rpc RPC_AUDIO_STATE_HIFI_PLAYBACK_SPEAKER = Some AUDIO_STATE_HIFI_PLAYBACK_SPEAKER"
| "audio_state_of_rpc RPC_AUDIO_STATE_HIFI_PLAYBACK_HEADSET = Some AUDIO_STATE_HIFI_PLAYBACK_HEADSET"
| "audio_state_of_rpc RPC_AUDIO_STATE_VOICECALL_HANDSET = Some AUDIO_STATE_VOICECALL_HANDSET"
| "audio_state_of_rpc RPC_AUDIO_STATE_VOICECALL_HEADSET = Some AUDIO_STATE_VOICECALL_HEADSET"
| "audio_state_of_rpc RPC_AUDIO_STATE_VOICECALL_SPEAKER = Some AUDIO_STATE_VOICECALL_SPEAKER"
| "audio_state_of_rpc RPC_AUDIO_STATE_VOICECALL_IP_HANDSET = Some AUDIO_STATE_VOICECALL_IP_HANDSET"
| "audio_state_of_rpc RPC_AUDIO_STATE_VOICECALL_IP_HEADSET = Some AUDIO_STATE_VOICECALL_IP_HEADSET"
| "audio_state_of_rpc RPC_AUDIO_STATE_VOICECALL_IP_SPEAKER = Some AUDIO_STATE_VOICECALL_IP_SPEAKER"
| "audio_state_of_rpc RPC_AUDIO_STATE_LINEIN_SPEAKER = Some AUDIO_STATE_LINEIN_SPEAKER"
| "audio_state_of_rpc RPC_AUDIO_STATE_LINEIN_HEADSET = Some AUDIO_STATE_LINEIN_HEADSET"
| "audio_state_of_rpc _ = None"

definition rpc_audio_set_state ::
  "'w audio_ops \<Rightarrow> priv \<Rightarrow> rpc_audio_state \<Rightarrow> bool \<Rightarrow> 'w \<Rightarrow> int \<times> 'w" where
  "rpc_audio_set_state E p state force w =
     (let audio = remote_control_get_audio E (RCPTR p) in
      case audio_state_of_rpc state of
        Some as \<Rightarrow> audio_set_state E audio as w
      | None \<Rightarrow> (- EINVAL, w))"

fun rpc_of_audio_state :: "audio_state \<Rightarrow> rpc_audio_state" where
  "rpc_of_audio_state AUDIO_STATE_INACTIVE = RPC_AUDIO_STATE_INACTIVE"
| "rpc_of_audio_state AUDIO_STATE_HIFI_PLAYBACK_SPEAKER = RPC_AUDIO_STATE_HIFI_PLAYBACK_SPEAKER"
| "rpc_of_audio_state AUDIO_STATE_HIFI_PLAYBACK_HEADSET = RPC_AUDIO_STATE_HIFI_PLAYBACK_HEADSET"
| "rpc_of_audio_state AUDIO_STATE_VOICECALL_HANDSET = RPC_AUDIO_STATE_VOICECALL_HANDSET"
| "rpc_of_audio_state AUDIO_STATE_VOICECALL_HEADSET = RPC_AUDIO_STATE_VOICECALL_HEADSET"
| "rpc_of_audio_state AUDIO_STATE_VOICECALL_SPEAKER = RPC_AUDIO_STATE_VOICECALL_SPEAKER"
| "rpc_of_audio_state AUDIO_STATE_VOICECALL_IP_HANDSET = RPC_AUDIO_STATE_VOICECALL_IP_HANDSET"
| "rpc_of_audio_state AUDIO_STATE_VOICECALL_IP_HEADSET = RPC_AUDIO_STATE_VOICECALL_IP_HEADSET"
| "rpc_of_audio_state AUDIO_STATE_VOICECALL_IP_SPEAKER = RPC_AUDIO_STATE_VOICECALL_IP_SPEAKER"
| "rpc_of_audio_state AUDIO_STATE_LINEIN_SPEAKER = RPC_AUDIO_STATE_LINEIN_SPEAKER"
| "rpc_of_audio_state AUDIO_STATE_LINEIN_HEADSET = RPC_AUDIO_STATE_LINEIN_HEADSET"
| "rpc_of_audio_state (AUDIO_STATE_OTHER _) = RPC_AUDIO_STATE_UNKNOWN"

text \<open>The output argument keeps its value where the device fails.\<close>

definition rpc_audio_get_state ::
  "'w audio_ops \<Rightarrow> priv \<Rightarrow> rpc_audio_state \<Rightarrow> 'w \<Rightarrow> int \<times> rpc_audio_state \<times> 'w" where
  "rpc_audio_get_state E p statep w =
     (let audio = remote_control_get_audio E (RCPTR p);
          (ret, as, w) = audio_get_state E audio w
      in if ret < 0 then (ret, statep, w) else (ret, rpc_of_audio_state as, w))"

definition rpc_audio_set_volume :: "'w audio_ops \<Rightarrow> priv \<Rightarrow> u8 \<Rightarrow> 'w \<Rightarrow> int \<times> 'w" where
  "rpc_audio_set_volume E p volume w =
     audio_set_volume E (remote_control_get_audio E (RCPTR p)) volume w"

definition rpc_audio_get_volume :: "'w audio_ops \<Rightarrow> priv \<Rightarrow> u8 \<Rightarrow> 'w \<Rightarrow> int \<times> u8 \<times> 'w" where
  "rpc_audio_get_volume E p volumep w =
     audio_get_volume E (remote_control_get_audio E (RCPTR p)) volumep w"

definition rpc_audio_enable_speakers :: "'w audio_ops \<Rightarrow> priv \<Rightarrow> bool \<Rightarrow> 'w \<Rightarrow> int \<times> 'w" where
  "rpc_audio_enable_speakers E p enable w =
     audio_set_speakers_enable E (remote_control_get_audio E (RCPTR p)) enable w"

definition rpc_audio_speakers_enabled ::
  "'w audio_ops \<Rightarrow> priv \<Rightarrow> bool \<Rightarrow> 'w \<Rightarrow> int \<times> bool \<times> 'w" where
  "rpc_audio_speakers_enabled E p enablep w =
     audio_get_speakers_enable E (remote_control_get_audio E (RCPTR p)) enablep w"

definition rpc_audio_call_function :: "priv \<Rightarrow> u32 \<Rightarrow> u16 \<Rightarrow> 'w \<Rightarrow> int \<times> 'w" where
  "rpc_audio_call_function p opcode param w = (- ENOSYS, w)"

section \<open>The client's audio functions\<close>

record 'w audio_stubs =
  audio_client_from_priv :: "ptr \<Rightarrow> ptr"
  stub_audio_set_state :: "ptr \<Rightarrow> rpc_audio_state \<Rightarrow> bool \<Rightarrow> 'w \<Rightarrow> int \<times> int \<times> 'w"
  stub_audio_get_state :: "ptr \<Rightarrow> rpc_audio_state \<Rightarrow> 'w \<Rightarrow> int \<times> int \<times> rpc_audio_state \<times> 'w"
  stub_audio_set_volume :: "ptr \<Rightarrow> u8 \<Rightarrow> 'w \<Rightarrow> int \<times> int \<times> 'w"
  stub_audio_get_volume :: "ptr \<Rightarrow> u8 \<Rightarrow> 'w \<Rightarrow> int \<times> int \<times> u8 \<times> 'w"

text \<open>
  The assignments between the two enumerations keep the number. \<open>statep\<close> is the
  caller's variable, which is not written when the transport fails.
\<close>

definition remote_audio_get_state ::
  "'w audio_stubs \<Rightarrow> ptr \<Rightarrow> remote_audio_state \<Rightarrow> 'w \<Rightarrow> int \<times> remote_audio_state \<times> 'w" where
  "remote_audio_get_state C p statep w =
     (let client = audio_client_from_priv C p;
          (err, ret, state, w) = stub_audio_get_state C client RPC_AUDIO_STATE_UNKNOWN w
      in if err < 0 then (err, statep, w)
         else (ret, remote_audio_state_of (rpc_audio_state_value state), w))"

definition remote_audio_set_state ::
  "'w audio_stubs \<Rightarrow> ptr \<Rightarrow> remote_audio_state \<Rightarrow> bool \<Rightarrow> 'w \<Rightarrow> int \<times> 'w" where
  "remote_audio_set_state C p state force w =
     (let client = audio_client_from_priv C p;
          input = rpc_audio_state_of (remote_audio_state_value state);
          (err, ret, w) = stub_audio_set_state C client input force w
      in (if err < 0 then err else ret, w))"

definition remote_audio_get_volume ::
  "'w audio_stubs \<Rightarrow> ptr \<Rightarrow> u8 \<Rightarrow> 'w \<Rightarrow> int \<times> u8 \<times> 'w" where
  "remote_audio_get_volume C p volume w =
     (let client = audio_client_from_priv C p;
          (err, ret, volume, w) = stub_audio_get_volume C client volume w
      in (if err < 0 then err else ret, volume, w))"

definition remote_audio_set_volume :: "'w audio_stubs \<Rightarrow> ptr \<Rightarrow> u8 \<Rightarrow> 'w \<Rightarrow> int \<times> 'w" where
  "remote_audio_set_volume C p volume w =
     (let client = audio_client_from_priv C p;
          (err, ret, w) = stub_audio_set_volume C client volume w
      in (if err < 0 then err else ret, w))"

section \<open>The server's mixer handlers\<close>

datatype mixer_input_source =
    MIXER_INPUT_SOURCE_UNKNOWN
  | MIXER_INPUT_SOURCE_HEADSET
  | MIXER_INPUT_SOURCE_HANDSET
  | MIXER_INPUT_SOURCE_LINE
  | MIXER_INPUT_SOURCE_OTHER nat

text \<open>The device's volume is an \<^verbatim>\<open>unsigned int\<close>; its controls are passed by number.\<close>

record 'w mixer_ops =
  remote_control_get_mixer :: "ptr \<Rightarrow> ptr"
  mixer_set_volume :: "ptr \<Rightarrow> int \<Rightarrow> u32 \<Rightarrow> 'w \<Rightarrow> int \<times> 'w"
  mixer_get_volume :: "ptr \<Rightarrow> int \<Rightarrow> u32 \<Rightarrow> 'w \<Rightarrow> int \<times> u32 \<times> 'w"
  mixer_set_mute :: "ptr \<Rightarrow> int \<Rightarrow> bool \<Rightarrow> 'w \<Rightarrow> int \<times> 'w"
  mixer_is_muted :: "ptr \<Rightarrow> int \<Rightarrow> bool \<Rightarrow> 'w \<Rightarrow> int \<times> bool \<times> 'w"
  mixer_set_input_source :: "ptr \<Rightarrow> mixer_input_source \<Rightarrow> 'w \<Rightarrow> int \<times> 'w"
  mixer_get_input_source :: "ptr \<Rightarrow> mixer_input_source \<Rightarrow> 'w \<Rightarrow> int \<times> mixer_input_source \<times> 'w"
  mixer_loopback_enable :: "ptr \<Rightarrow> bool \<Rightarrow> 'w \<Rightarrow> int \<times> 'w"
  mixer_loopback_is_enabled :: "ptr \<Rightarrow> bool \<Rightarrow> 'w \<Rightarrow> int \<times> bool \<times> 'w"

definition rpc_mixer_set_volume ::
  "'w mixer_ops \<Rightarrow> priv \<Rightarrow> rpc_mixer_control \<Rightarrow> u8 \<Rightarrow> 'w \<Rightarrow> int \<times> 'w" where
  "rpc_mixer_set_volume E p control volume w =
     (let mixer = remote_control_get_mixer E (RCPTR p) in
      case control of RPC_MIXER_CONTROL c \<Rightarrow> mixer_set_volume E mixer c (ucast volume) w)"

definition rpc_mixer_get_volume ::
  "'w mixer_ops \<Rightarrow> priv \<Rightarrow> rpc_mixer_control \<Rightarrow> u8 option \<Rightarrow> 'w \<Rightarrow> int \<times> u8 option \<times> 'w" where
  "rpc_mixer_get_volume E p control volumep w =
     (let mixer = remote_control_get_mixer E (RCPTR p) in
      case control of RPC_MIXER_CONTROL c \<Rightarrow>
        let (ret, volume, w) = mixer_get_volume E mixer c 0 w
        in (ret, map_option (\<lambda>_. ucast volume) volumep, w))"

definition rpc_mixer_set_mute ::
  "'w mixer_ops \<Rightarrow> priv \<Rightarrow> rpc_mixer_control \<Rightarrow> bool \<Rightarrow> 'w \<Rightarrow> int \<times> 'w" where
  "rpc_mixer_set_mute E p control mute w =
     (let mixer = remote_control_get_mixer E (RCPTR p) in
      case control of RPC_MIXER_CONTROL c \<Rightarrow> mixer_set_mute E mixer c mute w)"

definition rpc_mixer_is_muted ::
  "'w mixer_ops \<Rightarrow> priv \<Rightarrow> rpc_mixer_control \<Rightarrow> bool \<Rightarrow> 'w \<Rightarrow> int \<times> bool \<times> 'w" where
  "rpc_mixer_is_muted E p control mutep w =
     (let mixer = remote_control_get_mixer E (RCPTR p) in
      case control of RPC_MIXER_CONTROL c \<Rightarrow> mixer_is_muted E mixer c mutep w)"

text \<open>The two \<^verbatim>\<open>switch\<close> statements over the input sources.\<close>

fun mixer_input_of_rpc :: "rpc_mixer_input_source \<Rightarrow> mixer_input_source" where
  "mixer_input_of_rpc RPC_MIXER_INPUT_SOURCE_HEADSET = MIXER_INPUT_SOURCE_HEADSET"
| "mixer_input_of_rpc RPC_MIXER_INPUT_SOURCE_HANDSET = MIXER_INPUT_SOURCE_HANDSET"
| "mixer_input_of_rpc RPC_MIXER_INPUT_SOURCE_LINE = MIXER_INPUT_SOURCE_LINE"
| "mixer_input_of_rpc _ = MIXER_INPUT_SOURCE_UNKNOWN"

definition rpc_mixer_set_input_source ::
  "'w mixer_ops \<Rightarrow> priv \<Rightarrow> rpc_mixer_input_source \<Rightarrow> 'w \<Rightarrow> int \<times> 'w" where
  "rpc_mixer_set_input_source E p source w =
     (let mixer = remote_control_get_mixer E (RCPTR p);
          input = mixer_input_of_rpc source
      in mixer_set_input_source E mixer input w)"

fun rpc_of_mixer_input :: "mixer_input_source \<Rightarrow> rpc_mixer_input_source" where
  "rpc_of_mixer_input MIXER_INPUT_SOURCE_HEADSET = RPC_MIXER_INPUT_SOURCE_HEADSET"
| "rpc_of_mixer_input MIXER_INPUT_SOURCE_HANDSET = RPC_MIXER_INPUT_SOURCE_HANDSET"
| "rpc_of_mixer_input MIXER_INPUT_SOURCE_LINE = RPC_MIXER_INPUT_SOURCE_LINE"
| "rpc_of_mixer_input _ = RPC_MIXER_INPUT_SOURCE_UNKNOWN"

definition rpc_mixer_get_input_source ::
  "'w mixer_ops \<Rightarrow> priv \<Rightarrow> rpc_mixer_input_source \<Rightarrow> 'w \<Rightarrow> int \<times> rpc_mixer_input_source \<times> 'w" where
  "rpc_mixer_get_input_source E p sourcep w =
     (let mixer = remote_control_get_mixer E (RCPTR p);
          (err, input, w) = mixer_get_input_source E mixer MIXER_INPUT_SOURCE_UNKNOWN w
      in if err < 0 then (err, sourcep, w)
         else (0, rpc_of_mixer_input input, w))"

definition rpc_mixer_loopback_enable :: "'w mixer_ops \<Rightarrow> priv \<Rightarrow> bool \<Rightarrow> 'w \<Rightarrow> int \<times> 'w" where
  "rpc_mixer_loopback_enable E p enable w =
     mixer_loopback_enable E (remote_control_get_mixer E (RCPTR p)) enable w"

definition rpc_mixer_loopback_is_enabled ::
  "'w mixer_ops \<Rightarrow> priv \<Rightarrow> bool \<Rightarrow> 'w \<Rightarrow> int \<times> bool \<times> 'w" where
  "rpc_mixer_loopback_is_enabled E p enabled w =
     mixer_loopback_is_enabled E (remote_control_get_mixer E (RCPTR p)) enabled w"

section \<open>The client's mixer functions\<close>

record 'w mixer_stubs =
  mixer_client_from_priv :: "ptr \<Rightarrow> ptr"
  stub_mixer_set_mute :: "ptr \<Rightarrow> rpc_mixer_control \<Rightarrow> bool \<Rightarrow> 'w \<Rightarrow> int \<times> int \<times> 'w"
  stub_mixer_is_muted :: "ptr \<Rightarrow> rpc_mixer_control \<Rightarrow> bool \<Rightarrow> 'w \<Rightarrow> int \<times> int \<times> bool \<times> 'w"
  stub_mixer_set_volume :: "ptr \<Rightarrow> rpc_mixer_control \<Rightarrow> u8 \<Rightarrow> 'w \<Rightarrow> int \<times> int \<times> 'w"
  stub_mixer_get_volume :: "ptr \<Rightarrow> rpc_mixer_control \<Rightarrow> u8 \<Rightarrow> 'w \<Rightarrow> int \<times> int \<times> u8 \<times> 'w"
  stub_mixer_set_input_source :: "ptr \<Rightarrow> rpc_mixer_input_source \<Rightarrow> 'w \<Rightarrow> int \<times> int \<times> 'w"
  stub_mixer_get_input_source ::
    "ptr \<Rightarrow> rpc_mixer_input_source \<Rightarrow> 'w \<Rightarrow> int \<times> int \<times> rpc_mixer_input_source \<times> 'w"
  stub_mixer_loopback_enable :: "ptr \<Rightarrow> bool \<Rightarrow> 'w \<Rightarrow> int \<times> int \<times> 'w"
  stub_mixer_loopback_is_enabled :: "ptr \<Rightarrow> bool \<Rightarrow> 'w \<Rightarrow> int \<times> int \<times> bool \<times> 'w"

definition rpc_control :: "remote_mixer_control \<Rightarrow> rpc_mixer_control" where
  "rpc_control c = RPC_MIXER_CONTROL (remote_mixer_control_value c)"

definition remote_mixer_set_mute ::
  "'w mixer_stubs \<Rightarrow> ptr \<Rightarrow> remote_mixer_control \<Rightarrow> bool \<Rightarrow> 'w \<Rightarrow> int \<times> 'w" where
  "remote_mixer_set_mute C p control mute w =
     (let rpc = mixer_client_from_priv C p;
          (err, ret, w) = stub_mixer_set_mute C rpc (rpc_control control) mute w
      in (if err < 0 then err else ret, w))"

definition remote_mixer_get_mute ::
  "'w mixer_stubs \<Rightarrow> ptr \<Rightarrow> remote_mixer_control \<Rightarrow> bool \<Rightarrow> 'w \<Rightarrow> int \<times> bool \<times> 'w" where
  "remote_mixer_get_mute C p control mutep w =
     (let rpc = mixer_client_from_priv C p;
          (err, ret, mutep, w) = stub_mixer_is_muted C rpc (rpc_control control) mutep w
      in (if err < 0 then err else ret, mutep, w))"

definition remote_mixer_set_volume ::
  "'w mixer_stubs \<Rightarrow> ptr \<Rightarrow> remote_mixer_control \<Rightarrow> u8 \<Rightarrow> 'w \<Rightarrow> int \<times> 'w" where
  "remote_mixer_set_volume C p control volume w =
     (let rpc = mixer_client_from_priv C p;
          (err, ret, w) = stub_mixer_set_volume C rpc (rpc_control control) volume w
      in (if err < 0 then err else ret, w))"

definition remote_mixer_get_volume ::
  "'w mixer_stubs \<Rightarrow> ptr \<Rightarrow> remote_mixer_control \<Rightarrow> u8 \<Rightarrow> 'w \<Rightarrow> int \<times> u8 \<times> 'w" where
  "remote_mixer_get_volume C p control volumep w =
     (let rpc = mixer_client_from_priv C p;
          (err, ret, volumep, w) = stub_mixer_get_volume C rpc (rpc_control control) volumep w
      in (if err < 0 then err else ret, volumep, w))"

definition remote_mixer_set_input_source ::
  "'w mixer_stubs \<Rightarrow> ptr \<Rightarrow> remote_mixer_input_source \<Rightarrow> 'w \<Rightarrow> int \<times> 'w" where
  "remote_mixer_set_input_source C p source w =
     (let rpc = mixer_client_from_priv C p;
          input = rpc_mixer_input_source_of (remote_mixer_input_source_value source);
          (err, ret, w) = stub_mixer_set_input_source C rpc input w
      in (if err < 0 then err else ret, w))"

text \<open>The caller's variable is written whatever the results are.\<close>

definition remote_mixer_get_input_source ::
  "'w mixer_stubs \<Rightarrow> ptr \<Rightarrow> 'w \<Rightarrow> int \<times> remote_mixer_input_source \<times> 'w" where
  "remote_mixer_get_input_source C p w =
     (let rpc = mixer_client_from_priv C p;
          (err, ret, source, w) =
            stub_mixer_get_input_source C rpc RPC_MIXER_INPUT_SOURCE_UNKNOWN w
      in (if err < 0 then err else ret,
          remote_mixer_input_source_of (rpc_mixer_input_source_value source), w))"

definition remote_mixer_loopback_enable :: "'w mixer_stubs \<Rightarrow> ptr \<Rightarrow> bool \<Rightarrow> 'w \<Rightarrow> int \<times> 'w" where
  "remote_mixer_loopback_enable C p enable w =
     (let rpc = mixer_client_from_priv C p;
          (err, ret, w) = stub_mixer_loopback_enable C rpc enable w
      in (if err < 0 then err else ret, w))"

definition remote_mixer_loopback_is_enabled ::
  "'w mixer_stubs \<Rightarrow> ptr \<Rightarrow> bool \<Rightarrow> 'w \<Rightarrow> int \<times> bool \<times> 'w" where
  "remote_mixer_loopback_is_enabled C p enabled w =
     (let rpc = mixer_client_from_priv C p;
          (err, ret, enabled, w) = stub_mixer_loopback_is_enabled C rpc enabled w
      in (if err < 0 then err else ret, enabled, w))"

section \<open>The enumerations fit\<close>

text \<open>The states that stand for a device state: all but the unknown one and the bound.\<close>

definition device_states :: "remote_audio_state set" where
  "device_states = set remote_audio_states - {REMOTE_AUDIO_STATE_UNKNOWN, REMOTE_AUDIO_STATE_MAX}"

definition rpc_of_remote :: "remote_audio_state \<Rightarrow> rpc_audio_state" where
  "rpc_of_remote s = rpc_audio_state_of (remote_audio_state_value s)"

lemma device_states_translate:
  "s \<in> device_states \<Longrightarrow> \<exists>as. audio_state_of_rpc (rpc_of_remote s) = Some as
     \<and> rpc_of_audio_state as = rpc_of_remote s
     \<and> remote_audio_state_of (rpc_audio_state_value (rpc_of_remote s)) = s"
proof -
  assume s: "s \<in> device_states"
  then have "remote_audio_state_of (rpc_audio_state_value (rpc_of_remote s)) = s"
    using remote_audio.of_value [of s]
    by (simp add: rpc_of_remote_def remote_audio_state_of_def device_states_def)
  then show ?thesis using s
    by (cases s) (simp_all add: device_states_def remote_audio_states_def rpc_of_remote_def
        rpc_audio_state_of_def rpc_audio_states_def enum_of_def)
qed

lemma other_states_unknown:
  assumes "s \<notin> device_states" "\<And>i. s = REMOTE_AUDIO_STATE_OTHER i \<Longrightarrow>
    i \<notin> remote_audio_state_value ` set remote_audio_states"
  shows "audio_state_of_rpc (rpc_of_remote s) = None"
proof (cases s)
  case (REMOTE_AUDIO_STATE_OTHER i)
  then have i: "i \<notin> remote_audio_state_value ` set remote_audio_states" using assms(2) by simp
  have "rpc_audio_state_value ` set rpc_audio_states = remote_audio_state_value ` set remote_audio_states"
    by (simp add: rpc_audio_states_def remote_audio_states_def)
  then have "rpc_audio_state_of i = RPC_AUDIO_STATE_OTHER i"
    using rpc_audio.of_other [of i] i by (simp add: rpc_audio_state_of_def)
  then show ?thesis by (simp add: rpc_of_remote_def REMOTE_AUDIO_STATE_OTHER)
qed (use assms(1) in \<open>simp_all add: device_states_def remote_audio_states_def rpc_of_remote_def
  rpc_audio_state_of_def rpc_audio_states_def enum_of_def\<close>)

section \<open>The stubs connected to the handlers\<close>

definition audio_loopback :: "'w audio_ops \<Rightarrow> priv \<Rightarrow> rpc_audio_state \<Rightarrow> 'w audio_stubs" where
  "audio_loopback E p s0 = \<lparr>audio_client_from_priv = (\<lambda>a. a),
     stub_audio_set_state = (\<lambda>c s f w. (0, rpc_audio_set_state E p s f w)),
     stub_audio_get_state = (\<lambda>c s w. (0, rpc_audio_get_state E p s0 w)),
     stub_audio_set_volume = (\<lambda>c v w. (0, rpc_audio_set_volume E p v w)),
     stub_audio_get_volume = (\<lambda>c v w. (0, rpc_audio_get_volume E p v w))\<rparr>"

text \<open>A device that keeps its state and its input source.\<close>

definition audio_ok :: "'w audio_ops \<Rightarrow> ('w \<Rightarrow> audio_state) \<Rightarrow> bool" where
  "audio_ok E dev \<longleftrightarrow>
     (\<forall>a s w. fst (audio_set_state E a s w) = 0 \<and> dev (snd (audio_set_state E a s w)) = s)
   \<and> (\<forall>a w. fst (audio_get_state E a w) = 0 \<and> fst (snd (audio_get_state E a w)) = dev w)"

definition mixer_loopback :: "'w mixer_ops \<Rightarrow> priv \<Rightarrow> rpc_mixer_input_source \<Rightarrow> 'w mixer_stubs" where
  "mixer_loopback E p s0 = \<lparr>mixer_client_from_priv = (\<lambda>a. a),
     stub_mixer_set_mute = (\<lambda>c k m w. (0, rpc_mixer_set_mute E p k m w)),
     stub_mixer_is_muted = (\<lambda>c k m w. (0, rpc_mixer_is_muted E p k m w)),
     stub_mixer_set_volume = (\<lambda>c k v w. (0, rpc_mixer_set_volume E p k v w)),
     stub_mixer_get_volume = (\<lambda>c k v w.
       (let (ret, v', w) = rpc_mixer_get_volume E p k (Some v) w in (0, ret, the v', w))),
     stub_mixer_set_input_source = (\<lambda>c s w. (0, rpc_mixer_set_input_source E p s w)),
     stub_mixer_get_input_source = (\<lambda>c s w. (0, rpc_mixer_get_input_source E p s0 w)),
     stub_mixer_loopback_enable = (\<lambda>c b w. (0, rpc_mixer_loopback_enable E p b w)),
     stub_mixer_loopback_is_enabled = (\<lambda>c b w. (0, rpc_mixer_loopback_is_enabled E p b w))\<rparr>"

definition mixer_ok :: "'w mixer_ops \<Rightarrow> ('w \<Rightarrow> mixer_input_source) \<Rightarrow> ('w \<Rightarrow> int \<Rightarrow> u32) \<Rightarrow> bool" where
  "mixer_ok E dev vol \<longleftrightarrow>
     (\<forall>a s w. fst (mixer_set_input_source E a s w) = 0 \<and> dev (snd (mixer_set_input_source E a s w)) = s)
   \<and> (\<forall>a s w. fst (mixer_get_input_source E a s w) = 0
        \<and> fst (snd (mixer_get_input_source E a s w)) = dev w)
   \<and> (\<forall>a c v w. fst (mixer_set_volume E a c v w) = 0
        \<and> vol (snd (mixer_set_volume E a c v w)) = (vol w)(c := v))
   \<and> (\<forall>a c v w. fst (mixer_get_volume E a c v w) = 0
        \<and> fst (snd (mixer_get_volume E a c v w)) = vol w c)"

lemma remote_audio_set_loopback:
  "remote_audio_set_state (audio_loopback E p s0) c s f w =
     (case audio_state_of_rpc (rpc_of_remote s) of
        Some as \<Rightarrow> audio_set_state E (remote_control_get_audio E (RCPTR p)) as w
      | None \<Rightarrow> (- EINVAL, w))"
  by (simp add: remote_audio_set_state_def audio_loopback_def rpc_audio_set_state_def
      rpc_of_remote_def case_prod_beta split: option.split)

text \<open>What the handlers answer with when the device does: the inputs a client can name.\<close>

definition input_sources :: "remote_mixer_input_source set" where
  "input_sources = {REMOTE_MIXER_INPUT_SOURCE_UNKNOWN, REMOTE_MIXER_INPUT_SOURCE_HEADSET,
     REMOTE_MIXER_INPUT_SOURCE_HANDSET, REMOTE_MIXER_INPUT_SOURCE_LINE}"

lemma rpc_of_audio_state_typed:
  "remote_audio_state_of (rpc_audio_state_value (rpc_of_audio_state as))
     \<in> (case as of AUDIO_STATE_OTHER _ \<Rightarrow> {REMOTE_AUDIO_STATE_UNKNOWN} | _ \<Rightarrow> device_states)"
  by (cases as) (simp_all add: device_states_def remote_audio_states_def remote_audio_state_of_def
      enum_of_def)

lemma rpc_of_mixer_input_typed:
  "remote_mixer_input_source_of (rpc_mixer_input_source_value (rpc_of_mixer_input i))
     \<in> (case i of MIXER_INPUT_SOURCE_OTHER _ \<Rightarrow> {REMOTE_MIXER_INPUT_SOURCE_UNKNOWN}
          | _ \<Rightarrow> input_sources)"
  by (cases i) (simp_all add: input_sources_def remote_mixer_input_source_of_def enum_of_def)

section \<open>Properties\<close>

text \<open>C21: audio states survive the three enumerations: a device state that the client sets
  reaches the device and comes back from it as the same state; every other value is refused
  with \<^verbatim>\<open>EINVAL\<close> and changes nothing.\<close>

theorem audio_state_roundtrip:
  assumes "audio_ok E dev" "s \<in> device_states"
    and "s' \<notin> device_states" "\<And>i. s' = REMOTE_AUDIO_STATE_OTHER i \<Longrightarrow>
      i \<notin> remote_audio_state_value ` set remote_audio_states"
  shows "(\<exists>w1 w2. remote_audio_set_state (audio_loopback E p s0) c s f w = (0, w1)
        \<and> remote_audio_get_state (audio_loopback E p s0) c s1 w1 = (0, s, w2))
   \<and> remote_audio_set_state (audio_loopback E p s0) c s' f w = (- EINVAL, w)"
proof
  obtain as where as: "audio_state_of_rpc (rpc_of_remote s) = Some as"
      "rpc_of_audio_state as = rpc_of_remote s"
      "remote_audio_state_of (rpc_audio_state_value (rpc_of_remote s)) = s"
    using device_states_translate [OF assms(2)] by blast
  let ?a = "remote_control_get_audio E (RCPTR p)"
  obtain w1 where w1: "audio_set_state E ?a as w = (0, w1)" "dev w1 = as"
    using assms(1) unfolding audio_ok_def by (metis prod.collapse)
  obtain w2 where w2: "audio_get_state E ?a w1 = (0, as, w2)"
    using assms(1) w1(2) unfolding audio_ok_def by (metis prod.collapse)
  have "remote_audio_set_state (audio_loopback E p s0) c s f w = (0, w1)"
    using as(1) w1(1) by (simp add: remote_audio_set_loopback)
  moreover have "remote_audio_get_state (audio_loopback E p s0) c s1 w1 = (0, s, w2)"
    using as(2,3) w2 by (simp add: remote_audio_get_state_def audio_loopback_def rpc_audio_get_state_def)
  ultimately show "\<exists>w1 w2. remote_audio_set_state (audio_loopback E p s0) c s f w = (0, w1)
        \<and> remote_audio_get_state (audio_loopback E p s0) c s1 w1 = (0, s, w2)" by blast
  show "remote_audio_set_state (audio_loopback E p s0) c s' f w = (- EINVAL, w)"
    using other_states_unknown [OF assms(3,4)] by (simp add: remote_audio_set_loopback)
qed

definition ex_audio :: "audio_state audio_ops" where
  "ex_audio = \<lparr>remote_control_get_audio = (\<lambda>rc. rc + 1),
     audio_set_state = (\<lambda>a s w. (0, s)), audio_get_state = (\<lambda>a w. (0, w, w)),
     audio_set_volume = (\<lambda>a v w. (0, w)), audio_get_volume = (\<lambda>a v w. (0, 7, w)),
     audio_set_speakers_enable = (\<lambda>a b w. (0, w)), audio_get_speakers_enable = (\<lambda>a b w. (0, True, w))\<rparr>"

theorem audio_state_roundtrip_witness:
  "\<exists>w1 w2. remote_audio_set_state (audio_loopback ex_audio \<lparr>priv_addr = 5, priv_rc = 7\<rparr>
        RPC_AUDIO_STATE_UNKNOWN) 1 REMOTE_AUDIO_STATE_LINEIN_SPEAKER True AUDIO_STATE_INACTIVE = (0, w1)
     \<and> remote_audio_get_state (audio_loopback ex_audio \<lparr>priv_addr = 5, priv_rc = 7\<rparr>
        RPC_AUDIO_STATE_UNKNOWN) 1 REMOTE_AUDIO_STATE_UNKNOWN w1
        = (0, REMOTE_AUDIO_STATE_LINEIN_SPEAKER, w2)"
proof -
  have ok: "audio_ok ex_audio (\<lambda>w. w)" by (simp add: audio_ok_def ex_audio_def)
  have d: "REMOTE_AUDIO_STATE_LINEIN_SPEAKER \<in> device_states"
      "REMOTE_AUDIO_STATE_OTHER 5 \<notin> device_states"
    by (simp_all add: device_states_def remote_audio_states_def)
  have "i \<notin> remote_audio_state_value ` set remote_audio_states"
    if "REMOTE_AUDIO_STATE_OTHER 5 = REMOTE_AUDIO_STATE_OTHER i" for i
    using that by (simp add: remote_audio_states_def)
  from audio_state_roundtrip [OF ok d this] show ?thesis by blast
qed

text \<open>C23: input sources and volumes survive the way through client, protocol and device: the
  source that was set is the one that is read, the volume of a control is the one that was set
  for it, and the volumes of the other controls are untouched.\<close>

theorem mixer_roundtrip:
  assumes "mixer_ok E dev vol"
    and "s \<in> {REMOTE_MIXER_INPUT_SOURCE_HEADSET, REMOTE_MIXER_INPUT_SOURCE_HANDSET,
           REMOTE_MIXER_INPUT_SOURCE_LINE}"
  shows "(\<exists>w1 w2. remote_mixer_set_input_source (mixer_loopback E p s0) c s w = (0, w1)
        \<and> remote_mixer_get_input_source (mixer_loopback E p s0) c w1 = (0, s, w2))
   \<and> (\<exists>w1 w2. remote_mixer_set_volume (mixer_loopback E p s0) c k v w = (0, w1)
        \<and> remote_mixer_get_volume (mixer_loopback E p s0) c k v' w1 = (0, v, w2)
        \<and> (\<forall>k'. k' \<noteq> remote_mixer_control_value k \<longrightarrow> vol w1 k' = vol w k'))"
proof
  let ?m = "remote_control_get_mixer E (RCPTR p)"
  let ?r = "rpc_mixer_input_source_of (remote_mixer_input_source_value s)"
  let ?i = "mixer_input_of_rpc ?r"
  have r: "rpc_of_mixer_input ?i = ?r"
      "remote_mixer_input_source_of (rpc_mixer_input_source_value ?r) = s"
    using assms(2)
    by (auto simp: rpc_mixer_input_source_of_def remote_mixer_input_source_of_def enum_of_def)
  obtain w1 where w1: "mixer_set_input_source E ?m ?i w = (0, w1)" "dev w1 = ?i"
    using assms(1) unfolding mixer_ok_def by (metis prod.collapse)
  obtain w2 where w2: "mixer_get_input_source E ?m MIXER_INPUT_SOURCE_UNKNOWN w1 = (0, ?i, w2)"
    using assms(1) w1(2) unfolding mixer_ok_def by (metis prod.collapse)
  then show "\<exists>w1 w2. remote_mixer_set_input_source (mixer_loopback E p s0) c s w = (0, w1)
        \<and> remote_mixer_get_input_source (mixer_loopback E p s0) c w1 = (0, s, w2)"
    using w1(1) r
    by (simp add: remote_mixer_set_input_source_def remote_mixer_get_input_source_def
        mixer_loopback_def rpc_mixer_set_input_source_def rpc_mixer_get_input_source_def)
next
  let ?m = "remote_control_get_mixer E (RCPTR p)" and ?k = "remote_mixer_control_value k"
  obtain w1 where w1: "mixer_set_volume E ?m ?k (ucast v) w = (0, w1)" "vol w1 = (vol w)(?k := ucast v)"
    using assms(1) unfolding mixer_ok_def by (metis prod.collapse)
  have "fst (mixer_get_volume E ?m ?k 0 w1) = 0 \<and> fst (snd (mixer_get_volume E ?m ?k 0 w1)) = vol w1 ?k"
    using assms(1) unfolding mixer_ok_def by blast
  then obtain w2 where w2: "mixer_get_volume E ?m ?k 0 w1 = (0, ucast v, w2)"
    by (cases "mixer_get_volume E ?m ?k 0 w1") (simp add: w1(2))
  have "(ucast (ucast v :: u32) :: u8) = v" by (rule ucast_ucast_u32)
  then show "\<exists>w1 w2. remote_mixer_set_volume (mixer_loopback E p s0) c k v w = (0, w1)
        \<and> remote_mixer_get_volume (mixer_loopback E p s0) c k v' w1 = (0, v, w2)
        \<and> (\<forall>k'. k' \<noteq> remote_mixer_control_value k \<longrightarrow> vol w1 k' = vol w k')"
    using w1 w2
    by (simp add: remote_mixer_set_volume_def remote_mixer_get_volume_def mixer_loopback_def
        rpc_mixer_set_volume_def rpc_mixer_get_volume_def rpc_control_def)
qed

definition ex_mixer :: "(mixer_input_source \<times> (int \<Rightarrow> u32)) mixer_ops" where
  "ex_mixer = \<lparr>remote_control_get_mixer = (\<lambda>rc. rc + 1),
     mixer_set_volume = (\<lambda>a c v w. (0, fst w, (snd w)(c := v))),
     mixer_get_volume = (\<lambda>a c v w. (0, snd w c, w)),
     mixer_set_mute = (\<lambda>a c b w. (0, w)), mixer_is_muted = (\<lambda>a c b w. (0, False, w)),
     mixer_set_input_source = (\<lambda>a s w. (0, s, snd w)),
     mixer_get_input_source = (\<lambda>a s w. (0, fst w, w)),
     mixer_loopback_enable = (\<lambda>a b w. (0, w)), mixer_loopback_is_enabled = (\<lambda>a b w. (0, b, w))\<rparr>"

theorem mixer_roundtrip_witness:
  "\<exists>w1 w2. remote_mixer_set_input_source (mixer_loopback ex_mixer \<lparr>priv_addr = 5, priv_rc = 7\<rparr>
        RPC_MIXER_INPUT_SOURCE_UNKNOWN) 1 REMOTE_MIXER_INPUT_SOURCE_LINE
        (MIXER_INPUT_SOURCE_UNKNOWN, \<lambda>_. 0) = (0, w1)
     \<and> remote_mixer_get_input_source (mixer_loopback ex_mixer \<lparr>priv_addr = 5, priv_rc = 7\<rparr>
        RPC_MIXER_INPUT_SOURCE_UNKNOWN) 1 w1 = (0, REMOTE_MIXER_INPUT_SOURCE_LINE, w2)"
proof -
  have ok: "mixer_ok ex_mixer fst snd" by (simp add: mixer_ok_def ex_mixer_def)
  have "REMOTE_MIXER_INPUT_SOURCE_LINE \<in> {REMOTE_MIXER_INPUT_SOURCE_HEADSET,
      REMOTE_MIXER_INPUT_SOURCE_HANDSET, REMOTE_MIXER_INPUT_SOURCE_LINE}" by simp
  from mixer_roundtrip [OF ok this] show ?thesis by blast
qed

text \<open>C22: an answer is typed, and an error is the device's. Whatever value the device library
  gives for the audio state or the input source, also one of no enumerator, the handler answers
  with the device's code (for the input source: with 0 if that is not negative) and, when it is
  negative, leaves the output argument untouched; otherwise the value it answers with is decoded
  by the client to a state or a source of its own enumeration: to one of the device's states or
  inputs when the device gave one, to the unknown one when it gave a number without a name, and
  never to the bound. The client returns the same code.\<close>

theorem audio_replies_typed:
  "(case audio_get_state E (remote_control_get_audio E (RCPTR p)) w of (d, as, wd) \<Rightarrow>
      \<exists>s t'. rpc_audio_get_state E p s0 w = (d, s, wd)
       \<and> remote_audio_get_state (audio_loopback E p s0) c t w = (d, t', wd)
       \<and> (if d < 0 then s = s0
          else t' = remote_audio_state_of (rpc_audio_state_value s)
             \<and> t' \<in> (case as of AUDIO_STATE_OTHER _ \<Rightarrow> {REMOTE_AUDIO_STATE_UNKNOWN}
                        | _ \<Rightarrow> device_states)))
   \<and> (case mixer_get_input_source M (remote_control_get_mixer M (RCPTR p))
        MIXER_INPUT_SOURCE_UNKNOWN w of (d, input, wd) \<Rightarrow>
      \<exists>i j. rpc_mixer_get_input_source M p i0 w = (if d < 0 then d else 0, i, wd)
       \<and> remote_mixer_get_input_source (mixer_loopback M p i0) c w = (if d < 0 then d else 0, j, wd)
       \<and> (if d < 0 then i = i0
          else j = remote_mixer_input_source_of (rpc_mixer_input_source_value i)
             \<and> j \<in> (case input of MIXER_INPUT_SOURCE_OTHER _ \<Rightarrow> {REMOTE_MIXER_INPUT_SOURCE_UNKNOWN}
                       | _ \<Rightarrow> input_sources)))"
proof
  obtain d as wd where a: "audio_get_state E (remote_control_get_audio E (RCPTR p)) w = (d, as, wd)"
    by (cases "audio_get_state E (remote_control_get_audio E (RCPTR p)) w")
  then show "case audio_get_state E (remote_control_get_audio E (RCPTR p)) w of (d, as, wd) \<Rightarrow>
      \<exists>s t'. rpc_audio_get_state E p s0 w = (d, s, wd)
       \<and> remote_audio_get_state (audio_loopback E p s0) c t w = (d, t', wd)
       \<and> (if d < 0 then s = s0
          else t' = remote_audio_state_of (rpc_audio_state_value s)
             \<and> t' \<in> (case as of AUDIO_STATE_OTHER _ \<Rightarrow> {REMOTE_AUDIO_STATE_UNKNOWN}
                        | _ \<Rightarrow> device_states))"
    using rpc_of_audio_state_typed [of as]
    by (simp add: rpc_audio_get_state_def remote_audio_get_state_def audio_loopback_def)
next
  obtain d input wd where m: "mixer_get_input_source M (remote_control_get_mixer M (RCPTR p))
      MIXER_INPUT_SOURCE_UNKNOWN w = (d, input, wd)"
    by (cases "mixer_get_input_source M (remote_control_get_mixer M (RCPTR p))
      MIXER_INPUT_SOURCE_UNKNOWN w")
  then show "case mixer_get_input_source M (remote_control_get_mixer M (RCPTR p))
      MIXER_INPUT_SOURCE_UNKNOWN w of (d, input, wd) \<Rightarrow>
      \<exists>i j. rpc_mixer_get_input_source M p i0 w = (if d < 0 then d else 0, i, wd)
       \<and> remote_mixer_get_input_source (mixer_loopback M p i0) c w = (if d < 0 then d else 0, j, wd)
       \<and> (if d < 0 then i = i0
          else j = remote_mixer_input_source_of (rpc_mixer_input_source_value i)
             \<and> j \<in> (case input of MIXER_INPUT_SOURCE_OTHER _ \<Rightarrow> {REMOTE_MIXER_INPUT_SOURCE_UNKNOWN}
                       | _ \<Rightarrow> input_sources))"
    using rpc_of_mixer_input_typed [of input]
    by (simp add: rpc_mixer_get_input_source_def remote_mixer_get_input_source_def mixer_loopback_def)
qed

end
