(* ===== verification/Voip.thy ===== *)
theory Voip
  imports C_Lib
begin

text \<open>
  Telephony over IP, on both sides: the handlers of \<^verbatim>\<open>src/src/rcrpc/voip.c\<close> and the
  client library over them, \<^verbatim>\<open>src/src/rcrpc-client/voip.c\<close>. The arguments of a login
  cross the connection as the bytes of a structure with three text fields of fixed size.
  Shown here: texts that fit arrive as they are, what happens to longer ones, and which
  part of an account is never sent.

  The telephony library is \<open>voip_ops\<close>, the generated stubs are \<open>voip_stubs\<close>.
\<close>

section \<open>The login structure\<close>

text \<open>
  Five 32-bit fields, 20 bytes, of which only the third is used; then the texts. The offsets
  are those of the structure both files declare; numbers are little endian.
\<close>

definition OPT_TRANSPORT :: nat where [simp]: "OPT_TRANSPORT = 8"
definition OPT_SERVER2 :: nat where [simp]: "OPT_SERVER2 = 20"
definition OPT_USERNAME2 :: nat where [simp]: "OPT_USERNAME2 = 276"
definition OPT_PASSWORD2 :: nat where [simp]: "OPT_PASSWORD2 = 404"
definition OPT_SIZE :: nat where [simp]: "OPT_SIZE = 532"

definition le32 :: "string \<Rightarrow> u32" where
  "le32 bs = of_nat (foldr (\<lambda>c n. of_char c + 256 * n) bs 0)"

text \<open>The \<open>n\<close> bytes that \<^verbatim>\<open>strncpy\<close> writes, at an offset.\<close>

definition field :: "nat \<Rightarrow> string \<Rightarrow> string" where
  "field n s = take n (s @ replicate n NUL)"

lemma length_field [simp]: "length (field n s) = n"
  by (simp add: field_def)

definition strncpy_at :: "string \<Rightarrow> nat \<Rightarrow> string \<Rightarrow> nat \<Rightarrow> string" where
  "strncpy_at mem off s n =
     take off mem @ field n s @ drop (off + n) mem"

text \<open>The text a pointer into a piece of memory stands for.\<close>

definition cstring_at :: "string \<Rightarrow> nat \<Rightarrow> c_ub + string" where
  "cstring_at mem off =
     (if NUL \<in> set (drop off mem) then Inr (cstring (drop off mem)) else Inl OutOfBounds)"

section \<open>The server's handlers\<close>

datatype voip_login_state = VOIP_LOGIN_STATE_LOGGED_OUT | VOIP_LOGIN_STATE_LOGGED_IN
  | VOIP_LOGIN_STATE_OTHER nat

record 'w voip_ops =
  remote_control_get_voip :: "ptr \<Rightarrow> ptr"
  VOIP_TRANSPORT_MAX :: u32
  voip_login :: "ptr \<Rightarrow> string \<Rightarrow> u16 \<Rightarrow> string \<Rightarrow> string \<Rightarrow> u32 \<Rightarrow> 'w \<Rightarrow> int \<times> 'w"
  voip_logout :: "ptr \<Rightarrow> 'w \<Rightarrow> int \<times> 'w"
  voip_get_login_state :: "ptr \<Rightarrow> 'w \<Rightarrow> int \<times> voip_login_state \<times> 'w"
  voip_call :: "ptr \<Rightarrow> string option \<Rightarrow> 'w \<Rightarrow> int \<times> 'w"
  voip_accept :: "ptr \<Rightarrow> 'w \<Rightarrow> int \<times> string option \<times> 'w"
  voip_terminate :: "ptr \<Rightarrow> 'w \<Rightarrow> int \<times> 'w"
  voip_get_contact :: "ptr \<Rightarrow> 'w \<Rightarrow> int \<times> string option \<times> 'w"
  voip_dial :: "ptr \<Rightarrow> 8 word \<Rightarrow> 'w \<Rightarrow> int \<times> 'w"
  voip_strdup_ok :: "string \<Rightarrow> 'w \<Rightarrow> bool"

definition rpc_voip_get_version :: "priv \<Rightarrow> 'w \<Rightarrow> int \<times> 'w" where
  "rpc_voip_get_version p w = (- ENOSYS, w)"

definition rpc_voip_get_status :: "priv \<Rightarrow> 'w \<Rightarrow> int \<times> 'w" where
  "rpc_voip_get_status p w = (- ENOSYS, w)"

definition rpc_voip_get_status_string :: "priv \<Rightarrow> u32 \<Rightarrow> 'w \<Rightarrow> int \<times> 'w" where
  "rpc_voip_get_status_string p status w = (- ENOSYS, w)"

text \<open>
  The handler gets the bytes the client sent and reads the structure from them, whatever
  their number. The port is a constant.
\<close>

definition rpc_voip_login :: "'w voip_ops \<Rightarrow> priv \<Rightarrow> string \<Rightarrow> 'w \<Rightarrow> c_ub + int \<times> 'w" where
  "rpc_voip_login E p options w =
     (let voip = remote_control_get_voip E (RCPTR p) in
      if length options < OPT_TRANSPORT + 4 then Inl OutOfBounds
      else
        let transport = le32 (take 4 (drop OPT_TRANSPORT options)) in
        if VOIP_TRANSPORT_MAX E \<le> transport then Inr (- EINVAL, w)
        else bind_ub (cstring_at options OPT_SERVER2) (\<lambda>server.
          bind_ub (cstring_at options OPT_USERNAME2) (\<lambda>username.
          bind_ub (cstring_at options OPT_PASSWORD2) (\<lambda>password.
            Inr (voip_login E voip server 5060 username password transport w)))))"

definition rpc_voip_logout :: "'w voip_ops \<Rightarrow> priv \<Rightarrow> 'w \<Rightarrow> int \<times> 'w" where
  "rpc_voip_logout E p w = voip_logout E (remote_control_get_voip E (RCPTR p)) w"

definition rpc_voip_still_logged_in ::
  "'w voip_ops \<Rightarrow> priv \<Rightarrow> bool \<Rightarrow> 'w \<Rightarrow> int \<times> bool \<times> 'w" where
  "rpc_voip_still_logged_in E p status w =
     (let voip = remote_control_get_voip E (RCPTR p);
          (ret, state, w) = voip_get_login_state E voip w
      in if ret < 0 then (ret, status, w)
         else (ret, state = VOIP_LOGIN_STATE_LOGGED_IN, w))"

definition rpc_voip_connect_to :: "'w voip_ops \<Rightarrow> priv \<Rightarrow> string option \<Rightarrow> 'w \<Rightarrow> int \<times> 'w" where
  "rpc_voip_connect_to E p uri w = voip_call E (remote_control_get_voip E (RCPTR p)) uri w"

definition rpc_voip_accept_incoming ::
  "'w voip_ops \<Rightarrow> priv \<Rightarrow> 'w \<Rightarrow> int \<times> string option \<times> 'w" where
  "rpc_voip_accept_incoming E p w = voip_accept E (remote_control_get_voip E (RCPTR p)) w"

definition rpc_voip_disconnect :: "'w voip_ops \<Rightarrow> priv \<Rightarrow> 'w \<Rightarrow> int \<times> 'w" where
  "rpc_voip_disconnect E p w = voip_terminate E (remote_control_get_voip E (RCPTR p)) w"

definition rpc_voip_is_connected :: "priv \<Rightarrow> 'w \<Rightarrow> int \<times> 'w" where
  "rpc_voip_is_connected p w = (- ENOSYS, w)"

definition rpc_voip_is_calling :: "priv \<Rightarrow> 'w \<Rightarrow> int \<times> 'w" where
  "rpc_voip_is_calling p w = (- ENOSYS, w)"

text \<open>\<open>contact\<close> is the variable the output argument points to, if it is not null.\<close>

definition rpc_voip_get_last_contact ::
  "'w voip_ops \<Rightarrow> priv \<Rightarrow> string option option \<Rightarrow> 'w \<Rightarrow> int \<times> string option option \<times> 'w" where
  "rpc_voip_get_last_contact E p contact w =
     (let voip = remote_control_get_voip E (RCPTR p) in
      if priv_addr p = NULL \<or> contact = None then (- EINVAL, contact, w)
      else
        let (ret, name, w) = voip_get_contact E voip w in
        if ret < 0 then (ret, contact, w)
        else
          (case name of
             Some n \<Rightarrow> if voip_strdup_ok E n w then (ret, Some (Some n), w)
                       else (- ENOMEM, contact, w)
           | None \<Rightarrow> (ret, contact, w)))"

definition rpc_voip_dial :: "'w voip_ops \<Rightarrow> priv \<Rightarrow> 8 word \<Rightarrow> 'w \<Rightarrow> int \<times> 'w" where
  "rpc_voip_dial E p dtmf w =
     (if priv_addr p = NULL then (- EINVAL, w)
      else voip_dial E (remote_control_get_voip E (RCPTR p)) dtmf w)"

section \<open>The client\<close>

record voip_account =
  proxy :: "string option"
  port :: u16
  username :: "string option"
  password :: "string option"

record 'w voip_stubs =
  voip_client_from_priv :: "ptr \<Rightarrow> ptr"
  stub_voip_login :: "ptr \<Rightarrow> string \<Rightarrow> 'w \<Rightarrow> int \<times> int \<times> 'w"
  stub_voip_logout :: "ptr \<Rightarrow> 'w \<Rightarrow> int \<times> int \<times> 'w"
  stub_voip_connect_to :: "ptr \<Rightarrow> string option \<Rightarrow> 'w \<Rightarrow> int \<times> int \<times> 'w"
  stub_voip_accept_incoming :: "ptr \<Rightarrow> string option \<Rightarrow> 'w \<Rightarrow> int \<times> int \<times> string option \<times> 'w"
  stub_voip_disconnect :: "ptr \<Rightarrow> 'w \<Rightarrow> int \<times> int \<times> 'w"
  stub_voip_still_logged_in :: "ptr \<Rightarrow> bool \<Rightarrow> 'w \<Rightarrow> int \<times> int \<times> bool \<times> 'w"
  stub_voip_dial :: "ptr \<Rightarrow> 8 word \<Rightarrow> 'w \<Rightarrow> int \<times> int \<times> 'w"

definition remote_voip_login ::
  "'w voip_stubs \<Rightarrow> ptr \<Rightarrow> voip_account \<Rightarrow> 'w \<Rightarrow> c_ub + int \<times> 'w" where
  "remote_voip_login C p account w =
     (let rpc = voip_client_from_priv C p;
          options = replicate OPT_SIZE NUL
      in
      bind_ub (deref (proxy account)) (\<lambda>s.
        let options = strncpy_at options OPT_SERVER2 s 256 in
      bind_ub (deref (username account)) (\<lambda>s.
        let options = strncpy_at options OPT_USERNAME2 s 128 in
      bind_ub (deref (password account)) (\<lambda>s.
        let options = strncpy_at options OPT_PASSWORD2 s 128;
            (err, ret, w) = stub_voip_login C rpc options w
        in Inr (if err < 0 then err else ret, w)))))"

definition remote_voip_logout :: "'w voip_stubs \<Rightarrow> ptr \<Rightarrow> 'w \<Rightarrow> int \<times> 'w" where
  "remote_voip_logout C p w =
     (let (err, ret, w) = stub_voip_logout C (voip_client_from_priv C p) w
      in (if err < 0 then err else ret, w))"

definition remote_voip_connect_to :: "'w voip_stubs \<Rightarrow> ptr \<Rightarrow> string option \<Rightarrow> 'w \<Rightarrow> int \<times> 'w" where
  "remote_voip_connect_to C p uri w =
     (let (err, ret, w) = stub_voip_connect_to C (voip_client_from_priv C p) uri w
      in (if err < 0 then err else ret, w))"

definition remote_voip_accept_incoming ::
  "'w voip_stubs \<Rightarrow> ptr \<Rightarrow> string option \<Rightarrow> 'w \<Rightarrow> int \<times> string option \<times> 'w" where
  "remote_voip_accept_incoming C p uri w =
     (let (err, ret, uri, w) = stub_voip_accept_incoming C (voip_client_from_priv C p) uri w
      in (if err < 0 then err else ret, uri, w))"

definition remote_voip_disconnect :: "'w voip_stubs \<Rightarrow> ptr \<Rightarrow> 'w \<Rightarrow> int \<times> 'w" where
  "remote_voip_disconnect C p w =
     (let (err, ret, w) = stub_voip_disconnect C (voip_client_from_priv C p) w
      in (if err < 0 then err else ret, w))"

definition remote_voip_still_logged_in ::
  "'w voip_stubs \<Rightarrow> ptr \<Rightarrow> bool \<Rightarrow> 'w \<Rightarrow> int \<times> bool \<times> 'w" where
  "remote_voip_still_logged_in C p status w =
     (let (err, ret, status, w) = stub_voip_still_logged_in C (voip_client_from_priv C p) status w
      in (if err < 0 then err else ret, status, w))"

definition remote_voip_dial :: "'w voip_stubs \<Rightarrow> ptr \<Rightarrow> u8 \<Rightarrow> 'w \<Rightarrow> int \<times> 'w" where
  "remote_voip_dial C p dtmf w =
     (let (err, ret, w) = stub_voip_dial C (voip_client_from_priv C p) dtmf w
      in (if err < 0 then err else ret, w))"

section \<open>Through the connection\<close>

text \<open>The login stub connected to the handler: the bytes arrive as they were sent.\<close>

definition login_loopback ::
  "'w voip_ops \<Rightarrow> priv \<Rightarrow> 'w voip_stubs \<Rightarrow> bool" where
  "login_loopback E p C \<longleftrightarrow> (\<forall>c bs w. stub_voip_login C c bs w =
     (case rpc_voip_login E p bs w of Inr (ret, w) \<Rightarrow> (0, ret, w) | Inl _ \<Rightarrow> (- ECONNRESET, 0, w)))"

definition login_bytes :: "string \<Rightarrow> string \<Rightarrow> string \<Rightarrow> string" where
  "login_bytes s u pw = replicate 20 NUL @ field 256 s @ field 128 u @ field 128 pw"

lemma remote_voip_login_bytes:
  assumes "proxy a = Some s" "username a = Some u" "password a = Some pw"
  shows "remote_voip_login C p a w =
    (let (err, ret, w) = stub_voip_login C (voip_client_from_priv C p) (login_bytes s u pw) w
     in Inr (if err < 0 then err else ret, w))"
proof -
  have "strncpy_at (strncpy_at (strncpy_at (replicate 532 NUL) 20 s 256) 276 u 128) 404 pw 128
      = login_bytes s u pw"
    by (simp add: strncpy_at_def login_bytes_def)
  then show ?thesis using assms by (simp add: remote_voip_login_def Let_def)
qed

lemma takeWhile_field:
  assumes "NUL \<notin> set s"
  shows "takeWhile (\<lambda>c. c \<noteq> NUL) (field n s @ rest)
    = (if length s < n then s else take n s @ takeWhile (\<lambda>c. c \<noteq> NUL) rest)"
proof (cases "length s < n")
  case True
  then obtain k where "n - length s = Suc k" by (cases "n - length s") auto
  moreover have "field n s = s @ replicate (n - length s) NUL" using True by (simp add: field_def)
  ultimately have "field n s = s @ NUL # replicate k NUL" by simp
  then show ?thesis using True cstring_terminated [OF assms, of "replicate k NUL @ rest"]
    by (simp add: cstring_def)
next
  case False
  then have "field n s = take n s" by (simp add: field_def)
  moreover have "\<forall>c \<in> set (take n s). c \<noteq> NUL" using assms by (auto dest: in_set_takeD)
  ultimately show ?thesis using False by (simp add: takeWhile_append2)
qed

lemma field_NUL:
  "NUL \<notin> set s \<Longrightarrow> NUL \<in> set (field n s) \<longleftrightarrow> length s < n"
  by (auto simp: field_def dest: in_set_takeD)

lemma login_bytes_fields:
  "drop 20 (login_bytes s u pw) = field 256 s @ field 128 u @ field 128 pw"
  "drop 276 (login_bytes s u pw) = field 128 u @ field 128 pw"
  "drop 404 (login_bytes s u pw) = field 128 pw"
  "length (login_bytes s u pw) = 532"
  "take 4 (drop 8 (login_bytes s u pw)) = replicate 4 NUL"
  by (simp_all add: login_bytes_def min_def)

lemma le32_zero: "le32 (replicate 4 NUL) = 0"
proof -
  have "of_char NUL = (0 :: nat)" by (simp add: NUL_def)
  then have "foldr (\<lambda>c n. of_char c + 256 * n) (replicate k NUL) 0 = (0 :: nat)" for k
    by (induction k) simp_all
  then show ?thesis unfolding le32_def by (simp only: semiring_1_class.of_nat_0)
qed

lemma rpc_voip_login_bytes:
  assumes "NUL \<notin> set s" "NUL \<notin> set u" "NUL \<notin> set pw" "0 < VOIP_TRANSPORT_MAX E" "length pw < 128"
  shows "rpc_voip_login E p (login_bytes s u pw) w =
    Inr (voip_login E (remote_control_get_voip E (RCPTR p))
      (if length s < 256 then s else take 256 s @ (if length u < 128 then u else take 128 u @ pw)) 5060
      (if length u < 128 then u else take 128 u @ pw) pw 0 w)"
proof -
  have p: "takeWhile (\<lambda>c. c \<noteq> NUL) (field 128 pw) = pw"
    using takeWhile_field [OF assms(3), of 128 "[]"] assms(5) by simp
  have u: "takeWhile (\<lambda>c. c \<noteq> NUL) (field 128 u @ field 128 pw)
      = (if length u < 128 then u else take 128 u @ pw)"
    by (simp only: takeWhile_field [OF assms(2)] p)
  have s: "takeWhile (\<lambda>c. c \<noteq> NUL) (field 256 s @ field 128 u @ field 128 pw)
      = (if length s < 256 then s else take 256 s @ (if length u < 128 then u else take 128 u @ pw))"
    by (simp only: takeWhile_field [OF assms(1)] u)
  have n: "NUL \<in> set (field 128 pw)" using field_NUL [OF assms(3)] assms(5) by simp
  have "cstring_at (login_bytes s u pw) 404 = Inr pw"
      "cstring_at (login_bytes s u pw) 276 = Inr (if length u < 128 then u else take 128 u @ pw)"
      "cstring_at (login_bytes s u pw) 20
        = Inr (if length s < 256 then s else take 256 s @ (if length u < 128 then u else take 128 u @ pw))"
    using n by (simp_all only: cstring_at_def login_bytes_fields cstring_def p u s set_append Un_iff
        simp_thms if_True)
  moreover have "\<not> VOIP_TRANSPORT_MAX E \<le> 0" using assms(4) by simp
  ultimately show ?thesis
    by (simp only: rpc_voip_login_def Let_def login_bytes_fields le32_zero OPT_TRANSPORT_def
        OPT_SERVER2_def OPT_USERNAME2_def OPT_PASSWORD2_def bind_ub_simps) simp
qed

section \<open>Properties\<close>

text \<open>C24: a login whose texts fit their fields reaches the telephony library as it was given,
  with the first transport; but with port 5060 whatever port the account names, since the
  structure has no field for it.\<close>

theorem voip_login_roundtrip:
  assumes "login_loopback E p C" "0 < VOIP_TRANSPORT_MAX E"
    and "proxy a = Some s" "username a = Some u" "password a = Some pw"
    and "NUL \<notin> set (s @ u @ pw)" "length s < 256" "length u < 128" "length pw < 128"
  shows "\<exists>err w'. voip_login E (remote_control_get_voip E (RCPTR p)) s 5060 u pw 0 w = (err, w')
     \<and> remote_voip_login C c a w = Inr (err, w')
     \<and> remote_voip_login C c (a\<lparr>port := other\<rparr>) w = Inr (err, w')"
proof -
  obtain err w' where v: "voip_login E (remote_control_get_voip E (RCPTR p)) s 5060 u pw 0 w = (err, w')"
    by fastforce
  have n: "NUL \<notin> set s" "NUL \<notin> set u" "NUL \<notin> set pw" using assms(6) by auto
  have "stub_voip_login C k (login_bytes s u pw) w = (0, err, w')" for k
    using assms(1) rpc_voip_login_bytes [OF n assms(2,9), of p w] assms(7,8) v
    by (simp add: login_loopback_def)
  then have "remote_voip_login C c b w = Inr (err, w')"
    if "proxy b = Some s" "username b = Some u" "password b = Some pw" for b
    using remote_voip_login_bytes [OF that, of C c w] by simp
  from this [of a] this [of "a\<lparr>port := other\<rparr>"] show ?thesis using v assms(3-5) by simp
qed

lemma rpc_voip_login_overrun:
  assumes "NUL \<notin> set pw" "0 < VOIP_TRANSPORT_MAX E" "128 \<le> length pw"
  shows "rpc_voip_login E p (login_bytes s u pw) w = Inl OutOfBounds"
proof -
  have n: "NUL \<notin> set (field 128 pw)" using field_NUL [OF assms(1), of 128] assms(3) by simp
  have "cstring_at (login_bytes s u pw) 404 = Inl OutOfBounds"
    using n by (simp only: cstring_at_def login_bytes_fields if_False)
  moreover have "cstring_at (login_bytes s u pw) k = Inl OutOfBounds
      \<or> (\<exists>t. cstring_at (login_bytes s u pw) k = Inr t)" for k
    by (simp add: cstring_at_def)
  note this [of 20] this [of 276]
  moreover have "\<not> VOIP_TRANSPORT_MAX E \<le> 0" using assms(2) by simp
  ultimately show ?thesis
    by (auto simp: rpc_voip_login_def Let_def login_bytes_fields le32_zero)
qed

text \<open>C38: longer texts are not refused. The client cuts a name of the server of 256 characters
  or more, and a user name of 128 or more, without ending it, so that the handler reads on into
  the next field: the server's name runs on into the user name, and the user name into the
  password. A password of 128 characters or more makes the handler read behind the end of the
  message, whatever the other texts are. An account that lacks any of the three texts crashes
  the client.\<close>

theorem voip_login_unterminated:
  assumes "0 < VOIP_TRANSPORT_MAX E" "NUL \<notin> set (s @ u @ pw)"
    and "proxy a = Some s" "username a = Some u" "password a = Some pw"
  shows "(\<exists>bs. (\<forall>C c. remote_voip_login C c a w =
        (let (err, ret, w) = stub_voip_login C (voip_client_from_priv C c) bs w
         in Inr (if err < 0 then err else ret, w)))
      \<and> rpc_voip_login E p bs w =
        (let user = (if length u < 128 then u else take 128 u @ pw);
             server = (if length s < 256 then s else take 256 s @ user)
         in if length pw < 128
            then Inr (voip_login E (remote_control_get_voip E (RCPTR p)) server 5060 user pw 0 w)
            else Inl OutOfBounds))
   \<and> (proxy b = None \<or> username b = None \<or> password b = None
        \<longrightarrow> remote_voip_login C c b w = Inl NullDeref)"
proof (intro conjI exI allI impI)
  have n: "NUL \<notin> set s" "NUL \<notin> set u" "NUL \<notin> set pw" using assms(2) by auto
  show "remote_voip_login C c a w =
      (let (err, ret, w) = stub_voip_login C (voip_client_from_priv C c) (login_bytes s u pw) w
       in Inr (if err < 0 then err else ret, w))" for C :: "'a voip_stubs" and c
    by (rule remote_voip_login_bytes [OF assms(3-5)])
  show "rpc_voip_login E p (login_bytes s u pw) w =
      (let user = (if length u < 128 then u else take 128 u @ pw);
           server = (if length s < 256 then s else take 256 s @ user)
       in if length pw < 128
          then Inr (voip_login E (remote_control_get_voip E (RCPTR p)) server 5060 user pw 0 w)
          else Inl OutOfBounds)"
  proof (cases "length pw < 128")
    case True
    then show ?thesis by (simp only: Let_def rpc_voip_login_bytes [OF n assms(1)] if_True)
  next
    case False
    then show ?thesis
      by (simp only: Let_def rpc_voip_login_overrun [OF n(3) assms(1) leI [OF False]] if_False)
  qed
  show "remote_voip_login C c b w = Inl NullDeref"
    if "proxy b = None \<or> username b = None \<or> password b = None"
    using that by (cases "proxy b"; cases "username b"; cases "password b")
      (simp_all add: remote_voip_login_def Let_def)
qed

definition ex_voip :: "(string list) voip_ops" where
  "ex_voip = \<lparr>remote_control_get_voip = (\<lambda>rc. rc + 1), VOIP_TRANSPORT_MAX = 3,
     voip_login = (\<lambda>v s n u pw t w. (0, [s, u, pw])), voip_logout = (\<lambda>v w. (0, [])),
     voip_get_login_state = (\<lambda>v w. (0, VOIP_LOGIN_STATE_LOGGED_IN, w)),
     voip_call = (\<lambda>v u w. (0, w)), voip_accept = (\<lambda>v w. (0, None, w)),
     voip_terminate = (\<lambda>v w. (0, w)), voip_get_contact = (\<lambda>v w. (0, None, w)),
     voip_dial = (\<lambda>v d w. (0, w)), voip_strdup_ok = (\<lambda>s w. True)\<rparr>"

definition ex_voip_stubs :: "(string list) voip_stubs" where
  "ex_voip_stubs = \<lparr>voip_client_from_priv = (\<lambda>a. a),
     stub_voip_login = (\<lambda>c bs w.
       (case rpc_voip_login ex_voip \<lparr>priv_addr = 5, priv_rc = 7\<rparr> bs w of
          Inr (ret, w) \<Rightarrow> (0, ret, w) | Inl _ \<Rightarrow> (- ECONNRESET, 0, w))),
     stub_voip_logout = (\<lambda>c w. (0, 0, w)), stub_voip_connect_to = (\<lambda>c u w. (0, 0, w)),
     stub_voip_accept_incoming = (\<lambda>c u w. (0, 0, u, w)), stub_voip_disconnect = (\<lambda>c w. (0, 0, w)),
     stub_voip_still_logged_in = (\<lambda>c b w. (0, 0, b, w)), stub_voip_dial = (\<lambda>c d w. (0, 0, w))\<rparr>"

theorem voip_login_roundtrip_witness:
  "remote_voip_login ex_voip_stubs 1 \<lparr>proxy = Some ''sip.example'', port = 5070,
     username = Some ''user'', password = Some ''secret''\<rparr> [] = Inr (0, [''sip.example'', ''user'', ''secret''])"
proof -
  let ?a = "\<lparr>proxy = Some ''sip.example'', port = 5070, username = Some ''user'',
     password = Some ''secret''\<rparr>"
  have l: "login_loopback ex_voip \<lparr>priv_addr = 5, priv_rc = 7\<rparr> ex_voip_stubs"
    by (simp add: login_loopback_def ex_voip_stubs_def)
  have m: "0 < VOIP_TRANSPORT_MAX ex_voip" by (simp add: ex_voip_def)
  have n: "NUL \<notin> set (''sip.example'' @ ''user'' @ ''secret'')" by (simp add: NUL_def)
  obtain err w' where v: "voip_login ex_voip (remote_control_get_voip ex_voip
        (RCPTR \<lparr>priv_addr = 5, priv_rc = 7\<rparr>)) ''sip.example'' 5060 ''user'' ''secret'' 0 [] = (err, w')"
      "remote_voip_login ex_voip_stubs 1 ?a [] = Inr (err, w')"
    using voip_login_roundtrip [OF l m _ _ _ n, where a = ?a and w = "[]" and other = 0 and c = 1]
    by auto
  from v(1) have "err = 0" "w' = [''sip.example'', ''user'', ''secret'']" by (simp_all add: ex_voip_def)
  with v(2) show ?thesis by simp
qed

theorem voip_login_unterminated_witness:
  "\<exists>bs. remote_voip_login ex_voip_stubs 1 \<lparr>proxy = Some (replicate 300 CHR ''a''), port = 5060,
        username = Some (replicate 130 CHR ''u''), password = Some ''x''\<rparr> []
      = (let (err, ret, w) = stub_voip_login ex_voip_stubs 1 bs []
         in Inr (if err < 0 then err else ret, w))
   \<and> rpc_voip_login ex_voip \<lparr>priv_addr = 5, priv_rc = 7\<rparr> bs []
      = Inr (0, [replicate 256 CHR ''a'' @ replicate 128 CHR ''u'' @ ''x'',
          replicate 128 CHR ''u'' @ ''x'', ''x''])"
proof -
  let ?s = "replicate 300 CHR ''a''" and ?u = "replicate 130 CHR ''u''"
  let ?a = "\<lparr>proxy = Some ?s, port = 5060, username = Some ?u, password = Some ''x''\<rparr>"
  have m: "0 < VOIP_TRANSPORT_MAX ex_voip" by (simp add: ex_voip_def)
  have n: "NUL \<notin> set (?s @ ?u @ ''x'')" by (simp add: NUL_def)
  have c: "voip_client_from_priv ex_voip_stubs 1 = 1" by (simp add: ex_voip_stubs_def)
  have t: "take 256 ?s = replicate 256 CHR ''a''" "take 128 ?u = replicate 128 CHR ''u''"
    by (simp_all only: take_replicate) simp_all
  have l: "\<not> length ?s < 256" "\<not> length ?u < 128" "length ''x'' < 128"
    by (simp_all only: length_replicate) simp_all
  have r: "voip_login ex_voip v s k u pw tr w = (0, [s, u, pw])" for v s k u pw tr w
    by (simp add: ex_voip_def)
  obtain bs where
      "remote_voip_login ex_voip_stubs 1 ?a [] =
        (let (err, ret, w) = stub_voip_login ex_voip_stubs (voip_client_from_priv ex_voip_stubs 1) bs []
         in Inr (if err < 0 then err else ret, w))"
      "rpc_voip_login ex_voip \<lparr>priv_addr = 5, priv_rc = 7\<rparr> bs [] =
        (let user = (if length ?u < 128 then ?u else take 128 ?u @ ''x'');
             server = (if length ?s < 256 then ?s else take 256 ?s @ user)
         in if length ''x'' < 128
            then Inr (voip_login ex_voip (remote_control_get_voip ex_voip
              (RCPTR \<lparr>priv_addr = 5, priv_rc = 7\<rparr>)) server 5060 user ''x'' 0 [])
            else Inl OutOfBounds)"
    using voip_login_unterminated [OF m n, of ?a "[]" "\<lparr>priv_addr = 5, priv_rc = 7\<rparr>"
        ?a] by (simp only: voip_account.simps) blast
  then show ?thesis unfolding c by (simp only: l if_True if_False Let_def t r) blast
qed

end
