(* ===== verification/Gpio.thy ===== *)
theory Gpio
  imports C_Lib
begin

text \<open>
  General purpose pins, from the command to the hardware: the two handlers of the server,
  \<^verbatim>\<open>src/src/rcrpc/io.c\<close>, which set and get all pins as a bit mask, and the client
  library over them, \<^verbatim>\<open>src/src/rcrpc-client/gpio.c\<close>, which sets and gets one pin. Shown
  here: what the handlers do to the pins, that the client built on them sets its pin and no
  other, and how the handlers' error code is lost.

  The backend that drives the pins is the record \<open>gpio_ops\<close>, the generated stubs
  \<open>gpio_stubs\<close>. Shifting by the width of the word or more is undefined in C.
\<close>

section \<open>The server's handlers\<close>

record 'w gpio_ops =
  remote_control_get_gpio_backend :: "ptr \<Rightarrow> ptr"
  gpio_backend_get_num_gpios :: "ptr \<Rightarrow> 'w \<Rightarrow> int \<times> 'w"
  gpio_backend_direction_output :: "ptr \<Rightarrow> nat \<Rightarrow> int \<Rightarrow> 'w \<Rightarrow> int \<times> 'w"
  gpio_backend_get_value :: "ptr \<Rightarrow> nat \<Rightarrow> 'w \<Rightarrow> int \<times> 'w"

definition rpc_check_io :: "priv \<Rightarrow> 'w \<Rightarrow> int \<times> 'w" where
  "rpc_check_io p w = (- ENOSYS, w)"

fun set_pins :: "'w gpio_ops \<Rightarrow> ptr \<Rightarrow> u32 \<Rightarrow> nat list \<Rightarrow> 'w \<Rightarrow> c_ub + 'w" where
  "set_pins E backend maskp [] w = Inr w"
| "set_pins E backend maskp (i # is) w =
     (if 32 \<le> i then Inl BadShift
      else
        let value = uint (drop_bit i maskp AND 1);
            (ret, w) = gpio_backend_direction_output E backend i value w
        in set_pins E backend maskp is w)"

definition rpc_gpio_set_mask :: "'w gpio_ops \<Rightarrow> priv \<Rightarrow> u32 \<Rightarrow> 'w \<Rightarrow> c_ub + int \<times> 'w" where
  "rpc_gpio_set_mask E p maskp w =
     (let backend = remote_control_get_gpio_backend E (RCPTR p);
          (err, w) = gpio_backend_get_num_gpios E backend w
      in if err < 0 then Inr (- err, w)
         else bind_ub (set_pins E backend maskp [0..<nat err] w) (\<lambda>w. Inr (0, w)))"

fun get_pins :: "'w gpio_ops \<Rightarrow> ptr \<Rightarrow> nat list \<Rightarrow> u32 \<Rightarrow> 'w \<Rightarrow> c_ub + u32 \<times> 'w" where
  "get_pins E backend [] value w = Inr (value, w)"
| "get_pins E backend (i # is) value w =
     (let (ret, w) = gpio_backend_get_value E backend i w in
      if ret < 0 then get_pins E backend is value w
      else if ret \<noteq> 0
      then (if 32 \<le> i then Inl BadShift else get_pins E backend is (value OR BIT i) w)
      else get_pins E backend is value w)"

text \<open>\<open>maskp\<close> is the variable the pointer argument points to, if it is not null.\<close>

definition rpc_gpio_get_mask ::
  "'w gpio_ops \<Rightarrow> priv \<Rightarrow> u32 option \<Rightarrow> 'w \<Rightarrow> c_ub + int \<times> u32 option \<times> 'w" where
  "rpc_gpio_get_mask E p maskp w =
     (let backend = remote_control_get_gpio_backend E (RCPTR p);
          (err, w) = gpio_backend_get_num_gpios E backend w
      in if err < 0 then Inr (- err, maskp, w)
         else bind_ub (get_pins E backend [0..<nat err] 0 w) (\<lambda>(value, w).
           Inr (0, map_option (\<lambda>_. value) maskp, w)))"

section \<open>The client\<close>

text \<open>
  A stub gives the transport's result and, where that is not negative, the handler's; the
  output argument is passed with its current value.
\<close>

record 'w gpio_stubs =
  gpio_client_from_priv :: "ptr \<Rightarrow> ptr"
  stub_gpio_get_mask :: "ptr \<Rightarrow> u32 \<Rightarrow> 'w \<Rightarrow> int \<times> int \<times> u32 \<times> 'w"
  stub_gpio_set_mask :: "ptr \<Rightarrow> u32 \<Rightarrow> 'w \<Rightarrow> int \<times> int \<times> 'w"

definition remote_gpio_set ::
  "'w gpio_stubs \<Rightarrow> ptr \<Rightarrow> nat \<Rightarrow> int \<Rightarrow> 'w \<Rightarrow> c_ub + int \<times> 'w" where
  "remote_gpio_set C p gpio value w =
     (let client = gpio_client_from_priv C p;
          (err, ret, maskp, w) = stub_gpio_get_mask C client 0 w
      in
      if err < 0 then Inr (err, w)
      else if ret < 0 then Inr (ret, w)
      else if 32 \<le> gpio then Inl BadShift
      else
        let maskp = (if value \<noteq> 0 then maskp OR BIT gpio else maskp AND NOT (BIT gpio));
            (err, ret, w) = stub_gpio_set_mask C client maskp w
        in Inr (if err < 0 then err else ret, w))"

definition remote_gpio_get :: "'w gpio_stubs \<Rightarrow> ptr \<Rightarrow> nat \<Rightarrow> 'w \<Rightarrow> c_ub + int \<times> 'w" where
  "remote_gpio_get C p gpio w =
     (let client = gpio_client_from_priv C p;
          (err, ret, maskp, w) = stub_gpio_get_mask C client 0 w
      in
      if err < 0 then Inr (err, w)
      else if ret < 0 then Inr (ret, w)
      else if 32 \<le> gpio then Inl BadShift
      else Inr (uint (drop_bit gpio maskp AND 1), w))"

section \<open>The contract between them\<close>

text \<open>
  What the client relies on: \<open>lvl\<close> is the level of each of the \<open>n\<close> pins, reading
  the mask gives the levels and keeps them, writing it makes them its bits.
\<close>

locale gpio_service =
  fixes ok :: bool
    and n :: nat
    and lvl :: "'w \<Rightarrow> nat \<Rightarrow> bool"
    and C :: "'w gpio_stubs"
  assumes get_mask: "ok \<Longrightarrow> stub_gpio_get_mask C c m w = (err, ret, m', w') \<Longrightarrow>
      0 \<le> err \<and> ret = 0 \<and> (\<forall>i. bit m' i \<longleftrightarrow> i < n \<and> lvl w i) \<and> (\<forall>i < n. lvl w' i = lvl w i)"
    and set_mask: "ok \<Longrightarrow> stub_gpio_set_mask C c m w = (err, ret, w') \<Longrightarrow>
      0 \<le> err \<and> ret = 0 \<and> (\<forall>i < n. lvl w' i = bit m i)"
begin

lemma remote_set:
  assumes ok "gpio < 32"
  shows "\<exists>w'. remote_gpio_set C p gpio value w = Inr (0, w')
     \<and> (\<forall>i < n. lvl w' i = (if i = gpio then value \<noteq> 0 else lvl w i))"
proof -
  let ?c = "gpio_client_from_priv C p"
  obtain err ret m w1 where g: "stub_gpio_get_mask C ?c 0 w = (err, ret, m, w1)"
    by (metis prod_cases4)
  let ?m = "if value \<noteq> 0 then m OR BIT gpio else m AND NOT (BIT gpio)"
  obtain err' ret' w2 where s: "stub_gpio_set_mask C ?c ?m w1 = (err', ret', w2)"
    by (metis prod_cases3)
  have G: "0 \<le> err" "ret = 0" "\<forall>i. bit m i \<longleftrightarrow> i < n \<and> lvl w i"
    using get_mask [OF assms(1) g] by auto
  have S: "0 \<le> err'" "ret' = 0" "\<forall>i < n. lvl w2 i = bit ?m i"
    using set_mask [OF assms(1) s] by auto
  have "remote_gpio_set C p gpio value w = Inr (0, w2)"
    using G S g s assms(2) by (simp add: remote_gpio_set_def)
  moreover have "lvl w2 i = (if i = gpio then value \<noteq> 0 else lvl w i)" if "i < n" for i
    using S(3) G(3) that assms(2) by (auto simp: bit_defs)
  ultimately show ?thesis by blast
qed

lemma remote_get:
  assumes ok "gpio < 32" "gpio < n"
  shows "\<exists>w'. remote_gpio_get C p gpio w = Inr (of_bool (lvl w gpio), w')
     \<and> (\<forall>i < n. lvl w' i = lvl w i)"
proof -
  let ?c = "gpio_client_from_priv C p"
  obtain err ret m w1 where g: "stub_gpio_get_mask C ?c 0 w = (err, ret, m, w1)"
    by (metis prod_cases4)
  have G: "0 \<le> err" "ret = 0" "bit m gpio = lvl w gpio" "\<forall>i < n. lvl w1 i = lvl w i"
    using get_mask [OF assms(1) g] assms(3) by auto
  then show ?thesis using g assms(2) by (simp add: remote_gpio_get_def shifted_bit)
qed

end

section \<open>The server provides it\<close>

text \<open>
  The backend: it has \<open>n\<close> pins, at most as many as the mask has bits, driving a pin sets
  its level and no other's, reading a pin gives its level and changes none.
\<close>

definition backend_ok :: "'w gpio_ops \<Rightarrow> nat \<Rightarrow> ('w \<Rightarrow> nat \<Rightarrow> bool) \<Rightarrow> bool" where
  "backend_ok E n lvl \<longleftrightarrow> n \<le> 32
   \<and> (\<forall>b w. fst (gpio_backend_get_num_gpios E b w) = int n
        \<and> lvl (snd (gpio_backend_get_num_gpios E b w)) = lvl w)
   \<and> (\<forall>b i v w. i < n \<longrightarrow>
        lvl (snd (gpio_backend_direction_output E b i v w)) = (lvl w)(i := (v \<noteq> 0)))
   \<and> (\<forall>b i w. i < n \<longrightarrow> fst (gpio_backend_get_value E b i w) = of_bool (lvl w i)
        \<and> lvl (snd (gpio_backend_get_value E b i w)) = lvl w)"

text \<open>
  The stubs connected straight to the handlers: the transport does not fail unless the
  server does, and an output variable of the server starts with \<open>m0\<close>.
\<close>

definition gpio_loopback :: "'w gpio_ops \<Rightarrow> priv \<Rightarrow> u32 \<Rightarrow> 'w gpio_stubs" where
  "gpio_loopback E p m0 = \<lparr>gpio_client_from_priv = (\<lambda>a. a),
     stub_gpio_get_mask = (\<lambda>c m w.
       (case rpc_gpio_get_mask E p (Some m0) w of
          Inr (ret, m', w) \<Rightarrow> (0, ret, the m', w) | Inl _ \<Rightarrow> (- ECONNRESET, 0, m, w))),
     stub_gpio_set_mask = (\<lambda>c m w.
       (case rpc_gpio_set_mask E p m w of
          Inr (ret, w) \<Rightarrow> (0, ret, w) | Inl _ \<Rightarrow> (- ECONNRESET, 0, w)))\<rparr>"

lemma backend_okD:
  assumes "backend_ok E n lvl"
  shows "n \<le> 32"
    and "gpio_backend_get_num_gpios E b w = (r, w') \<Longrightarrow> r = int n \<and> lvl w' = lvl w"
    and "i < n \<Longrightarrow> gpio_backend_direction_output E b i v w = (r, w') \<Longrightarrow>
      lvl w' = (lvl w)(i := (v \<noteq> 0))"
    and "i < n \<Longrightarrow> gpio_backend_get_value E b i w = (r, w') \<Longrightarrow>
      r = of_bool (lvl w i) \<and> lvl w' = lvl w"
proof -
  show "n \<le> 32" using assms by (simp add: backend_ok_def)
  show "gpio_backend_get_num_gpios E b w = (r, w') \<Longrightarrow> r = int n \<and> lvl w' = lvl w"
    using iffD1 [OF backend_ok_def assms, THEN conjunct2, THEN conjunct1, rule_format, of b w] by simp
  show "i < n \<Longrightarrow> gpio_backend_direction_output E b i v w = (r, w') \<Longrightarrow> lvl w' = (lvl w)(i := (v \<noteq> 0))"
    using iffD1 [OF backend_ok_def assms, THEN conjunct2, THEN conjunct2, THEN conjunct1,
        rule_format, of i b v w] by simp
  show "i < n \<Longrightarrow> gpio_backend_get_value E b i w = (r, w') \<Longrightarrow>
      r = of_bool (lvl w i) \<and> lvl w' = lvl w"
    using iffD1 [OF backend_ok_def assms, THEN conjunct2, THEN conjunct2, THEN conjunct2,
        rule_format, of i b w] by simp
qed

lemma upt_below: "\<forall>i \<in> set [0..<n]. i < n"
  by simp

lemma set_pins_levels:
  assumes ok: "backend_ok E n lvl" and "\<forall>i \<in> set is. i < n"
  shows "\<exists>w'. set_pins E b m is w = Inr w'
     \<and> lvl w' = (\<lambda>i. if i \<in> set is then bit m i else lvl w i)"
  using assms(2)
proof (induction "is" arbitrary: w)
  case (Cons i "is")
  obtain r w1 where d: "gpio_backend_direction_output E b i (of_bool (bit m i)) w = (r, w1)"
    by fastforce
  have i: "i < n" "\<not> 32 \<le> i" using Cons.prems backend_okD(1) [OF ok] by auto
  obtain w2 where "set_pins E b m is w1 = Inr w2"
      "lvl w2 = (\<lambda>i. if i \<in> set is then bit m i else lvl w1 i)"
    using Cons.IH [of w1] Cons.prems by auto
  then show ?case using d i backend_okD(3) [OF ok i(1) d]
    by (auto simp: shifted_bit fun_eq_iff)
qed simp

lemma get_pins_levels:
  assumes ok: "backend_ok E n lvl" and "\<forall>i \<in> set is. i < n"
  shows "\<exists>v w'. get_pins E b is m w = Inr (v, w') \<and> lvl w' = lvl w
     \<and> (\<forall>i. bit v i \<longleftrightarrow> bit m i \<or> (i \<in> set is \<and> lvl w i))"
  using assms(2)
proof (induction "is" arbitrary: m w)
  case (Cons i "is")
  obtain r w1 where d: "gpio_backend_get_value E b i w = (r, w1)" by fastforce
  have i: "i < n" "i < 32" using Cons.prems backend_okD(1) [OF ok] by auto
  have r: "r = of_bool (lvl w i)" "lvl w1 = lvl w" using backend_okD(4) [OF ok i(1) d] by auto
  obtain v w2 where "get_pins E b is (if lvl w i then m OR BIT i else m) w1 = Inr (v, w2)"
      "lvl w2 = lvl w1"
      "\<forall>j. bit v j \<longleftrightarrow> bit (if lvl w i then m OR BIT i else m) j \<or> (j \<in> set is \<and> lvl w1 j)"
    using Cons.IH [of "if lvl w i then m OR BIT i else m" w1] Cons.prems by auto
  then show ?case using d i r by (auto simp: bit_or_BIT)
qed simp

lemma rpc_gpio_set_mask_levels:
  assumes "backend_ok E n lvl"
  shows "\<exists>w'. rpc_gpio_set_mask E p m w = Inr (0, w') \<and> (\<forall>i < n. lvl w' i = bit m i)"
proof -
  let ?b = "remote_control_get_gpio_backend E (RCPTR p)"
  obtain r w1 where d: "gpio_backend_get_num_gpios E ?b w = (r, w1)" by fastforce
  have r: "r = int n" using backend_okD(2) [OF assms d] by simp
  obtain w2 where "set_pins E ?b m [0..<n] w1 = Inr w2"
      "lvl w2 = (\<lambda>i. if i \<in> set [0..<n] then bit m i else lvl w1 i)"
    using set_pins_levels [OF assms upt_below, of ?b m w1] by blast
  then show ?thesis using d r by (auto simp: rpc_gpio_set_mask_def)
qed

lemma rpc_gpio_get_mask_levels:
  assumes "backend_ok E n lvl"
  shows "\<exists>v w'. rpc_gpio_get_mask E p (Some m0) w = Inr (0, Some v, w') \<and> lvl w' = lvl w
     \<and> (\<forall>i. bit v i \<longleftrightarrow> i < n \<and> lvl w i)"
proof -
  let ?b = "remote_control_get_gpio_backend E (RCPTR p)"
  obtain r w1 where d: "gpio_backend_get_num_gpios E ?b w = (r, w1)" by fastforce
  have r: "r = int n" "lvl w1 = lvl w" using backend_okD(2) [OF assms d] by simp_all
  obtain v w2 where "get_pins E ?b [0..<n] 0 w1 = Inr (v, w2)" "lvl w2 = lvl w1"
      "\<forall>i. bit v i \<longleftrightarrow> bit (0 :: u32) i \<or> (i \<in> set [0..<n] \<and> lvl w1 i)"
    using get_pins_levels [OF assms upt_below, of ?b 0 w1] by blast
  then show ?thesis using d r by (auto simp: rpc_gpio_get_mask_def)
qed

interpretation gpio: gpio_service "backend_ok E n lvl" n lvl "gpio_loopback E p m0"
  for E :: "'w gpio_ops" and n :: nat and lvl :: "'w \<Rightarrow> nat \<Rightarrow> bool" and p :: priv and m0 :: u32
proof unfold_locales
  fix c m w err ret m' w'
  assume ok: "backend_ok E n lvl"
    and s: "stub_gpio_get_mask (gpio_loopback E p m0) c m w = (err, ret, m', w')"
  obtain v w1 where "rpc_gpio_get_mask E p (Some m0) w = Inr (0, Some v, w1)" "lvl w1 = lvl w"
      "\<forall>i. bit v i \<longleftrightarrow> i < n \<and> lvl w i"
    using rpc_gpio_get_mask_levels [OF ok, of p m0 w] by blast
  then show "0 \<le> err \<and> ret = 0 \<and> (\<forall>i. bit m' i \<longleftrightarrow> i < n \<and> lvl w i) \<and> (\<forall>i < n. lvl w' i = lvl w i)"
    using s by (simp add: gpio_loopback_def)
next
  fix c m w err ret w'
  assume ok: "backend_ok E n lvl"
    and s: "stub_gpio_set_mask (gpio_loopback E p m0) c m w = (err, ret, w')"
  obtain w1 where "rpc_gpio_set_mask E p m w = Inr (0, w1)" "\<forall>i < n. lvl w1 i = bit m i"
    using rpc_gpio_set_mask_levels [OF ok, of p m w] by blast
  then show "0 \<le> err \<and> ret = 0 \<and> (\<forall>i < n. lvl w' i = bit m i)"
    using s by (simp add: gpio_loopback_def)
qed

section \<open>Properties\<close>

text \<open>With up to 32 pins, the handler of \<^verbatim>\<open>gpio_set_mask\<close> gives every pin the level
  of its bit, and the handler of \<^verbatim>\<open>gpio_get_mask\<close> answers the mask whose bits are the levels,
  with no bit set beyond the last pin; both succeed, and reading changes nothing.\<close>

lemma gpio_masks:
  assumes "backend_ok E n lvl"
  shows "(\<exists>w'. rpc_gpio_set_mask E p m w = Inr (0, w') \<and> (\<forall>i < n. lvl w' i = bit m i))
   \<and> (\<exists>v w'. rpc_gpio_get_mask E p (Some m0) w = Inr (0, Some v, w') \<and> lvl w' = lvl w
        \<and> (\<forall>i. bit v i \<longleftrightarrow> i < n \<and> lvl w i))"
  using rpc_gpio_set_mask_levels [OF assms] rpc_gpio_get_mask_levels [OF assms] by blast

definition ex_gpio :: "int \<Rightarrow> (nat \<Rightarrow> bool) gpio_ops" where
  "ex_gpio n = \<lparr>remote_control_get_gpio_backend = (\<lambda>rc. rc + 1),
     gpio_backend_get_num_gpios = (\<lambda>b w. (n, w)),
     gpio_backend_direction_output = (\<lambda>b i v w. (0, w(i := (v \<noteq> 0)))),
     gpio_backend_get_value = (\<lambda>b i w. (of_bool (w i), w))\<rparr>"

lemma ex_gpio_ok: "backend_ok (ex_gpio 4) 4 (\<lambda>w. w)"
  by (simp add: backend_ok_def ex_gpio_def)

lemma gpio_masks_example:
  "\<exists>w'. rpc_gpio_set_mask (ex_gpio 4) \<lparr>priv_addr = 5, priv_rc = 7\<rparr> 5 (\<lambda>i. False) = Inr (0, w')
     \<and> w' 2 \<and> \<not> w' 3"
proof -
  obtain w' where "rpc_gpio_set_mask (ex_gpio 4) \<lparr>priv_addr = 5, priv_rc = 7\<rparr> 5 (\<lambda>i. False) = Inr (0, w')"
      "\<forall>i < 4. w' i = bit (5 :: u32) i"
    using gpio_masks [OF ex_gpio_ok] by blast
  moreover have "bit (5 :: u32) 2" "\<not> bit (5 :: u32) 3" by simp_all
  ultimately show ?thesis by auto
qed

text \<open>From the client's call to the pins: with the stubs connected to the handlers,
  setting a pin succeeds, gives it the level that was asked for and changes no other pin, and
  getting a pin answers its level as 0 or 1.\<close>

lemma remote_gpio_end_to_end:
  assumes "backend_ok E n lvl" "gpio < n"
  shows "(\<exists>w'. remote_gpio_set (gpio_loopback E p m0) c gpio value w = Inr (0, w')
        \<and> (\<forall>i < n. lvl w' i = (if i = gpio then value \<noteq> 0 else lvl w i)))
   \<and> (\<exists>w'. remote_gpio_get (gpio_loopback E p m0) c gpio w = Inr (of_bool (lvl w gpio), w')
        \<and> (\<forall>i < n. lvl w' i = lvl w i))"
proof -
  have "gpio < 32" using assms backend_okD(1) [OF assms(1)] by simp
  then show ?thesis using gpio.remote_set [OF assms(1)] gpio.remote_get [OF assms(1) _ assms(2)] by blast
qed

lemma remote_gpio_end_to_end_example:
  "\<exists>w'. remote_gpio_set (gpio_loopback (ex_gpio 4) \<lparr>priv_addr = 5, priv_rc = 7\<rparr> 0) 1 2 1 (\<lambda>i. i = 0)
      = Inr (0, w') \<and> w' 0 \<and> \<not> w' 1 \<and> w' 2"
proof -
  obtain w' where w: "remote_gpio_set (gpio_loopback (ex_gpio 4) \<lparr>priv_addr = 5, priv_rc = 7\<rparr> 0) 1 2 1
        (\<lambda>i. i = 0) = Inr (0, w')" "\<forall>i < 4. w' i = (if i = 2 then (1 :: int) \<noteq> 0 else i = 0)"
    using remote_gpio_end_to_end [OF ex_gpio_ok, of 2 "\<lparr>priv_addr = 5, priv_rc = 7\<rparr>" 0 1 1 "\<lambda>i. i = 0"]
    by auto
  then have "w' 0" "\<not> w' 1" "w' 2" by simp_all
  with w show ?thesis by blast
qed

text \<open>C34: a failing backend is not reported: the handlers negate the negative code once
  more, so the client takes the positive result for success, and answers as the level of the
  pin a bit of whatever the server's output variable started with.\<close>

theorem gpio_failure_hidden:
  assumes "gpio_backend_get_num_gpios E (remote_control_get_gpio_backend E (RCPTR p)) w = (e, w')"
    and "gpio_backend_get_num_gpios E (remote_control_get_gpio_backend E (RCPTR p)) w' = (e', w'')"
    and "e < 0" "e' < 0" "gpio < 32"
  shows "remote_gpio_get (gpio_loopback E p m0) c gpio w = Inr (of_bool (bit m0 gpio), w')
   \<and> remote_gpio_set (gpio_loopback E p m0) c gpio value w = Inr (- e', w'') \<and> 0 < - e'"
  using assms
  by (simp add: remote_gpio_get_def remote_gpio_set_def gpio_loopback_def rpc_gpio_get_mask_def
      rpc_gpio_set_mask_def shifted_bit)

theorem gpio_failure_hidden_witness:
  "remote_gpio_set (gpio_loopback (ex_gpio (- 19)) \<lparr>priv_addr = 5, priv_rc = 7\<rparr> 0) 1 2 1 (\<lambda>i. False)
     = Inr (19, \<lambda>i. False)"
proof -
  have g: "gpio_backend_get_num_gpios (ex_gpio (- 19)) (remote_control_get_gpio_backend (ex_gpio (- 19))
      (RCPTR \<lparr>priv_addr = 5, priv_rc = 7\<rparr>)) (\<lambda>i. False) = (- 19, \<lambda>i. False)"
    by (simp add: ex_gpio_def)
  have n: "(2 :: nat) < 32" "(- 19 :: int) < 0" by simp_all
  show ?thesis
    using gpio_failure_hidden [OF g g n(2) n(2) n(1), of 0 1 1] by simp
qed

end
