(* ===== verification/Devices.thy ===== *)
theory Devices
  imports Enums
begin

text \<open>
  The remaining devices of the server, whose handlers hand a call on to the library, and the
  client functions for them: smart card, backlight, LLDP, sound, tuner, media, task manager
  and reset (\<^verbatim>\<open>smartcard.c\<close>, \<^verbatim>\<open>backlight.c\<close>, \<^verbatim>\<open>lldp.c\<close>,
  \<^verbatim>\<open>sound.c\<close>, \<^verbatim>\<open>tuner.c\<close>, \<^verbatim>\<open>media.c\<close>, \<^verbatim>\<open>task-manager.c\<close>,
  \<^verbatim>\<open>system.c\<close> of \<^verbatim>\<open>src/src/rcrpc\<close>; \<^verbatim>\<open>card.c\<close>, \<^verbatim>\<open>backlight.c\<close>,
  \<^verbatim>\<open>lldp.c\<close>, \<^verbatim>\<open>sound-manager.c\<close>, \<^verbatim>\<open>tuner.c\<close>, \<^verbatim>\<open>task-manager.c\<close>
  of \<^verbatim>\<open>src/src/rcrpc-client\<close>). Handlers that only answer \<^verbatim>\<open>ENOSYS\<close> are there too.

  A buffer that is read into is the list of its bytes: the library gets it with a size and
  returns its new contents.
\<close>

section \<open>Smart card\<close>

datatype smartcard_type =
    SMARTCARD_TYPE_I2C | SMARTCARD_TYPE_T0 | SMARTCARD_TYPE_T1 | SMARTCARD_TYPE_OTHER nat

record 'w smartcard_ops =
  remote_control_get_smartcard :: "ptr \<Rightarrow> ptr"
  smartcard_get_type :: "ptr \<Rightarrow> 'w \<Rightarrow> int \<times> smartcard_type \<times> 'w"
  smartcard_read :: "ptr \<Rightarrow> int \<Rightarrow> u8 list \<Rightarrow> nat \<Rightarrow> 'w \<Rightarrow> int \<times> u8 list \<times> 'w"
  smartcard_write :: "ptr \<Rightarrow> int \<Rightarrow> u8 list \<Rightarrow> nat \<Rightarrow> 'w \<Rightarrow> int \<times> 'w"

record card_buffer =
  cb_rx :: "u8 list"
  cb_rx_num :: nat
  cb_tx :: "u8 list"
  cb_tx_num :: nat

definition rpc_card_get_type ::
  "'w smartcard_ops \<Rightarrow> priv \<Rightarrow> rpc_card_type \<Rightarrow> 'w \<Rightarrow> int \<times> rpc_card_type \<times> 'w" where
  "rpc_card_get_type E p typep w =
     (let smartcard = remote_control_get_smartcard E (RCPTR p);
          (ret, type, w) = smartcard_get_type E smartcard w
      in if ret < 0 then (ret, typep, w)
         else (ret,
           (case type of
              SMARTCARD_TYPE_I2C \<Rightarrow> RPC_CARD_TYPE_I2C
            | SMARTCARD_TYPE_T0 \<Rightarrow> RPC_CARD_TYPE_T0
            | SMARTCARD_TYPE_T1 \<Rightarrow> RPC_CARD_TYPE_T1
            | SMARTCARD_TYPE_OTHER _ \<Rightarrow> RPC_CARD_TYPE_UNKNOWN), w))"

definition rpc_card_read ::
  "'w smartcard_ops \<Rightarrow> priv \<Rightarrow> int \<Rightarrow> card_buffer \<Rightarrow> 'w \<Rightarrow> int \<times> card_buffer \<times> 'w" where
  "rpc_card_read E p offset buffer w =
     (let smartcard = remote_control_get_smartcard E (RCPTR p);
          (ret, tx, w) = smartcard_read E smartcard offset (cb_tx buffer) (cb_tx_num buffer) w
      in (ret, buffer\<lparr>cb_tx := tx\<rparr>, w))"

definition rpc_card_write ::
  "'w smartcard_ops \<Rightarrow> priv \<Rightarrow> int \<Rightarrow> card_buffer \<Rightarrow> 'w \<Rightarrow> int \<times> 'w" where
  "rpc_card_write E p offset buffer w =
     smartcard_write E (remote_control_get_smartcard E (RCPTR p)) offset (cb_rx buffer)
       (cb_rx_num buffer) w"

text \<open>
  The client's buffers: what it receives is the handler's transmission and the other way
  round. \<open>base\<close> is the number of the protocol's first card type.
\<close>

record 'w card_stubs =
  card_client_from_priv :: "ptr \<Rightarrow> ptr"
  stub_card_get_type :: "ptr \<Rightarrow> rpc_card_type \<Rightarrow> 'w \<Rightarrow> int \<times> int \<times> rpc_card_type \<times> 'w"
  stub_card_read :: "ptr \<Rightarrow> int \<Rightarrow> card_buffer \<Rightarrow> 'w \<Rightarrow> int \<times> int \<times> card_buffer \<times> 'w"
  stub_card_write :: "ptr \<Rightarrow> int \<Rightarrow> card_buffer \<Rightarrow> 'w \<Rightarrow> int \<times> int \<times> card_buffer \<times> 'w"

definition remote_card_get_type ::
  "'w card_stubs \<Rightarrow> int \<Rightarrow> ptr \<Rightarrow> remote_card_type \<Rightarrow> 'w \<Rightarrow> int \<times> remote_card_type \<times> 'w" where
  "remote_card_get_type C base p typep w =
     (let rpc = card_client_from_priv C p;
          (err, ret, type, w) = stub_card_get_type C rpc RPC_CARD_TYPE_UNKNOWN w
      in if err < 0 then (err, typep, w)
         else (ret, remote_card_type_of (rpc_card_type_value base type), w))"

definition remote_card_read ::
  "'w card_stubs \<Rightarrow> ptr \<Rightarrow> int \<Rightarrow> u8 list \<Rightarrow> nat \<Rightarrow> 'w \<Rightarrow> int \<times> u8 list \<times> 'w" where
  "remote_card_read C p offset buffer num w =
     (let rpc = card_client_from_priv C p;
          buf = \<lparr>cb_rx = buffer, cb_rx_num = num, cb_tx = [], cb_tx_num = 0\<rparr>;
          (err, ret, buf, w) = stub_card_read C rpc offset buf w
      in (if err < 0 then err else ret, cb_rx buf, w))"

definition remote_card_write ::
  "'w card_stubs \<Rightarrow> ptr \<Rightarrow> int \<Rightarrow> u8 list \<Rightarrow> nat \<Rightarrow> 'w \<Rightarrow> int \<times> 'w" where
  "remote_card_write C p offset buffer num w =
     (let rpc = card_client_from_priv C p;
          buf = \<lparr>cb_rx = [], cb_rx_num = 0, cb_tx = buffer, cb_tx_num = num\<rparr>;
          (err, ret, buf, w) = stub_card_write C rpc offset buf w
      in (if err < 0 then err else ret, w))"

section \<open>Backlight\<close>

record 'w backlight_ops =
  remote_control_get_backlight :: "ptr \<Rightarrow> ptr"
  backlight_enable :: "ptr \<Rightarrow> bool \<Rightarrow> 'w \<Rightarrow> int \<times> 'w"
  backlight_set :: "ptr \<Rightarrow> u8 \<Rightarrow> 'w \<Rightarrow> int \<times> 'w"
  backlight_get :: "ptr \<Rightarrow> 'w \<Rightarrow> int \<times> 'w"

definition rpc_backlight_enable :: "'w backlight_ops \<Rightarrow> priv \<Rightarrow> u32 \<Rightarrow> 'w \<Rightarrow> int \<times> 'w" where
  "rpc_backlight_enable E p flags w =
     backlight_enable E (remote_control_get_backlight E (RCPTR p)) (flags AND 1 = 1) w"

definition rpc_backlight_set :: "'w backlight_ops \<Rightarrow> priv \<Rightarrow> u8 \<Rightarrow> 'w \<Rightarrow> int \<times> 'w" where
  "rpc_backlight_set E p brightness w =
     backlight_set E (remote_control_get_backlight E (RCPTR p)) brightness w"

definition rpc_backlight_get :: "'w backlight_ops \<Rightarrow> priv \<Rightarrow> u8 \<Rightarrow> 'w \<Rightarrow> int \<times> u8 \<times> 'w" where
  "rpc_backlight_get E p brightness w =
     (let (ret, w) = backlight_get E (remote_control_get_backlight E (RCPTR p)) w in
      if ret \<ge> 0 then (0, word_of_int ret, w) else (ret, brightness, w))"

record 'w backlight_stubs =
  backlight_client_from_priv :: "ptr \<Rightarrow> ptr"
  stub_backlight_enable :: "ptr \<Rightarrow> u32 \<Rightarrow> 'w \<Rightarrow> int \<times> int \<times> 'w"
  stub_backlight_get :: "ptr \<Rightarrow> u8 \<Rightarrow> 'w \<Rightarrow> int \<times> int \<times> u8 \<times> 'w"
  stub_backlight_set :: "ptr \<Rightarrow> u8 \<Rightarrow> 'w \<Rightarrow> int \<times> int \<times> 'w"

definition remote_backlight_enable :: "'w backlight_stubs \<Rightarrow> ptr \<Rightarrow> u32 \<Rightarrow> 'w \<Rightarrow> int \<times> 'w" where
  "remote_backlight_enable C p flags w =
     (let (err, ret, w) = stub_backlight_enable C (backlight_client_from_priv C p) flags w
      in (if err < 0 then err else ret, w))"

definition remote_backlight_get ::
  "'w backlight_stubs \<Rightarrow> ptr \<Rightarrow> u8 \<Rightarrow> 'w \<Rightarrow> int \<times> u8 \<times> 'w" where
  "remote_backlight_get C p brightness w =
     (let (err, ret, brightness, w) =
            stub_backlight_get C (backlight_client_from_priv C p) brightness w
      in (if err < 0 then err else ret, brightness, w))"

definition remote_backlight_set :: "'w backlight_stubs \<Rightarrow> ptr \<Rightarrow> u8 \<Rightarrow> 'w \<Rightarrow> int \<times> 'w" where
  "remote_backlight_set C p brightness w =
     (let (err, ret, w) = stub_backlight_set C (backlight_client_from_priv C p) brightness w
      in (if err < 0 then err else ret, w))"

section \<open>LLDP\<close>

record 'w lldp_ops =
  remote_control_get_lldp_monitor :: "ptr \<Rightarrow> ptr"
  lldp_monitor_read :: "ptr \<Rightarrow> u8 list \<Rightarrow> nat \<Rightarrow> 'w \<Rightarrow> int \<times> u8 list \<times> 'w"

definition rpc_lldp_enable :: "priv \<Rightarrow> bool \<Rightarrow> 'w \<Rightarrow> int \<times> 'w" where
  "rpc_lldp_enable p enable w = (- ENOSYS, w)"

definition rpc_lldp_read ::
  "'w lldp_ops \<Rightarrow> priv \<Rightarrow> u32 \<Rightarrow> card_buffer \<Rightarrow> 'w \<Rightarrow> int \<times> card_buffer \<times> 'w" where
  "rpc_lldp_read E p mode buffer w =
     (let lldp = remote_control_get_lldp_monitor E (RCPTR p);
          (err, tx, w) = lldp_monitor_read E lldp (cb_tx buffer) (cb_tx_num buffer) w
      in (err, buffer\<lparr>cb_tx := tx, cb_tx_num := (if err \<ge> 0 then nat err else 0)\<rparr>, w))"

record 'w lldp_stubs =
  lldp_client_from_priv :: "ptr \<Rightarrow> ptr"
  stub_lldp_read :: "ptr \<Rightarrow> u32 \<Rightarrow> card_buffer \<Rightarrow> 'w \<Rightarrow> int \<times> int \<times> card_buffer \<times> 'w"

definition remote_lldp_read ::
  "'w lldp_stubs \<Rightarrow> ptr \<Rightarrow> u8 list \<Rightarrow> nat \<Rightarrow> 'w \<Rightarrow> int \<times> u8 list \<times> 'w" where
  "remote_lldp_read C p data num w =
     (let client = lldp_client_from_priv C p;
          buffer = \<lparr>cb_rx = data, cb_rx_num = num, cb_tx = [], cb_tx_num = 0\<rparr>;
          (err, ret, buffer, w) = stub_lldp_read C client 0 buffer w
      in (if err < 0 then err else ret, cb_rx buffer, w))"

section \<open>Sound\<close>

record 'w sound_ops =
  remote_control_get_sound_manager :: "ptr \<Rightarrow> ptr"
  sound_manager_play :: "ptr \<Rightarrow> string option \<Rightarrow> 'w \<Rightarrow> int \<times> 'w"
  sound_manager_stop :: "ptr \<Rightarrow> 'w \<Rightarrow> int \<times> 'w"

definition rpc_sound_play_async :: "priv \<Rightarrow> string option \<Rightarrow> 'w \<Rightarrow> int \<times> 'w" where
  "rpc_sound_play_async p filename w = (- ENOSYS, w)"

definition rpc_sound_play_sync :: "priv \<Rightarrow> string option \<Rightarrow> 'w \<Rightarrow> int \<times> 'w" where
  "rpc_sound_play_sync p filename w = (- ENOSYS, w)"

definition rpc_sound_play :: "'w sound_ops \<Rightarrow> priv \<Rightarrow> string option \<Rightarrow> 'w \<Rightarrow> int \<times> 'w" where
  "rpc_sound_play E p uri w =
     sound_manager_play E (remote_control_get_sound_manager E (RCPTR p)) uri w"

definition rpc_sound_stop :: "'w sound_ops \<Rightarrow> priv \<Rightarrow> 'w \<Rightarrow> int \<times> 'w" where
  "rpc_sound_stop E p w = sound_manager_stop E (remote_control_get_sound_manager E (RCPTR p)) w"

record 'w sound_stubs =
  sound_client_from_priv :: "ptr \<Rightarrow> ptr"
  stub_sound_play :: "ptr \<Rightarrow> string option \<Rightarrow> 'w \<Rightarrow> int \<times> int \<times> 'w"
  stub_sound_stop :: "ptr \<Rightarrow> 'w \<Rightarrow> int \<times> int \<times> 'w"

definition remote_sound_play :: "'w sound_stubs \<Rightarrow> ptr \<Rightarrow> string option \<Rightarrow> 'w \<Rightarrow> int \<times> 'w" where
  "remote_sound_play C p url w =
     (let (err, ret, w) = stub_sound_play C (sound_client_from_priv C p) url w
      in (if err < 0 then err else ret, w))"

definition remote_sound_stop :: "'w sound_stubs \<Rightarrow> ptr \<Rightarrow> 'w \<Rightarrow> int \<times> 'w" where
  "remote_sound_stop C p w =
     (let (err, ret, w) = stub_sound_stop C (sound_client_from_priv C p) w
      in (if err < 0 then err else ret, w))"

section \<open>Tuner, media command, reset\<close>

definition rpc_tuner_set_output_window :: "priv \<Rightarrow> u16 \<Rightarrow> u16 \<Rightarrow> u16 \<Rightarrow> u16 \<Rightarrow> 'w \<Rightarrow> int \<times> 'w" where
  "rpc_tuner_set_output_window p x y width height w = (- ENOSYS, w)"

definition rpc_tuner_set_output_channel :: "priv \<Rightarrow> int \<Rightarrow> 'w \<Rightarrow> int \<times> 'w" where
  "rpc_tuner_set_output_channel p channel w = (- ENOSYS, w)"

definition rpc_tuner_set_source :: "priv \<Rightarrow> int \<Rightarrow> 'w \<Rightarrow> int \<times> 'w" where
  "rpc_tuner_set_source p source w = (- ENOSYS, w)"

definition rpc_tuner_set_frequency :: "priv \<Rightarrow> u32 \<Rightarrow> 'w \<Rightarrow> int \<times> 'w" where
  "rpc_tuner_set_frequency p frequency w = (- ENOSYS, w)"

definition rpc_media_command :: "priv \<Rightarrow> u32 \<Rightarrow> int \<Rightarrow> string option \<Rightarrow> 'w \<Rightarrow> int \<times> 'w" where
  "rpc_media_command p cmd p1 p2 w = (- ENOSYS, w)"

definition rpc_reset :: "priv \<Rightarrow> 'w \<Rightarrow> int \<times> 'w" where
  "rpc_reset p w = (- ENOSYS, w)"

text \<open>The frequency crosses the connection in 32 bits.\<close>

record 'w tuner_stubs =
  tuner_client_from_priv :: "ptr \<Rightarrow> ptr"
  stub_tuner_set_frequency :: "ptr \<Rightarrow> u32 \<Rightarrow> 'w \<Rightarrow> int \<times> int \<times> 'w"

definition remote_tuner_set_frequency :: "'w tuner_stubs \<Rightarrow> ptr \<Rightarrow> u64 \<Rightarrow> 'w \<Rightarrow> int \<times> 'w" where
  "remote_tuner_set_frequency C p frequency w =
     (let (err, ret, w) = stub_tuner_set_frequency C (tuner_client_from_priv C p) (ucast frequency) w
      in (if err < 0 then err else ret, w))"

section \<open>Task manager\<close>

record 'w task_ops =
  task_manager_exec :: "ptr \<Rightarrow> string option \<Rightarrow> 'w \<Rightarrow> int \<times> 'w"
    \<comment> \<open>with a null working directory and environment\<close>
  task_manager_kill :: "ptr \<Rightarrow> int \<Rightarrow> int \<Rightarrow> 'w \<Rightarrow> int \<times> 'w"

definition rpc_task_manager_exec :: "'w task_ops \<Rightarrow> priv \<Rightarrow> string option \<Rightarrow> 'w \<Rightarrow> int \<times> 'w" where
  "rpc_task_manager_exec E p command_line w = task_manager_exec E (RCPTR p) command_line w"

definition rpc_task_manager_kill :: "'w task_ops \<Rightarrow> priv \<Rightarrow> int \<Rightarrow> int \<Rightarrow> 'w \<Rightarrow> int \<times> 'w" where
  "rpc_task_manager_kill E p pid sig w = task_manager_kill E (RCPTR p) pid sig w"

record 'w task_stubs =
  task_client_from_priv :: "ptr \<Rightarrow> ptr"
  stub_task_manager_exec :: "ptr \<Rightarrow> string option \<Rightarrow> 'w \<Rightarrow> int \<times> int \<times> 'w"
  stub_task_manager_kill :: "ptr \<Rightarrow> int \<Rightarrow> int \<Rightarrow> 'w \<Rightarrow> int \<times> int \<times> 'w"

definition remote_task_manager_exec ::
  "'w task_stubs \<Rightarrow> ptr \<Rightarrow> string option \<Rightarrow> 'w \<Rightarrow> int \<times> 'w" where
  "remote_task_manager_exec C p cmd w =
     (let (err, ret, w) = stub_task_manager_exec C (task_client_from_priv C p) cmd w
      in (if err < 0 then err else ret, w))"

definition remote_task_manager_kill ::
  "'w task_stubs \<Rightarrow> ptr \<Rightarrow> int \<Rightarrow> int \<Rightarrow> 'w \<Rightarrow> int \<times> 'w" where
  "remote_task_manager_kill C p pid sig w =
     (let (err, ret, w) = stub_task_manager_kill C (task_client_from_priv C p) pid sig w
      in (if err < 0 then err else ret, w))"

section \<open>Properties\<close>

text \<open>C39: the type of a card never arrives: the client's two enumerators are not the
  protocol's, so with the protocol's numbers starting at 0 or at 100, a card of type I2C is not
  reported as one, and a card of unknown type is not reported as unknown.\<close>

theorem card_type_mistranslated:
  assumes "base \<in> {0, 100}" "0 \<le> ret"
    and "\<And>c t w. stub_card_get_type C c t w = (0, rpc_card_get_type E p t w)"
    and "smartcard_get_type E (remote_control_get_smartcard E (RCPTR p)) w = (ret, type, w')"
  shows "(type = SMARTCARD_TYPE_I2C \<longrightarrow> fst (snd (remote_card_get_type C base a t w)) \<noteq> REMOTE_CARD_TYPE_I2C)
   \<and> (type = SMARTCARD_TYPE_OTHER n \<longrightarrow>
        fst (snd (remote_card_get_type C base a t w)) \<noteq> REMOTE_CARD_TYPE_UNKNOWN)"
proof -
  have val: "remote_card_type_value (fst (snd (remote_card_get_type C base a t w)))
    = rpc_card_type_value base (fst (snd (rpc_card_get_type E p RPC_CARD_TYPE_UNKNOWN w)))"
    by (simp add: remote_card_get_type_def assms(3) case_prod_beta)
  have "fst (snd (rpc_card_get_type E p RPC_CARD_TYPE_UNKNOWN w)) = (case type of
      SMARTCARD_TYPE_I2C \<Rightarrow> RPC_CARD_TYPE_I2C | SMARTCARD_TYPE_T0 \<Rightarrow> RPC_CARD_TYPE_T0
    | SMARTCARD_TYPE_T1 \<Rightarrow> RPC_CARD_TYPE_T1 | SMARTCARD_TYPE_OTHER _ \<Rightarrow> RPC_CARD_TYPE_UNKNOWN)"
    using assms(2,4) by (simp add: rpc_card_get_type_def)
  with val assms(1) show ?thesis by auto
qed

definition ex_card_ops :: "unit smartcard_ops" where
  "ex_card_ops = \<lparr>remote_control_get_smartcard = (\<lambda>rc. rc + 1),
     smartcard_get_type = (\<lambda>s w. (0, SMARTCARD_TYPE_I2C, w)),
     smartcard_read = (\<lambda>s off buf n w. (0, buf, w)), smartcard_write = (\<lambda>s off buf n w. (0, w))\<rparr>"

definition ex_card_stubs :: "unit card_stubs" where
  "ex_card_stubs = \<lparr>card_client_from_priv = (\<lambda>a. a),
     stub_card_get_type = (\<lambda>c t w. (0, rpc_card_get_type ex_card_ops \<lparr>priv_addr = 5, priv_rc = 7\<rparr> t w)),
     stub_card_read = (\<lambda>c off b w. (0, 0, b, w)), stub_card_write = (\<lambda>c off b w. (0, 0, b, w))\<rparr>"

theorem card_type_mistranslated_witness:
  "fst (snd (remote_card_get_type ex_card_stubs 100 1 REMOTE_CARD_TYPE_UNKNOWN ())) \<noteq> REMOTE_CARD_TYPE_I2C"
proof -
  have s: "stub_card_get_type ex_card_stubs c t w
      = (0, rpc_card_get_type ex_card_ops \<lparr>priv_addr = 5, priv_rc = 7\<rparr> t w)" for c t w
    by (simp add: ex_card_stubs_def)
  have g: "smartcard_get_type ex_card_ops (remote_control_get_smartcard ex_card_ops
      (RCPTR \<lparr>priv_addr = 5, priv_rc = 7\<rparr>)) () = (0, SMARTCARD_TYPE_I2C, ())"
    by (simp add: ex_card_ops_def)
  have b: "(100 :: int) \<in> {0, 100}" "(0 :: int) \<le> 0" by simp_all
  show ?thesis using card_type_mistranslated [OF b s g] by blast
qed

end
