(* ===== verification/Media_Phone.thy ===== *)
theory Media_Phone
  imports Enums
begin

text \<open>
  Media player, modem and handset, on both sides: the handlers of
  \<^verbatim>\<open>media-player.c\<close>, \<^verbatim>\<open>modem.c\<close> and \<^verbatim>\<open>handset.c\<close> in
  \<^verbatim>\<open>src/src/rcrpc\<close>, and the client functions of the files of the same names in
  \<^verbatim>\<open>src/src/rcrpc-client\<close>. Times are \<^verbatim>\<open>unsigned long\<close> at both ends and 32
  bits between them.
\<close>

section \<open>Media player: handlers\<close>

datatype media_player_state = MEDIA_PLAYER_STOPPED | MEDIA_PLAYER_PLAYING | MEDIA_PLAYER_OTHER nat

record 'w media_ops =
  remote_control_get_media_player :: "ptr \<Rightarrow> ptr"
  media_player_play :: "ptr \<Rightarrow> 'w \<Rightarrow> int \<times> 'w"
  media_player_stop :: "ptr \<Rightarrow> 'w \<Rightarrow> int \<times> 'w"
  media_player_get_state :: "ptr \<Rightarrow> media_player_state \<Rightarrow> 'w \<Rightarrow> int \<times> media_player_state \<times> 'w"
  media_player_set_uri :: "ptr \<Rightarrow> string option \<Rightarrow> 'w \<Rightarrow> int \<times> 'w"
  media_player_get_uri :: "ptr \<Rightarrow> string option \<Rightarrow> 'w \<Rightarrow> int \<times> string option \<times> 'w"
  media_player_set_crop :: "ptr \<Rightarrow> u16 \<Rightarrow> u16 \<Rightarrow> u16 \<Rightarrow> u16 \<Rightarrow> 'w \<Rightarrow> int \<times> 'w"
  media_player_set_output_window :: "ptr \<Rightarrow> u16 \<Rightarrow> u16 \<Rightarrow> u16 \<Rightarrow> u16 \<Rightarrow> 'w \<Rightarrow> int \<times> 'w"
  media_player_pause :: "ptr \<Rightarrow> 'w \<Rightarrow> int \<times> 'w"
  media_player_resume :: "ptr \<Rightarrow> 'w \<Rightarrow> int \<times> 'w"
  media_player_get_duration :: "ptr \<Rightarrow> u64 \<Rightarrow> 'w \<Rightarrow> int \<times> u64 \<times> 'w"
  media_player_get_position :: "ptr \<Rightarrow> u64 \<Rightarrow> 'w \<Rightarrow> int \<times> u64 \<times> 'w"
  media_player_set_position :: "ptr \<Rightarrow> u64 \<Rightarrow> 'w \<Rightarrow> int \<times> 'w"

abbreviation player :: "'w media_ops \<Rightarrow> priv \<Rightarrow> ptr" where
  "player E p \<equiv> remote_control_get_media_player E (RCPTR p)"

definition rpc_media_player_start :: "'w media_ops \<Rightarrow> priv \<Rightarrow> 'w \<Rightarrow> int \<times> 'w" where
  "rpc_media_player_start E p w = media_player_play E (player E p) w"

definition rpc_media_player_stop :: "'w media_ops \<Rightarrow> priv \<Rightarrow> 'w \<Rightarrow> int \<times> 'w" where
  "rpc_media_player_stop E p w = media_player_stop E (player E p) w"

definition rpc_media_player_is_running ::
  "'w media_ops \<Rightarrow> priv \<Rightarrow> bool \<Rightarrow> 'w \<Rightarrow> int \<times> bool \<times> 'w" where
  "rpc_media_player_is_running E p running w =
     (let (err, state, w) = media_player_get_state E (player E p) MEDIA_PLAYER_STOPPED w in
      if err < 0 then (err, running, w) else (0, state = MEDIA_PLAYER_PLAYING, w))"

definition rpc_media_player_set_stream ::
  "'w media_ops \<Rightarrow> priv \<Rightarrow> string option \<Rightarrow> 'w \<Rightarrow> int \<times> 'w" where
  "rpc_media_player_set_stream E p url w = media_player_set_uri E (player E p) url w"

definition rpc_media_player_get_stream ::
  "'w media_ops \<Rightarrow> priv \<Rightarrow> string option \<Rightarrow> 'w \<Rightarrow> int \<times> string option \<times> 'w" where
  "rpc_media_player_get_stream E p url w = media_player_get_uri E (player E p) url w"

definition rpc_media_player_set_crop ::
  "'w media_ops \<Rightarrow> priv \<Rightarrow> u16 \<Rightarrow> u16 \<Rightarrow> u16 \<Rightarrow> u16 \<Rightarrow> 'w \<Rightarrow> int \<times> 'w" where
  "rpc_media_player_set_crop E p left right upper lower w =
     media_player_set_crop E (player E p) left right upper lower w"

definition rpc_media_player_set_output_window ::
  "'w media_ops \<Rightarrow> priv \<Rightarrow> u16 \<Rightarrow> u16 \<Rightarrow> u16 \<Rightarrow> u16 \<Rightarrow> 'w \<Rightarrow> int \<times> 'w" where
  "rpc_media_player_set_output_window E p x y width height w =
     media_player_set_output_window E (player E p) x y width height w"

definition rpc_media_player_pause :: "'w media_ops \<Rightarrow> priv \<Rightarrow> 'w \<Rightarrow> int \<times> 'w" where
  "rpc_media_player_pause E p w = media_player_pause E (player E p) w"

definition rpc_media_player_resume :: "'w media_ops \<Rightarrow> priv \<Rightarrow> 'w \<Rightarrow> int \<times> 'w" where
  "rpc_media_player_resume E p w = media_player_resume E (player E p) w"

definition rpc_media_player_get_duration ::
  "'w media_ops \<Rightarrow> priv \<Rightarrow> u32 option \<Rightarrow> 'w \<Rightarrow> int \<times> u32 option \<times> 'w" where
  "rpc_media_player_get_duration E p duration w =
     (let (ret, time, w) = media_player_get_duration E (player E p) 0 w in
      (ret, if ret \<ge> 0 then map_option (\<lambda>_. ucast time) duration else duration, w))"

definition rpc_media_player_get_position ::
  "'w media_ops \<Rightarrow> priv \<Rightarrow> u32 option \<Rightarrow> 'w \<Rightarrow> int \<times> u32 option \<times> 'w" where
  "rpc_media_player_get_position E p position w =
     (let (ret, time, w) = media_player_get_position E (player E p) 0 w in
      (ret, if ret \<ge> 0 then map_option (\<lambda>_. ucast time) position else position, w))"

definition rpc_media_player_set_position :: "'w media_ops \<Rightarrow> priv \<Rightarrow> u32 \<Rightarrow> 'w \<Rightarrow> int \<times> 'w" where
  "rpc_media_player_set_position E p position w =
     media_player_set_position E (player E p) (ucast position) w"

section \<open>Media player: client\<close>

record 'w media_stubs =
  media_client_from_priv :: "ptr \<Rightarrow> ptr"
  stub_media_player_start :: "ptr \<Rightarrow> 'w \<Rightarrow> int \<times> int \<times> 'w"
  stub_media_player_stop :: "ptr \<Rightarrow> 'w \<Rightarrow> int \<times> int \<times> 'w"
  stub_media_player_is_running :: "ptr \<Rightarrow> bool \<Rightarrow> 'w \<Rightarrow> int \<times> int \<times> bool \<times> 'w"
  stub_media_player_get_stream :: "ptr \<Rightarrow> string option \<Rightarrow> 'w \<Rightarrow> int \<times> int \<times> string option \<times> 'w"
  stub_media_player_set_stream :: "ptr \<Rightarrow> string option \<Rightarrow> 'w \<Rightarrow> int \<times> int \<times> 'w"
  stub_media_player_set_crop :: "ptr \<Rightarrow> u16 \<Rightarrow> u16 \<Rightarrow> u16 \<Rightarrow> u16 \<Rightarrow> 'w \<Rightarrow> int \<times> int \<times> 'w"
  stub_media_player_set_output_window ::
    "ptr \<Rightarrow> u16 \<Rightarrow> u16 \<Rightarrow> u16 \<Rightarrow> u16 \<Rightarrow> 'w \<Rightarrow> int \<times> int \<times> 'w"
  stub_media_player_pause :: "ptr \<Rightarrow> 'w \<Rightarrow> int \<times> int \<times> 'w"
  stub_media_player_resume :: "ptr \<Rightarrow> 'w \<Rightarrow> int \<times> int \<times> 'w"
  stub_media_player_get_duration :: "ptr \<Rightarrow> 'w \<Rightarrow> int \<times> int \<times> u32 \<times> 'w"
  stub_media_player_get_position :: "ptr \<Rightarrow> 'w \<Rightarrow> int \<times> int \<times> u32 \<times> 'w"
  stub_media_player_set_position :: "ptr \<Rightarrow> u32 \<Rightarrow> 'w \<Rightarrow> int \<times> int \<times> 'w"

definition remote_media_player_start :: "'w media_stubs \<Rightarrow> ptr \<Rightarrow> 'w \<Rightarrow> int \<times> 'w" where
  "remote_media_player_start C p w =
     (let (err, ret, w) = stub_media_player_start C (media_client_from_priv C p) w
      in (if err < 0 then err else ret, w))"

definition remote_media_player_stop :: "'w media_stubs \<Rightarrow> ptr \<Rightarrow> 'w \<Rightarrow> int \<times> 'w" where
  "remote_media_player_stop C p w =
     (let (err, ret, w) = stub_media_player_stop C (media_client_from_priv C p) w
      in (if err < 0 then err else ret, w))"

definition remote_media_player_is_running ::
  "'w media_stubs \<Rightarrow> ptr \<Rightarrow> bool \<Rightarrow> 'w \<Rightarrow> int \<times> bool \<times> 'w" where
  "remote_media_player_is_running C p running w =
     (let (err, ret, running, w) =
            stub_media_player_is_running C (media_client_from_priv C p) running w
      in (if err < 0 then err else ret, running, w))"

definition remote_media_player_get_stream ::
  "'w media_stubs \<Rightarrow> ptr \<Rightarrow> string option \<Rightarrow> 'w \<Rightarrow> int \<times> string option \<times> 'w" where
  "remote_media_player_get_stream C p url w =
     (let (err, ret, url, w) = stub_media_player_get_stream C (media_client_from_priv C p) url w
      in (if err < 0 then err else ret, url, w))"

definition remote_media_player_set_stream ::
  "'w media_stubs \<Rightarrow> ptr \<Rightarrow> string option \<Rightarrow> 'w \<Rightarrow> int \<times> 'w" where
  "remote_media_player_set_stream C p url w =
     (let (err, ret, w) = stub_media_player_set_stream C (media_client_from_priv C p) url w
      in (if err < 0 then err else ret, w))"

definition remote_media_player_set_crop ::
  "'w media_stubs \<Rightarrow> ptr \<Rightarrow> u16 \<Rightarrow> u16 \<Rightarrow> u16 \<Rightarrow> u16 \<Rightarrow> 'w \<Rightarrow> int \<times> 'w" where
  "remote_media_player_set_crop C p left right upper lower w =
     (let (err, ret, w) =
            stub_media_player_set_crop C (media_client_from_priv C p) left right upper lower w
      in (if err < 0 then err else ret, w))"

definition remote_media_player_set_output_window ::
  "'w media_stubs \<Rightarrow> ptr \<Rightarrow> u16 \<Rightarrow> u16 \<Rightarrow> u16 \<Rightarrow> u16 \<Rightarrow> 'w \<Rightarrow> int \<times> 'w" where
  "remote_media_player_set_output_window C p x y width height w =
     (let (err, ret, w) =
            stub_media_player_set_output_window C (media_client_from_priv C p) x y width height w
      in (if err < 0 then err else ret, w))"

definition remote_media_player_pause :: "'w media_stubs \<Rightarrow> ptr \<Rightarrow> 'w \<Rightarrow> int \<times> 'w" where
  "remote_media_player_pause C p w =
     (let (err, ret, w) = stub_media_player_pause C (media_client_from_priv C p) w
      in (if err < 0 then err else ret, w))"

definition remote_media_player_resume :: "'w media_stubs \<Rightarrow> ptr \<Rightarrow> 'w \<Rightarrow> int \<times> 'w" where
  "remote_media_player_resume C p w =
     (let (err, ret, w) = stub_media_player_resume C (media_client_from_priv C p) w
      in (if err < 0 then err else ret, w))"

definition remote_media_player_get_duration ::
  "'w media_stubs \<Rightarrow> ptr \<Rightarrow> u64 option \<Rightarrow> 'w \<Rightarrow> int \<times> u64 option \<times> 'w" where
  "remote_media_player_get_duration C p duration w =
     (let (err, ret, time, w) = stub_media_player_get_duration C (media_client_from_priv C p) w
      in if err < 0 then (err, duration, w) else (ret, map_option (\<lambda>_. ucast time) duration, w))"

definition remote_media_player_get_position ::
  "'w media_stubs \<Rightarrow> ptr \<Rightarrow> u64 option \<Rightarrow> 'w \<Rightarrow> int \<times> u64 option \<times> 'w" where
  "remote_media_player_get_position C p position w =
     (let (err, ret, time, w) = stub_media_player_get_position C (media_client_from_priv C p) w
      in if err < 0 then (err, position, w) else (ret, map_option (\<lambda>_. ucast time) position, w))"

definition remote_media_player_set_position :: "'w media_stubs \<Rightarrow> ptr \<Rightarrow> u64 \<Rightarrow> 'w \<Rightarrow> int \<times> 'w" where
  "remote_media_player_set_position C p position w =
     (let (err, ret, w) =
            stub_media_player_set_position C (media_client_from_priv C p) (ucast position) w
      in (if err < 0 then err else ret, w))"

section \<open>Modem\<close>

datatype modem_manager_state = MODEM_STATE_IDLE | MODEM_STATE_OTHER nat

record 'w modem_ops =
  remote_control_get_modem_manager :: "ptr \<Rightarrow> ptr"
  modem_manager_initialize :: "ptr \<Rightarrow> 'w \<Rightarrow> int \<times> 'w"
  modem_manager_shutdown :: "ptr \<Rightarrow> 'w \<Rightarrow> int \<times> 'w"
  modem_manager_accept :: "ptr \<Rightarrow> 'w \<Rightarrow> int \<times> 'w"
  modem_manager_terminate :: "ptr \<Rightarrow> 'w \<Rightarrow> int \<times> 'w"
  modem_manager_call :: "ptr \<Rightarrow> string option \<Rightarrow> 'w \<Rightarrow> int \<times> 'w"
  modem_manager_get_state :: "ptr \<Rightarrow> modem_manager_state \<Rightarrow> 'w \<Rightarrow> int \<times> modem_manager_state \<times> 'w"

abbreviation modem :: "'w modem_ops \<Rightarrow> priv \<Rightarrow> ptr" where
  "modem E p \<equiv> remote_control_get_modem_manager E (RCPTR p)"

definition rpc_modem_init :: "'w modem_ops \<Rightarrow> priv \<Rightarrow> 'w \<Rightarrow> int \<times> 'w" where
  "rpc_modem_init E p w = modem_manager_initialize E (modem E p) w"

definition rpc_modem_deinit :: "'w modem_ops \<Rightarrow> priv \<Rightarrow> 'w \<Rightarrow> int \<times> 'w" where
  "rpc_modem_deinit E p w = modem_manager_shutdown E (modem E p) w"

definition rpc_modem_pick_up :: "'w modem_ops \<Rightarrow> priv \<Rightarrow> 'w \<Rightarrow> int \<times> 'w" where
  "rpc_modem_pick_up E p w = modem_manager_accept E (modem E p) w"

definition rpc_modem_hang_up :: "'w modem_ops \<Rightarrow> priv \<Rightarrow> 'w \<Rightarrow> int \<times> 'w" where
  "rpc_modem_hang_up E p w = modem_manager_terminate E (modem E p) w"

definition rpc_modem_dial :: "'w modem_ops \<Rightarrow> priv \<Rightarrow> string option \<Rightarrow> 'w \<Rightarrow> int \<times> 'w" where
  "rpc_modem_dial E p number w = modem_manager_call E (modem E p) number w"

text \<open>Both labels of the \<^verbatim>\<open>switch\<close> answer false.\<close>

definition rpc_modem_is_calling ::
  "'w modem_ops \<Rightarrow> priv \<Rightarrow> bool \<Rightarrow> 'w \<Rightarrow> int \<times> bool \<times> 'w" where
  "rpc_modem_is_calling E p calling w =
     (let (ret, state, w) = modem_manager_get_state E (modem E p) MODEM_STATE_IDLE w in
      if ret < 0 then (ret, calling, w)
      else (ret, (case state of MODEM_STATE_IDLE \<Rightarrow> False | _ \<Rightarrow> False), w))"

definition rpc_modem_is_connected ::
  "'w modem_ops \<Rightarrow> priv \<Rightarrow> bool \<Rightarrow> 'w \<Rightarrow> int \<times> bool \<times> 'w" where
  "rpc_modem_is_connected E p connected w =
     (let (ret, state, w) = modem_manager_get_state E (modem E p) MODEM_STATE_IDLE w in
      if ret < 0 then (ret, connected, w)
      else (ret, (case state of MODEM_STATE_IDLE \<Rightarrow> False | _ \<Rightarrow> False), w))"

record 'w modem_stubs =
  modem_client_from_priv :: "ptr \<Rightarrow> ptr"
  stub_modem_init :: "ptr \<Rightarrow> 'w \<Rightarrow> int \<times> int \<times> 'w"
  stub_modem_deinit :: "ptr \<Rightarrow> 'w \<Rightarrow> int \<times> int \<times> 'w"
  stub_modem_pick_up :: "ptr \<Rightarrow> 'w \<Rightarrow> int \<times> int \<times> 'w"
  stub_modem_hang_up :: "ptr \<Rightarrow> 'w \<Rightarrow> int \<times> int \<times> 'w"
  stub_modem_dial :: "ptr \<Rightarrow> string option \<Rightarrow> 'w \<Rightarrow> int \<times> int \<times> 'w"
  stub_modem_is_calling :: "ptr \<Rightarrow> bool \<Rightarrow> 'w \<Rightarrow> int \<times> int \<times> bool \<times> 'w"
  stub_modem_is_connected :: "ptr \<Rightarrow> bool \<Rightarrow> 'w \<Rightarrow> int \<times> int \<times> bool \<times> 'w"

definition remote_modem_init :: "'w modem_stubs \<Rightarrow> ptr \<Rightarrow> 'w \<Rightarrow> int \<times> 'w" where
  "remote_modem_init C p w =
     (let (err, ret, w) = stub_modem_init C (modem_client_from_priv C p) w
      in (if err < 0 then err else ret, w))"

definition remote_modem_deinit :: "'w modem_stubs \<Rightarrow> ptr \<Rightarrow> 'w \<Rightarrow> int \<times> 'w" where
  "remote_modem_deinit C p w =
     (let (err, ret, w) = stub_modem_deinit C (modem_client_from_priv C p) w
      in (if err < 0 then err else ret, w))"

definition remote_modem_pick_up :: "'w modem_stubs \<Rightarrow> ptr \<Rightarrow> 'w \<Rightarrow> int \<times> 'w" where
  "remote_modem_pick_up C p w =
     (let (err, ret, w) = stub_modem_pick_up C (modem_client_from_priv C p) w
      in (if err < 0 then err else ret, w))"

definition remote_modem_hang_up :: "'w modem_stubs \<Rightarrow> ptr \<Rightarrow> 'w \<Rightarrow> int \<times> 'w" where
  "remote_modem_hang_up C p w =
     (let (err, ret, w) = stub_modem_hang_up C (modem_client_from_priv C p) w
      in (if err < 0 then err else ret, w))"

definition remote_modem_dial :: "'w modem_stubs \<Rightarrow> ptr \<Rightarrow> string option \<Rightarrow> 'w \<Rightarrow> int \<times> 'w" where
  "remote_modem_dial C p number w =
     (let (err, ret, w) = stub_modem_dial C (modem_client_from_priv C p) number w
      in (if err < 0 then err else ret, w))"

definition remote_modem_is_calling ::
  "'w modem_stubs \<Rightarrow> ptr \<Rightarrow> bool \<Rightarrow> 'w \<Rightarrow> int \<times> bool \<times> 'w" where
  "remote_modem_is_calling C p status w =
     (let (err, ret, status, w) = stub_modem_is_calling C (modem_client_from_priv C p) status w
      in (if err < 0 then err else ret, status, w))"

definition remote_modem_is_connected ::
  "'w modem_stubs \<Rightarrow> ptr \<Rightarrow> bool \<Rightarrow> 'w \<Rightarrow> int \<times> bool \<times> 'w" where
  "remote_modem_is_connected C p status w =
     (let (err, ret, status, w) = stub_modem_is_connected C (modem_client_from_priv C p) status w
      in (if err < 0 then err else ret, status, w))"

section \<open>Handset\<close>

record 'w handset_ops =
  remote_control_get_handset :: "ptr \<Rightarrow> ptr"
  handset_display_clear :: "ptr \<Rightarrow> 'w \<Rightarrow> int \<times> 'w"
  handset_display_sync :: "ptr \<Rightarrow> 'w \<Rightarrow> int \<times> 'w"
  handset_display_set_brightness :: "ptr \<Rightarrow> u8 \<Rightarrow> 'w \<Rightarrow> int \<times> 'w"
  handset_keypad_set_brightness :: "ptr \<Rightarrow> u8 \<Rightarrow> 'w \<Rightarrow> int \<times> 'w"
  handset_icon_show :: "ptr \<Rightarrow> int \<Rightarrow> bool \<Rightarrow> 'w \<Rightarrow> int \<times> 'w"
  handset_text_show :: "ptr \<Rightarrow> u32 \<Rightarrow> u32 \<Rightarrow> string option \<Rightarrow> bool \<Rightarrow> 'w \<Rightarrow> int \<times> 'w"

abbreviation handset :: "'w handset_ops \<Rightarrow> priv \<Rightarrow> ptr" where
  "handset E p \<equiv> remote_control_get_handset E (RCPTR p)"

definition rpc_handset_display_clear :: "'w handset_ops \<Rightarrow> priv \<Rightarrow> 'w \<Rightarrow> int \<times> 'w" where
  "rpc_handset_display_clear E p w = handset_display_clear E (handset E p) w"

definition rpc_handset_display_sync :: "'w handset_ops \<Rightarrow> priv \<Rightarrow> 'w \<Rightarrow> int \<times> 'w" where
  "rpc_handset_display_sync E p w = handset_display_sync E (handset E p) w"

definition rpc_handset_display_set_brightness ::
  "'w handset_ops \<Rightarrow> priv \<Rightarrow> u8 \<Rightarrow> 'w \<Rightarrow> int \<times> 'w" where
  "rpc_handset_display_set_brightness E p brightness w =
     handset_display_set_brightness E (handset E p) brightness w"

definition rpc_handset_keypad_set_brightness ::
  "'w handset_ops \<Rightarrow> priv \<Rightarrow> u8 \<Rightarrow> 'w \<Rightarrow> int \<times> 'w" where
  "rpc_handset_keypad_set_brightness E p brightness w =
     handset_keypad_set_brightness E (handset E p) brightness w"

definition rpc_handset_show_icon :: "'w handset_ops \<Rightarrow> priv \<Rightarrow> int \<Rightarrow> 'w \<Rightarrow> int \<times> 'w" where
  "rpc_handset_show_icon E p icon w = handset_icon_show E (handset E p) icon True w"

definition rpc_handset_hide_icon :: "'w handset_ops \<Rightarrow> priv \<Rightarrow> int \<Rightarrow> 'w \<Rightarrow> int \<times> 'w" where
  "rpc_handset_hide_icon E p icon w = handset_icon_show E (handset E p) icon False w"

definition rpc_handset_show_text ::
  "'w handset_ops \<Rightarrow> priv \<Rightarrow> u32 \<Rightarrow> u32 \<Rightarrow> string option \<Rightarrow> 'w \<Rightarrow> int \<times> 'w" where
  "rpc_handset_show_text E p x y txt w = handset_text_show E (handset E p) x y txt True w"

definition rpc_handset_hide_text ::
  "'w handset_ops \<Rightarrow> priv \<Rightarrow> u32 \<Rightarrow> u32 \<Rightarrow> string option \<Rightarrow> 'w \<Rightarrow> int \<times> 'w" where
  "rpc_handset_hide_text E p x y txt w = handset_text_show E (handset E p) x y txt False w"

text \<open>A brightness is an \<^verbatim>\<open>unsigned int\<close> in the client and a byte in the protocol.\<close>

record 'w handset_stubs =
  handset_client_from_priv :: "ptr \<Rightarrow> ptr"
  stub_handset_display_clear :: "ptr \<Rightarrow> 'w \<Rightarrow> int \<times> int \<times> 'w"
  stub_handset_display_sync :: "ptr \<Rightarrow> 'w \<Rightarrow> int \<times> int \<times> 'w"
  stub_handset_display_set_brightness :: "ptr \<Rightarrow> u8 \<Rightarrow> 'w \<Rightarrow> int \<times> int \<times> 'w"
  stub_handset_keypad_set_brightness :: "ptr \<Rightarrow> u8 \<Rightarrow> 'w \<Rightarrow> int \<times> int \<times> 'w"
  stub_handset_show_icon :: "ptr \<Rightarrow> int \<Rightarrow> 'w \<Rightarrow> int \<times> int \<times> 'w"
  stub_handset_hide_icon :: "ptr \<Rightarrow> int \<Rightarrow> 'w \<Rightarrow> int \<times> int \<times> 'w"
  stub_handset_show_text :: "ptr \<Rightarrow> u32 \<Rightarrow> u32 \<Rightarrow> string option \<Rightarrow> 'w \<Rightarrow> int \<times> int \<times> 'w"
  stub_handset_hide_text :: "ptr \<Rightarrow> u32 \<Rightarrow> u32 \<Rightarrow> string option \<Rightarrow> 'w \<Rightarrow> int \<times> int \<times> 'w"

definition remote_handset_display_clear :: "'w handset_stubs \<Rightarrow> ptr \<Rightarrow> 'w \<Rightarrow> int \<times> 'w" where
  "remote_handset_display_clear C p w =
     (let (err, ret, w) = stub_handset_display_clear C (handset_client_from_priv C p) w
      in (if err < 0 then err else ret, w))"

definition remote_handset_display_sync :: "'w handset_stubs \<Rightarrow> ptr \<Rightarrow> 'w \<Rightarrow> int \<times> 'w" where
  "remote_handset_display_sync C p w =
     (let (err, ret, w) = stub_handset_display_sync C (handset_client_from_priv C p) w
      in (if err < 0 then err else ret, w))"

definition remote_handset_display_set_brightness ::
  "'w handset_stubs \<Rightarrow> ptr \<Rightarrow> u32 \<Rightarrow> 'w \<Rightarrow> int \<times> 'w" where
  "remote_handset_display_set_brightness C p brightness w =
     (let (err, ret, w) =
            stub_handset_display_set_brightness C (handset_client_from_priv C p) (ucast brightness) w
      in (if err < 0 then err else ret, w))"

definition remote_handset_keypad_set_brightness ::
  "'w handset_stubs \<Rightarrow> ptr \<Rightarrow> u32 \<Rightarrow> 'w \<Rightarrow> int \<times> 'w" where
  "remote_handset_keypad_set_brightness C p brightness w =
     (let (err, ret, w) =
            stub_handset_keypad_set_brightness C (handset_client_from_priv C p) (ucast brightness) w
      in (if err < 0 then err else ret, w))"

definition remote_handset_show_icon ::
  "'w handset_stubs \<Rightarrow> ptr \<Rightarrow> remote_handset_icon \<Rightarrow> 'w \<Rightarrow> int \<times> 'w" where
  "remote_handset_show_icon C p icon w =
     (let (err, ret, w) = stub_handset_show_icon C (handset_client_from_priv C p)
            (remote_handset_icon_value icon) w
      in (if err < 0 then err else ret, w))"

definition remote_handset_hide_icon ::
  "'w handset_stubs \<Rightarrow> ptr \<Rightarrow> remote_handset_icon \<Rightarrow> 'w \<Rightarrow> int \<times> 'w" where
  "remote_handset_hide_icon C p icon w =
     (let (err, ret, w) = stub_handset_hide_icon C (handset_client_from_priv C p)
            (remote_handset_icon_value icon) w
      in (if err < 0 then err else ret, w))"

definition remote_handset_show_text ::
  "'w handset_stubs \<Rightarrow> ptr \<Rightarrow> u32 \<Rightarrow> u32 \<Rightarrow> string option \<Rightarrow> 'w \<Rightarrow> int \<times> 'w" where
  "remote_handset_show_text C p x y txt w =
     (let (err, ret, w) = stub_handset_show_text C (handset_client_from_priv C p) x y txt w
      in (if err < 0 then err else ret, w))"

definition remote_handset_hide_text ::
  "'w handset_stubs \<Rightarrow> ptr \<Rightarrow> u32 \<Rightarrow> u32 \<Rightarrow> string option \<Rightarrow> 'w \<Rightarrow> int \<times> 'w" where
  "remote_handset_hide_text C p x y txt w =
     (let (err, ret, w) = stub_handset_hide_text C (handset_client_from_priv C p) x y txt w
      in (if err < 0 then err else ret, w))"

section \<open>Properties\<close>

lemma u32_through_u64:
  "uint (ucast (ucast t :: u32) :: u64) = uint (t :: u64) mod 2 ^ 32"
  by (simp add: unsigned_ucast_eq take_bit_eq_mod uint_mod_distrib)

lemma u32_through_u64_same:
  "(ucast (ucast t :: u32) :: u64) = t \<longleftrightarrow> uint t < 2 ^ 32"
proof
  assume "(ucast (ucast t :: u32) :: u64) = t"
  then have "uint t mod 2 ^ 32 = uint t" using u32_through_u64 [of t] by simp
  then show "uint t < 2 ^ 32"
    by (metis Euclidean_Rings.pos_mod_bound zero_less_numeral zero_less_power)
next
  assume "uint t < 2 ^ 32"
  then have "uint (ucast (ucast t :: u32) :: u64) = uint t" using u32_through_u64 [of t] by simp
  then show "(ucast (ucast t :: u32) :: u64) = t" by (simp only: unsigned_word_eqI)
qed

text \<open>C27: a time in the stream crosses the connection in 32 bits, in both directions. The
  position the client sets reaches the player modulo \<open>2 ^ 32\<close>; whatever position and duration
  the player has (it keeps them in 64 bits), the client reads them modulo \<open>2 ^ 32\<close>; so exactly
  the positions below \<open>2 ^ 32\<close> come back as they were set.\<close>

theorem media_position_roundtrip:
  assumes set: "\<And>c t w. stub_media_player_set_position C c t w = (0, rpc_media_player_set_position E p t w)"
    and get: "\<And>c w. stub_media_player_get_position C c w =
      (let (ret, t, w) = rpc_media_player_get_position E p (Some 0) w in (0, ret, the t, w))"
    and duration: "\<And>c w. stub_media_player_get_duration C c w =
      (let (ret, t, w) = rpc_media_player_get_duration E p (Some 0) w in (0, ret, the t, w))"
    and dev_set: "\<And>a t w. media_player_set_position E a t w = (0, store t w)"
    and dev_get: "\<And>a t w. media_player_get_position E a t w = (0, pos w, w)"
    and dev_duration: "\<And>a t w. media_player_get_duration E a t w = (0, len w, w)"
    and stored: "\<And>t w. pos (store t w) = t"
  shows "(\<exists>w'. remote_media_player_set_position C c t w = (0, w') \<and> uint (pos w') = uint t mod 2 ^ 32
       \<and> (\<exists>t'. remote_media_player_get_position C c (Some t0) w' = (0, Some t', w')
            \<and> (t' = t \<longleftrightarrow> uint t < 2 ^ 32)))
   \<and> (\<exists>t'. remote_media_player_get_position C c (Some t0) w = (0, Some t', w)
       \<and> uint t' = uint (pos w) mod 2 ^ 32)
   \<and> (\<exists>t'. remote_media_player_get_duration C c (Some t0) w = (0, Some t', w)
       \<and> uint t' = uint (len w) mod 2 ^ 32)"
proof -
  let ?w = "store (ucast (ucast t :: u32)) w"
  have v: "(ucast (ucast (ucast t :: u32) :: u64) :: u32) = ucast t"
    by (intro bit_eqI) (auto simp: bit_simps)
  have s: "remote_media_player_set_position C c t w = (0, ?w)"
    by (simp add: remote_media_player_set_position_def set rpc_media_player_set_position_def dev_set)
  have g: "remote_media_player_get_position C c (Some t0) w
      = (0, Some (ucast (ucast (pos w) :: u32)), w)" for w
    by (simp add: remote_media_player_get_position_def get rpc_media_player_get_position_def dev_get)
  have l: "remote_media_player_get_duration C c (Some t0) w
      = (0, Some (ucast (ucast (len w) :: u32)), w)"
    by (simp add: remote_media_player_get_duration_def duration rpc_media_player_get_duration_def
        dev_duration)
  show ?thesis
    using s g [of ?w] g [of w] l
    by (simp add: stored v u32_through_u64 u32_through_u64_same)
qed

definition ex_media_ops :: "u64 media_ops" where
  "ex_media_ops = \<lparr>remote_control_get_media_player = (\<lambda>rc. rc + 1),
     media_player_play = (\<lambda>a w. (0, w)), media_player_stop = (\<lambda>a w. (0, w)),
     media_player_get_state = (\<lambda>a s w. (0, s, w)), media_player_set_uri = (\<lambda>a u w. (0, w)),
     media_player_get_uri = (\<lambda>a u w. (0, u, w)), media_player_set_crop = (\<lambda>a l r t b w. (0, w)),
     media_player_set_output_window = (\<lambda>a l r t b w. (0, w)), media_player_pause = (\<lambda>a w. (0, w)),
     media_player_resume = (\<lambda>a w. (0, w)), media_player_get_duration = (\<lambda>a t w. (0, w, w)),
     media_player_get_position = (\<lambda>a t w. (0, w, w)), media_player_set_position = (\<lambda>a t w. (0, t))\<rparr>"

definition ex_media_stubs :: "u64 media_stubs" where
  "ex_media_stubs = \<lparr>media_client_from_priv = (\<lambda>a. a),
     stub_media_player_start = (\<lambda>c w. (0, 0, w)), stub_media_player_stop = (\<lambda>c w. (0, 0, w)),
     stub_media_player_is_running = (\<lambda>c b w. (0, 0, b, w)),
     stub_media_player_get_stream = (\<lambda>c u w. (0, 0, u, w)),
     stub_media_player_set_stream = (\<lambda>c u w. (0, 0, w)),
     stub_media_player_set_crop = (\<lambda>c l r t b w. (0, 0, w)),
     stub_media_player_set_output_window = (\<lambda>c l r t b w. (0, 0, w)),
     stub_media_player_pause = (\<lambda>c w. (0, 0, w)), stub_media_player_resume = (\<lambda>c w. (0, 0, w)),
     stub_media_player_get_duration = (\<lambda>c w.
       (let (ret, t, w) = rpc_media_player_get_duration ex_media_ops \<lparr>priv_addr = 5, priv_rc = 7\<rparr>
              (Some 0) w
        in (0, ret, the t, w))),
     stub_media_player_get_position = (\<lambda>c w.
       (let (ret, t, w) = rpc_media_player_get_position ex_media_ops \<lparr>priv_addr = 5, priv_rc = 7\<rparr>
              (Some 0) w
        in (0, ret, the t, w))),
     stub_media_player_set_position = (\<lambda>c t w.
       (0, rpc_media_player_set_position ex_media_ops \<lparr>priv_addr = 5, priv_rc = 7\<rparr> t w))\<rparr>"

lemma ex_media_simps:
  "stub_media_player_set_position ex_media_stubs c t w
     = (0, rpc_media_player_set_position ex_media_ops \<lparr>priv_addr = 5, priv_rc = 7\<rparr> t w)"
  "stub_media_player_get_position ex_media_stubs c w
     = (let (ret, t, w) = rpc_media_player_get_position ex_media_ops \<lparr>priv_addr = 5, priv_rc = 7\<rparr>
              (Some 0) w in (0, ret, the t, w))"
  "stub_media_player_get_duration ex_media_stubs c w
     = (let (ret, t, w) = rpc_media_player_get_duration ex_media_ops \<lparr>priv_addr = 5, priv_rc = 7\<rparr>
              (Some 0) w in (0, ret, the t, w))"
  "media_player_set_position ex_media_ops a t64 w = (0, t64)"
  "media_player_get_position ex_media_ops a t64 w = (0, w, w)"
  "media_player_get_duration ex_media_ops a t64 w = (0, w, w)"
  by (simp_all add: ex_media_stubs_def ex_media_ops_def)

theorem media_position_roundtrip_witness:
  "\<exists>w'. remote_media_player_set_position ex_media_stubs 1 (2 ^ 32 + 5) 0 = (0, w')
     \<and> uint w' = 5 \<and> remote_media_player_get_position ex_media_stubs 1 (Some 0) w' \<noteq> (0, Some (2 ^ 32 + 5), w')
     \<and> (\<exists>t'. remote_media_player_get_position ex_media_stubs 1 (Some 0) (2 ^ 33 + 7)
          = (0, Some t', 2 ^ 33 + 7) \<and> uint t' = 7)"
proof -
  have u: "uint (2 ^ 32 + 5 :: u64) = 2 ^ 32 + 5" "uint (2 ^ 33 + 7 :: u64) = 2 ^ 33 + 7"
    by simp_all
  obtain w' t' where "remote_media_player_set_position ex_media_stubs 1 (2 ^ 32 + 5) 0 = (0, w')"
      "uint w' = uint (2 ^ 32 + 5 :: u64) mod 2 ^ 32"
      "remote_media_player_get_position ex_media_stubs 1 (Some 0) w' = (0, Some t', w')"
      "t' = 2 ^ 32 + 5 \<longleftrightarrow> uint (2 ^ 32 + 5 :: u64) < 2 ^ 32"
    using media_position_roundtrip [where pos = "\<lambda>w. w" and store = "\<lambda>t w. t" and len = "\<lambda>w. w"
        and c = 1 and t = "2 ^ 32 + 5" and w = 0 and t0 = 0, OF ex_media_simps refl] by blast
  moreover obtain t' where "remote_media_player_get_position ex_media_stubs 1 (Some 0) (2 ^ 33 + 7)
        = (0, Some t', 2 ^ 33 + 7)" "uint t' = uint (2 ^ 33 + 7 :: u64) mod 2 ^ 32"
    using media_position_roundtrip [where pos = "\<lambda>w. w" and store = "\<lambda>t w. t" and len = "\<lambda>w. w"
        and c = 1 and t = 0 and w = "2 ^ 33 + 7" and t0 = 0, OF ex_media_simps refl] by blast
  ultimately show ?thesis using u by auto
qed

end
