(* ===== verification/Cli_Commands.thy ===== *)
theory Cli_Commands
  imports Cli_Shell Audio Voip Gpio Devices Media_Phone Remote_Client
begin

text \<open>
  The commands of the command line client, \<^verbatim>\<open>src/bin/commands.c\<close>: each parses its
  arguments, calls the client library and prints. Shown here: the interrupt command asks for
  exactly the pending sources, the command line that \<^verbatim>\<open>task-exec\<close> builds fits its
  block and can be split again, and which arguments the volume and dump commands let pass.

  A command gets the private pointer of the client and its argument vector, whose entries
  are strings or null pointers; it gives undefined behaviour or its result, what it prints
  to the two streams, and the world. The library's functions are those of the other
  theories, over the stubs in \<open>cmd_env\<close>.
\<close>

section \<open>Environment and output\<close>

datatype stream = Stdout | Stderr

type_synonym printed = "(stream \<times> string) list"

type_synonym 'w result = "c_ub + int \<times> printed \<times> 'w"

record 'w cmd_env =
  x_audio :: "'w audio_stubs"
  x_mixer :: "'w mixer_stubs"
  x_backlight :: "'w backlight_stubs"
  x_lldp :: "'w lldp_stubs"
  x_media :: "'w media_stubs"
  x_sound :: "'w sound_stubs"
  x_modem :: "'w modem_stubs"
  x_card :: "'w card_stubs"
  x_task :: "'w task_stubs"
  x_voip :: "'w voip_stubs"
  x_tuner :: "'w tuner_stubs"
  x_handset :: "'w handset_stubs"
  x_gpio :: "'w gpio_stubs"
  x_irq :: "'w irq_stubs"
  c_strerror :: "int \<Rightarrow> string"
  c_errno :: "'w \<Rightarrow> int"
  c_malloc_ok :: "nat \<Rightarrow> bool"
  c_show_ptr :: "ptr \<Rightarrow> string"
  junk_bytes :: "nat \<Rightarrow> u8 list"
    \<comment> \<open>what \<open>n\<close> bytes that are not initialised hold\<close>
  junk_long :: u64

definition nl :: string where
  "nl = [CHR 0x0A]"

definition say :: "string \<Rightarrow> printed" where
  "say s = [(Stdout, s @ nl)]"

definition say_error :: "'w cmd_env \<Rightarrow> int \<Rightarrow> printed" where
  "say_error X err = say (c_strerror X (- err))"

text \<open>The common end of a command: a negative result is printed and returned.\<close>

definition report :: "'w cmd_env \<Rightarrow> int \<times> 'w \<Rightarrow> 'w result" where
  "report X r = (case r of (err, w) \<Rightarrow>
     if err < 0 then Inr (err, say_error X err, w) else Inr (0, [], w))"

text \<open>\<^verbatim>\<open>argv[i]\<close>; the entry after the last one is the null pointer.\<close>

definition argp :: "string option list \<Rightarrow> nat \<Rightarrow> string option" where
  "argp argv i = (if i < length argv then argv ! i else None)"

text \<open>A string in a \<^verbatim>\<open>%s\<close> conversion.\<close>

definition show_str :: "string option \<Rightarrow> string" where
  "show_str s = (case s of Some s \<Rightarrow> s | None \<Rightarrow> ''(null)'')"

type_synonym 'w exec = "'w cmd_env \<Rightarrow> ptr \<Rightarrow> string option list \<Rightarrow> 'w \<Rightarrow> 'w result"

section \<open>Audio, mixer, backlight\<close>

definition exec_audio_volume :: "'w exec" where
  "exec_audio_volume X c argv w =
     (if length argv = 1 then
        let (err, volume, w) = remote_audio_get_volume (x_audio X) c 0 w in
        if err < 0 then Inr (err, say ''Current volume: Unknown'', w)
        else Inr (err, say (''Current volume: '' @ show_nat (unat volume)), w)
      else if length argv = 2 then
        bind_ub (deref (argp argv 1)) (\<lambda>s.
          let volume = to_int32 (atol s) in
          if volume < 0 \<or> volume > 255 then Inr (- EINVAL, [], w)
          else
            let (err, w) = remote_audio_set_volume (x_audio X) c (word_of_int volume) w
            in Inr (err, [], w))
      else Inr (- EINVAL, say ''Invalid argument count, try help'', w))"

text \<open>The name of a state in a buffer of 32 bytes.\<close>

definition state_name :: "remote_audio_state \<Rightarrow> int \<times> string" where
  "state_name state =
     (let (err, name) = audio_state_name state (replicate 32 NUL) 32 in (err, cstring name))"

text \<open>The loop over the valid states prints the state of the variable, not of the counter.\<close>

definition exec_audio_state :: "'w exec" where
  "exec_audio_state X c argv w =
     (let state = REMOTE_AUDIO_STATE_UNKNOWN in
      if length argv = 1 then
        let (err, state, w) = remote_audio_get_state (x_audio X) c state w in
        if err < 0 then Inr (err, say_error X err, w)
        else
          let (err, name) = state_name state in
          if err < 0
          then Inr (0, say (''current state: unknown (id=''
                 @ show_int (remote_audio_state_value state) @ '')''), w)
          else Inr (0, say (''current state: '' @ name), w)
      else if length argv = 2 then
        let state = parse_audio_state (argp argv 1) in
        report X (remote_audio_set_state (x_audio X) c state True w)
      else
        Inr (- EINVAL, say ''ERROR: Invalid argument, valid states are:''
          @ concat (map (\<lambda>i. say (''   '' @ snd (state_name state)))
              [0..<nat (remote_audio_state_value REMOTE_AUDIO_STATE_MAX)]), w))"

definition help_audio_state :: printed where
  "help_audio_state = say ''Possible audio-states are:'' @ [(Stdout, audio_state_print_names)]"

definition exec_mixer_volume :: "'w exec" where
  "exec_mixer_volume X c argv w =
     (if length argv < 2 then Inr (- EINVAL, [], w)
      else bind_ub (deref (argp argv 1)) (\<lambda>s.
        let control = parse_mixer_control s in
        if length argv < 3 then
          let (err, volume, w) = remote_mixer_get_volume (x_mixer X) c control 0 w in
          if err < 0 then Inr (err, say_error X err, w)
          else Inr (0, say (''volume: '' @ show_nat (unat volume)), w)
        else bind_ub (deref (argp argv 2)) (\<lambda>t.
          case strtoul 0 t of
            None \<Rightarrow> Inr (- EINVAL, say (''invalid volume: '' @ t), w)
          | Some volume \<Rightarrow>
              if volume > 255 then Inr (- EINVAL, say (''invalid volume: '' @ t), w)
              else report X (remote_mixer_set_volume (x_mixer X) c control (ucast volume) w))))"

definition exec_mixer_mute :: "'w exec" where
  "exec_mixer_mute X c argv w =
     (if length argv < 2 then Inr (- EINVAL, [], w)
      else bind_ub (deref (argp argv 1)) (\<lambda>s.
        let control = parse_mixer_control s in
        if length argv < 3 then
          let (err, mute, w) = remote_mixer_get_mute (x_mixer X) c control False w in
          if err < 0 then Inr (err, say_error X err, w)
          else Inr (0, say (''muted: '' @ (if mute then ''yes'' else ''no'')), w)
        else bind_ub (deref (argp argv 2)) (\<lambda>t.
          case parse_bool t of
            Inl err \<Rightarrow> Inr (- EINVAL, say (''Invalid boolean value '' @ [CHR 0x27] @ t @ [CHR 0x27] @ ''.''), w)
          | Inr mute \<Rightarrow> report X (remote_mixer_set_mute (x_mixer X) c control mute w))))"

definition exec_mixer_input :: "'w exec" where
  "exec_mixer_input X c argv w =
     (if length argv < 2 then
        let (err, input, w) = remote_mixer_get_input_source (x_mixer X) c w in
        if err < 0 then Inr (err, say_error X err, w)
        else
          let (err, buffer) = mixer_input_source_name input (replicate 16 NUL) 16 in
          if err < 0 then Inr (err, say_error X err, w)
          else Inr (0, say (''input source: '' @ cstring buffer), w)
      else bind_ub (deref (argp argv 1)) (\<lambda>s.
        report X (remote_mixer_set_input_source (x_mixer X) c (parse_mixer_input_source s) w)))"

definition exec_mixer_loopback :: "'w exec" where
  "exec_mixer_loopback X c argv w =
     (let done = (\<lambda>enable w. Inr (0, say (''loopback '' @ (if enable then ''en'' else ''dis'') @ ''abled''), w))
      in
      if length argv < 2 then
        let (err, enable, w) = remote_mixer_loopback_is_enabled (x_mixer X) c False w in
        if err < 0 then Inr (err, say (''ERROR: '' @ c_strerror X (- err)), w) else done enable w
      else bind_ub (deref (argp argv 1)) (\<lambda>s.
        case parse_bool s of
          Inl err \<Rightarrow> Inr (- EINVAL, say (''Invalid boolean value '' @ [CHR 0x27] @ s @ [CHR 0x27] @ ''.''), w)
        | Inr enable \<Rightarrow>
            let (err, w) = remote_mixer_loopback_enable (x_mixer X) c enable w in
            if err < 0 \<and> err \<noteq> - EBUSY \<and> err \<noteq> - ESRCH
            then Inr (err, say (''ERROR: '' @ c_strerror X (- err)), w)
            else done enable w))"

definition exec_backlight_power :: "'w exec" where
  "exec_backlight_power X c argv w =
     (if length argv < 2 then Inr (- EINVAL, [], w)
      else bind_ub (deref (argp argv 1)) (\<lambda>s.
        case parse_bool s of
          Inl err \<Rightarrow> Inr (- EINVAL, say (''Invalid boolean value '' @ [CHR 0x27] @ s @ [CHR 0x27] @ ''.''), w)
        | Inr enable \<Rightarrow> report X (remote_backlight_enable (x_backlight X) c (of_bool enable) w)))"

definition exec_backlight_brightness :: "'w exec" where
  "exec_backlight_brightness X c argv w =
     (if length argv < 2 then
        let (err, brightness, w) = remote_backlight_get (x_backlight X) c 0 w in
        if err < 0 then Inr (err, say_error X err, w)
        else Inr (0, say (''brightness: '' @ show_nat (unat brightness)), w)
      else bind_ub (deref (argp argv 1)) (\<lambda>s.
        case strtoul 0 s of
          None \<Rightarrow> Inr (- EINVAL, say (''Invalid numerical value '' @ [CHR 0x27] @ s @ [CHR 0x27] @ ''.''), w)
        | Some value \<Rightarrow>
            if value > 255
            then Inr (- EINVAL, say (''Invalid backlight brightness '' @ show_nat (unat value)
                   @ ''. Must be less than or equal to 255.''), w)
            else report X (remote_backlight_set (x_backlight X) c (ucast value) w)))"

section \<open>LLDP and smart card\<close>

text \<open>
  Both dump as many bytes as the server says it sent, an \<^verbatim>\<open>int\<close>. With 16 bytes a row the
  dump always ends (lemma \<open>dump_16_ends\<close>).
\<close>

definition dump_16 :: "'w cmd_env \<Rightarrow> string \<Rightarrow> u8 list \<Rightarrow> int \<Rightarrow> c_ub + string" where
  "dump_16 X prefix buf len =
     the (print_hex_dump (c_show_ptr X) 0 prefix DUMP_PREFIX_OFFSET 16 buf (nat len))"

definition exec_lldp_dump :: "'w exec" where
  "exec_lldp_dump X c argv w =
     (if \<not> c_malloc_ok X 1500 then Inr (- ENOMEM, [], w)
      else
        let (err, frame, w) = remote_lldp_read (x_lldp X) c (junk_bytes X 1500) 1500 w in
        if err < 0 then Inr (err, say_error X err, w)
        else bind_ub (dump_16 X ''  '' frame err) (\<lambda>s.
          Inr (0, say ''LLDP frame:'' @ [(Stdout, s)], w)))"

definition exec_smartcard_read :: "'w exec" where
  "exec_smartcard_read X c argv w =
     (let (err, buffer, w) = remote_card_read (x_card X) c 0 (junk_bytes X 256) 256 w in
      if err < 0 then Inr (err, [], w)
      else bind_ub (dump_16 X '''' buffer err) (\<lambda>s. Inr (0, [(Stdout, s)], w)))"

section \<open>Media player\<close>

definition exec_media_player_uri :: "'w exec" where
  "exec_media_player_uri X c argv w =
     (if length argv < 2 then
        let (err, uri, w) = remote_media_player_get_stream (x_media X) c None w in
        if err < 0 then Inr (err, say_error X err, w)
        else Inr (0, say (''URI: '' @ show_str uri), w)
      else report X (remote_media_player_set_stream (x_media X) c (argp argv 1) w))"

definition output_coordinate :: "string option list \<Rightarrow> nat \<Rightarrow> c_ub + u16" where
  "output_coordinate argv i =
     (if length argv > i
      then bind_ub (deref (argp argv i)) (\<lambda>s.
        Inr (case strtoul 0 s of Some value \<Rightarrow> ucast value | None \<Rightarrow> 0xFFFF))
      else Inr 0xFFFF)"

definition exec_media_player_output :: "'w exec" where
  "exec_media_player_output X c argv w =
     bind_ub (output_coordinate argv 1) (\<lambda>x.
     bind_ub (output_coordinate argv 2) (\<lambda>y.
     bind_ub (output_coordinate argv 3) (\<lambda>width.
     bind_ub (output_coordinate argv 4) (\<lambda>height.
       if x = 0xFFFF \<and> y = 0xFFFF \<and> width = 0xFFFF \<and> height = 0xFFFF then Inr (0, [], w)
       else report X (remote_media_player_set_output_window (x_media X) c x y width height w)))))"

definition exec_media_player_play :: "'w exec" where
  "exec_media_player_play X c argv w =
     (let (err, w) = (if length argv > 1
            then remote_media_player_set_stream (x_media X) c (argp argv 1) w else (0, w))
      in if err < 0 then Inr (err, say_error X err, w)
         else report X (remote_media_player_start (x_media X) c w))"

definition exec_media_player_stop :: "'w exec" where
  "exec_media_player_stop X c argv w = report X (remote_media_player_stop (x_media X) c w)"

definition exec_media_player_pause :: "'w exec" where
  "exec_media_player_pause X c argv w = report X (remote_media_player_pause (x_media X) c w)"

definition exec_media_player_resume :: "'w exec" where
  "exec_media_player_resume X c argv w = report X (remote_media_player_resume (x_media X) c w)"

definition exec_media_player_duration :: "'w exec" where
  "exec_media_player_duration X c argv w =
     (let (err, duration, w) = remote_media_player_get_duration (x_media X) c (Some (junk_long X)) w in
      if err < 0 then Inr (err, say_error X err, w)
      else Inr (0, say (''Duration: '' @ show_nat (unat (the duration))), w))"

definition exec_media_player_position :: "'w exec" where
  "exec_media_player_position X c argv w =
     (if length argv > 1
      then bind_ub (deref (argp argv 1)) (\<lambda>s.
        case strtoul 10 s of
          None \<Rightarrow> Inr (- EINVAL, say (''invalid position: '' @ s), w)
        | Some position \<Rightarrow> report X (remote_media_player_set_position (x_media X) c position w))
      else
        let (err, position, w) =
              remote_media_player_get_position (x_media X) c (Some (junk_long X)) w
        in if err < 0 then Inr (err, say_error X err, w)
           else Inr (0, say (''Position: '' @ show_nat (unat (the position))), w))"

definition exec_media_player_state :: "'w exec" where
  "exec_media_player_state X c argv w =
     (let (err, running, w) = remote_media_player_is_running (x_media X) c False w in
      if err < 0 then Inr (err, say_error X err, w)
      else Inr (0, say (''state: '' @ (if running then ''playing'' else ''stopped'')), w))"

section \<open>Sound and modem\<close>

definition exec_sound_play :: "'w exec" where
  "exec_sound_play X c argv w =
     (if length argv < 2 then Inr (- EINVAL, [], w)
      else
        let (err, w) = remote_sound_play (x_sound X) c (argp argv 1) w
        in Inr (err, if err < 0 then say_error X err else [], w))"

definition exec_sound_stop :: "'w exec" where
  "exec_sound_stop X c argv w =
     (let (err, w) = remote_sound_stop (x_sound X) c w
      in Inr (err, if err < 0 then say_error X err else [], w))"

text \<open>The number of arguments is not checked: without one, the null pointer is passed.\<close>

definition exec_modem_call :: "'w exec" where
  "exec_modem_call X c argv w = report X (remote_modem_dial (x_modem X) c (argp argv 1) w)"

definition exec_modem_accept :: "'w exec" where
  "exec_modem_accept X c argv w = report X (remote_modem_pick_up (x_modem X) c w)"

definition exec_modem_terminate :: "'w exec" where
  "exec_modem_terminate X c argv w = report X (remote_modem_hang_up (x_modem X) c w)"

definition exec_modem_reset :: "'w exec" where
  "exec_modem_reset X c argv w =
     (let (err, w) = remote_modem_deinit (x_modem X) c w in
      if err < 0 then Inr (err, say_error X err, w)
      else report X (remote_modem_init (x_modem X) c w))"

section \<open>Task manager\<close>

text \<open>The length of the command line: every argument and a separator, two more for quotes.\<close>

definition arg_length :: "string \<Rightarrow> nat" where
  "arg_length s = length s + 1 + (if shell_str_needs_escape s then 2 else 0)"

text \<open>\<^verbatim>\<open>strcat\<close> into a block.\<close>

definition strcat :: "string \<Rightarrow> string \<Rightarrow> c_ub + string" where
  "strcat mem s =
     (let n = length (cstring mem) in
      if length mem < n + length s + 1 then Inl HeapOverflow
      else Inr (take n mem @ s @ NUL # drop (n + length s + 1) mem))"

text \<open>One round of the second loop.\<close>

definition cat_arg :: "bool \<Rightarrow> string \<Rightarrow> string \<Rightarrow> c_ub + string" where
  "cat_arg first mem s =
     (let escape = shell_str_needs_escape s in
      bind_ub (if first then Inr mem else strcat mem '' '') (\<lambda>mem.
      bind_ub (if escape then strcat mem [CHR 0x27] else Inr mem) (\<lambda>mem.
      bind_ub (strcat mem s) (\<lambda>mem.
        if escape then strcat mem [CHR 0x27] else Inr mem))))"

fun cat_args :: "bool \<Rightarrow> string \<Rightarrow> string list \<Rightarrow> c_ub + string" where
  "cat_args first mem [] = Inr mem"
| "cat_args first mem (s # ss) =
     bind_ub (cat_arg first mem s) (\<lambda>mem. cat_args False mem ss)"

fun deref_all :: "string option list \<Rightarrow> c_ub + string list" where
  "deref_all [] = Inr []"
| "deref_all (p # ps) = bind_ub (deref p) (\<lambda>s. bind_ub (deref_all ps) (\<lambda>ss. Inr (s # ss)))"

definition exec_task_exec :: "'w exec" where
  "exec_task_exec X c argv w =
     (if length argv < 2 then Inr (- 1, [], w)
      else bind_ub (deref_all (tl argv)) (\<lambda>args.
        let len = sum_list (map arg_length args) in
        if \<not> c_malloc_ok X len then Inr (- ENOMEM, [], w)
        else bind_ub (cat_args True (replicate len NUL) args) (\<lambda>cmdline.
          let (err, w) = remote_task_manager_exec (x_task X) c (Some (cstring cmdline)) w in
          if err < 0 then Inr (err, say_error X err, w)
          else Inr (err, say (''PID: '' @ show_int err), w))))"

definition exec_task_kill :: "'w exec" where
  "exec_task_kill X c argv w =
     (if length argv < 2 then Inr (- 1, [], w)
      else bind_ub (deref (argp argv 1)) (\<lambda>s.
        case strtoul 0 s of
          None \<Rightarrow> Inr (- 1, [], w)
        | Some pid \<Rightarrow>
            bind_ub (if length argv > 2
              then bind_ub (deref (argp argv 2)) (\<lambda>t.
                Inr (case strtoul 0 t of Some signum \<Rightarrow> int_of_ulong signum | None \<Rightarrow> 15))
              else Inr 15) (\<lambda>sig.
              let (err, w) = remote_task_manager_kill (x_task X) c (int_of_ulong pid) sig w
              in Inr (err, if err < 0 then say_error X err else [], w))))"

section \<open>Telephony\<close>

definition exec_voip_login :: "'w exec" where
  "exec_voip_login X c argv w =
     bind_ub (if length argv > 2
       then bind_ub (deref (argp argv 2)) (\<lambda>s. Inr (map_option ucast (strtoul 0 s)))
       else Inr (Some 0)) (\<lambda>prt.
       case prt of
         None \<Rightarrow> Inr (- EINVAL, [], w)
       | Some prt \<Rightarrow>
           let account = \<lparr>proxy = (if length argv > 1 then argp argv 1 else None), port = prt,
                 username = (if length argv > 3 then argp argv 3 else None),
                 password = (if length argv > 4 then argp argv 4 else None)\<rparr>
           in bind_ub (remote_voip_login (x_voip X) c account w) (report X))"

definition exec_voip_logout :: "'w exec" where
  "exec_voip_logout X c argv w = report X (remote_voip_logout (x_voip X) c w)"

definition exec_voip_call :: "'w exec" where
  "exec_voip_call X c argv w =
     (if length argv < 2 then Inr (- EINVAL, [], w)
      else report X (remote_voip_connect_to (x_voip X) c (argp argv 1) w))"

definition exec_voip_accept :: "'w exec" where
  "exec_voip_accept X c argv w =
     (let (err, caller, w) = remote_voip_accept_incoming (x_voip X) c None w in
      if err < 0 then Inr (err, say_error X err, w)
      else Inr (0, say (''caller: '' @ show_str caller), w))"

definition exec_voip_terminate :: "'w exec" where
  "exec_voip_terminate X c argv w = report X (remote_voip_disconnect (x_voip X) c w)"

text \<open>The first character, which is the terminator if the argument is empty.\<close>

definition exec_voip_dtmf :: "'w exec" where
  "exec_voip_dtmf X c argv w =
     (if length argv < 2 then Inr (- EINVAL, [], w)
      else bind_ub (deref (argp argv 1)) (\<lambda>s.
        let dtmf = (case s of [] \<Rightarrow> 0 | d # _ \<Rightarrow> of_nat (of_char d))
        in report X (remote_voip_dial (x_voip X) c dtmf w)))"

section \<open>Tuner and handset\<close>

definition exec_tuner_frequency :: "'w exec" where
  "exec_tuner_frequency X c argv w =
     (if length argv < 2 then Inr (- EINVAL, [], w)
      else bind_ub (deref (argp argv 1)) (\<lambda>s.
        case strtoul 0 s of
          None \<Rightarrow> Inr (- EINVAL, say (c_strerror X (c_errno X w)), w)
        | Some frequency \<Rightarrow> report X (remote_tuner_set_frequency (x_tuner X) c frequency w)))"

definition exec_handset_display_clear :: "'w exec" where
  "exec_handset_display_clear X c argv w = report X (remote_handset_display_clear (x_handset X) c w)"

definition exec_handset_display_sync :: "'w exec" where
  "exec_handset_display_sync X c argv w = report X (remote_handset_display_sync (x_handset X) c w)"

definition exec_handset_backlight :: "'w exec" where
  "exec_handset_backlight X c argv w =
     (if length argv < 3 then Inr (- EINVAL, [], w)
      else bind_ub (deref (argp argv 2)) (\<lambda>t.
        case strtoul 10 t of
          None \<Rightarrow> Inr (- EINVAL, [], w)
        | Some brightness \<Rightarrow>
            bind_ub (deref (argp argv 1)) (\<lambda>s.
              if s = ''display'' then
                let (err, w) = remote_handset_display_set_brightness (x_handset X) c (ucast brightness) w
                in Inr (if err < 0 then err else 0, [], w)
              else if s = ''keypad'' then
                let (err, w) = remote_handset_keypad_set_brightness (x_handset X) c (ucast brightness) w
                in Inr (if err < 0 then err else 0, [], w)
              else Inr (- EINVAL, [], w))))"

definition icon_of_name :: "string \<Rightarrow> remote_handset_icon option" where
  "icon_of_name s =
     (if s = ''phone'' then Some REMOTE_HANDSET_ICON_PHONE
      else if s = ''radio'' then Some REMOTE_HANDSET_ICON_RADIO
      else if s = ''tv'' then Some REMOTE_HANDSET_ICON_TV
      else if s = ''logo'' then Some REMOTE_HANDSET_ICON_LOGO
      else None)"

definition exec_handset_show_icon :: "'w exec" where
  "exec_handset_show_icon X c argv w =
     (if length argv < 2 then Inr (- EINVAL, [], w)
      else bind_ub (deref (argp argv 1)) (\<lambda>s.
        case icon_of_name s of
          None \<Rightarrow> Inr (- EINVAL, [], w)
        | Some icon \<Rightarrow> report X (remote_handset_show_icon (x_handset X) c icon w)))"

text \<open>The X and Y coordinates are optional and come before the text.\<close>

definition exec_handset_show_text :: "'w exec" where
  "exec_handset_show_text X c argv w =
     (if length argv < 2 then Inr (- EINVAL, [], w)
      else bind_ub (if length argv > 2
          then bind_ub (deref (argp argv 1)) (\<lambda>s. Inr (strtoul 10 s)) else Inr (Some 8)) (\<lambda>x.
        case x of
          None \<Rightarrow> Inr (- EINVAL, say (''invalid X-coordinate: '' @ show_str (argp argv 1)), w)
        | Some x \<Rightarrow>
            bind_ub (if length argv > 3
              then bind_ub (deref (argp argv 2)) (\<lambda>s. Inr (strtoul 10 s)) else Inr (Some 48)) (\<lambda>y.
            case y of
              None \<Rightarrow> Inr (- EINVAL, say (''invalid Y-coordinate: '' @ show_str (argp argv 2)), w)
            | Some y \<Rightarrow>
                let txt = (if length argv > 3 then argp argv 3
                      else if length argv > 2 then argp argv 2 else argp argv 1)
                in report X (remote_handset_show_text (x_handset X) c (ucast x) (ucast y) txt w))))"

section \<open>Pins\<close>

definition exec_gpio_get :: "'w exec" where
  "exec_gpio_get X c argv w =
     (if length argv < 2 then Inr (- EINVAL, say ''no GPIO number specified'', w)
      else bind_ub (deref (argp argv 1)) (\<lambda>s.
        case strtoul 0 s of
          None \<Rightarrow> Inr (- EINVAL, say (''invalid GPIO: '' @ s), w)
        | Some v \<Rightarrow>
            let gpio = unat (ucast v :: u32) in
            bind_ub (remote_gpio_get (x_gpio X) c gpio w) (\<lambda>(err, w).
              if err < 0 then Inr (err, say_error X err, w)
              else Inr (0, say (''GPIO#'' @ show_nat gpio @ '': ''
                     @ (if err \<noteq> 0 then ''1'' else ''0'')), w))))"

definition exec_gpio_set :: "'w exec" where
  "exec_gpio_set X c argv w =
     (if length argv < 3 then Inr (- EINVAL, [], w)
      else bind_ub (deref (argp argv 1)) (\<lambda>s.
        case strtoul 0 s of
          None \<Rightarrow> Inr (- EINVAL, say (''invalid GPIO: '' @ s), w)
        | Some v \<Rightarrow>
            bind_ub (deref (argp argv 2)) (\<lambda>t.
              case strtoul 0 t of
                None \<Rightarrow> Inr (- EINVAL, say (''invalid pin level: '' @ t), w)
              | Some l \<Rightarrow>
                  let level = (ucast l :: u32) in
                  if level \<noteq> 0 \<and> level \<noteq> 1 then Inr (- EINVAL, say (''invalid pin level: '' @ t), w)
                  else bind_ub (remote_gpio_set (x_gpio X) c (unat (ucast v :: u32)) (uint level) w)
                    (report X))))"

section \<open>Interrupts\<close>

definition irq_poll_sources :: "remote_irq_source list" where
  "irq_poll_sources = [REMOTE_IRQ_SOURCE_HOOK, REMOTE_IRQ_SOURCE_SMARTCARD, REMOTE_IRQ_SOURCE_VOIP,
     REMOTE_IRQ_SOURCE_IO, REMOTE_IRQ_SOURCE_MODEM, REMOTE_IRQ_SOURCE_HANDSET]"

fun irq_source_label :: "remote_irq_source \<Rightarrow> string" where
  "irq_source_label REMOTE_IRQ_SOURCE_HOOK = ''HOOK''"
| "irq_source_label REMOTE_IRQ_SOURCE_SMARTCARD = ''SMARTCARD''"
| "irq_source_label REMOTE_IRQ_SOURCE_VOIP = ''VOIP''"
| "irq_source_label REMOTE_IRQ_SOURCE_IO = ''IO''"
| "irq_source_label REMOTE_IRQ_SOURCE_MODEM = ''MODEM''"
| "irq_source_label REMOTE_IRQ_SOURCE_HANDSET = ''HANDSET''"
| "irq_source_label _ = ''UNKNOWN''"

fun irq_poll_loop ::
  "'w cmd_env \<Rightarrow> ptr \<Rightarrow> u32 \<Rightarrow> remote_irq_source list \<Rightarrow> 'w \<Rightarrow> printed \<times> 'w" where
  "irq_poll_loop X c maskp [] w = ([], w)"
| "irq_poll_loop X c maskp (source # sources) w =
     (if maskp AND BIT (remote_irq_source_value source - 1) \<noteq> 0 then
        let (err, status, w) =
              remote_irq_get_info (x_irq X) c (remote_irq_source_value source) (Some 0) w;
            shown = (if err < 0 then ''remote_irq_get_info(): '' @ c_strerror X (- err)
              else ''  '' @ show_hex8 (unat (the status)));
            (out, w) = irq_poll_loop X c maskp sources w
        in ((Stderr, irq_source_label source @ nl) # (Stderr, shown @ nl) # out, w)
      else irq_poll_loop X c maskp sources w)"

definition exec_irq_poll :: "'w exec" where
  "exec_irq_poll X c argv w =
     (let (err, maskp, w) = remote_irq_get_mask (x_irq X) c (Some 0) w in
      if err < 0 then Inr (err, [(Stderr, ''remote_irq_get_mask(): '' @ c_strerror X (- err))], w)
      else
        let (out, w) = irq_poll_loop X c (the maskp) irq_poll_sources w
        in Inr (0, out, w))"

section \<open>The command table\<close>

text \<open>
  What \<^verbatim>\<open>struct cli_command_info\<close> tells about a command; \<open>ci_helpcmd\<close> is what the
  help function prints. The linker collects the entries in an array: \<open>docs\<close> is that
  array as the help command sees it.
\<close>

record cmd_info =
  ci_name :: string
  ci_summary :: string
  ci_help :: "string option"
  ci_helpcmd :: "printed option"

definition info :: "string \<Rightarrow> string \<Rightarrow> cmd_info" where
  "info name summary = \<lparr>ci_name = name, ci_summary = summary, ci_help = None, ci_helpcmd = None\<rparr>"

definition exec_help :: "cmd_info list \<Rightarrow> 'w exec" where
  "exec_help docs X c argv w =
     (if length argv < 2 then
        Inr (0, say ''Commands:''
          @ concat (map (\<lambda>d. say (''  '' @ left_pad 25 (ci_name d) @ '' '' @ ci_summary d)) docs)
          @ say '''' @ say ''(specify help <command> for details about the command)'' @ say '''', w)
      else bind_ub (deref (argp argv 1)) (\<lambda>s.
        case find (\<lambda>d. s = ci_name d) docs of
          None \<Rightarrow> Inr (0, [], w)
        | Some d \<Rightarrow>
            Inr (0, [(Stdout, ci_name d @ '' - '' @ ci_summary d @ nl @ nl)]
              @ (case ci_help d of
                   Some h \<Rightarrow> [(Stdout, h @ nl @ nl)]
                 | None \<Rightarrow> (case ci_helpcmd d of Some out \<Rightarrow> out | None \<Rightarrow> [])), w)))"

type_synonym 'w command = "cmd_info \<times> (cmd_info list \<Rightarrow> 'w exec)"

definition cmd_help :: "'w command" where
  "cmd_help = (info ''help'' ''print global or command-specific help'', exec_help)"

definition cmd_audio_volume :: "'w command" where
  "cmd_audio_volume = (info ''audio-volume'' ''get or set the current audio volume'', \<lambda>docs. exec_audio_volume)"

definition cmd_audio_state :: "'w command" where
  "cmd_audio_state = ((info ''audio-state'' ''get or set the current audio state'')\<lparr>ci_helpcmd := Some help_audio_state\<rparr>, \<lambda>docs. exec_audio_state)"

definition cmd_mixer_volume :: "'w command" where
  "cmd_mixer_volume = (info ''mixer-volume'' ''access audio volume'', \<lambda>docs. exec_mixer_volume)"

definition cmd_mixer_mute :: "'w command" where
  "cmd_mixer_mute = (info ''mixer-mute'' ''mute or unmute audio control'', \<lambda>docs. exec_mixer_mute)"

definition cmd_mixer_input :: "'w command" where
  "cmd_mixer_input = (info ''mixer-input'' ''access audio input source'', \<lambda>docs. exec_mixer_input)"

definition cmd_mixer_loopback :: "'w command" where
  "cmd_mixer_loopback = (info ''mixer-loopback'' ''control audio loopback mode'', \<lambda>docs. exec_mixer_loopback)"

definition cmd_backlight_power :: "'w command" where
  "cmd_backlight_power = (info ''backlight-power'' ''control backlight power'', \<lambda>docs. exec_backlight_power)"

definition cmd_backlight_brightness :: "'w command" where
  "cmd_backlight_brightness = (info ''backlight-brightness'' ''access backlight brightness'', \<lambda>docs. exec_backlight_brightness)"

definition cmd_lldp_dump :: "'w command" where
  "cmd_lldp_dump = (info ''lldp-dump'' ''dump LLDP data'', \<lambda>docs. exec_lldp_dump)"

definition cmd_media_player_uri :: "'w command" where
  "cmd_media_player_uri = (info ''media-player-uri'' ''access media stream URI'', \<lambda>docs. exec_media_player_uri)"

definition cmd_media_player_output :: "'w command" where
  "cmd_media_player_output = (info ''media-player-output'' ''control media player output window'', \<lambda>docs. exec_media_player_output)"

definition cmd_media_player_play :: "'w command" where
  "cmd_media_player_play = (info ''media-player-play'' ''start media playback'', \<lambda>docs. exec_media_player_play)"

definition cmd_media_player_stop :: "'w command" where
  "cmd_media_player_stop = (info ''media-player-stop'' ''stop media playback'', \<lambda>docs. exec_media_player_stop)"

definition cmd_media_player_pause :: "'w command" where
  "cmd_media_player_pause = (info ''media-player-pause'' ''pause media stream'', \<lambda>docs. exec_media_player_pause)"

definition cmd_media_player_resume :: "'w command" where
  "cmd_media_player_resume = (info ''media-player-resume'' ''resume media stream'', \<lambda>docs. exec_media_player_resume)"

definition cmd_media_player_duration :: "'w command" where
  "cmd_media_player_duration = (info ''media-player-duration'' ''obtain media stream duration'', \<lambda>docs. exec_media_player_duration)"

definition cmd_media_player_position :: "'w command" where
  "cmd_media_player_position = (info ''media-player-position'' ''access media stream position'', \<lambda>docs. exec_media_player_position)"

definition cmd_media_player_state :: "'w command" where
  "cmd_media_player_state = (info ''media-player-state'' ''retrieve media player state'', \<lambda>docs. exec_media_player_state)"

definition cmd_sound_play :: "'w command" where
  "cmd_sound_play = (info ''sound-play'' ''play sound file'', \<lambda>docs. exec_sound_play)"

definition cmd_sound_stop :: "'w command" where
  "cmd_sound_stop = (info ''sound-stop'' ''stop sound playback'', \<lambda>docs. exec_sound_stop)"

definition cmd_modem_call :: "'w command" where
  "cmd_modem_call = (info ''modem-call'' ''place a phone call'', \<lambda>docs. exec_modem_call)"

definition cmd_modem_accept :: "'w command" where
  "cmd_modem_accept = (info ''modem-accept'' ''accept an incoming phone call'', \<lambda>docs. exec_modem_accept)"

definition cmd_modem_terminate :: "'w command" where
  "cmd_modem_terminate = (info ''modem-terminate'' ''terminate a phone call'', \<lambda>docs. exec_modem_terminate)"

definition cmd_modem_reset :: "'w command" where
  "cmd_modem_reset = ((info ''modem-reset'' ''reset the modem'')\<lparr>ci_help := Some ''No options''\<rparr>, \<lambda>docs. exec_modem_reset)"

definition cmd_smartcard_read :: "'w command" where
  "cmd_smartcard_read = (info ''smartcard-read'' ''read from a smart card'', \<lambda>docs. exec_smartcard_read)"

definition cmd_task_exec :: "'w command" where
  "cmd_task_exec = (info ''task-exec'' ''execute a task'', \<lambda>docs. exec_task_exec)"

definition cmd_task_kill :: "'w command" where
  "cmd_task_kill = (info ''task-kill'' ''kill a running task'', \<lambda>docs. exec_task_kill)"

definition cmd_voip_login :: "'w command" where
  "cmd_voip_login = ((info ''voip-login'' ''register with VoIP proxy'')\<lparr>ci_help := Some ''<registrar> <port> <user> <passwd>''\<rparr>, \<lambda>docs. exec_voip_login)"

definition cmd_voip_logout :: "'w command" where
  "cmd_voip_logout = (info ''voip-logout'' ''unregister from VoIP proxy'', \<lambda>docs. exec_voip_logout)"

definition cmd_voip_call :: "'w command" where
  "cmd_voip_call = (info ''voip-call'' ''place outgoing VoIP call'', \<lambda>docs. exec_voip_call)"

definition cmd_voip_accept :: "'w command" where
  "cmd_voip_accept = (info ''voip-accept'' ''accept incoming VoIP call'', \<lambda>docs. exec_voip_accept)"

definition cmd_voip_terminate :: "'w command" where
  "cmd_voip_terminate = (info ''voip-terminate'' ''terminate VoIP call'', \<lambda>docs. exec_voip_terminate)"

definition cmd_voip_dtmf :: "'w command" where
  "cmd_voip_dtmf = (info ''voip-dtmf'' ''dial a dtmf tone'', \<lambda>docs. exec_voip_dtmf)"

definition cmd_tuner_frequency :: "'w command" where
  "cmd_tuner_frequency = (info ''tuner-frequency'' ''set the tuner frequency'', \<lambda>docs. exec_tuner_frequency)"

definition cmd_handset_display_clear :: "'w command" where
  "cmd_handset_display_clear = (info ''handset-display-clear'' ''clear the handset display'', \<lambda>docs. exec_handset_display_clear)"

definition cmd_handset_display_sync :: "'w command" where
  "cmd_handset_display_sync = (info ''handset-display-sync'' ''update the handset display'', \<lambda>docs. exec_handset_display_sync)"

definition cmd_handset_backlight :: "'w command" where
  "cmd_handset_backlight = (info ''handset-backlight'' ''control the display or keypad backlight'', \<lambda>docs. exec_handset_backlight)"

definition cmd_handset_show_icon :: "'w command" where
  "cmd_handset_show_icon = (info ''handset-show-icon'' ''show a given icon on the handset display'', \<lambda>docs. exec_handset_show_icon)"

definition cmd_handset_show_text :: "'w command" where
  "cmd_handset_show_text = (info ''handset-show-text'' ''show a given string on the handset display'', \<lambda>docs. exec_handset_show_text)"

definition cmd_gpio_get :: "'w command" where
  "cmd_gpio_get = (info ''gpio-get'' ''obtain the pin level of a given GPIO'', \<lambda>docs. exec_gpio_get)"

definition cmd_gpio_set :: "'w command" where
  "cmd_gpio_set = (info ''gpio-set'' ''set the pin level of a given GPIO'', \<lambda>docs. exec_gpio_set)"

definition cmd_irq_poll :: "'w command" where
  "cmd_irq_poll = (info ''irq-poll'' ''poll interrupts'', \<lambda>docs. exec_irq_poll)"

text \<open>The section of the commands, in the order of the file.\<close>

definition command_table :: "'w command list" where
  "command_table = [
    cmd_help, cmd_audio_volume, cmd_audio_state, cmd_mixer_volume, cmd_mixer_mute,
     cmd_mixer_input, cmd_mixer_loopback, cmd_backlight_power, cmd_backlight_brightness,
     cmd_lldp_dump, cmd_media_player_uri, cmd_media_player_output, cmd_media_player_play,
     cmd_media_player_stop, cmd_media_player_pause, cmd_media_player_resume,
     cmd_media_player_duration, cmd_media_player_position, cmd_media_player_state,
     cmd_sound_play, cmd_sound_stop, cmd_modem_call, cmd_modem_accept, cmd_modem_terminate,
     cmd_modem_reset, cmd_smartcard_read, cmd_task_exec, cmd_task_kill, cmd_voip_login,
     cmd_voip_logout, cmd_voip_call, cmd_voip_accept, cmd_voip_terminate, cmd_voip_dtmf,
     cmd_tuner_frequency, cmd_handset_display_clear, cmd_handset_display_sync,
     cmd_handset_backlight, cmd_handset_show_icon, cmd_handset_show_text, cmd_gpio_get,
     cmd_gpio_set, cmd_irq_poll]"

lemmas command_defs = cmd_help_def cmd_audio_volume_def cmd_audio_state_def
   cmd_mixer_volume_def cmd_mixer_mute_def cmd_mixer_input_def cmd_mixer_loopback_def
   cmd_backlight_power_def cmd_backlight_brightness_def cmd_lldp_dump_def
   cmd_media_player_uri_def cmd_media_player_output_def cmd_media_player_play_def
   cmd_media_player_stop_def cmd_media_player_pause_def cmd_media_player_resume_def
   cmd_media_player_duration_def cmd_media_player_position_def cmd_media_player_state_def
   cmd_sound_play_def cmd_sound_stop_def cmd_modem_call_def cmd_modem_accept_def
   cmd_modem_terminate_def cmd_modem_reset_def cmd_smartcard_read_def cmd_task_exec_def
   cmd_task_kill_def cmd_voip_login_def cmd_voip_logout_def cmd_voip_call_def
   cmd_voip_accept_def cmd_voip_terminate_def cmd_voip_dtmf_def cmd_tuner_frequency_def
   cmd_handset_display_clear_def cmd_handset_display_sync_def cmd_handset_backlight_def
   cmd_handset_show_icon_def cmd_handset_show_text_def cmd_gpio_get_def cmd_gpio_set_def
   cmd_irq_poll_def

section \<open>The dump always ends\<close>

lemma dump_16_ends:
  assumes "len < 2 ^ 63"
  shows "\<exists>r. print_hex_dump sp base prefix pt 16 buf len = Some r"
proof -
  have "\<exists>r. dump_rows sp base prefix pt 16 buf len j = Some r" for j
  proof (induction "len - j" arbitrary: j rule: less_induct)
    case less
    show ?case
    proof (cases "j < len")
      case True
      then obtain r where "dump_rows sp base prefix pt 16 buf len (j + 16) = Some r"
        using less.hyps [of "j + 16"] by fastforce
      moreover have "size_add j 16 = j + 16" using True assms by (simp add: size_add_small)
      ultimately show ?thesis by (subst dump_rows.simps) simp
    next
      case False
      then show ?thesis by (subst dump_rows.simps) simp
    qed
  qed
  then show ?thesis by (simp add: print_hex_dump_def size_of_int_small)
qed

section \<open>The command line of a task\<close>

lemma strcat_room:
  assumes "NUL \<notin> set pre" "length s < k"
  shows "strcat (pre @ replicate k NUL) s = Inr ((pre @ s) @ replicate (k - length s) NUL)"
proof -
  obtain k' where k: "k = Suc k'" using assms(2) by (cases k) auto
  have "cstring (pre @ replicate k NUL) = pre"
    using cstring_terminated [OF assms(1)] by (simp add: k)
  moreover have "NUL # replicate (k - (length s + 1)) NUL = replicate (k - length s) NUL"
    using assms(2) by (metis Suc_diff_Suc Suc_eq_plus1 replicate_Suc)
  ultimately show ?thesis using assms(2) by (simp add: strcat_def Let_def)
qed

definition sep_arg :: "bool \<Rightarrow> string \<Rightarrow> string" where
  "sep_arg first s = (if first then '''' else '' '') @ quote_arg s"

lemma cat_arg_room:
  assumes "NUL \<notin> set pre" "NUL \<notin> set s" "length (sep_arg first s) < k"
  shows "cat_arg first (pre @ replicate k NUL) s
    = Inr ((pre @ sep_arg first s) @ replicate (k - length (sep_arg first s)) NUL)"
proof -
  let ?p = "pre @ (if first then '''' else '' '')" and ?k = "if first then k else k - 1"
  let ?q = "[CHR 0x27]"
  have sp: "NUL \<notin> set ?p" "NUL \<notin> set (?p @ ?q)" "NUL \<notin> set ((?p @ ?q) @ s)" "NUL \<notin> set (?p @ s)"
    using assms(1,2) by (auto simp: NUL_def)
  have one: "(if first then Inr (pre @ replicate k NUL) else strcat (pre @ replicate k NUL) '' '')
      = Inr (?p @ replicate ?k NUL)"
    using strcat_room [OF assms(1), of "'' ''" k] assms(3) by (cases first) (simp_all add: sep_arg_def)
  show ?thesis
  proof (cases "shell_str_needs_escape s")
    case True
    then have l: "length s + 2 < ?k" using assms(3) by (auto simp: sep_arg_def quote_arg_def)
    have "strcat (?p @ replicate ?k NUL) ?q = Inr ((?p @ ?q) @ replicate (?k - 1) NUL)"
      using strcat_room [OF sp(1), of ?q ?k] l by simp
    moreover have "strcat ((?p @ ?q) @ replicate (?k - 1) NUL) s
        = Inr (((?p @ ?q) @ s) @ replicate (?k - 1 - length s) NUL)"
      using l by (intro strcat_room [OF sp(2)]) linarith
    moreover have "strcat (((?p @ ?q) @ s) @ replicate (?k - 1 - length s) NUL) ?q
        = Inr ((((?p @ ?q) @ s) @ ?q) @ replicate (?k - 1 - length s - 1) NUL)"
      using strcat_room [OF sp(3), of ?q "?k - 1 - length s"] l by simp
    ultimately have "cat_arg first (pre @ replicate k NUL) s
        = Inr ((((?p @ ?q) @ s) @ ?q) @ replicate (?k - 1 - length s - 1) NUL)"
      by (simp only: cat_arg_def Let_def one bind_ub_simps True if_True)
    moreover have "?k - 1 - length s - 1 = k - length (sep_arg first s)"
      using True by (simp add: sep_arg_def quote_arg_def)
    ultimately show ?thesis using True by (simp add: sep_arg_def quote_arg_def)
  next
    case False
    then have l: "length s < ?k" using assms(3) by (auto simp: sep_arg_def quote_arg_def)
    have "cat_arg first (pre @ replicate k NUL) s = Inr ((?p @ s) @ replicate (?k - length s) NUL)"
      using strcat_room [OF sp(1) l] by (simp only: cat_arg_def Let_def one bind_ub_simps False if_False)
    moreover have "?k - length s = k - length (sep_arg first s)"
      using False by (simp add: sep_arg_def quote_arg_def)
    ultimately show ?thesis using False by (simp add: sep_arg_def quote_arg_def)
  qed
qed

fun join_from :: "bool \<Rightarrow> string list \<Rightarrow> string" where
  "join_from first [] = []"
| "join_from first (s # ss) = sep_arg first s @ join_from False ss"

lemma join_from_True: "join_from True as = join_args as"
proof (induction as rule: join_args.induct)
  case (3 a b as)
  then show ?case by (simp add: sep_arg_def)
qed (simp_all add: sep_arg_def)

lemma sep_arg_no_NUL: "NUL \<notin> set s \<Longrightarrow> NUL \<notin> set (sep_arg first s)"
  by (auto simp: sep_arg_def quote_arg_def NUL_def)

lemma cat_args_room:
  assumes "NUL \<notin> set pre" "\<forall>s \<in> set ss. NUL \<notin> set s" "length (join_from first ss) < k"
  shows "cat_args first (pre @ replicate k NUL) ss
    = Inr ((pre @ join_from first ss) @ replicate (k - length (join_from first ss)) NUL)"
  using assms
proof (induction ss arbitrary: first pre k)
  case (Cons s ss)
  have n: "NUL \<notin> set s" using Cons.prems(2) by simp
  have c: "cat_arg first (pre @ replicate k NUL) s
    = Inr ((pre @ sep_arg first s) @ replicate (k - length (sep_arg first s)) NUL)"
    using Cons.prems(3) by (intro cat_arg_room [OF Cons.prems(1) n]) simp
  have "NUL \<notin> set (pre @ sep_arg first s)" using Cons.prems(1) sep_arg_no_NUL [OF n] by simp
  from Cons.IH [OF this, where k = "k - length (sep_arg first s)" and first = False] Cons.prems(2,3)
  show ?case by (simp only: cat_args.simps c bind_ub_simps) simp
qed simp

lemma length_sep_arg: "length (sep_arg first s) = arg_length s - (if first then 1 else 0)"
  by (simp add: sep_arg_def quote_arg_def arg_length_def)

lemma length_join_from:
  "ss \<noteq> [] \<Longrightarrow> length (join_from first ss) + (if first then 1 else 0) = sum_list (map arg_length ss)"
proof (induction ss arbitrary: first)
  case (Cons s ss)
  have "arg_length s \<ge> 1" by (simp add: arg_length_def)
  then show ?case using Cons.IH [of False] by (cases "ss = []") (auto simp: length_sep_arg)
qed simp

text \<open>The block of the command line is exactly as long as the text with its terminator.\<close>

lemma cat_args_fits:
  assumes "ss \<noteq> []" "\<forall>s \<in> set ss. NUL \<notin> set s"
  shows "cat_args True (replicate (sum_list (map arg_length ss)) NUL) ss
    = Inr (join_args ss @ [NUL])"
proof -
  have l: "sum_list (map arg_length ss) = Suc (length (join_from True ss))"
    using length_join_from [OF assms(1), of True] by simp
  show ?thesis
    using cat_args_room [of "[]" ss True "Suc (length (join_from True ss))"] assms(2)
    by (simp add: l join_from_True)
qed

lemma deref_all_Some: "deref_all (map Some ss) = Inr ss"
  by (induction ss) simp_all

lemma join_args_no_NUL: "\<forall>s \<in> set ss. NUL \<notin> set s \<Longrightarrow> NUL \<notin> set (join_args ss)"
  by (induction ss rule: join_args.induct) (auto simp: quote_arg_def NUL_def)

section \<open>A client whose calls all succeed\<close>

text \<open>Stubs that answer 0 and leave their output arguments and the world as they are.\<close>

definition quiet_audio :: "'w audio_stubs" where
  "quiet_audio = \<lparr>audio_client_from_priv = (\<lambda>a0. a0),
     stub_audio_set_state = (\<lambda>a0 a1 a2 w. (0, 0, w)),
     stub_audio_get_state = (\<lambda>a0 a1 w. (0, 0, a1, w)),
     stub_audio_set_volume = (\<lambda>a0 a1 w. (0, 0, w)),
     stub_audio_get_volume = (\<lambda>a0 a1 w. (0, 0, a1, w))\<rparr>"

definition quiet_mixer :: "'w mixer_stubs" where
  "quiet_mixer = \<lparr>mixer_client_from_priv = (\<lambda>a0. a0),
     stub_mixer_set_mute = (\<lambda>a0 a1 a2 w. (0, 0, w)),
     stub_mixer_is_muted = (\<lambda>a0 a1 a2 w. (0, 0, a2, w)),
     stub_mixer_set_volume = (\<lambda>a0 a1 a2 w. (0, 0, w)),
     stub_mixer_get_volume = (\<lambda>a0 a1 a2 w. (0, 0, a2, w)),
     stub_mixer_set_input_source = (\<lambda>a0 a1 w. (0, 0, w)),
     stub_mixer_get_input_source = (\<lambda>a0 a1 w. (0, 0, a1, w)),
     stub_mixer_loopback_enable = (\<lambda>a0 a1 w. (0, 0, w)),
     stub_mixer_loopback_is_enabled = (\<lambda>a0 a1 w. (0, 0, a1, w))\<rparr>"

definition quiet_backlight :: "'w backlight_stubs" where
  "quiet_backlight = \<lparr>backlight_client_from_priv = (\<lambda>a0. a0),
     stub_backlight_enable = (\<lambda>a0 a1 w. (0, 0, w)),
     stub_backlight_get = (\<lambda>a0 a1 w. (0, 0, a1, w)),
     stub_backlight_set = (\<lambda>a0 a1 w. (0, 0, w))\<rparr>"

definition quiet_lldp :: "'w lldp_stubs" where
  "quiet_lldp = \<lparr>lldp_client_from_priv = (\<lambda>a0. a0),
     stub_lldp_read = (\<lambda>a0 a1 a2 w. (0, 0, a2, w))\<rparr>"

definition quiet_media :: "'w media_stubs" where
  "quiet_media = \<lparr>media_client_from_priv = (\<lambda>a0. a0),
     stub_media_player_start = (\<lambda>a0 w. (0, 0, w)),
     stub_media_player_stop = (\<lambda>a0 w. (0, 0, w)),
     stub_media_player_is_running = (\<lambda>a0 a1 w. (0, 0, a1, w)),
     stub_media_player_get_stream = (\<lambda>a0 a1 w. (0, 0, a1, w)),
     stub_media_player_set_stream = (\<lambda>a0 a1 w. (0, 0, w)),
     stub_media_player_set_crop = (\<lambda>a0 a1 a2 a3 a4 w. (0, 0, w)),
     stub_media_player_set_output_window = (\<lambda>a0 a1 a2 a3 a4 w. (0, 0, w)),
     stub_media_player_pause = (\<lambda>a0 w. (0, 0, w)),
     stub_media_player_resume = (\<lambda>a0 w. (0, 0, w)),
     stub_media_player_get_duration = (\<lambda>a0 w. (0, 0, 0, w)),
     stub_media_player_get_position = (\<lambda>a0 w. (0, 0, 0, w)),
     stub_media_player_set_position = (\<lambda>a0 a1 w. (0, 0, w))\<rparr>"

definition quiet_sound :: "'w sound_stubs" where
  "quiet_sound = \<lparr>sound_client_from_priv = (\<lambda>a0. a0),
     stub_sound_play = (\<lambda>a0 a1 w. (0, 0, w)),
     stub_sound_stop = (\<lambda>a0 w. (0, 0, w))\<rparr>"

definition quiet_modem :: "'w modem_stubs" where
  "quiet_modem = \<lparr>modem_client_from_priv = (\<lambda>a0. a0),
     stub_modem_init = (\<lambda>a0 w. (0, 0, w)),
     stub_modem_deinit = (\<lambda>a0 w. (0, 0, w)),
     stub_modem_pick_up = (\<lambda>a0 w. (0, 0, w)),
     stub_modem_hang_up = (\<lambda>a0 w. (0, 0, w)),
     stub_modem_dial = (\<lambda>a0 a1 w. (0, 0, w)),
     stub_modem_is_calling = (\<lambda>a0 a1 w. (0, 0, a1, w)),
     stub_modem_is_connected = (\<lambda>a0 a1 w. (0, 0, a1, w))\<rparr>"

definition quiet_card :: "'w card_stubs" where
  "quiet_card = \<lparr>card_client_from_priv = (\<lambda>a0. a0),
     stub_card_get_type = (\<lambda>a0 a1 w. (0, 0, a1, w)),
     stub_card_read = (\<lambda>a0 a1 a2 w. (0, 0, a2, w)),
     stub_card_write = (\<lambda>a0 a1 a2 w. (0, 0, a2, w))\<rparr>"

definition quiet_task :: "'w task_stubs" where
  "quiet_task = \<lparr>task_client_from_priv = (\<lambda>a0. a0),
     stub_task_manager_exec = (\<lambda>a0 a1 w. (0, 0, w)),
     stub_task_manager_kill = (\<lambda>a0 a1 a2 w. (0, 0, w))\<rparr>"

definition quiet_voip :: "'w voip_stubs" where
  "quiet_voip = \<lparr>voip_client_from_priv = (\<lambda>a0. a0),
     stub_voip_login = (\<lambda>a0 a1 w. (0, 0, w)),
     stub_voip_logout = (\<lambda>a0 w. (0, 0, w)),
     stub_voip_connect_to = (\<lambda>a0 a1 w. (0, 0, w)),
     stub_voip_accept_incoming = (\<lambda>a0 a1 w. (0, 0, a1, w)),
     stub_voip_disconnect = (\<lambda>a0 w. (0, 0, w)),
     stub_voip_still_logged_in = (\<lambda>a0 a1 w. (0, 0, a1, w)),
     stub_voip_dial = (\<lambda>a0 a1 w. (0, 0, w))\<rparr>"

definition quiet_tuner :: "'w tuner_stubs" where
  "quiet_tuner = \<lparr>tuner_client_from_priv = (\<lambda>a0. a0),
     stub_tuner_set_frequency = (\<lambda>a0 a1 w. (0, 0, w))\<rparr>"

definition quiet_handset :: "'w handset_stubs" where
  "quiet_handset = \<lparr>handset_client_from_priv = (\<lambda>a0. a0),
     stub_handset_display_clear = (\<lambda>a0 w. (0, 0, w)),
     stub_handset_display_sync = (\<lambda>a0 w. (0, 0, w)),
     stub_handset_display_set_brightness = (\<lambda>a0 a1 w. (0, 0, w)),
     stub_handset_keypad_set_brightness = (\<lambda>a0 a1 w. (0, 0, w)),
     stub_handset_show_icon = (\<lambda>a0 a1 w. (0, 0, w)),
     stub_handset_hide_icon = (\<lambda>a0 a1 w. (0, 0, w)),
     stub_handset_show_text = (\<lambda>a0 a1 a2 a3 w. (0, 0, w)),
     stub_handset_hide_text = (\<lambda>a0 a1 a2 a3 w. (0, 0, w))\<rparr>"

definition quiet_gpio :: "'w gpio_stubs" where
  "quiet_gpio = \<lparr>gpio_client_from_priv = (\<lambda>a0. a0),
     stub_gpio_get_mask = (\<lambda>a0 a1 w. (0, 0, a1, w)),
     stub_gpio_set_mask = (\<lambda>a0 a1 w. (0, 0, w))\<rparr>"

definition quiet_irq :: "'w irq_stubs" where
  "quiet_irq = \<lparr>irq_client_from_priv = (\<lambda>a0. a0),
     stub_irq_enable = (\<lambda>a0 a1 w. (0, 0, w)),
     stub_irq_get_mask = (\<lambda>a0 a1 w. (0, 0, a1, w)),
     stub_irq_get_info = (\<lambda>a0 a1 a2 w. (0, 0, a2, w))\<rparr>"

definition quiet_env :: "'w cmd_env" where
  "quiet_env = \<lparr>x_audio = quiet_audio, x_mixer = quiet_mixer, x_backlight = quiet_backlight,
     x_lldp = quiet_lldp, x_media = quiet_media, x_sound = quiet_sound, x_modem = quiet_modem,
     x_card = quiet_card, x_task = quiet_task, x_voip = quiet_voip, x_tuner = quiet_tuner,
     x_handset = quiet_handset, x_gpio = quiet_gpio, x_irq = quiet_irq,
     c_strerror = (\<lambda>e. ''error''), c_errno = (\<lambda>w. 0), c_malloc_ok = (\<lambda>n. True),
     c_show_ptr = (\<lambda>p. show_base 16 p), junk_bytes = (\<lambda>n. replicate n 0), junk_long = 0\<rparr>"

lemma quiet_env_simps [simp]:
  "x_audio quiet_env = quiet_audio" "x_task quiet_env = quiet_task" "x_irq quiet_env = quiet_irq"
  "x_gpio quiet_env = quiet_gpio" "c_malloc_ok quiet_env n"
  by (simp_all add: quiet_env_def)

section \<open>Properties\<close>

text \<open>C15: \<^verbatim>\<open>task-exec\<close> sends the server its arguments joined with blanks, quoted where
  they contain white space; the command line fits the block allocated for it, for any
  arguments; and where they have no quotes of their own and none is empty, splitting the line
  gives the arguments back.\<close>

theorem task_exec_cmdline:
  assumes "args \<noteq> []" "\<forall>s \<in> set args. NUL \<notin> set s" "\<And>n. c_malloc_ok X n"
    and "list_all plain_arg plains"
  shows "exec_task_exec X c (Some cmd # map Some args) w =
      (case remote_task_manager_exec (x_task X) c (Some (join_args args)) w of (err, w) \<Rightarrow>
        Inr (err, if err < 0 then say_error X err else say (''PID: '' @ show_int err), w))
    \<and> map (plain None) (tokens None [] (join_args plains)) = plains"
proof
  have c: "cstring (join_args args @ [NUL]) = join_args args"
    using cstring_terminated [OF join_args_no_NUL [OF assms(2)], of "[]"] by simp
  have "2 \<le> length (Some cmd # map Some args)" using assms(1) by (cases args) auto
  then show "exec_task_exec X c (Some cmd # map Some args) w =
      (case remote_task_manager_exec (x_task X) c (Some (join_args args)) w of (err, w) \<Rightarrow>
        Inr (err, if err < 0 then say_error X err else say (''PID: '' @ show_int err), w))"
    using assms(1,3)
    by (simp add: exec_task_exec_def deref_all_Some cat_args_fits [OF assms(1,2)] c Let_def
        split: prod.split)
  show "map (plain None) (tokens None [] (join_args plains)) = plains"
    using assms(4) quote_arg_closed
    by (simp add: tokens_join comp_def list_all_iff map_idI)
qed

theorem task_exec_cmdline_witness:
  "exec_task_exec quiet_env 1 [Some ''task-exec'', Some ''ls'', Some ''a b''] (0 :: nat)
      = Inr (0, say ''PID: 0'', 0)
   \<and> map (plain None) (tokens None [] (join_args [''ls'', ''a b''])) = [''ls'', ''a b'']"
proof -
  have a: "[''ls'', ''a b''] \<noteq> []" "\<forall>s \<in> set [''ls'', ''a b'']. NUL \<notin> set s"
      "list_all plain_arg [''ls'', ''a b'']"
    by (simp_all add: NUL_def plain_arg_def is_quote_def)
  have m: "c_malloc_ok quiet_env n" for n by simp
  have p: "show_int 0 = ''0''" by code_simp
  show ?thesis
    using task_exec_cmdline [OF a(1,2) m a(3), of 1 "''task-exec''" "0 :: nat"]
    by (simp add: remote_task_manager_exec_def quiet_task_def p)
qed

text \<open>The reference: every source in a list is asked, in order.\<close>

fun ask_sources :: "'w cmd_env \<Rightarrow> ptr \<Rightarrow> remote_irq_source list \<Rightarrow> 'w \<Rightarrow> printed \<times> 'w" where
  "ask_sources X c [] w = ([], w)"
| "ask_sources X c (s # ss) w =
     (let (err, status, w) = remote_irq_get_info (x_irq X) c (remote_irq_source_value s) (Some 0) w;
          shown = (if err < 0 then ''remote_irq_get_info(): '' @ c_strerror X (- err)
            else ''  '' @ show_hex8 (unat (the status)));
          (out, w) = ask_sources X c ss w
      in ((Stderr, irq_source_label s @ nl) # (Stderr, shown @ nl) # out, w))"

lemma irq_poll_loop_ask:
  "irq_poll_loop X c m ss w =
     ask_sources X c (filter (\<lambda>s. bit m (remote_irq_source_value s - 1)) ss) w"
  by (induction ss arbitrary: w) (simp_all add: and_BIT_eq_0 case_prod_beta Let_def)

fun remote_event :: "remote_irq_source \<Rightarrow> event_source" where
  "remote_event REMOTE_IRQ_SOURCE_HOOK = EVENT_SOURCE_HOOK"
| "remote_event REMOTE_IRQ_SOURCE_SMARTCARD = EVENT_SOURCE_SMARTCARD"
| "remote_event REMOTE_IRQ_SOURCE_VOIP = EVENT_SOURCE_VOIP"
| "remote_event REMOTE_IRQ_SOURCE_IO = EVENT_SOURCE_IO"
| "remote_event REMOTE_IRQ_SOURCE_MODEM = EVENT_SOURCE_MODEM"
| "remote_event REMOTE_IRQ_SOURCE_HANDSET = EVENT_SOURCE_HANDSET"
| "remote_event _ = EVENT_SOURCE_OTHER 0"

lemma mask_bit_remote:
  "s \<in> set irq_poll_sources \<Longrightarrow> mask_bit e = Some (remote_irq_source_value s - 1) \<longleftrightarrow>
     e = remote_event s \<and> e \<noteq> EVENT_SOURCE_IO"
  by (cases e) (auto simp: irq_poll_sources_def)

lemma remote_event_inj: "inj_on remote_event (set irq_poll_sources)"
  by (auto simp: irq_poll_sources_def inj_on_def)

text \<open>What is asked for, in its order, is the set of pending sources sorted by number.\<close>

definition polled :: "event_source set \<Rightarrow> remote_irq_source list" where
  "polled S = filter (\<lambda>s. remote_event s \<in> S \<and> s \<noteq> REMOTE_IRQ_SOURCE_IO) irq_poll_sources"

lemma polled_sorted:
  assumes "S \<subseteq> set irq_sources"
  shows "polled S = sorted_list_of_set {s. remote_event s \<in> S \<and> s \<noteq> REMOTE_IRQ_SOURCE_IO}"
proof -
  have "s \<in> set irq_poll_sources" if "remote_event s \<in> S" for s
    using that assms by (cases s) (auto simp: irq_sources_def irq_poll_sources_def)
  then have "{s. remote_event s \<in> S \<and> s \<noteq> REMOTE_IRQ_SOURCE_IO} = set (polled S)"
    by (auto simp: polled_def)
  moreover have "sorted (polled S)" "distinct (polled S)"
    by (simp_all add: polled_def sorted_wrt_filter irq_poll_sources_def less_eq_remote_irq_source_def)
  ultimately show ?thesis by (simp only: sorted_list_of_set.idem_if_sorted_distinct)
qed

lemma polled_rest:
  "S \<subseteq> set irq_sources \<Longrightarrow>
    S - (remote_event ` set (polled S) - {EVENT_SOURCE_HANDSET}) = S \<inter> {EVENT_SOURCE_IO, EVENT_SOURCE_HANDSET}"
  by (auto simp: polled_def irq_sources_def irq_poll_sources_def)

lemma subset_keep: "A \<subseteq> B \<Longrightarrow> x \<notin> A \<Longrightarrow> A \<subseteq> B - ({x} - H)"
  by blast

text \<open>What the poll prints of a source that has the value \<open>v\<close>.\<close>

definition shown_source :: "(event_source \<Rightarrow> u32) \<Rightarrow> remote_irq_source \<Rightarrow> printed" where
  "shown_source v s = [(Stderr, irq_source_label s @ nl),
     (Stderr, ''  '' @ show_hex8 (unat (v (remote_event s))) @ nl)]"

section \<open>The contract of the interrupt service\<close>

text \<open>
  What the poll relies on: in a good state \<open>ok\<close> the service answers the mask of the pending
  sources \<open>pend\<close>, and asked for one that is pending it answers its value \<open>v\<close>, stays good and
  takes the source, the handset apart, off the set.
\<close>

locale irq_service =
  fixes ok :: "'w \<Rightarrow> bool"
    and pend :: "'w \<Rightarrow> event_source set"
    and v :: "event_source \<Rightarrow> u32"
    and C :: "'w irq_stubs"
  assumes pend_known: "ok w \<Longrightarrow> pend w \<subseteq> set irq_sources"
    and get_mask: "ok w \<Longrightarrow> \<exists>m. stub_irq_get_mask C k 0 w = (0, 0, m, w)
      \<and> (\<forall>n. bit m n \<longleftrightarrow> (\<exists>s \<in> pend w. mask_bit s = Some n))"
    and get_info: "ok w \<Longrightarrow> s \<in> set irq_poll_sources \<Longrightarrow> s \<noteq> REMOTE_IRQ_SOURCE_IO \<Longrightarrow>
      remote_event s \<in> pend w \<Longrightarrow>
      \<exists>w'. stub_irq_get_info C k (remote_irq_source_value s) 0 w = (0, 0, v (remote_event s), w')
        \<and> ok w' \<and> pend w' = pend w - ({remote_event s} - {EVENT_SOURCE_HANDSET})"
begin

lemma ask_all:
  assumes "x_irq X = C" "ok w" "distinct ss" "set ss \<subseteq> set irq_poll_sources"
    "REMOTE_IRQ_SOURCE_IO \<notin> set ss" "remote_event ` set ss \<subseteq> pend w"
  shows "\<exists>w'. ask_sources X c ss w = (concat (map (shown_source v) ss), w')
     \<and> ok w' \<and> pend w' = pend w - (remote_event ` set ss - {EVENT_SOURCE_HANDSET})"
  using assms(2-)
proof (induction ss arbitrary: w)
  case (Cons s ss)
  then obtain w1 where r:
    "stub_irq_get_info C (irq_client_from_priv C c) (remote_irq_source_value s) 0 w
      = (0, 0, v (remote_event s), w1)"
    "ok w1" "pend w1 = pend w - ({remote_event s} - {EVENT_SOURCE_HANDSET})"
    using get_info [of w s "irq_client_from_priv C c"] by auto
  have "remote_event s \<notin> remote_event ` set ss"
    using Cons.prems(2,3) by (auto dest: inj_onD [OF remote_event_inj])
  then have "remote_event ` set ss \<subseteq> pend w1"
    unfolding r(3) using Cons.prems(5) by (intro subset_keep) auto
  with Cons.IH [OF r(2)] Cons.prems(2-4)
  obtain w' where
    "ask_sources X c ss w1 = (concat (map (shown_source v) ss), w')"
    "ok w'" "pend w' = pend w1 - (remote_event ` set ss - {EVENT_SOURCE_HANDSET})"
    by auto
  then show ?case using r assms(1)
    by (auto simp: shown_source_def [of v s] remote_irq_get_info_def)
qed simp

lemma irq_poll:
  assumes "x_irq X = C" "ok w"
  shows "\<exists>w'. exec_irq_poll X c argv w = Inr (0, concat (map (shown_source v) (sorted_list_of_set
        {s. remote_event s \<in> pend w \<and> s \<noteq> REMOTE_IRQ_SOURCE_IO})), w')
     \<and> ok w' \<and> pend w' = pend w \<inter> {EVENT_SOURCE_IO, EVENT_SOURCE_HANDSET}"
proof -
  obtain m where m: "stub_irq_get_mask C (irq_client_from_priv C c) 0 w = (0, 0, m, w)"
      "\<forall>n. bit m n \<longleftrightarrow> (\<exists>s \<in> pend w. mask_bit s = Some n)"
    using get_mask [OF assms(2)] by blast
  have "bit m (remote_irq_source_value s - 1) \<longleftrightarrow>
      remote_event s \<in> pend w \<and> s \<noteq> REMOTE_IRQ_SOURCE_IO" if "s \<in> set irq_poll_sources" for s
    using m(2) mask_bit_remote [OF that] that by (auto simp: irq_poll_sources_def)
  then have f: "filter (\<lambda>s. bit m (remote_irq_source_value s - 1)) irq_poll_sources = polled (pend w)"
    unfolding polled_def by (rule filter_cong [OF refl])
  have "distinct (polled (pend w))" "set (polled (pend w)) \<subseteq> set irq_poll_sources"
      "REMOTE_IRQ_SOURCE_IO \<notin> set (polled (pend w))" "remote_event ` set (polled (pend w)) \<subseteq> pend w"
    by (auto simp: polled_def irq_poll_sources_def)
  from ask_all [OF assms this, of c] obtain w' where
    "ask_sources X c (polled (pend w)) w = (concat (map (shown_source v) (polled (pend w))), w')"
    "ok w'" "pend w' = pend w \<inter> {EVENT_SOURCE_IO, EVENT_SOURCE_HANDSET}"
    unfolding polled_rest [OF pend_known [OF assms(2)]] by blast
  then show ?thesis
    using m(1) assms(1)
    by (simp add: exec_irq_poll_def remote_irq_get_mask_def irq_poll_loop_ask f [unfolded One_nat_def]
        polled_sorted [OF pend_known [OF assms(2)]])
qed

end

section \<open>What the argument checks let pass\<close>

text \<open>
  The volume is checked after it has been cut to 32 bits, so a number that is out of range
  by a multiple of \<open>2 ^ 32\<close> is accepted.
\<close>

lemma audio_volume_wraps:
  "exec_audio_volume X c [cmd, Some ''4294967297''] w =
     (let (err, w) = remote_audio_set_volume (x_audio X) c 1 w in Inr (err, [], w))"
proof -
  have "to_int32 (atol ''4294967297'') = 1" by code_simp
  then show ?thesis by (simp add: exec_audio_volume_def argp_def)
qed

text \<open>The dump of a frame trusts the number of bytes that the server answers.\<close>

lemma lldp_dump_overreads:
  assumes "c_malloc_ok X 1500" "remote_lldp_read (x_lldp X) c (junk_bytes X 1500) 1500 w = (1600, frame, w')"
    and "length frame = 1500"
  shows "exec_lldp_dump X c argv w = Inl OutOfBounds"
proof -
  have "dump_rows sp b pre pt 16 frame 1600 (1600 - 16 * Suc n) = Some (Inl OutOfBounds)"
    if "n < 100" for sp b pre pt n
    using that
  proof (induction n)
    case 0
    then show ?case using assms(3) by (subst dump_rows.simps) simp
  next
    case (Suc n)
    then have "size_add (1600 - 16 * Suc (Suc n)) 16 = 1600 - 16 * Suc n" by (simp add: size_add_def)
    then show ?case using Suc assms(3) by (subst dump_rows.simps) auto
  qed
  from this [of 99] show ?thesis using assms
    by (simp add: exec_lldp_dump_def dump_16_def print_hex_dump_def size_of_int_small)
qed

text \<open>The usage message names the unknown state once for every number below the bound.\<close>

lemma audio_state_usage:
  "exec_audio_state X c [a, b, d] w = Inr (- EINVAL,
     say ''ERROR: Invalid argument, valid states are:'' @ concat (replicate 42 (say ''   Unknown'')), w)"
proof -
  have "snd (state_name REMOTE_AUDIO_STATE_UNKNOWN) = ''Unknown''" by code_simp
  moreover have "map (\<lambda>i. k) [0..<n] = replicate n k" for k :: printed and n
    by (simp add: map_replicate_const)
  ultimately show ?thesis by (simp add: exec_audio_state_def)
qed

end
