(* ===== verification/Commands_Keep.thy ===== *)
theory Commands_Keep
  imports Cli_Commands "HOL-Library.Multiset"
begin

text \<open>
  No command of \<^verbatim>\<open>src/bin/commands.c\<close> allocates or frees a client of librpc: each of the
  43 leaves the set of clients as it is, where the stubs it calls through the client library do.
  \<open>stubs_keep\<close> says that of the stubs; \<open>commands_keep\<close>, proved here for the whole table, of
  the commands.
\<close>

section \<open>The stubs\<close>

text \<open>A stub sends a request and waits for the answer; it creates and frees no client.\<close>

definition audio_stubs_keep :: "('w \<Rightarrow> ptr set) \<Rightarrow> 'w audio_stubs \<Rightarrow> bool" where
  "audio_stubs_keep live C \<longleftrightarrow>
     (\<forall>p a1 a2 w. live (snd (snd (stub_audio_set_state C p a1 a2 w))) = live w)
   \<and> (\<forall>p a1 w. live (snd (snd (snd (stub_audio_get_state C p a1 w)))) = live w)
   \<and> (\<forall>p a1 w. live (snd (snd (stub_audio_set_volume C p a1 w))) = live w)
   \<and> (\<forall>p a1 w. live (snd (snd (snd (stub_audio_get_volume C p a1 w)))) = live w)"

definition mixer_stubs_keep :: "('w \<Rightarrow> ptr set) \<Rightarrow> 'w mixer_stubs \<Rightarrow> bool" where
  "mixer_stubs_keep live C \<longleftrightarrow>
     (\<forall>p a1 a2 w. live (snd (snd (stub_mixer_set_mute C p a1 a2 w))) = live w)
   \<and> (\<forall>p a1 a2 w. live (snd (snd (snd (stub_mixer_is_muted C p a1 a2 w)))) = live w)
   \<and> (\<forall>p a1 a2 w. live (snd (snd (stub_mixer_set_volume C p a1 a2 w))) = live w)
   \<and> (\<forall>p a1 a2 w. live (snd (snd (snd (stub_mixer_get_volume C p a1 a2 w)))) = live w)
   \<and> (\<forall>p a1 w. live (snd (snd (stub_mixer_set_input_source C p a1 w))) = live w)
   \<and> (\<forall>p a1 w. live (snd (snd (snd (stub_mixer_get_input_source C p a1 w)))) = live w)
   \<and> (\<forall>p a1 w. live (snd (snd (stub_mixer_loopback_enable C p a1 w))) = live w)
   \<and> (\<forall>p a1 w. live (snd (snd (snd (stub_mixer_loopback_is_enabled C p a1 w)))) = live w)"

definition backlight_stubs_keep :: "('w \<Rightarrow> ptr set) \<Rightarrow> 'w backlight_stubs \<Rightarrow> bool" where
  "backlight_stubs_keep live C \<longleftrightarrow>
     (\<forall>p a1 w. live (snd (snd (stub_backlight_enable C p a1 w))) = live w)
   \<and> (\<forall>p a1 w. live (snd (snd (snd (stub_backlight_get C p a1 w)))) = live w)
   \<and> (\<forall>p a1 w. live (snd (snd (stub_backlight_set C p a1 w))) = live w)"

definition lldp_stubs_keep :: "('w \<Rightarrow> ptr set) \<Rightarrow> 'w lldp_stubs \<Rightarrow> bool" where
  "lldp_stubs_keep live C \<longleftrightarrow>
     (\<forall>p a1 a2 w. live (snd (snd (snd (stub_lldp_read C p a1 a2 w)))) = live w)"

definition media_stubs_keep :: "('w \<Rightarrow> ptr set) \<Rightarrow> 'w media_stubs \<Rightarrow> bool" where
  "media_stubs_keep live C \<longleftrightarrow>
     (\<forall>p w. live (snd (snd (stub_media_player_start C p w))) = live w)
   \<and> (\<forall>p w. live (snd (snd (stub_media_player_stop C p w))) = live w)
   \<and> (\<forall>p a1 w. live (snd (snd (snd (stub_media_player_is_running C p a1 w)))) = live w)
   \<and> (\<forall>p a1 w. live (snd (snd (snd (stub_media_player_get_stream C p a1 w)))) = live w)
   \<and> (\<forall>p a1 w. live (snd (snd (stub_media_player_set_stream C p a1 w))) = live w)
   \<and> (\<forall>p a1 a2 a3 a4 w. live (snd (snd (stub_media_player_set_crop C p a1 a2 a3 a4 w))) = live w)
   \<and> (\<forall>p a1 a2 a3 a4 w. live (snd (snd (stub_media_player_set_output_window C p a1 a2 a3 a4 w))) = live w)
   \<and> (\<forall>p w. live (snd (snd (stub_media_player_pause C p w))) = live w)
   \<and> (\<forall>p w. live (snd (snd (stub_media_player_resume C p w))) = live w)
   \<and> (\<forall>p w. live (snd (snd (snd (stub_media_player_get_duration C p w)))) = live w)
   \<and> (\<forall>p w. live (snd (snd (snd (stub_media_player_get_position C p w)))) = live w)
   \<and> (\<forall>p a1 w. live (snd (snd (stub_media_player_set_position C p a1 w))) = live w)"

definition sound_stubs_keep :: "('w \<Rightarrow> ptr set) \<Rightarrow> 'w sound_stubs \<Rightarrow> bool" where
  "sound_stubs_keep live C \<longleftrightarrow>
     (\<forall>p a1 w. live (snd (snd (stub_sound_play C p a1 w))) = live w)
   \<and> (\<forall>p w. live (snd (snd (stub_sound_stop C p w))) = live w)"

definition modem_stubs_keep :: "('w \<Rightarrow> ptr set) \<Rightarrow> 'w modem_stubs \<Rightarrow> bool" where
  "modem_stubs_keep live C \<longleftrightarrow>
     (\<forall>p w. live (snd (snd (stub_modem_init C p w))) = live w)
   \<and> (\<forall>p w. live (snd (snd (stub_modem_deinit C p w))) = live w)
   \<and> (\<forall>p w. live (snd (snd (stub_modem_pick_up C p w))) = live w)
   \<and> (\<forall>p w. live (snd (snd (stub_modem_hang_up C p w))) = live w)
   \<and> (\<forall>p a1 w. live (snd (snd (stub_modem_dial C p a1 w))) = live w)
   \<and> (\<forall>p a1 w. live (snd (snd (snd (stub_modem_is_calling C p a1 w)))) = live w)
   \<and> (\<forall>p a1 w. live (snd (snd (snd (stub_modem_is_connected C p a1 w)))) = live w)"

definition card_stubs_keep :: "('w \<Rightarrow> ptr set) \<Rightarrow> 'w card_stubs \<Rightarrow> bool" where
  "card_stubs_keep live C \<longleftrightarrow>
     (\<forall>p a1 w. live (snd (snd (snd (stub_card_get_type C p a1 w)))) = live w)
   \<and> (\<forall>p a1 a2 w. live (snd (snd (snd (stub_card_read C p a1 a2 w)))) = live w)
   \<and> (\<forall>p a1 a2 w. live (snd (snd (snd (stub_card_write C p a1 a2 w)))) = live w)"

definition task_stubs_keep :: "('w \<Rightarrow> ptr set) \<Rightarrow> 'w task_stubs \<Rightarrow> bool" where
  "task_stubs_keep live C \<longleftrightarrow>
     (\<forall>p a1 w. live (snd (snd (stub_task_manager_exec C p a1 w))) = live w)
   \<and> (\<forall>p a1 a2 w. live (snd (snd (stub_task_manager_kill C p a1 a2 w))) = live w)"

definition voip_stubs_keep :: "('w \<Rightarrow> ptr set) \<Rightarrow> 'w voip_stubs \<Rightarrow> bool" where
  "voip_stubs_keep live C \<longleftrightarrow>
     (\<forall>p a1 w. live (snd (snd (stub_voip_login C p a1 w))) = live w)
   \<and> (\<forall>p w. live (snd (snd (stub_voip_logout C p w))) = live w)
   \<and> (\<forall>p a1 w. live (snd (snd (stub_voip_connect_to C p a1 w))) = live w)
   \<and> (\<forall>p a1 w. live (snd (snd (snd (stub_voip_accept_incoming C p a1 w)))) = live w)
   \<and> (\<forall>p w. live (snd (snd (stub_voip_disconnect C p w))) = live w)
   \<and> (\<forall>p a1 w. live (snd (snd (snd (stub_voip_still_logged_in C p a1 w)))) = live w)
   \<and> (\<forall>p a1 w. live (snd (snd (stub_voip_dial C p a1 w))) = live w)"

definition tuner_stubs_keep :: "('w \<Rightarrow> ptr set) \<Rightarrow> 'w tuner_stubs \<Rightarrow> bool" where
  "tuner_stubs_keep live C \<longleftrightarrow>
     (\<forall>p a1 w. live (snd (snd (stub_tuner_set_frequency C p a1 w))) = live w)"

definition handset_stubs_keep :: "('w \<Rightarrow> ptr set) \<Rightarrow> 'w handset_stubs \<Rightarrow> bool" where
  "handset_stubs_keep live C \<longleftrightarrow>
     (\<forall>p w. live (snd (snd (stub_handset_display_clear C p w))) = live w)
   \<and> (\<forall>p w. live (snd (snd (stub_handset_display_sync C p w))) = live w)
   \<and> (\<forall>p a1 w. live (snd (snd (stub_handset_display_set_brightness C p a1 w))) = live w)
   \<and> (\<forall>p a1 w. live (snd (snd (stub_handset_keypad_set_brightness C p a1 w))) = live w)
   \<and> (\<forall>p a1 w. live (snd (snd (stub_handset_show_icon C p a1 w))) = live w)
   \<and> (\<forall>p a1 w. live (snd (snd (stub_handset_hide_icon C p a1 w))) = live w)
   \<and> (\<forall>p a1 a2 a3 w. live (snd (snd (stub_handset_show_text C p a1 a2 a3 w))) = live w)
   \<and> (\<forall>p a1 a2 a3 w. live (snd (snd (stub_handset_hide_text C p a1 a2 a3 w))) = live w)"

definition gpio_stubs_keep :: "('w \<Rightarrow> ptr set) \<Rightarrow> 'w gpio_stubs \<Rightarrow> bool" where
  "gpio_stubs_keep live C \<longleftrightarrow>
     (\<forall>p a1 w. live (snd (snd (snd (stub_gpio_get_mask C p a1 w)))) = live w)
   \<and> (\<forall>p a1 w. live (snd (snd (stub_gpio_set_mask C p a1 w))) = live w)"

definition irq_stubs_keep :: "('w \<Rightarrow> ptr set) \<Rightarrow> 'w irq_stubs \<Rightarrow> bool" where
  "irq_stubs_keep live C \<longleftrightarrow>
     (\<forall>p a1 w. live (snd (snd (stub_irq_enable C p a1 w))) = live w)
   \<and> (\<forall>p a1 w. live (snd (snd (snd (stub_irq_get_mask C p a1 w)))) = live w)
   \<and> (\<forall>p a1 a2 w. live (snd (snd (snd (stub_irq_get_info C p a1 a2 w)))) = live w)"

definition stubs_keep :: "('w \<Rightarrow> ptr set) \<Rightarrow> 'w cmd_env \<Rightarrow> bool" where
  "stubs_keep live X \<longleftrightarrow>
     audio_stubs_keep live (x_audio X)
   \<and> mixer_stubs_keep live (x_mixer X)
   \<and> backlight_stubs_keep live (x_backlight X)
   \<and> lldp_stubs_keep live (x_lldp X)
   \<and> media_stubs_keep live (x_media X)
   \<and> sound_stubs_keep live (x_sound X)
   \<and> modem_stubs_keep live (x_modem X)
   \<and> card_stubs_keep live (x_card X)
   \<and> task_stubs_keep live (x_task X)
   \<and> voip_stubs_keep live (x_voip X)
   \<and> tuner_stubs_keep live (x_tuner X)
   \<and> handset_stubs_keep live (x_handset X)
   \<and> gpio_stubs_keep live (x_gpio X)
   \<and> irq_stubs_keep live (x_irq X)"


section \<open>Results\<close>

text \<open>What a command leaves of the set, where it returns at all.\<close>

definition keeps :: "('w \<Rightarrow> ptr set) \<Rightarrow> 'w \<Rightarrow> 'w result \<Rightarrow> bool" where
  "keeps live w r \<longleftrightarrow> (case r of Inl ub \<Rightarrow> True | Inr (err, out, w') \<Rightarrow> live w' = live w)"

lemma bind_ub_Inr: "bind_ub m f = Inr x \<longleftrightarrow> (\<exists>y. m = Inr y \<and> f y = Inr x)"
  by (cases m) simp_all

lemma deref_Inr: "deref p = Inr x \<longleftrightarrow> p = Some x"
  by (cases p) simp_all

lemma keeps_simps [simp]:
  "keeps live w (Inl ub)"
  "keeps live w (Inr x) \<longleftrightarrow> live (snd (snd x)) = live w"
  "keeps live w (report X r) \<longleftrightarrow> live (snd r) = live w"
  by (auto simp: keeps_def report_def split: prod.split)

lemma keeps_bind [simp]:
  "keeps live w (bind_ub m f) \<longleftrightarrow> (\<forall>x. m = Inr x \<longrightarrow> keeps live w (f x))"
  by (cases m) simp_all

lemma keepsD: "keeps live w r \<Longrightarrow> r = Inr (err, out, w') \<Longrightarrow> live w' = live w"
  by (simp add: keeps_def)

section \<open>The commands\<close>

lemma audio_commands_keep:
  assumes "audio_stubs_keep live (x_audio X)"
  shows "keeps live w (exec_audio_volume X c argv w)"
    and "keeps live w (exec_audio_state X c argv w)"
  using assms by (auto simp: audio_stubs_keep_def exec_audio_volume_def exec_audio_state_def
    remote_audio_get_state_def remote_audio_get_volume_def remote_audio_set_state_def
    remote_audio_set_volume_def case_prod_beta Let_def split: option.split sum.split)

lemma mixer_commands_keep:
  assumes "mixer_stubs_keep live (x_mixer X)"
  shows "keeps live w (exec_mixer_volume X c argv w)"
    and "keeps live w (exec_mixer_mute X c argv w)"
    and "keeps live w (exec_mixer_input X c argv w)"
    and "keeps live w (exec_mixer_loopback X c argv w)"
  using assms by (auto simp: mixer_stubs_keep_def exec_mixer_volume_def exec_mixer_mute_def
    exec_mixer_input_def exec_mixer_loopback_def remote_mixer_get_input_source_def
    remote_mixer_get_mute_def remote_mixer_get_volume_def remote_mixer_loopback_enable_def
    remote_mixer_loopback_is_enabled_def remote_mixer_set_input_source_def
    remote_mixer_set_mute_def remote_mixer_set_volume_def case_prod_beta Let_def split:
    option.split sum.split)

lemma backlight_commands_keep:
  assumes "backlight_stubs_keep live (x_backlight X)"
  shows "keeps live w (exec_backlight_power X c argv w)"
    and "keeps live w (exec_backlight_brightness X c argv w)"
  using assms by (auto simp: backlight_stubs_keep_def exec_backlight_power_def
    exec_backlight_brightness_def remote_backlight_enable_def remote_backlight_get_def
    remote_backlight_set_def case_prod_beta Let_def split: option.split sum.split)

lemma lldp_commands_keep:
  assumes "lldp_stubs_keep live (x_lldp X)"
  shows "keeps live w (exec_lldp_dump X c argv w)"
  using assms by (auto simp: lldp_stubs_keep_def exec_lldp_dump_def remote_lldp_read_def
    case_prod_beta Let_def split: option.split sum.split)

lemma card_commands_keep:
  assumes "card_stubs_keep live (x_card X)"
  shows "keeps live w (exec_smartcard_read X c argv w)"
  using assms by (auto simp: card_stubs_keep_def exec_smartcard_read_def remote_card_read_def
    case_prod_beta Let_def split: option.split sum.split)

lemma media_commands_keep:
  assumes "media_stubs_keep live (x_media X)"
  shows "keeps live w (exec_media_player_uri X c argv w)"
    and "keeps live w (exec_media_player_output X c argv w)"
    and "keeps live w (exec_media_player_play X c argv w)"
    and "keeps live w (exec_media_player_stop X c argv w)"
    and "keeps live w (exec_media_player_pause X c argv w)"
    and "keeps live w (exec_media_player_resume X c argv w)"
    and "keeps live w (exec_media_player_duration X c argv w)"
    and "keeps live w (exec_media_player_position X c argv w)"
    and "keeps live w (exec_media_player_state X c argv w)"
  using assms by (auto simp: media_stubs_keep_def exec_media_player_uri_def
    exec_media_player_output_def exec_media_player_play_def exec_media_player_stop_def
    exec_media_player_pause_def exec_media_player_resume_def exec_media_player_duration_def
    exec_media_player_position_def exec_media_player_state_def
    remote_media_player_get_duration_def remote_media_player_get_position_def
    remote_media_player_get_stream_def remote_media_player_is_running_def
    remote_media_player_pause_def remote_media_player_resume_def
    remote_media_player_set_output_window_def remote_media_player_set_position_def
    remote_media_player_set_stream_def remote_media_player_start_def
    remote_media_player_stop_def case_prod_beta Let_def split: option.split sum.split)

lemma sound_commands_keep:
  assumes "sound_stubs_keep live (x_sound X)"
  shows "keeps live w (exec_sound_play X c argv w)"
    and "keeps live w (exec_sound_stop X c argv w)"
  using assms by (auto simp: sound_stubs_keep_def exec_sound_play_def exec_sound_stop_def
    remote_sound_play_def remote_sound_stop_def case_prod_beta Let_def split: option.split
    sum.split)

lemma modem_commands_keep:
  assumes "modem_stubs_keep live (x_modem X)"
  shows "keeps live w (exec_modem_call X c argv w)"
    and "keeps live w (exec_modem_accept X c argv w)"
    and "keeps live w (exec_modem_terminate X c argv w)"
    and "keeps live w (exec_modem_reset X c argv w)"
  using assms by (auto simp: modem_stubs_keep_def exec_modem_call_def exec_modem_accept_def
    exec_modem_terminate_def exec_modem_reset_def remote_modem_deinit_def remote_modem_dial_def
    remote_modem_hang_up_def remote_modem_init_def remote_modem_pick_up_def case_prod_beta
    Let_def split: option.split sum.split)

lemma task_commands_keep:
  assumes "task_stubs_keep live (x_task X)"
  shows "keeps live w (exec_task_exec X c argv w)"
    and "keeps live w (exec_task_kill X c argv w)"
  using assms by (auto simp: task_stubs_keep_def exec_task_exec_def exec_task_kill_def
    remote_task_manager_exec_def remote_task_manager_kill_def case_prod_beta Let_def split:
    option.split sum.split)

lemma voip_login_keeps:
  assumes "voip_stubs_keep live (x_voip X)"
  shows "keeps live w (exec_voip_login X c argv w)"
proof -
  have "live w' = live w" if "remote_voip_login (x_voip X) c account w = Inr (r, w')" for account r w'
    using that assms
    by (auto simp: remote_voip_login_def voip_stubs_keep_def bind_ub_Inr case_prod_beta Let_def)
  then show ?thesis
    by (fastforce simp: exec_voip_login_def Let_def split: option.split)
qed

lemma voip_commands_keep:
  assumes "voip_stubs_keep live (x_voip X)"
  shows "keeps live w (exec_voip_logout X c argv w)"
    and "keeps live w (exec_voip_call X c argv w)"
    and "keeps live w (exec_voip_accept X c argv w)"
    and "keeps live w (exec_voip_terminate X c argv w)"
    and "keeps live w (exec_voip_dtmf X c argv w)"
  using assms by (auto simp: voip_stubs_keep_def exec_voip_logout_def exec_voip_call_def
    exec_voip_accept_def exec_voip_terminate_def exec_voip_dtmf_def
    remote_voip_accept_incoming_def remote_voip_connect_to_def remote_voip_dial_def
    remote_voip_disconnect_def remote_voip_logout_def case_prod_beta Let_def split:
    option.split sum.split)

lemma tuner_commands_keep:
  assumes "tuner_stubs_keep live (x_tuner X)"
  shows "keeps live w (exec_tuner_frequency X c argv w)"
  using assms by (auto simp: tuner_stubs_keep_def exec_tuner_frequency_def
    remote_tuner_set_frequency_def case_prod_beta Let_def split: option.split sum.split)

lemma handset_commands_keep:
  assumes "handset_stubs_keep live (x_handset X)"
  shows "keeps live w (exec_handset_display_clear X c argv w)"
    and "keeps live w (exec_handset_display_sync X c argv w)"
    and "keeps live w (exec_handset_backlight X c argv w)"
    and "keeps live w (exec_handset_show_icon X c argv w)"
    and "keeps live w (exec_handset_show_text X c argv w)"
  using assms by (auto simp: handset_stubs_keep_def exec_handset_display_clear_def
    exec_handset_display_sync_def exec_handset_backlight_def exec_handset_show_icon_def
    exec_handset_show_text_def remote_handset_display_clear_def
    remote_handset_display_set_brightness_def remote_handset_display_sync_def
    remote_handset_keypad_set_brightness_def remote_handset_show_icon_def
    remote_handset_show_text_def case_prod_beta Let_def split: option.split sum.split)

lemma gpio_commands_keep:
  assumes "gpio_stubs_keep live (x_gpio X)"
  shows "keeps live w (exec_gpio_get X c argv w)"
    and "keeps live w (exec_gpio_set X c argv w)"
  using assms by (auto simp: gpio_stubs_keep_def exec_gpio_get_def exec_gpio_set_def
    remote_gpio_get_def remote_gpio_set_def case_prod_beta Let_def split: option.split
    sum.split)

lemma irq_poll_loop_keeps:
  assumes "irq_stubs_keep live (x_irq X)"
  shows "live (snd (irq_poll_loop X c maskp sources w)) = live w"
  by (induction sources arbitrary: w)
    (use assms in \<open>simp_all add: irq_stubs_keep_def remote_irq_get_info_def case_prod_beta Let_def\<close>)

lemma irq_commands_keep:
  assumes "irq_stubs_keep live (x_irq X)"
  shows "keeps live w (exec_irq_poll X c argv w)"
  using assms irq_poll_loop_keeps [OF assms]
  by (auto simp: irq_stubs_keep_def exec_irq_poll_def remote_irq_get_mask_def case_prod_beta Let_def)

section \<open>The table\<close>

definition commands_keep :: "('w \<Rightarrow> ptr set) \<Rightarrow> 'w cmd_env \<Rightarrow> 'w command list \<Rightarrow> bool" where
  "commands_keep live X cmds \<longleftrightarrow>
     (\<forall>cmd \<in> set cmds. \<forall>docs c argv w. keeps live w (snd cmd docs X c argv w))"

lemma help_keeps: "keeps live w (exec_help docs X c argv w)"
  by (auto simp: exec_help_def split: option.split)

lemma command_table_keeps:
  assumes "stubs_keep live X" "mset cmds = mset command_table"
  shows "commands_keep live X cmds"
proof -
  have "\<forall>docs c argv w. keeps live w (snd cmd docs X c argv w)" if "cmd \<in> set command_table" for cmd
    using that assms(1) unfolding stubs_keep_def command_table_def command_defs
    by (auto simp: help_keeps audio_commands_keep mixer_commands_keep backlight_commands_keep
        lldp_commands_keep card_commands_keep media_commands_keep sound_commands_keep
        modem_commands_keep task_commands_keep voip_login_keeps voip_commands_keep
        tuner_commands_keep handset_commands_keep gpio_commands_keep irq_commands_keep)
  then show ?thesis using mset_eq_setD [OF assms(2)] by (simp add: commands_keep_def)
qed

end
