(* ===== verification/Cli_Main.thy ===== *)
theory Cli_Main
  imports Commands_Keep
begin

text \<open>
  The rest of \<^verbatim>\<open>src/bin/main.c\<close>: running a command, completion of command names,
  the command line options, and the main function with its loop over lines. Shown here: a
  line of the interactive client runs the command its first word names with its words as
  arguments, in whatever order the linker put the commands, and a line of white space alone
  crashes the client; completion offers exactly the matching names.

  The C library and the readline library are \<open>main_env\<close>: \<^verbatim>\<open>getopt_long\<close> gives the
  options it finds in order, the index of the first operand and the vector in the order it
  leaves; the history of lines is part of the world, and the variant of the program without
  readline is the one whose \<^verbatim>\<open>add_history\<close> does nothing. The prompt and the editing of
  lines are not modelled.
\<close>

section \<open>Running a command\<close>

text \<open>The entry that is compared with the names is dereferenced, the vector before it.\<close>

definition cli_exec :: "'w command list \<Rightarrow> 'w cmd_env \<Rightarrow> cli \<Rightarrow> 'w \<Rightarrow> 'w result" where
  "cli_exec cmds X cli w =
     bind_ub (deref (cli_argv cli)) (\<lambda>argv.
     bind_ub (deref (argp argv 0)) (\<lambda>name.
       case find (\<lambda>cmd. ci_name (fst cmd) = name) cmds of
         Some cmd \<Rightarrow> snd cmd (map fst cmds) X (cli_client cli) argv w
       | None \<Rightarrow> Inr (- ENOSYS, say (name @ '': command not found''), w)))"

section \<open>Completion\<close>

definition find_command_by_name :: "'w command list \<Rightarrow> string \<Rightarrow> 'w command option" where
  "find_command_by_name cmds name = find (\<lambda>cmd. ci_name (fst cmd) = name) cmds"

text \<open>
  The generator keeps the rest of the commands and the length of the text between its calls;
  \<open>state = 0\<close> starts anew. \<^verbatim>\<open>strncmp\<close> compares the first \<open>len\<close> characters.
\<close>

type_synonym 'w gen_state = "'w command list \<times> nat"

definition readline_command_generator ::
  "'w command list \<Rightarrow> string \<Rightarrow> nat \<Rightarrow> 'w gen_state \<Rightarrow> string option \<times> 'w gen_state" where
  "readline_command_generator cmds txt state st =
     (let (rest, len) = (if state = 0 then (cmds, length txt) else st) in
      case dropWhile (\<lambda>cmd. take len (ci_name (fst cmd)) \<noteq> take len txt) rest of
        cmd # rest \<Rightarrow> (Some (ci_name (fst cmd)), (rest, len))
      | [] \<Rightarrow> (None, ([], len)))"

text \<open>
  The generator for options never offers any. The name it looks up first is copied without
  a terminator, so that the lookup reads uninitialised memory: where it does, and the byte is
  not a terminator by chance, no command is found.
\<close>

definition readline_options_generator ::
  "'w command list \<Rightarrow> string \<Rightarrow> (nat \<Rightarrow> string) \<Rightarrow> 'w command option \<times> string option" where
  "readline_options_generator cmds line_buffer junk =
     (if CHR '' '' \<in> set line_buffer
      then let name = takeWhile (\<lambda>c. c \<noteq> CHR '' '') line_buffer
           in (find_command_by_name cmds (cstring (name @ junk (length name))), None)
      else (None, None))"

text \<open>
  What \<^verbatim>\<open>rl_completion_matches\<close> collects from a generator: one call per match and a
  last one that gives none. As many calls as there are commands are enough for that.
\<close>

fun completion_matches ::
  "nat \<Rightarrow> 'w command list \<Rightarrow> string \<Rightarrow> nat \<Rightarrow> 'w gen_state \<Rightarrow> string list" where
  "completion_matches 0 cmds txt state st = []"
| "completion_matches (Suc n) cmds txt state st =
     (case readline_command_generator cmds txt state st of
        (Some m, st) \<Rightarrow> m # completion_matches n cmds txt (Suc state) st
      | (None, st) \<Rightarrow> [])"

section \<open>Reading a line without the library\<close>

text \<open>
  One call of \<^verbatim>\<open>fgets\<close> on the rest of the input, at most 1023 characters and up to the
  end of a line, whose newline is cut off; a longer line comes in pieces.
\<close>

definition fgets_line :: "string \<Rightarrow> string \<times> string" where
  "fgets_line inp =
     (let l = takeWhile (\<lambda>c. c \<noteq> CHR 0x0A) inp;
          n = min 1023 (if length l < length inp then length l + 1 else length l)
      in (take n inp, drop n inp))"

definition readline_read :: "string \<Rightarrow> (string \<times> string) option" where
  "readline_read inp =
     (if inp = [] then None
      else
        let (r, rest) = fgets_line inp; s = cstring r
        in Some (if s \<noteq> [] \<and> last s = CHR 0x0A then butlast s else s, rest))"

section \<open>The application context\<close>

text \<open>The handler of telephony events that the client would register.\<close>

definition on_voip_event :: "'w cmd_env \<Rightarrow> u32 \<Rightarrow> ptr \<Rightarrow> printed" where
  "on_voip_event X type data =
     [(Stdout, ''> on_voip_event(type='' @ show_hex8 (unat type) @ '', data='' @ c_show_ptr X data
        @ '')'' @ nl),
      (Stdout, ''< on_voip_event()'' @ nl)]"

definition DEFAULT_HOSTNAME :: string where "DEFAULT_HOSTNAME = ''localhost''"
definition DEFAULT_SERVICE :: string where "DEFAULT_SERVICE = ''7482''"

text \<open>\<open>cmem\<close>: whether the context can be allocated.\<close>

definition cli_new :: "bool \<Rightarrow> cli option" where
  "cli_new cmem = (if cmem
     then Some \<lparr>cli_client = NULL, cli_hostname = DEFAULT_HOSTNAME, cli_service = DEFAULT_SERVICE,
       cli_quiet = 0, cli_verbose = 0, cli_argv = None, cli_argc = 0\<rparr>
     else None)"

definition cli_free :: "'w client_env \<Rightarrow> cli option \<Rightarrow> 'w \<Rightarrow> c_ub + int \<times> 'w" where
  "cli_free E cli w =
     (case cli of
        None \<Rightarrow> Inr (- EINVAL, w)
      | Some cli \<Rightarrow> bind_ub (remote_exit E (cli_client cli) w) (\<lambda>(_, w). Inr (0, w)))"

text \<open>\<^verbatim>\<open>basename\<close> of the library: the last component of a path.\<close>

definition c_basename :: "string \<Rightarrow> string" where
  "c_basename s =
     (let stripped = rev (dropWhile (\<lambda>c. c = CHR ''/'') (rev s)) in
      if s = [] then ''.''
      else if stripped = [] then ''/''
      else rev (takeWhile (\<lambda>c. c \<noteq> CHR ''/'') (rev stripped)))"

definition help_options :: string where
  "help_options = ''  Options:'' @ nl
     @ ''    -h, --help                show this help screen'' @ nl
     @ ''    -H, --host <hostname>     server host name'' @ nl
     @ ''    -p, --port <port>         server port'' @ nl
     @ ''    -q, --quiet               quiet mode'' @ nl
     @ ''    -v, --verbose             increase verbosity level'' @ nl
     @ ''    -V, --version             show version information'' @ nl"

definition cli_usage :: "cmd_info list \<Rightarrow> stream \<Rightarrow> string \<Rightarrow> printed" where
  "cli_usage docs fp program =
     map (Pair fp)
       ([nl @ ''Usage: '' @ c_basename program @ '' [options] [commands]'' @ nl @ nl,
         help_options, nl @ ''  Commands:'' @ nl]
        @ map (\<lambda>d. ''    '' @ left_pad 25 (ci_name d) @ '' '' @ ci_summary d @ nl) docs
        @ [nl, ''  (specify help <command> for details about the command)'' @ nl, nl])"

text \<open>
  The registration of \<open>on_voip_event\<close> that follows is refused by the library
  (\<open>remote_register_event_handler\<close>), and the refusal is ignored.
\<close>

definition cli_init :: "'w cmd_env \<Rightarrow> 'w client_env \<Rightarrow> cli \<Rightarrow> 'w \<Rightarrow> int \<times> printed \<times> cli \<times> 'w" where
  "cli_init X E cli w =
     (let (err, client, w) =
            remote_init E (Some (cli_client cli)) (Some (cli_hostname cli)) (Some (cli_service cli)) w;
          cli = cli\<lparr>cli_client := the client\<rparr>
      in if err < 0
         then (err, [(Stderr, ''remote_init(): '' @ c_strerror X (- err) @ nl)], cli, w)
         else (0, [], cli, w))"

section \<open>The command line\<close>

text \<open>The name of an option, whether it has an argument, and its letter.\<close>

definition options :: "(string \<times> bool \<times> char) list" where
  "options = [(''help'', False, CHR ''h''), (''host'', True, CHR ''H''), (''port'', True, CHR ''p''),
     (''quiet'', False, CHR ''q''), (''verbose'', False, CHR ''v''), (''version'', False, CHR ''V'')]"

record 'w main_env =
  c_getopt_long :: "string list \<Rightarrow> string \<Rightarrow> (string \<times> bool \<times> char) list
    \<Rightarrow> (char \<times> string) list \<times> nat \<times> string list"
  c_add_history :: "string \<Rightarrow> 'w \<Rightarrow> 'w"
  enable_nls :: bool
  c_setlocale_ok :: bool
  c_bindtextdomain_ok :: bool
  c_textdomain_ok :: bool
  c_perror :: "string \<Rightarrow> string"
  version :: string

text \<open>The switch over one option: the help and version flags, what is printed, the context.\<close>

fun apply_option ::
  "char \<times> string \<Rightarrow> bool \<times> bool \<times> printed \<times> cli \<Rightarrow> bool \<times> bool \<times> printed \<times> cli" where
  "apply_option (opt, optarg) (help, ver, out, cli) =
     (if opt = CHR ''h'' then (True, ver, out, cli)
      else if opt = CHR ''H'' then (help, ver, out, cli\<lparr>cli_hostname := optarg\<rparr>)
      else if opt = CHR ''p'' then (help, ver, out, cli\<lparr>cli_service := optarg\<rparr>)
      else if opt = CHR ''q'' then (help, ver, out, cli\<lparr>cli_quiet := 1\<rparr>)
      else if opt = CHR ''v'' then (help, ver, out, cli\<lparr>cli_verbose := cli_verbose cli + 1\<rparr>)
      else if opt = CHR ''V'' then (help, True, out, cli)
      else (help, ver, out @ [(Stderr, ''unsupported option '' @ [CHR 0x27] @ ''-'' @ [opt] @ [CHR 0x27]
             @ ''. See --help.'' @ nl)], cli))"

definition cli_parse_command_line ::
  "'w main_env \<Rightarrow> cmd_info list \<Rightarrow> bool \<Rightarrow> cli \<Rightarrow> string list \<Rightarrow> c_ub + int \<times> printed \<times> cli" where
  "cli_parse_command_line M docs cmem cli argv =
     (let (opts, optind, argv) = c_getopt_long M argv ''H:hp:qvV'' options;
          (help, ver, out, cli) = fold apply_option opts (False, False, [], cli)
      in
      if help then Inr (1, out @ cli_usage docs Stdout (hd argv), cli)
      else if ver
      then Inr (1, out @ [(Stdout, c_basename (hd argv) @ '' '' @ version M @ nl)], cli)
      else if length argv > optind
      then bind_ub (slice_strdup cmem (Some (map Some argv)) (int optind) (int (length argv))) (\<lambda>slice.
        Inr (0, out, cli\<lparr>cli_argv := slice, cli_argc := int (length argv) - int optind\<rparr>))
      else Inr (0, out, cli))"

section \<open>The main function\<close>

text \<open>One line of the interactive client; an empty one is skipped.\<close>

definition run_line ::
  "'w command list \<Rightarrow> 'w cmd_env \<Rightarrow> bool \<Rightarrow> cli \<Rightarrow> string \<Rightarrow> 'w \<Rightarrow> c_ub + printed \<times> cli \<times> 'w" where
  "run_line cmds X cmem cli line w =
     (if line = [] then Inr ([], cli, w)
      else bind_ub (cli_parse_command (c_malloc_ok X) cmem cli line) (\<lambda>(err, cli).
        if err \<ge> 0
        then bind_ub (cli_exec cmds X cli w) (\<lambda>(_, out, w). Inr (out, cli, w))
        else Inr ([], cli, w)))"

definition readline_add_history :: "'w main_env \<Rightarrow> string \<Rightarrow> 'w \<Rightarrow> 'w" where
  "readline_add_history M line w = c_add_history M line w"

fun run_lines ::
  "'w main_env \<Rightarrow> 'w command list \<Rightarrow> 'w cmd_env \<Rightarrow> bool \<Rightarrow> cli \<Rightarrow> string list \<Rightarrow> 'w
    \<Rightarrow> c_ub + printed \<times> cli \<times> 'w" where
  "run_lines M cmds X cmem cli [] w = Inr ([(Stdout, nl)], cli, w)"
| "run_lines M cmds X cmem cli (line # lines) w =
     (let w = (if line = [] then w else readline_add_history M line w) in
      bind_ub (run_line cmds X cmem cli line w) (\<lambda>(out, cli, w).
      bind_ub (run_lines M cmds X cmem cli lines w) (\<lambda>(out', cli, w). Inr (out @ out', cli, w))))"

text \<open>The calls for the translation of messages: whether to go on, and what is printed.\<close>

definition start_locale :: "'w main_env \<Rightarrow> bool \<times> printed" where
  "start_locale M =
     (if \<not> enable_nls M then (True, [])
      else
        let out = (if c_setlocale_ok M then [] else [(Stderr, c_perror M ''setlocale'')]) in
        if \<not> c_bindtextdomain_ok M then (False, out @ [(Stderr, c_perror M ''bindtextdomain'')])
        else if \<not> c_textdomain_ok M then (False, out @ [(Stderr, c_perror M ''textdomain'')])
        else (True, out))"

text \<open>The exit code. \<open>lines\<close> are the lines of the input up to its end.\<close>

definition main ::
  "'w command list \<Rightarrow> 'w cmd_env \<Rightarrow> 'w client_env \<Rightarrow> 'w main_env \<Rightarrow> bool \<Rightarrow> string list \<Rightarrow> string list \<Rightarrow> 'w
    \<Rightarrow> c_ub + int \<times> printed \<times> 'w" where
  "main cmds X E M cmem argv lines w =
     (let docs = map fst cmds;
          (go, out0) = start_locale M
      in
      if \<not> go then Inr (1, out0, w)
      else case cli_new cmem of
        None \<Rightarrow> Inr (1, out0 @ [(Stderr, ''failed to allocate application context'' @ nl)], w)
      | Some cli \<Rightarrow>
          bind_ub (cli_parse_command_line M docs cmem cli argv) (\<lambda>(err, out, cli).
            if err < 0
            then bind_ub (cli_free E (Some cli) w) (\<lambda>(_, w).
              Inr (1, out0 @ out @ cli_usage docs Stderr (hd argv), w))
            else if err \<noteq> 0 then Inr (0, out0 @ out, w)
            else
              let (err, out', cli, w) = cli_init X E cli w in
              if err < 0
              then bind_ub (cli_free E (Some cli) w) (\<lambda>(_, w).
                Inr (1, out0 @ out @ out' @ [(Stderr, ''shctl_init(): '' @ c_strerror X (- err) @ nl)], w))
              else if cli_argc cli = 0
              then bind_ub (run_lines M cmds X cmem cli lines w) (\<lambda>(out'', cli, w).
                bind_ub (cli_free E (Some cli) w) (\<lambda>(_, w). Inr (0, out0 @ out @ out' @ out'', w)))
              else bind_ub (cli_exec cmds X cli w) (\<lambda>(_, out'', w).
                bind_ub (cli_free E (Some cli) w) (\<lambda>(_, w). Inr (0, out0 @ out @ out' @ out'', w)))))"

section \<open>The order of the commands\<close>

lemma find_mset:
  assumes "distinct (map f xs)" "mset xs = mset ys"
  shows "find (\<lambda>x. f x = n) xs = find (\<lambda>x. f x = n) ys"
proof -
  have s: "set xs = set ys" using assms(2) by (rule mset_eq_setD)
  have "distinct (map f ys)"
    using assms(1) mset_eq_imp_distinct_iff [of "map f xs" "map f ys"] assms(2) by simp
  then have inj: "inj_on f (set ys)" by (simp add: distinct_map)
  show ?thesis
  proof (cases "find (\<lambda>x. f x = n) ys")
    case None
    then have "find (\<lambda>x. f x = n) xs = None" using s unfolding find_None_iff by simp
    then show ?thesis using None by simp
  next
    case (Some y)
    then have y: "y \<in> set ys" "f y = n" by (auto simp: find_Some_iff)
    then obtain x where x: "find (\<lambda>x. f x = n) xs = Some x"
      using s by (cases "find (\<lambda>x. f x = n) xs") (auto simp: find_None_iff)
    then have "x \<in> set ys" "f x = n" using s by (auto simp: find_Some_iff)
    then show ?thesis using x y inj Some by (auto dest: inj_onD)
  qed
qed

lemma command_names_distinct: "distinct (map (ci_name \<circ> fst) command_table)"
  by (simp add: command_table_def command_defs info_def)

lemma find_command_order:
  "mset cmds = mset command_table \<Longrightarrow>
    find (\<lambda>cmd. ci_name (fst cmd) = name) cmds = find (\<lambda>cmd. ci_name (fst cmd) = name) command_table"
  using find_mset [OF command_names_distinct, of cmds name] by simp

text \<open>The vector of a line whose quotes are closed, and the name it starts with.\<close>

definition line_args :: "string \<Rightarrow> string list" where
  "line_args line = map (plain None) (tokens None [] line)"

lemma parse_line:
  assumes "open_quote None line = None" "NUL \<notin> set line" "\<And>n. mok n"
  shows "cli_parse_command mok True cli line
    = Inr (int (length (line_args line)),
        cli\<lparr>cli_argv := Some (map Some (line_args line)), cli_argc := int (length (line_args line))\<rparr>)"
proof -
  have "open_quote None t = None \<and> NUL \<notin> set t" if "t \<in> set (tokens None [] line)" for t
    using that assms tokens_closed [of "[]" None line t] tokens_chars [of t None "[]" line] by auto
  from store_tokens_closed [OF this assms(3), where pre = "[]" and ts = "tokens None [] line"]
  show ?thesis by (simp add: cli_parse_command_eq line_args_def comp_def Let_def)
qed

lemma argp_first: "argp (map Some xs) 0 = (case xs of [] \<Rightarrow> None | x # _ \<Rightarrow> Some x)"
  by (simp add: argp_def split: list.split)

section \<open>Completion offers the matching names\<close>

lemma completion_matches_rest:
  assumes "(if k = 0 then (cmds, length txt) else st) = (rest, length txt)" "length rest < n"
  shows "completion_matches n cmds txt k st
      = filter (\<lambda>name. take (length txt) name = txt) (map (ci_name \<circ> fst) rest)"
  using assms
proof (induction n arbitrary: rest k st)
  case (Suc n)
  let ?ne = "\<lambda>cmd. take (length txt) (ci_name (fst cmd)) \<noteq> txt"
  let ?match = "\<lambda>cs. filter (\<lambda>name. take (length txt) name = txt) (map (ci_name \<circ> fst) cs)"
  have "?match rest = ?match (takeWhile ?ne rest) @ ?match (dropWhile ?ne rest)"
    by (simp flip: filter_append map_append)
  moreover have "?match (takeWhile ?ne rest) = []"
    by (auto simp: filter_empty_conv dest: set_takeWhileD)
  ultimately have drop: "?match rest = ?match (dropWhile ?ne rest)" by simp
  have gen: "readline_command_generator cmds txt k st = (case dropWhile ?ne rest of
      cmd # r \<Rightarrow> (Some (ci_name (fst cmd)), (r, length txt)) | [] \<Rightarrow> (None, ([], length txt)))"
    using Suc.prems(1) by (simp add: readline_command_generator_def)
  show ?case
  proof (cases "dropWhile ?ne rest")
    case Nil
    then show ?thesis using gen drop by (simp only: completion_matches.simps) simp
  next
    case (Cons cmd r)
    then have "take (length txt) (ci_name (fst cmd)) = txt" "length r < n"
      using hd_dropWhile [of ?ne rest] length_dropWhile_le [of ?ne rest] Suc.prems(2) by auto
    then show ?thesis using Suc.IH [of "Suc k" "(r, length txt)" r] drop Cons gen
      by (simp only: completion_matches.simps) (simp add: comp_def)
  qed
qed simp

text \<open>C28: completion of the first word offers the names of exactly the commands that begin with
  the text, each as often as it is in the table and in the table's order, whatever an earlier
  completion has left in the static variables of the generator; and it ends: calls beyond one
  more than there are commands find nothing new.\<close>

theorem completion_matches_all:
  "completion_matches (Suc (length cmds + k)) cmds txt 0 st
     = filter (\<lambda>name. take (length txt) name = txt) (map (ci_name \<circ> fst) cmds)"
  by (rule completion_matches_rest) simp_all

section \<open>The connection\<close>

lemma cli_exec_keeps:
  assumes "commands_keep live X cmds" "cli_exec cmds X cli w = Inr (r, out, w')"
  shows "live w' = live w"
proof -
  obtain argv name where n: "cli_argv cli = Some argv" "argp argv 0 = Some name"
    using assms(2) by (auto simp: cli_exec_def bind_ub_Inr deref_Inr)
  show ?thesis
  proof (cases "find (\<lambda>cmd. ci_name (fst cmd) = name) cmds")
    case None
    then show ?thesis using assms(2) n by (simp add: cli_exec_def)
  next
    case (Some cmd)
    then have "cmd \<in> set cmds" by (auto simp: find_Some_iff)
    then have "keeps live w (snd cmd (map fst cmds) X (cli_client cli) argv w)"
      using assms(1) by (simp add: commands_keep_def)
    then show ?thesis using keepsD assms(2) n Some by (simp add: cli_exec_def)
  qed
qed

lemma cli_parse_command_client:
  "cli_parse_command mok cmem cli line = Inr (r, cli') \<Longrightarrow> cli_client cli' = cli_client cli"
  by (auto simp: cli_parse_command_def bind_ub_Inr Let_def split: if_splits)

lemma run_line_keeps:
  assumes "commands_keep live X cmds" "run_line cmds X cmem cli line w = Inr (out, cli', w')"
  shows "live w' = live w \<and> cli_client cli' = cli_client cli"
  using assms(2) cli_exec_keeps [OF assms(1)] cli_parse_command_client
  by (fastforce simp: run_line_def bind_ub_Inr split: if_splits)

lemma run_lines_keep:
  assumes "commands_keep live X cmds" "\<And>line w. live (c_add_history M line w) = live w"
    and "run_lines M cmds X cmem cli lines w = Inr (out, cli', w')"
  shows "live w' = live w \<and> cli_client cli' = cli_client cli"
  using assms(3)
proof (induction lines arbitrary: cli w out)
  case (Cons line lines)
  let ?w = "if line = [] then w else readline_add_history M line w"
  obtain out1 cli1 w1 out2 where
    "run_line cmds X cmem cli line ?w = Inr (out1, cli1, w1)"
    "run_lines M cmds X cmem cli1 lines w1 = Inr (out2, cli', w')"
    using Cons.prems by (auto simp: bind_ub_Inr Let_def)
  then have "live w' = live ?w \<and> cli_client cli' = cli_client cli"
    using Cons.IH run_line_keeps [OF assms(1)] by metis
  then show ?case by (simp add: readline_add_history_def assms(2))
qed simp

lemma cli_parse_command_line_client:
  assumes "cli_parse_command_line M docs cmem cli argv = Inr (err, out, cli')"
  shows "cli_client cli' = cli_client cli \<and> (err = 0 \<or> err = 1)"
proof -
  have opt: "cli_client (snd (snd (snd (apply_option opt st)))) = cli_client (snd (snd (snd st)))" for opt st
    by (cases opt, cases st) simp
  have "cli_client (snd (snd (snd (fold apply_option opts st)))) = cli_client (snd (snd (snd st)))" for opts st
    by (induction opts arbitrary: st) (simp_all only: fold_simps opt)
  note opts = this
  obtain opts optind av where g: "c_getopt_long M argv ''H:hp:qvV'' options = (opts, optind, av)" by (metis prod_cases3)
  obtain hlp ver o' c' where f: "fold apply_option opts (False, False, [], cli) = (hlp, ver, o', c')"
    by (metis prod_cases4)
  have "cli_client c' = cli_client cli" using opts [of opts "(False, False, [], cli)"] f by simp
  then show ?thesis
    using assms by (auto simp: cli_parse_command_line_def g f bind_ub_Inr split: if_splits)
qed

section \<open>The property\<close>

lemma line_args_empty: "line_args line = [] \<longleftrightarrow> (\<forall>c \<in> set line. isspace c)"
proof -
  have keep: "tokens q t s \<noteq> []" if "t \<noteq> []" for q t s
    using that by (induction q t s rule: tokens.induct) auto
  have "tokens None [] s = [] \<longleftrightarrow> (\<forall>c \<in> set s. isspace c)" for s
  proof (induction s)
    case (Cons c s)
    have "is_quote c \<Longrightarrow> \<not> isspace c" by (auto simp: is_quote_def isspace_def)
    then show ?case using Cons keep by auto
  qed simp
  then show ?thesis by (simp add: line_args_def)
qed

lemma run_line_eq:
  assumes "mset cmds = mset command_table" "line \<noteq> []" "open_quote None line = None"
    "NUL \<notin> set line" "\<And>n. c_malloc_ok X n"
  shows "run_line cmds X True cli line w =
    (let args = line_args line;
         cli' = cli\<lparr>cli_argv := Some (map Some args), cli_argc := int (length args)\<rparr> in
     case args of
       [] \<Rightarrow> Inl NullDeref
     | name # _ \<Rightarrow>
         (case find (\<lambda>cmd. ci_name (fst cmd) = name) command_table of
            Some cmd \<Rightarrow> bind_ub (snd cmd (map fst cmds) X (cli_client cli) (map Some args) w)
              (\<lambda>(_, out, w). Inr (out, cli', w))
          | None \<Rightarrow> Inr (say (name @ '': command not found''), cli', w)))"
proof -
  have "cli_exec cmds X (cli\<lparr>cli_argv := Some (map Some args), cli_argc := n\<rparr>) w =
    (case args of
       [] \<Rightarrow> Inl NullDeref
     | name # _ \<Rightarrow>
         (case find (\<lambda>cmd. ci_name (fst cmd) = name) command_table of
            Some cmd \<Rightarrow> snd cmd (map fst cmds) X (cli_client cli) (map Some args) w
          | None \<Rightarrow> Inr (- ENOSYS, say (name @ '': command not found''), w)))" for args n
    using find_command_order [OF assms(1)]
    by (simp add: cli_exec_def deref_def argp_first bind_ub_def split: list.split option.split)
  note exec = this
  show ?thesis
    using assms(2) exec parse_line [OF assms(3,4), of "c_malloc_ok X" cli, OF assms(5)]
    by (auto simp: run_line_def Let_def bind_ub_def split: list.split option.split)
qed

lemma cli_free_world:
  "cli_free E (Some c) u = bind_ub (remote_exit E (cli_client c) u) (\<lambda>(_, w). Inr (0, w))"
  by (simp add: cli_free_def)

text \<open>A session, from the connection on: the commands, then the exit of the client.\<close>

lemma main_session:
  assumes keep: "commands_keep live X cmds" and hist: "\<And>line w. live (c_add_history M line w) = live w"
    and m: "main cmds X E M cmem argv lines w = Inr (r, out, w')" and go: "start_locale M = (True, out0)"
    and new: "cli_new cmem = Some cli0"
    and p: "cli_parse_command_line M (map fst cmds) cmem cli0 argv = Inr (0, out1, cli)"
    and i: "cli_init X E cli w = (e, out2, cli1, w1)" "0 \<le> e"
  shows "\<exists>w2 x. live w2 = live w1 \<and> remote_exit E (cli_client cli1) w2 = Inr (x, w') \<and> r = 0"
proof (cases "cli_argc cli1 = 0")
  case True
  then obtain o2 cli2 w2 x where l: "run_lines M cmds X cmem cli1 lines w1 = Inr (o2, cli2, w2)"
      "remote_exit E (cli_client cli2) w2 = Inr (x, w')" "r = 0"
    using m go new p i by (auto simp: main_def bind_ub_Inr cli_free_world)
  then show ?thesis using run_lines_keep [OF keep hist l(1)] by auto
next
  case False
  then obtain a o2 w2 x where l: "cli_exec cmds X cli1 w1 = Inr (a, o2, w2)"
      "remote_exit E (cli_client cli1) w2 = Inr (x, w')" "r = 0"
    using m go new p i by (auto simp: main_def bind_ub_Inr cli_free_world)
  then show ?thesis using cli_exec_keeps [OF keep l(1)] by auto
qed

lemma cli_init_result:
  assumes ok: "clients_ok E live" and c: "cli_client cli = NULL"
    and i: "cli_init X E cli w = (e, out, cli1, w1)"
  shows "(e < 0 \<and> cli_client cli1 = NULL \<and> live w1 = live w)
    \<or> (e = 0 \<and> cli_client cli1 \<noteq> NULL \<and> rpc_client_from_priv E (cli_client cli1) \<in> live w1
       \<and> live w1 - {rpc_client_from_priv E (cli_client cli1)} = live w)"
proof -
  obtain e' cp w2 where ri: "remote_init E (Some NULL) (Some (cli_hostname cli)) (Some (cli_service cli)) w
      = (e', cp, w2)" by (metis prod_cases3)
  have r: "e = (if e' < 0 then e' else 0)" "cli_client cli1 = the cp" "w1 = w2"
    using i c ri by (auto simp: cli_init_def Let_def split: if_splits)
  from remote_init_result [OF ok ri] show ?thesis
  proof
    assume "e' < 0 \<and> cp = Some NULL \<and> live w2 = live w"
    then show ?thesis by (simp add: r)
  next
    assume "e' = 0 \<and> (\<exists>c. cp = Some c \<and> c \<noteq> NULL \<and> rpc_client_from_priv E c \<notin> live w
         \<and> live w2 = insert (rpc_client_from_priv E c) (live w))"
    then show ?thesis by (elim conjE exE) (simp add: r)
  qed
qed

text \<open>When the connection is tried: the command line has been parsed and asks for neither the
  help nor the version.\<close>

definition connects ::
  "'w main_env \<Rightarrow> cmd_info list \<Rightarrow> bool \<Rightarrow> string list \<Rightarrow> cli \<Rightarrow> bool" where
  "connects M docs cmem argv cli \<longleftrightarrow> (\<exists>cli0 out.
     cli_new cmem = Some cli0 \<and> cli_parse_command_line M docs cmem cli0 argv = Inr (0, out, cli))"

lemma main_connected:
  assumes ok: "clients_ok E live" and keep: "commands_keep live X cmds"
    and hist: "\<And>line w. live (c_add_history M line w) = live w"
    and m: "main cmds X E M cmem argv lines w = Inr (r, out, w')"
    and go: "start_locale M = (True, out0)" and new: "cli_new cmem = Some cli0"
    and p: "cli_parse_command_line M (map fst cmds) cmem cli0 argv = Inr (0, out1, cli)"
  shows "live w' = live w \<and> r = (if fst (cli_init X E cli w) < 0 then 1 else 0)"
proof -
  obtain e out2 cli1 w1 where i: "cli_init X E cli w = (e, out2, cli1, w1)" by (metis prod_cases4)
  have "cli_client cli0 = NULL" using new by (auto simp: cli_new_def split: if_splits)
  then have "cli_client cli = NULL" using cli_parse_command_line_client [OF p] by simp
  from cli_init_result [OF ok this i] show ?thesis
  proof
    assume "e < 0 \<and> cli_client cli1 = NULL \<and> live w1 = live w"
    then show ?thesis using m go new p i
      by (auto simp: main_def cli_free_world remote_exit_def)
  next
    assume e: "e = 0 \<and> cli_client cli1 \<noteq> NULL \<and> rpc_client_from_priv E (cli_client cli1) \<in> live w1
       \<and> live w1 - {rpc_client_from_priv E (cli_client cli1)} = live w"
    then obtain w2 x where w2: "live w2 = live w1" "remote_exit E (cli_client cli1) w2 = Inr (x, w')" "r = 0"
      using main_session [OF keep hist m go new p i] by auto
    then show ?thesis using e i remote_exit_frees [OF ok _ _ w2(2)] by simp
  qed
qed

text \<open>C18: the client never leaks its connection. With the commands of the file in any order,
  whose stubs allocate and free no client, whatever the command line and the input are and
  whatever the commands answer: if \<^verbatim>\<open>main\<close> returns, the clients of librpc that are allocated are
  those there were before, and its exit code is 1 exactly when the translation of messages or
  the context can not be set up, or the connection that the command line asks for fails; it is 0
  in every other case, so the failure of a command never shows in it.\<close>

theorem main_frees_client:
  assumes ok: "clients_ok E live" and stubs: "stubs_keep live X" "mset cmds = mset command_table"
    and hist: "\<And>line w. live (c_add_history M line w) = live w"
    and m: "main cmds X E M cmem argv lines w = Inr (r, out, w')"
  shows "live w' = live w
    \<and> r = (if \<not> fst (start_locale M) \<or> cli_new cmem = None
             \<or> (\<exists>cli. connects M (map fst cmds) cmem argv cli \<and> fst (cli_init X E cli w) < 0)
           then 1 else 0)"
proof (cases "fst (start_locale M) \<and> cli_new cmem \<noteq> None")
  case False
  then show ?thesis using m
    by (cases "start_locale M"; cases "fst (start_locale M)"; cases "cli_new cmem")
      (simp_all add: main_def)
next
  case True
  then obtain out0 cli0 where go: "start_locale M = (True, out0)" and new: "cli_new cmem = Some cli0"
    by (cases "start_locale M") auto
  obtain err out1 cli where p: "cli_parse_command_line M (map fst cmds) cmem cli0 argv = Inr (err, out1, cli)"
    using m new go by (auto simp: main_def bind_ub_Inr Let_def)
  show ?thesis
  proof (cases "err = 0")
    case False
    then show ?thesis using m new go p cli_parse_command_line_client [OF p]
      by (auto simp: main_def connects_def)
  next
    case err: True
    then have c: "connects M (map fst cmds) cmem argv x \<longleftrightarrow> x = cli" for x
      using new p by (auto simp: connects_def)
    show ?thesis using main_connected [OF ok command_table_keeps [OF stubs] hist m go new] p err go new
      by (simp add: c)
  qed
qed

definition ex_main_env :: "'w main_env" where
  "ex_main_env = \<lparr>c_getopt_long = (\<lambda>argv short long. ([], 1, argv)), c_add_history = (\<lambda>line w. w),
     enable_nls = True, c_setlocale_ok = True, c_bindtextdomain_ok = True, c_textdomain_ok = True,
     c_perror = (\<lambda>s. s), version = ''1.0''\<rparr>"

lemma quiet_stubs_keep: "stubs_keep live quiet_env"
  by (simp add: stubs_keep_def quiet_env_def audio_stubs_keep_def mixer_stubs_keep_def
      backlight_stubs_keep_def lldp_stubs_keep_def media_stubs_keep_def sound_stubs_keep_def
      modem_stubs_keep_def card_stubs_keep_def task_stubs_keep_def voip_stubs_keep_def
      tuner_stubs_keep_def handset_stubs_keep_def gpio_stubs_keep_def irq_stubs_keep_def
      quiet_audio_def quiet_mixer_def quiet_backlight_def quiet_lldp_def quiet_media_def
      quiet_sound_def quiet_modem_def quiet_card_def quiet_task_def quiet_voip_def quiet_tuner_def
      quiet_handset_def quiet_gpio_def quiet_irq_def)

text \<open>A command that fails: \<^verbatim>\<open>sound-play\<close> without the name of a file; the exit code is 0.\<close>

theorem main_frees_client_witness:
  "\<exists>w' out. main (rev command_table) quiet_env (ex_client_env 0) ex_main_env True
      [''shctl'', ''sound-play''] [] ([3], False) = Inr (0, out, w') \<and> set (fst w') = {3}"
proof -
  have m: "mset (rev command_table) = mset (command_table :: (ptr list \<times> bool) command list)" by simp
  have f: "map_option snd (find (\<lambda>cmd. ci_name (fst cmd) = ''sound-play'')
      (command_table :: (ptr list \<times> bool) command list)) = Some (\<lambda>docs. exec_sound_play)"
    by (simp add: command_table_def command_defs info_def)
  then obtain a where a: "find (\<lambda>cmd. ci_name (fst cmd) = ''sound-play'')
      (rev (command_table :: (ptr list \<times> bool) command list)) = Some (a, \<lambda>docs. exec_sound_play)"
    using find_command_order [OF m] by auto
  obtain w' out where r: "main (rev command_table) quiet_env (ex_client_env 0) ex_main_env True
      [''shctl'', ''sound-play''] [] ([3], False) = Inr (0, out, w')"
    using a
    by (simp add: main_def cli_new_def cli_parse_command_line_def ex_main_env_def start_locale_def
        slice_strdup_def cli_init_def remote_init_def ex_client_env_def cli_exec_def argp_def
        exec_sound_play_def cli_free_def remote_exit_def join_thread_def del: rev_map)
  have hist: "set (fst (c_add_history ex_main_env line w)) = set (fst w)"
    for line and w :: "ptr list \<times> bool" by (simp add: ex_main_env_def)
  from main_frees_client [OF ex_clients_ok quiet_stubs_keep m hist r] r show ?thesis by simp
qed

text \<open>C9: a line of the interactive client whose quotes are closed runs the command its
  first word names, once, with its words as arguments and on the connection, and prints what
  that command prints, in whatever order the linker put the commands; an unknown name is
  answered with a message and changes nothing; a line of white space alone, which is not
  skipped as the empty line is, crashes the client.\<close>

theorem run_line_dispatch:
  assumes "mset cmds = mset command_table" "line \<noteq> []" "open_quote None line = None"
    "NUL \<notin> set line" "\<And>n. c_malloc_ok X n"
  shows "run_line cmds X True cli line w =
    (let args = line_args line;
         cli' = cli\<lparr>cli_argv := Some (map Some args), cli_argc := int (length args)\<rparr> in
     case args of
       [] \<Rightarrow> Inl NullDeref
     | name # _ \<Rightarrow>
         (case find (\<lambda>cmd. ci_name (fst cmd) = name) command_table of
            Some cmd \<Rightarrow> bind_ub (snd cmd (map fst cmds) X (cli_client cli) (map Some args) w)
              (\<lambda>(_, out, w). Inr (out, cli', w))
          | None \<Rightarrow> Inr (say (name @ '': command not found''), cli', w)))
   \<and> (line_args line = [] \<longleftrightarrow> (\<forall>c \<in> set line. isspace c))"
  using run_line_eq [OF assms] line_args_empty by blast

theorem run_line_dispatch_witness:
  "run_line (rev command_table) quiet_env True ex_cli ''voip-terminate now'' (0 :: nat)
      = Inr ([],
          ex_cli\<lparr>cli_argv := Some [Some ''voip-terminate'', Some ''now''], cli_argc := 2\<rparr>, 0)
   \<and> run_line (rev command_table) quiet_env True ex_cli ''ring'' (0 :: nat)
      = Inr (say (''ring: command not found''),
          ex_cli\<lparr>cli_argv := Some [Some ''ring''], cli_argc := 1\<rparr>, 0)
   \<and> run_line (rev command_table) quiet_env True ex_cli ''  '' (0 :: nat) = Inl NullDeref"
proof -
  have m: "mset (rev command_table) = mset command_table" by simp
  have q: "c_malloc_ok quiet_env n" for n by simp
  have l: "open_quote None ''voip-terminate now'' = None" "NUL \<notin> set ''voip-terminate now''"
      "open_quote None ''ring'' = None" "NUL \<notin> set ''ring''"
      "open_quote None ''  '' = None" "NUL \<notin> set ''  ''"
      "line_args ''voip-terminate now'' = [''voip-terminate'', ''now'']" "line_args ''ring'' = [''ring'']"
      "line_args ''  '' = []"
    by (simp_all add: is_quote_def NUL_def line_args_def isspace_def)
  have f: "map_option snd (find (\<lambda>cmd. ci_name (fst cmd) = ''voip-terminate'') (command_table :: nat command list))
        = Some (\<lambda>docs. exec_voip_terminate)"
      "find (\<lambda>cmd. ci_name (fst cmd) = ''ring'') (command_table :: nat command list) = None"
    by (simp_all add: command_table_def command_defs info_def)
  have e: "exec_voip_terminate quiet_env 1 [Some ''voip-terminate'', Some ''now''] (0 :: nat)
      = Inr (0, [], 0)"
    by (simp add: exec_voip_terminate_def report_def remote_voip_disconnect_def quiet_env_def quiet_voip_def)
  have c: "cli_client ex_cli = 1" by (simp add: ex_cli_def)
  from f(1) obtain a where a: "find (\<lambda>cmd. ci_name (fst cmd) = ''voip-terminate'') (command_table :: nat command list)
      = Some (a, \<lambda>docs. exec_voip_terminate)" by auto
  note run = run_line_dispatch [OF m _ _ _ q, of _ ex_cli "0 :: nat", THEN conjunct1]
  show ?thesis
    using run [OF _ l(1,2)] run [OF _ l(3,4)] run [OF _ l(5,6)] a e f(2)
    by (simp add: l c bind_ub_def Let_def del: rev_map)
qed

end
