(* ===== verification/Quoting.thy ===== *)
theory Quoting
  imports Cli_Main
begin

text \<open>
  The spellings of a line for the shell of \<^verbatim>\<open>src/bin/main.c\<close>: a word is a sequence of bare
  pieces and pieces in single or in double quotes, in any mix; words are separated by white space
  of any amount. Shown: the shell reads from every spelling exactly the words it stands for. The
  characters are written out here, so that the statements do not rest on what the shell takes for
  a quote.
\<close>

section \<open>Pieces, words, lines\<close>

datatype segment = Bare string | Single string | Double string

fun segment_text :: "segment \<Rightarrow> string" where
  "segment_text (Bare s) = s"
| "segment_text (Single s) = [CHR 0x27] @ s @ [CHR 0x27]"
| "segment_text (Double s) = [CHR 0x22] @ s @ [CHR 0x22]"

fun segment_value :: "segment \<Rightarrow> string" where
  "segment_value (Bare s) = s"
| "segment_value (Single s) = s"
| "segment_value (Double s) = s"

text \<open>A single quote may stand in double quotes and the other way round, white space in both.\<close>

fun segment_ok :: "segment \<Rightarrow> bool" where
  "segment_ok (Bare s) \<longleftrightarrow> (\<forall>c \<in> set s. c \<notin> {NUL, CHR 0x22, CHR 0x27} \<and> \<not> isspace c)"
| "segment_ok (Single s) \<longleftrightarrow> (\<forall>c \<in> set s. c \<notin> {NUL, CHR 0x27})"
| "segment_ok (Double s) \<longleftrightarrow> (\<forall>c \<in> set s. c \<notin> {NUL, CHR 0x22})"

type_synonym spelled_word = "segment list"

definition word_text :: "spelled_word \<Rightarrow> string" where
  "word_text v = concat (map segment_text v)"

definition word_value :: "spelled_word \<Rightarrow> string" where
  "word_value v = concat (map segment_value v)"

definition word_ok :: "spelled_word \<Rightarrow> bool" where
  "word_ok v \<longleftrightarrow> list_all segment_ok v \<and> word_text v \<noteq> []"

text \<open>A line: what stands before the first word, and the words, each with what stands behind it.\<close>

type_synonym spelled_line = "string \<times> (spelled_word \<times> string) list"

fun words_text :: "(spelled_word \<times> string) list \<Rightarrow> string" where
  "words_text [] = []"
| "words_text ((v, gap) # vs) = word_text v @ gap @ words_text vs"

fun words_ok :: "(spelled_word \<times> string) list \<Rightarrow> bool" where
  "words_ok [] \<longleftrightarrow> True"
| "words_ok ((v, gap) # vs) \<longleftrightarrow>
     word_ok v \<and> list_all isspace gap \<and> (gap = [] \<longrightarrow> vs = []) \<and> words_ok vs"

definition line_text :: "spelled_line \<Rightarrow> string" where
  "line_text l = fst l @ words_text (snd l)"

definition line_ok :: "spelled_line \<Rightarrow> bool" where
  "line_ok l \<longleftrightarrow> list_all isspace (fst l) \<and> words_ok (snd l)"

definition line_words :: "spelled_line \<Rightarrow> string list" where
  "line_words l = map (word_value \<circ> fst) (snd l)"

text \<open>\<open>l\<close> spells the words \<open>args\<close>.\<close>

definition spells :: "spelled_line \<Rightarrow> string list \<Rightarrow> bool" where
  "spells l args \<longleftrightarrow> line_ok l \<and> line_words l = args"

section \<open>Reading a piece\<close>

lemma quoted_piece:
  assumes "\<forall>c \<in> set s. c \<noteq> q"
  shows "tokens (Some q) t (s @ rest) = tokens (Some q) (t @ s) rest"
    and "plain (Some q) s = s" "open_quote (Some q) s = Some q"
  using assms by (induction s arbitrary: t) (auto simp: toggle_quote_def)

lemma quoted_segment:
  assumes "\<forall>c \<in> set s. c \<noteq> q" "is_quote q"
  shows "tokens None t ([q] @ s @ [q] @ rest) = tokens None (t @ [q] @ s @ [q]) rest"
    and "plain None ([q] @ s @ [q]) = s" "open_quote None ([q] @ s @ [q]) = None"
  using quoted_piece(1) [OF assms(1), of "t @ [q]" "[q] @ rest"] quoted_piece(2,3) [OF assms(1)] assms(2)
  by (simp_all add: toggle_quote_def plain_append open_quote_append)

lemma quotes: "is_quote (CHR 0x22)" "is_quote (CHR 0x27)"
  by (simp_all add: is_quote_def)

lemma segment_reads:
  assumes "segment_ok sg"
  shows "tokens None t (segment_text sg @ rest) = tokens None (t @ segment_text sg) rest"
    and "plain None (segment_text sg) = segment_value sg"
    and "open_quote None (segment_text sg) = None" "NUL \<notin> set (segment_text sg)"
proof -
  have bare: "\<forall>c \<in> set s. \<not> is_quote c" "\<forall>c \<in> set s. \<not> isspace c" if "sg = Bare s" for s
    using assms that by (auto simp: is_quote_def)
  show "tokens None t (segment_text sg @ rest) = tokens None (t @ segment_text sg) rest"
    using assms bare tokens_quoted [of _ None t rest] quoted_segment(1) [OF _ quotes(1)]
      quoted_segment(1) [OF _ quotes(2)]
    by (cases sg) auto
  show "plain None (segment_text sg) = segment_value sg" "open_quote None (segment_text sg) = None"
    using assms bare plain_unquoted [of _ None] quoted_segment(2,3) [OF _ quotes(1)]
      quoted_segment(2,3) [OF _ quotes(2)]
    by (cases sg; auto)+
  show "NUL \<notin> set (segment_text sg)" using assms by (cases sg) (auto simp: NUL_def)
qed

section \<open>Reading a word and a line\<close>

lemma word_reads:
  assumes "list_all segment_ok v"
  shows "tokens None t (word_text v @ rest) = tokens None (t @ word_text v) rest"
    and "plain None (word_text v) = word_value v"
    and "open_quote None (word_text v) = None" "NUL \<notin> set (word_text v)"
  using assms
  by (induction v arbitrary: t)
    (simp_all add: word_text_def word_value_def segment_reads plain_append open_quote_append)

lemma gap_reads:
  assumes "list_all isspace gap"
  shows "tokens None [] (gap @ rest) = tokens None [] rest"
    and "open_quote None gap = None" "NUL \<notin> set gap"
proof -
  have "\<not> is_quote c" "c \<noteq> NUL" if "isspace c" for c
    using that by (auto simp: is_quote_def isspace_def NUL_def)
  then show "tokens None [] (gap @ rest) = tokens None [] rest" "open_quote None gap = None"
      "NUL \<notin> set gap"
    using assms by (induction gap) auto
qed

lemma gap_ends:
  assumes "list_all isspace gap" "gap \<noteq> []" "t \<noteq> []"
  shows "tokens None t (gap @ rest) = t # tokens None [] rest"
proof -
  obtain c g where g: "gap = c # g" using assms(2) by (cases gap) auto
  then have "\<not> is_quote c" "isspace c" using assms(1) by (auto simp: is_quote_def isspace_def)
  then show ?thesis using assms(1,3) gap_reads(1) [of g rest] by (simp add: g)
qed

lemma words_read:
  assumes "words_ok vs"
  shows "tokens None [] (words_text vs) = map (word_text \<circ> fst) vs"
    and "open_quote None (words_text vs) = None" "NUL \<notin> set (words_text vs)"
    and "map (plain None \<circ> word_text \<circ> fst) vs = map (word_value \<circ> fst) vs"
  using assms
proof (induction vs rule: words_ok.induct)
  case (2 v gap vs)
  { case 1
    then show ?case using 2(1) word_reads(1) [of v "[]"] word_reads(1) [of v "[]" "[]"]
        gap_ends [of gap "word_text v" "words_text vs"]
      by (cases "gap = []") (auto simp: word_ok_def)
  next
    case 2
    then show ?case using "2.IH"(2) word_reads(3) gap_reads(2)
      by (simp add: open_quote_append word_ok_def)
  next
    case 3
    then show ?case using "2.IH"(3) word_reads(4) gap_reads(3) by (simp add: word_ok_def)
  next
    case 4
    then show ?case using "2.IH"(4) word_reads(2) by (simp add: word_ok_def)
  }
qed simp_all

text \<open>The shell reads from a line the words that it spells.\<close>

lemma spelled_line_reads:
  assumes "spells l args"
  shows "line_args (line_text l) = args" "open_quote None (line_text l) = None"
    "NUL \<notin> set (line_text l)" "args \<noteq> [] \<Longrightarrow> line_text l \<noteq> []"
proof -
  have ok: "list_all isspace (fst l)" "words_ok (snd l)" "args = map (word_value \<circ> fst) (snd l)"
    using assms by (auto simp: spells_def line_ok_def line_words_def)
  show "line_args (line_text l) = args"
    using gap_reads(1) [OF ok(1)] words_read(1,4) [OF ok(2)] ok(3)
    by (simp add: line_args_def line_text_def comp_assoc)
  show "open_quote None (line_text l) = None" "NUL \<notin> set (line_text l)"
    using gap_reads(2,3) [OF ok(1)] words_read(2,3) [OF ok(2)]
    by (simp_all add: line_text_def open_quote_append)
  show "line_text l \<noteq> []" if "args \<noteq> []"
    using that ok(2,3) by (cases "snd l") (auto simp: line_text_def word_ok_def)
qed

end
