(* ===== verification/End_To_End.thy ===== *)
theory End_To_End
  imports Quoting
begin

text \<open>
  The program from one end to the other: a line typed at the client is split, looked up and
  run (\<^verbatim>\<open>src/bin/\<close>), the command calls the client library
  (\<^verbatim>\<open>src/src/rcrpc-client/\<close>), the stubs of the client are connected to the handlers of
  the server (\<^verbatim>\<open>src/src/rcrpc/\<close>), and these drive the hardware. Shown: setting a pin and
  reading it back, and the poll for interrupts, which prints every pending source with its
  state and takes it off the list.

  The connection is one that does not fail; \<open>gpio_loopback\<close> and \<open>irq_loopback\<close> stand for
  the generated code and the transport between the two processes.
\<close>

section \<open>A line made of words\<close>

lemma run_words:
  assumes "mset cmds = mset command_table" "spells l (name # args)" "\<And>n. c_malloc_ok X n"
    and "find (\<lambda>cmd. ci_name (fst cmd) = name) (command_table :: 'w command list) = Some cmd"
    and "snd cmd (map fst cmds) X (cli_client cli) (map Some (name # args)) w = Inr (r, out, w')"
  shows "run_line cmds X True cli (line_text l) w
    = Inr (out, cli\<lparr>cli_argv := Some (map Some (name # args)), cli_argc := int (Suc (length args))\<rparr>, w')"
proof -
  note l = spelled_line_reads [OF assms(2)]
  show ?thesis
    using run_line_eq [OF assms(1) l(4) l(2,3) assms(3)] assms(4,5) by (simp add: l(1) Let_def)
qed

section \<open>Pins\<close>

lemma find_gpio:
  "find (\<lambda>cmd. ci_name (fst cmd) = ''gpio-set'') (command_table :: 'w command list) = Some cmd_gpio_set"
  "find (\<lambda>cmd. ci_name (fst cmd) = ''gpio-get'') (command_table :: 'w command list) = Some cmd_gpio_get"
  by (simp_all add: command_table_def command_defs info_def)

lemma gpio_number: "g < 32 \<Longrightarrow> unat (ucast (of_nat g :: u64) :: u32) = g"
  by (simp add: unsigned_ucast_eq unsigned_of_nat take_bit_nat_eq_self)

text \<open>C5: a pin set at the command line: the line \<^verbatim>\<open>gpio-set\<close> with the number of a pin
  and 0 or 1, in any notation, each of its words spelled with bare pieces and pieces in single or
  double quotes in any mix, and with any white space around them, runs through shell, command
  table, client and server to the pins, prints nothing, gives that pin the level and leaves
  the others alone; \<^verbatim>\<open>gpio-get\<close> typed next, again in any spelling, prints the level set and
  changes nothing.\<close>

theorem gpio_commands_end_to_end:
  assumes "mset cmds = mset command_table" "\<And>n. c_malloc_ok X n"
    and "backend_ok E n lvl" "x_gpio X = gpio_loopback E p m0" "g < n"
    and "spells l [''gpio-set'', s, t]" "strtoul 0 s = Some (of_nat g)" "strtoul 0 t = Some (of_bool b)"
    and "spells l' [''gpio-get'', s']" "strtoul 0 s' = Some (of_nat g)"
  shows "\<exists>cli' w' cli'' w''.
     run_line cmds X True cli (line_text l) w = Inr ([], cli', w')
   \<and> (\<forall>i < n. lvl w' i = (if i = g then b else lvl w i))
   \<and> run_line cmds X True cli' (line_text l') w'
      = Inr (say (''GPIO#'' @ show_nat g @ '': '' @ (if b then ''1'' else ''0'')), cli'', w'')
   \<and> (\<forall>i < n. lvl w'' i = lvl w' i)"
proof -
  have g: "g < 32" using assms(5) backend_okD(1) [OF assms(3)] by simp
  let ?c = "cli_client cli"
  obtain w' where set': "remote_gpio_set (gpio_loopback E p m0) ?c g (of_bool b) w = Inr (0, w')"
      and lvl': "\<forall>i < n. lvl w' i = (if i = g then b else lvl w i)"
    using gpio.remote_set [OF assms(3) g, of p m0 ?c "of_bool b" w] by auto
  obtain w'' where get': "remote_gpio_get (gpio_loopback E p m0) ?c g w' = Inr (of_bool b, w'')"
      and lvl'': "\<forall>i < n. lvl w'' i = lvl w' i"
    using gpio.remote_get [OF assms(3) g assms(5), of p m0 ?c w'] lvl' assms(5) by auto
  have "snd cmd_gpio_set (map fst cmds) X ?c (map Some [''gpio-set'', s, t]) w = Inr (0, [], w')"
    using set' assms(4,7,8) gpio_number [OF g]
    by (cases b) (simp_all add: cmd_gpio_set_def exec_gpio_set_def argp_def report_def)
  from run_words [OF assms(1,6,2) find_gpio(1) this]
  have S: "run_line cmds X True cli (line_text l) w = Inr ([],
      cli\<lparr>cli_argv := Some (map Some [''gpio-set'', s, t]), cli_argc := int (Suc (length [s, t]))\<rparr>, w')"
    (is "_ = Inr ([], ?cli, w')") .
  have "snd cmd_gpio_get (map fst cmds) X (cli_client ?cli) (map Some [''gpio-get'', s']) w'
      = Inr (0, say (''GPIO#'' @ show_nat g @ '': '' @ (if b then ''1'' else ''0'')), w'')"
    using get' assms(4,10) gpio_number [OF g]
    by (simp add: cmd_gpio_get_def exec_gpio_get_def argp_def)
  from run_words [OF assms(1,9,2) find_gpio(2) this] S lvl' lvl''
  show ?thesis by blast
qed

text \<open>The lines of the witness: \<^verbatim>\<open>gpio-set "0x"'2'  '1'\<close> and \<^verbatim>\<open>"gpio"-get 2\<close>.\<close>

definition ex_set_line :: spelled_line where
  "ex_set_line = ([], [([Bare ''gpio-set''], '' ''), ([Double ''0x'', Single ''2''], ''  ''),
     ([Single ''1''], '' '')])"

definition ex_get_line :: spelled_line where
  "ex_get_line = ('' '', [([Double ''gpio'', Bare ''-get''], '' ''), ([Bare ''2''], [])])"

lemma ex_lines:
  "line_text ex_set_line = ''gpio-set '' @ [CHR 0x22] @ ''0x'' @ [CHR 0x22, CHR 0x27] @ ''2''
     @ [CHR 0x27] @ ''  '' @ [CHR 0x27] @ ''1'' @ [CHR 0x27] @ '' ''"
  "line_text ex_get_line = '' '' @ [CHR 0x22] @ ''gpio'' @ [CHR 0x22] @ ''-get 2''"
  "spells ex_set_line [''gpio-set'', ''0x2'', ''1'']" "spells ex_get_line [''gpio-get'', ''2'']"
  by (simp_all add: ex_set_line_def ex_get_line_def line_text_def word_text_def spells_def line_ok_def
      line_words_def word_ok_def word_value_def isspace_def NUL_def)

theorem gpio_commands_end_to_end_witness:
  "\<exists>cli' w' cli'' w''.
     run_line (rev command_table) (quiet_env\<lparr>x_gpio := gpio_loopback (ex_gpio 4) \<lparr>priv_addr = 5, priv_rc = 7\<rparr> 9\<rparr>)
       True ex_cli (line_text ex_set_line) (\<lambda>i. i = 0) = Inr ([], cli', w') \<and> w' 0 \<and> \<not> w' 1 \<and> w' 2
   \<and> run_line (rev command_table) (quiet_env\<lparr>x_gpio := gpio_loopback (ex_gpio 4) \<lparr>priv_addr = 5, priv_rc = 7\<rparr> 9\<rparr>)
       True cli' (line_text ex_get_line) w' = Inr (say ''GPIO#2: 1'', cli'', w'')"
proof -
  let ?X = "quiet_env\<lparr>x_gpio := gpio_loopback (ex_gpio 4) \<lparr>priv_addr = 5, priv_rc = 7\<rparr> 9\<rparr>"
  have m: "mset (rev command_table) = mset (command_table :: (nat \<Rightarrow> bool) command list)" by simp
  have q: "c_malloc_ok ?X n" for n by (simp add: quiet_env_def)
  have x: "x_gpio ?X = gpio_loopback (ex_gpio 4) \<lparr>priv_addr = 5, priv_rc = 7\<rparr> 9" by simp
  have n: "strtoul 0 ''0x2'' = Some (of_nat 2)" "strtoul 0 ''1'' = Some (of_bool True)"
      "strtoul 0 ''2'' = Some (of_nat 2)" "show_nat 2 = ''2''" by code_simp+
  have g: "(2 :: nat) < 4" by simp
  obtain cli' w' cli'' w'' where
    "run_line (rev command_table) ?X True ex_cli (line_text ex_set_line) (\<lambda>i. i = 0) = Inr ([], cli', w')"
    "\<forall>i < 4. w' i = (if i = 2 then True else i = 0)"
    "run_line (rev command_table) ?X True cli' (line_text ex_get_line) w' = Inr (say ''GPIO#2: 1'', cli'', w'')"
    using gpio_commands_end_to_end [OF m q ex_gpio_ok x g ex_lines(3) n(1,2) ex_lines(4) n(3),
        of ex_cli "\<lambda>i. i = 0"]
    by (auto simp: n(4))
  moreover from this have "w' 0" "\<not> w' 1" "w' 2" by simp_all
  ultimately show ?thesis by blast
qed

section \<open>Interrupts\<close>

text \<open>
  The stubs of the interrupt functions connected to their handlers. The world is the state of
  the server's component with its own world; an output variable of the server starts with
  \<open>m0\<close>.
\<close>

definition irq_loopback :: "'w irq_env \<Rightarrow> priv \<Rightarrow> u32 \<Rightarrow> 'w irq_st irq_stubs" where
  "irq_loopback E p m0 = \<lparr>irq_client_from_priv = (\<lambda>a. a),
     stub_irq_enable = (\<lambda>c k s. (0, rpc_irq_enable E p k s)),
     stub_irq_get_mask = (\<lambda>c m s.
       (case rpc_irq_get_mask E p (Some m0) s of (ret, m) \<Rightarrow> (0, ret, the m, s))),
     stub_irq_get_info = (\<lambda>c source i s. (0, rpc_irq_get_info E p source m0 s))\<rparr>"

text \<open>The event manager answers \<open>v\<close> for the sources in \<open>S\<close>, and notifications are sent.\<close>

definition sources_answer ::
  "'w irq_env \<Rightarrow> ptr \<Rightarrow> event_source set \<Rightarrow> (event_source \<Rightarrow> u32) \<Rightarrow> bool" where
  "sources_answer E manager S v \<longleftrightarrow>
     (\<forall>s \<in> S. \<forall>w. \<exists>ev w'. event_manager_get_source_state E manager
          ((event_zero E)\<lparr>ev_source := s\<rparr>) w = (0, ev, w')
        \<and> ev_source ev = s \<and> decode_info s ev = Some (v s))
   \<and> (\<forall>server m w. 0 \<le> fst (stub_irq_event E server m w))"

definition irq_served :: "'w irq_env \<Rightarrow> priv \<Rightarrow> irq_data \<Rightarrow> bool" where
  "irq_served E p d \<longleftrightarrow> irq_wf E d \<and> priv_addr p \<noteq> NULL \<and> irq_manager d \<noteq> NULL
     \<and> remote_control_get_event_manager E (RCPTR p) = irq_manager d"

lemma remote_number:
  "s \<in> set irq_poll_sources \<Longrightarrow> irq_number (remote_event s) = remote_irq_source_value s"
  by (auto simp: irq_poll_sources_def)

lemma remote_readable:
  "s \<in> set irq_poll_sources \<Longrightarrow> s \<noteq> REMOTE_IRQ_SOURCE_IO \<Longrightarrow> remote_event s \<in> readable"
  by (auto simp: irq_poll_sources_def readable_def irq_sources_def)

lemma read_source:
  assumes "event_enum_ok E" "irq_served E p d" "sources_answer E (irq_manager d) S v"
    and "s \<in> set irq_poll_sources" "s \<noteq> REMOTE_IRQ_SOURCE_IO"
    and "remote_event s \<in> S" "remote_event s \<in> pending E d"
  shows "\<exists>d' w'. stub_irq_get_info (irq_loopback E p 0) c (remote_irq_source_value s) 0 (Some d, w)
        = (0, 0, v (remote_event s), Some d', w')
     \<and> pending E d' = pending E d - ({remote_event s} - {EVENT_SOURCE_HANDSET})
     \<and> irq_served E p d' \<and> irq_manager d' = irq_manager d"
proof -
  let ?s = "remote_event s"
  obtain ev w1 where "event_manager_get_source_state E (irq_manager d)
        ((event_zero E)\<lparr>ev_source := ?s\<rparr>) w = (0, ev, w1)"
      "ev_source ev = ?s" "decode_info ?s ev = Some (v ?s)"
    using assms(3,6) unfolding sources_answer_def by meson
  moreover have "0 \<le> fst (stub_irq_event E (irq_server d) 0 w1)"
    using assms(3) by (simp add: sources_answer_def)
  moreover have d: "irq_wf E d" "irq_manager d \<noteq> NULL"
      "remote_control_get_event_manager E (RCPTR p) = irq_manager d"
    using assms(2) by (simp_all add: irq_served_def)
  ultimately obtain d' w2 where
    "rpc_irq_get_info E p (irq_number ?s) 0 (Some d, w) = (0, v ?s, Some d', w2)"
    "pending E d' = pending E d - ({?s} - {EVENT_SOURCE_HANDSET})"
    "irq_wf E d'" "irq_manager d' = irq_manager d"
    using rpc_irq_get_info_ok [OF assms(1) d(1) remote_readable [OF assms(4,5)] assms(7) d(2,3)]
    by blast
  then show ?thesis
    using assms(2) by (auto simp: irq_loopback_def irq_served_def remote_number [OF assms(4)])
qed

text \<open>The state of a server that is set up and answers.\<close>

definition irq_answers ::
  "'w irq_env \<Rightarrow> priv \<Rightarrow> ptr \<Rightarrow> event_source set \<Rightarrow> (event_source \<Rightarrow> u32) \<Rightarrow> 'w irq_st \<Rightarrow> bool" where
  "irq_answers E p manager S v s \<longleftrightarrow> event_enum_ok E \<and> sources_answer E manager S v
     \<and> (case fst s of None \<Rightarrow> False
        | Some d \<Rightarrow> irq_served E p d \<and> irq_manager d = manager \<and> pending E d \<inter> readable \<subseteq> S)"

definition pending_of :: "'w irq_env \<Rightarrow> 'w irq_st \<Rightarrow> event_source set" where
  "pending_of E s = (case fst s of None \<Rightarrow> {} | Some d \<Rightarrow> pending E d)"

interpretation irqs: irq_service "irq_answers E p manager S v" "pending_of E" v "irq_loopback E p 0"
  for E :: "'w irq_env" and p :: priv and manager :: ptr and S :: "event_source set"
    and v :: "event_source \<Rightarrow> u32"
proof unfold_locales
  show "pending_of E s \<subseteq> set irq_sources" if "irq_answers E p manager S v s" for s
    by (auto simp: pending_of_def pending_def split: option.splits)
next
  fix s k
  assume "irq_answers E p manager S v s"
  then obtain d w where s: "s = (Some d, w)" "irq_served E p d"
    by (cases s) (auto simp: irq_answers_def split: option.splits)
  then have "priv_addr p \<noteq> NULL" "remote_control_get_event_manager E (RCPTR p) = irq_manager d"
    by (simp_all add: irq_served_def)
  from rpc_irq_get_mask_bits [OF this, of 0 w] s(1)
  show "\<exists>m. stub_irq_get_mask (irq_loopback E p 0) k 0 s = (0, 0, m, s)
      \<and> (\<forall>n. bit m n \<longleftrightarrow> (\<exists>e \<in> pending_of E s. mask_bit e = Some n))"
    by (auto simp: irq_loopback_def pending_of_def)
next
  fix s r k
  assume "irq_answers E p manager S v s" and r: "r \<in> set irq_poll_sources"
    "r \<noteq> REMOTE_IRQ_SOURCE_IO" and "remote_event r \<in> pending_of E s"
  then obtain d w where s: "s = (Some d, w)" "irq_served E p d" "irq_manager d = manager"
      "event_enum_ok E" "sources_answer E (irq_manager d) S v" "pending E d \<inter> readable \<subseteq> S"
      "remote_event r \<in> pending E d"
    by (cases s) (auto simp: irq_answers_def pending_of_def split: option.splits)
  then have "remote_event r \<in> S" using remote_readable [OF r] by blast
  from read_source [OF s(4,2,5) r this s(7), of k w] s
  show "\<exists>s'. stub_irq_get_info (irq_loopback E p 0) k (remote_irq_source_value r) 0 s
        = (0, 0, v (remote_event r), s')
      \<and> irq_answers E p manager S v s'
      \<and> pending_of E s' = pending_of E s - ({remote_event r} - {EVENT_SOURCE_HANDSET})"
    by (fastforce simp: irq_answers_def pending_of_def)
qed

lemma find_irq:
  "find (\<lambda>cmd. ci_name (fst cmd) = ''irq-poll'') (command_table :: 'w command list) = Some cmd_irq_poll"
  by (simp add: command_table_def command_defs info_def)

text \<open>C4: polling for interrupts at the command line: with a server that has set up its
  interrupt component, an event manager that answers for each pending source with a state that
  does not change, and notifications that succeed, the line
  \<^verbatim>\<open>irq-poll\<close> prints, in the order of their numbers, the name of every pending source other than
  IO and its state in eight hexadecimal digits, and takes what it printed off the server's
  list; only the handset, whose queue is not drained by one reading, and IO stay pending.\<close>

theorem irq_poll_end_to_end:
  assumes "mset cmds = mset command_table" "\<And>n. c_malloc_ok X n"
    and "event_enum_ok E" "irq_served E p d" "x_irq X = irq_loopback E p 0"
    and "sources_answer E (irq_manager d) (pending E d \<inter> readable) v"
  shows "\<exists>cli' d' w'. run_line cmds X True cli ''irq-poll'' (Some d, w) =
      Inr (concat (map (shown_source v) (sorted_list_of_set
        {s. remote_event s \<in> pending E d \<and> s \<noteq> REMOTE_IRQ_SOURCE_IO})), cli', Some d', w')
   \<and> pending E d' = pending E d \<inter> {EVENT_SOURCE_IO, EVENT_SOURCE_HANDSET}"
proof -
  let ?c = "cli_client cli"
  have ok: "irq_answers E p (irq_manager d) (pending E d \<inter> readable) v (Some d, w)"
    using assms(3,4,6) by (simp add: irq_answers_def)
  obtain s' where "exec_irq_poll X ?c (map Some [''irq-poll'']) (Some d, w)
      = Inr (0, concat (map (shown_source v) (sorted_list_of_set
          {s. remote_event s \<in> pending E d \<and> s \<noteq> REMOTE_IRQ_SOURCE_IO})), s')"
      and s': "irq_answers E p (irq_manager d) (pending E d \<inter> readable) v s'"
        "pending_of E s' = pending E d \<inter> {EVENT_SOURCE_IO, EVENT_SOURCE_HANDSET}"
    using irqs.irq_poll [OF assms(5) ok, of ?c "map Some [''irq-poll'']"]
    unfolding pending_of_def [of E "(Some d, w)"] fst_conv option.case by blast
  then have run: "snd cmd_irq_poll (map fst cmds) X ?c (map Some [''irq-poll'']) (Some d, w)
      = Inr (0, concat (map (shown_source v) (sorted_list_of_set
          {s. remote_event s \<in> pending E d \<and> s \<noteq> REMOTE_IRQ_SOURCE_IO})), s')"
    by (simp add: cmd_irq_poll_def)
  let ?l = "([], [([Bare ''irq-poll''], [])])"
  have line: "spells ?l [''irq-poll'']" "line_text ?l = ''irq-poll''"
    by (simp_all add: spells_def line_ok_def line_words_def word_ok_def word_text_def word_value_def
        line_text_def isspace_def NUL_def)
  obtain d' w' where "s' = (Some d', w')" "pending E d' = pending E d \<inter> {EVENT_SOURCE_IO, EVENT_SOURCE_HANDSET}"
    using s' by (cases s') (auto simp: irq_answers_def pending_of_def split: option.splits)
  then show ?thesis
    using run_words [OF assms(1) line(1) assms(2) find_irq run] unfolding line(2) by blast
qed

theorem irq_poll_end_to_end_witness:
  "\<exists>cli' d' w'. run_line (rev command_table) (quiet_env\<lparr>x_irq :=
        irq_loopback (ex_irq_env 0) \<lparr>priv_addr = 5, priv_rc = 7\<rparr> 0\<rparr>) True ex_cli ''irq-poll''
        (Some (ex_irq_data (BIT 2 OR BIT 5)), 0)
      = Inr ([(Stderr, ''HOOK'' @ nl), (Stderr, ''  00000001'' @ nl)], cli', Some d', w')
   \<and> pending (ex_irq_env 0) d' = {EVENT_SOURCE_IO}"
proof -
  let ?p = "\<lparr>priv_addr = 5, priv_rc = 7\<rparr>" and ?d = "ex_irq_data (BIT 2 OR BIT 5)"
  let ?X = "quiet_env\<lparr>x_irq := irq_loopback (ex_irq_env 0) ?p 0\<rparr>"
  have m: "mset (rev command_table) = mset (command_table :: nat irq_st command list)" by simp
  have q: "c_malloc_ok ?X n" for n by (simp add: quiet_env_def)
  have pend: "pending (ex_irq_env 0) ?d = {EVENT_SOURCE_IO, EVENT_SOURCE_HOOK}"
    by (auto simp: pending_def irq_sources_def bit_or_BIT)
  have s: "irq_served (ex_irq_env 0) ?p ?d"
    by (auto simp: irq_served_def irq_wf_def bit_or_BIT irq_sources_def RCPTR_def)
  have x: "x_irq ?X = irq_loopback (ex_irq_env 0) ?p 0" by simp
  have a: "sources_answer (ex_irq_env 0) (irq_manager ?d) (pending (ex_irq_env 0) ?d \<inter> readable) (\<lambda>s. 1)"
    by (simp add: sources_answer_def pend readable_def irq_sources_def ex_event_def)
  have h: "show_hex8 (Suc 0) = ''00000001''" by code_simp
  have known: "pending (ex_irq_env 0) ?d \<subseteq> set irq_sources" by (auto simp: pending_def)
  have polled: "sorted_list_of_set {s. remote_event s \<in> pending (ex_irq_env 0) ?d
      \<and> s \<noteq> REMOTE_IRQ_SOURCE_IO} = [REMOTE_IRQ_SOURCE_HOOK]"
    by (simp only: polled_sorted [OF known, symmetric]) (simp add: pend polled_def irq_poll_sources_def)
  show ?thesis
    using irq_poll_end_to_end [OF m q ex_irq_env_ok s x a, of ex_cli 0] unfolding polled
    by (simp add: pend shown_source_def h)
qed

end
