(* ===== verification/Media_Player_Test.thy ===== *)
theory Media_Player_Test
  imports Commands_Keep
begin

text \<open>
  The test program of the media player, \<^verbatim>\<open>src/tests/media-player-test.c\<close>: it connects,
  places the window and plays two streams in turn, five seconds each, until it is interrupted
  or a call fails. Its loop may run for ever, and then has no value. Shown here: it never
  leaves the table of its streams, and whenever it ends, by a failure at any place or by the
  signal, it has given its client back.

  The flag that the signal handler sets is read from the world, which the handler changes
  while other calls run; \<^verbatim>\<open>sigaction\<close> and \<^verbatim>\<open>nanosleep\<close> are parameters.
\<close>

section \<open>The program\<close>

record 'w test_env =
  t_lib :: "'w cmd_env"
  t_client :: "'w client_env"
  c_sigaction :: "'w \<Rightarrow> int \<times> 'w"
  c_nanosleep :: "nat \<Rightarrow> 'w \<Rightarrow> int \<times> 'w"
  sig_done :: "'w \<Rightarrow> bool"

definition streams :: "string list" where
  "streams = [''udp://239.0.21.1:4444'', ''udp://239.0.22.1:4444'']"

definition fail_say :: "string \<Rightarrow> 'w test_env \<Rightarrow> int \<Rightarrow> printed" where
  "fail_say what T e = [(Stderr, what @ '': '' @ c_strerror (t_lib T) e @ nl)]"

text \<open>
  How a round of the loop ends: with the next stream, with \<^verbatim>\<open>break\<close>, or with the return of
  the program behind the release of the client.
\<close>

datatype round_end = Next_Stream nat | Leave_Loop | Return_Failure

definition play_round ::
  "'w test_env \<Rightarrow> ptr \<Rightarrow> nat \<Rightarrow> 'w \<Rightarrow> c_ub + round_end \<times> printed \<times> 'w" where
  "play_round T client stream w =
     (if stream \<ge> length streams then Inl OutOfBounds
      else
      let media = x_media (t_lib T);
          (err, w) = remote_media_player_set_stream media client (Some (streams ! stream)) w
      in
      if err < 0
      then bind_ub (remote_exit (t_client T) client w) (\<lambda>(_, w).
        Inr (Return_Failure, fail_say ''failed to set input stream'' T (- err), w))
      else
        let (err, w) = remote_media_player_start media client w in
        if err < 0 then Inr (Leave_Loop, fail_say ''failed to start stream'' T (- err), w)
        else
          let (err, w) = c_nanosleep T 5 w in
          if err < 0 then Inr (Leave_Loop, fail_say ''nanosleep()'' T (c_errno (t_lib T) w), w)
          else
            let (err, w) = remote_media_player_stop media client w in
            if err < 0 then Inr (Leave_Loop, fail_say ''failed to stop stream'' T (- err), w)
            else
              let (err, w) = c_nanosleep T 5 w in
              if err < 0 then Inr (Leave_Loop, fail_say ''nanosleep()'' T (c_errno (t_lib T) w), w)
              else Inr (Next_Stream (if stream + 1 \<ge> length streams then 0 else stream + 1), [], w))"

text \<open>The end of the program: the client is released.\<close>

definition test_exit :: "'w test_env \<Rightarrow> ptr \<Rightarrow> int \<Rightarrow> printed \<Rightarrow> 'w \<Rightarrow> 'w result" where
  "test_exit T client ret out w =
     bind_ub (remote_exit (t_client T) client w) (\<lambda>(_, w). Inr (ret, out, w))"

text \<open>The loop and what follows it.\<close>

partial_function (option) play_loop ::
  "'w test_env \<Rightarrow> ptr \<Rightarrow> nat \<Rightarrow> printed \<Rightarrow> 'w \<Rightarrow> 'w result option" where
  "play_loop T client stream out w =
     (if sig_done T w then Some (test_exit T client 0 out w)
      else case play_round T client stream w of
        Inl ub \<Rightarrow> Some (Inl ub)
      | Inr (Next_Stream stream, out', w) \<Rightarrow> play_loop T client stream (out @ out') w
      | Inr (Leave_Loop, out', w) \<Rightarrow> Some (test_exit T client 0 (out @ out') w)
      | Inr (Return_Failure, out', w) \<Rightarrow> Some (Inr (1, out @ out', w)))"

text \<open>\<open>c0\<close> is what the uninitialised pointer to the client holds.\<close>

definition test_main :: "'w test_env \<Rightarrow> ptr \<Rightarrow> string list \<Rightarrow> 'w \<Rightarrow> 'w result option" where
  "test_main T c0 argv w =
     (case argv of
        _ # host # _ \<Rightarrow>
          let (err, cp, w) = remote_init (t_client T) (Some c0) (Some host) (Some ''7482'') w;
              client = the cp
          in
          if err < 0 then Some (Inr (1, fail_say ''remote_init()'' T (- err), w))
          else
            let (err, w) = c_sigaction T w in
            if err < 0
            then Some (test_exit T client 1 (fail_say ''sigaction()'' T (c_errno (t_lib T) w)) w)
            else
              let (err, w) =
                    remote_media_player_set_output_window (x_media (t_lib T)) client 64 64 320 240 w
              in
              if err < 0
              then Some (test_exit T client 1 (fail_say ''failed to set output window'' T (- err)) w)
              else play_loop T client 0 [] w
      | _ \<Rightarrow> Some (Inr (1, [(Stderr, ''usage: '' @ show_str (argp (map Some argv) 0) @ '' hostname'' @ nl)], w)))"

section \<open>It stays inside the table\<close>

lemma play_round_next:
  "play_round T client stream w = Inr (Next_Stream s, out, w') \<Longrightarrow> s < length streams \<and> out = []"
  by (auto simp: play_round_def Let_def streams_def bind_ub_Inr split: prod.splits if_splits)

section \<open>It gives its client back\<close>

text \<open>The stubs and calls that run while the client is connected allocate and free no client, and
  leave its thread alone.\<close>

definition playing_keeps :: "('w \<Rightarrow> 'b) \<Rightarrow> 'w test_env \<Rightarrow> bool" where
  "playing_keeps f T \<longleftrightarrow> (let C = x_media (t_lib T) in
     (\<forall>c s w. f (snd (snd (stub_media_player_set_stream C c s w))) = f w)
   \<and> (\<forall>c w. f (snd (snd (stub_media_player_start C c w))) = f w)
   \<and> (\<forall>c w. f (snd (snd (stub_media_player_stop C c w))) = f w)
   \<and> (\<forall>c x y v h w. f (snd (snd (stub_media_player_set_output_window C c x y v h w))) = f w)
   \<and> (\<forall>w. f (snd (c_sigaction T w)) = f w)
   \<and> (\<forall>n w. f (snd (c_nanosleep T n w)) = f w))"

lemma playing_keepsD:
  assumes "playing_keeps f T"
  shows "remote_media_player_set_stream (x_media (t_lib T)) c s w = (r, w') \<Longrightarrow> f w' = f w"
    and "remote_media_player_start (x_media (t_lib T)) c w = (r, w') \<Longrightarrow> f w' = f w"
    and "remote_media_player_stop (x_media (t_lib T)) c w = (r, w') \<Longrightarrow> f w' = f w"
    and "remote_media_player_set_output_window (x_media (t_lib T)) c x y v h w = (r, w') \<Longrightarrow> f w' = f w"
    and "c_sigaction T w = (r, w') \<Longrightarrow> f w' = f w"
    and "c_nanosleep T n w = (r, w') \<Longrightarrow> f w' = f w"
  using assms
  unfolding playing_keeps_def Let_def remote_media_player_set_stream_def remote_media_player_start_def
    remote_media_player_stop_def remote_media_player_set_output_window_def case_prod_beta
  by (metis snd_conv)+

text \<open>The client is connected: its client of librpc is allocated, and its thread runs.\<close>

definition connected :: "('w \<Rightarrow> ptr set) \<Rightarrow> 'w test_env \<Rightarrow> ptr \<Rightarrow> 'w \<Rightarrow> bool" where
  "connected live T c w \<longleftrightarrow> c \<noteq> NULL \<and> rpc_client_from_priv (t_client T) c \<in> live w
     \<and> thread_joinable (t_client T) c w"

text \<open>A result with the client given back.\<close>

definition gives_back :: "ptr set \<Rightarrow> ('w \<Rightarrow> ptr set) \<Rightarrow> 'w result \<Rightarrow> bool" where
  "gives_back base live r \<longleftrightarrow> (\<exists>e out w. r = Inr (e, out, w) \<and> live w = base \<and> e \<in> {0, 1})"

lemma remote_exit_connected:
  assumes "clients_ok (t_client T) live" "connected live T c w"
  shows "\<exists>w'. remote_exit (t_client T) c w = Inr (0, w')
    \<and> live w' = live w - {rpc_client_from_priv (t_client T) c}"
proof -
  have c: "c \<noteq> NULL" "rpc_client_from_priv (t_client T) c \<in> live w" "thread_joinable (t_client T) c w"
    using assms(2) by (simp_all add: connected_def)
  have "thread_joinable (t_client T) c (set_done (t_client T) c True w)"
    using c(3) clients_ok_others(10) [OF assms(1)] by simp
  then obtain w' where x: "remote_exit (t_client T) c w = Inr (0, w')"
    using c(1) by (simp add: remote_exit_eq Let_def)
  then show ?thesis using remote_exit_frees [OF assms(1) c(1,2) x] by blast
qed

lemma test_exit_gives_back:
  assumes "clients_ok (t_client T) live" "connected live T c w" "e \<in> {0, 1}"
  shows "gives_back (live w - {rpc_client_from_priv (t_client T) c}) live (test_exit T c e out w)"
  using remote_exit_connected [OF assms(1,2)] assms(3) by (auto simp: test_exit_def gives_back_def)

text \<open>One round: it is defined, and either frees the client and fails, or leaves it connected.\<close>

lemma play_round_keeps:
  assumes "playing_keeps live T" "playing_keeps (thread_joinable (t_client T) c) T"
    and "clients_ok (t_client T) live" "connected live T c w" "stream < length streams"
  shows "\<exists>e out w'. play_round T c stream w = Inr (e, out, w')
     \<and> (if e = Return_Failure then live w' = live w - {rpc_client_from_priv (t_client T) c}
        else live w' = live w \<and> connected live T c w')"
proof -
  let ?C = "x_media (t_lib T)"
  note L = playing_keepsD [OF assms(1)] and J = playing_keepsD [OF assms(2)]
  obtain e1 w1 where 1: "remote_media_player_set_stream ?C c (Some (streams ! stream)) w = (e1, w1)" by fastforce
  obtain e2 w2 where 2: "remote_media_player_start ?C c w1 = (e2, w2)" by fastforce
  obtain e3 w3 where 3: "c_nanosleep T 5 w2 = (e3, w3)" by fastforce
  obtain e4 w4 where 4: "remote_media_player_stop ?C c w3 = (e4, w4)" by fastforce
  obtain e5 w5 where 5: "c_nanosleep T 5 w4 = (e5, w5)" by fastforce
  have c: "connected live T c w1" "connected live T c w2" "connected live T c w3" "connected live T c w4"
      "connected live T c w5"
    using assms(4) L(1) [OF 1] J(1) [OF 1] L(2) [OF 2] J(2) [OF 2] L(6) [OF 3] J(6) [OF 3]
      L(3) [OF 4] J(3) [OF 4] L(6) [OF 5] J(6) [OF 5] by (simp_all add: connected_def)
  have live: "live w1 = live w" "live w2 = live w" "live w3 = live w" "live w4 = live w" "live w5 = live w"
    using L(1) [OF 1] L(2) [OF 2] L(6) [OF 3] L(3) [OF 4] L(6) [OF 5] by simp_all
  obtain w' where x: "remote_exit (t_client T) c w1 = Inr (0, w')"
      "live w' = live w - {rpc_client_from_priv (t_client T) c}"
    using remote_exit_connected [OF assms(3) c(1)] live(1) by auto
  show ?thesis
    using assms(5) c live x
    by (cases "e1 < 0"; cases "e2 < 0"; cases "e3 < 0"; cases "e4 < 0"; cases "e5 < 0")
      (simp_all add: play_round_def Let_def 1 2 3 4 5)
qed

lemma play_loop_frees:
  assumes "play_loop T c stream out w = Some y"
  shows "playing_keeps live T \<Longrightarrow> playing_keeps (thread_joinable (t_client T) c) T \<Longrightarrow>
    clients_ok (t_client T) live \<Longrightarrow> connected live T c w \<Longrightarrow> stream < length streams \<Longrightarrow>
    gives_back (live w - {rpc_client_from_priv (t_client T) c}) live y"
proof (rule play_loop.raw_induct [OF _ assms, where P = "\<lambda>T c stream out w y.
    playing_keeps live T \<longrightarrow> playing_keeps (thread_joinable (t_client T) c) T \<longrightarrow>
    clients_ok (t_client T) live \<longrightarrow> connected live T c w \<longrightarrow> stream < length streams \<longrightarrow>
    gives_back (live w - {rpc_client_from_priv (t_client T) c}) live y",
    THEN mp, THEN mp, THEN mp, THEN mp, THEN mp])
  fix loop T c stream out w y
  assume IH: "\<And>T c stream out w y. loop T c stream out w = Some y \<Longrightarrow>
      playing_keeps live T \<longrightarrow> playing_keeps (thread_joinable (t_client T) c) T \<longrightarrow>
      clients_ok (t_client T) live \<longrightarrow> connected live T c w \<longrightarrow> stream < length streams \<longrightarrow>
      gives_back (live w - {rpc_client_from_priv (t_client T) c}) live y"
    and eq: "(if sig_done T w then Some (test_exit T c 0 out w)
      else case play_round T c stream w of
        Inl ub \<Rightarrow> Some (Inl ub)
      | Inr (Next_Stream stream, out', w) \<Rightarrow> loop T c stream (out @ out') w
      | Inr (Leave_Loop, out', w) \<Rightarrow> Some (test_exit T c 0 (out @ out') w)
      | Inr (Return_Failure, out', w) \<Rightarrow> Some (Inr (1, out @ out', w))) = Some y"
  show "playing_keeps live T \<longrightarrow> playing_keeps (thread_joinable (t_client T) c) T \<longrightarrow>
      clients_ok (t_client T) live \<longrightarrow> connected live T c w \<longrightarrow> stream < length streams \<longrightarrow>
      gives_back (live w - {rpc_client_from_priv (t_client T) c}) live y"
  proof (intro impI)
    assume h: "playing_keeps live T" "playing_keeps (thread_joinable (t_client T) c) T"
      "clients_ok (t_client T) live" "connected live T c w" "stream < length streams"
    note exits = test_exit_gives_back [OF h(3)]
    obtain e out' w1 where r: "play_round T c stream w = Inr (e, out', w1)"
      and k: "if e = Return_Failure then live w1 = live w - {rpc_client_from_priv (t_client T) c}
        else live w1 = live w \<and> connected live T c w1"
      using play_round_keeps [OF h] by blast
    show "gives_back (live w - {rpc_client_from_priv (t_client T) c}) live y"
    proof (cases "sig_done T w")
      case True
      then show ?thesis using eq exits [OF h(4), of 0 out] by simp
    next
      case False
      show ?thesis
      proof (cases e)
        case (Next_Stream s)
        then have s: "loop T c s (out @ out') w1 = Some y" "s < length streams"
          using eq r False play_round_next [of T c stream w s out'] by simp_all
        from IH [OF s(1)] s(2) show ?thesis using h k Next_Stream by simp
      next
        case Leave_Loop
        then show ?thesis using eq r False k exits [of c w1 0 "out @ out'"] by simp
      next
        case Return_Failure
        then show ?thesis using eq r False k by (auto simp: gives_back_def)
      qed
    qed
  qed
qed

lemma remote_init_connected:
  assumes ok: "clients_ok (t_client T) live"
    and thread: "\<And>c w. fst (c_pthread_create (t_client T) c w) \<le> 0"
    and i: "remote_init (t_client T) (Some c0) (Some h) (Some s) w = (r, cp, w')"
  shows "(r < 0 \<and> live w' = live w)
    \<or> (r = 0 \<and> (\<exists>c. cp = Some c \<and> connected live T c w'
         \<and> live w' - {rpc_client_from_priv (t_client T) c} = live w))"
proof -
  let ?E = "t_client T"
  obtain e rpc w1 where cr: "rpc_client_create ?E w = (e, rpc, w1)" by (metis prod_cases3)
  obtain e2 w2 where co: "rpc_client_connect ?E rpc (case Some h of Some h \<Rightarrow> h | None \<Rightarrow> ''localhost'')
      (case Some s of Some s \<Rightarrow> s | None \<Rightarrow> ''7482'') w1 = (e2, w2)" by fastforce
  obtain e3 w3 where ev: "rpc_client_set_event_handler ?E rpc w2 = (e3, w3)" by fastforce
  define c where "c = rpc_client_priv ?E rpc"
  obtain e4 w4 where th: "c_pthread_create ?E c (set_done ?E c False w3) = (e4, w4)" by fastforce
  have "e4 \<le> 0" using thread [of c "set_done ?E c False w3"] th by simp
  moreover note remote_init_cases [OF ok cr co ev th c_def i] clients_ok_others(9) [OF ok th]
    clients_ok_others(7,8) [OF ok, of rpc, folded c_def]
  ultimately show ?thesis by (auto simp: connected_def split: if_splits)
qed

text \<open>C20: the test program of the media player, with a thread library that reports no error as
  a positive number: whenever it ends, by the signal or by a failure at any place, it has stayed
  inside the table of its streams and joined only a thread that exists, the clients of librpc
  that are allocated are those there were before, and its exit code is 0 or 1.\<close>

theorem test_main_gives_back:
  assumes ok: "clients_ok (t_client T) live" and keep: "playing_keeps live T"
      "\<And>c. playing_keeps (thread_joinable (t_client T) c) T"
    and thread: "\<And>c w. fst (c_pthread_create (t_client T) c w) \<le> 0"
    and m: "test_main T c0 argv w = Some r"
  shows "gives_back (live w) live r"
proof (cases "2 \<le> length argv")
  case False
  then show ?thesis using m by (auto simp: test_main_def gives_back_def split: list.splits)
next
  case True
  then obtain prog host rest where a: "argv = prog # host # rest"
    by (cases argv; cases "tl argv") auto
  obtain e cp w1 where i: "remote_init (t_client T) (Some c0) (Some host) (Some ''7482'') w = (e, cp, w1)"
    by (metis prod_cases3)
  obtain e2 w2 where g: "c_sigaction T w1 = (e2, w2)" by fastforce
  obtain e3 w3 where o: "remote_media_player_set_output_window (x_media (t_lib T)) (the cp) 64 64 320 240 w2
      = (e3, w3)" by fastforce
  note main = m [unfolded test_main_def a list.case i prod.case Let_def g o]
  from remote_init_connected [OF ok thread i] show ?thesis
  proof
    assume "e < 0 \<and> live w1 = live w"
    then show ?thesis using main by (auto simp: gives_back_def)
  next
    assume "e = 0 \<and> (\<exists>c. cp = Some c \<and> connected live T c w1
         \<and> live w1 - {rpc_client_from_priv (t_client T) c} = live w)"
    then obtain c where e: "e = 0" "cp = Some c" "connected live T c w1"
        "live w1 - {rpc_client_from_priv (t_client T) c} = live w" by auto
    have l: "live w2 = live w1" "live w3 = live w2"
      using playing_keepsD(5) [OF keep(1) g] playing_keepsD(4) [OF keep(1) o] by simp_all
    have c: "connected live T c w2" "connected live T c w3"
      using e(3) l playing_keepsD(5) [OF keep(2) g] playing_keepsD(4) [OF keep(2) o]
      by (simp_all add: connected_def)
    show ?thesis
      using main e l c test_exit_gives_back [OF ok c(1), of 1] test_exit_gives_back [OF ok c(2), of 1]
        play_loop_frees [OF _ keep ok c(2)]
      by (auto simp: streams_def split: if_splits)
  qed
qed

text \<open>A run that plays the first stream until its sleep is interrupted.\<close>

definition ex_test_env :: "(ptr list \<times> bool) test_env" where
  "ex_test_env = \<lparr>t_lib = quiet_env, t_client = ex_client_env 0, c_sigaction = (\<lambda>w. (0, w)),
     c_nanosleep = (\<lambda>n w. (- 1, w)), sig_done = (\<lambda>w. False)\<rparr>"

theorem test_main_gives_back_witness:
  "\<exists>out w. test_main ex_test_env 7 [''media-player-test'', ''host''] ([3], False)
       = Some (Inr (0, out, w)) \<and> set (fst w) = {3}"
proof -
  have ok: "clients_ok (t_client ex_test_env) (\<lambda>w. set (fst w))"
    using ex_clients_ok by (simp add: ex_test_env_def)
  have keep: "playing_keeps f ex_test_env" for f :: "ptr list \<times> bool \<Rightarrow> 'b"
    by (simp add: playing_keeps_def ex_test_env_def quiet_env_def quiet_media_def)
  have thread: "fst (c_pthread_create (t_client ex_test_env) c w) \<le> 0" for c w
    by (simp add: ex_test_env_def ex_client_env_def)
  obtain out w where r: "test_main ex_test_env 7 [''media-player-test'', ''host''] ([3], False)
      = Some (Inr (0, out, w))"
    by (simp add: test_main_def ex_test_env_def ex_client_env_def remote_init_def
        remote_media_player_set_output_window_def quiet_env_def quiet_media_def play_loop.simps
        play_round_def streams_def remote_media_player_set_stream_def
        remote_media_player_start_def test_exit_def remote_exit_def join_thread_def)
  from test_main_gives_back [OF ok keep keep thread r] r show ?thesis
    by (auto simp: gives_back_def)
qed

end
