(* ===== verification/Spec2Isabelle.thy ===== *)
theory Spec2Isabelle
  imports Server Client_Threads End_To_End Media_Player_Test
begin

text \<open>
  A verification development for rcrpc, the remote procedure call bridge of Avionic Design's
  remote control daemon.

  \<^bold>\<open>The program.\<close> A server component (\<^verbatim>\<open>src/src/rcrpc\<close>) is attached to the main loop of a
  daemon and serves one client at a time: its handlers translate the calls of
  \<^verbatim>\<open>src/src/protocol.xml\<close> into calls of the daemon's library (audio, mixer, telephony, smart
  card, and so on). A client library (\<^verbatim>\<open>src/src/rcrpc-client\<close>) wraps the same calls, and an
  interactive client (\<^verbatim>\<open>src/bin\<close>) offers them as commands. The two sides meet in stubs that
  are generated from the protocol when the program is built and in the transport library
  librpc; the daemon's library, glib and the operating system are used by both. None of these
  is in the repository: they are fields of the environment records (\<open>irq_env\<close>, \<open>net_env\<close>,
  \<open>rpc_env\<close>, \<open>client_env\<close>, \<open>cmd_env\<close> and the \<open>_ops\<close> and \<open>_stubs\<close> records), functions on a
  world of any type \<open>'w\<close>, and what a property assumes of them is a hypothesis of that property
  (\<open>fds_ok\<close>, \<open>channels_ok\<close>, \<open>blocks_ok\<close>, \<open>servers_ok\<close>, \<open>clients_ok\<close>, \<open>backend_ok\<close>, \<open>audio_ok\<close>,
  \<open>mixer_ok\<close>, \<open>event_enum_ok\<close>, \<open>glib_logging\<close>, \<open>dispatcher_ok\<close>, \<open>transport_ok\<close>, \<open>sources_answer\<close>).

  \<^bold>\<open>The theories.\<close>
  \<^item> \<open>Prelude\<close>: types, error numbers, strings in memory, bits, and the locale \<open>invariant\<close>
    of step relations, which \<open>Irq\<close>, \<open>Net\<close>, \<open>Rpc_Source\<close> and \<open>Server\<close> interpret, with its
    extension \<open>bounded_wait\<close>, which \<open>Client_Threads\<close> interprets.
  \<^item> \<open>Irq\<close> (\<^verbatim>\<open>rcrpc/irq.c\<close>): the pending status word and its handlers; they refine a set of
    pending sources (\<open>spec_event\<close>, \<open>spec_read\<close>). Every reachable status is well formed; IO
    events are never read; failed reads lose events or hide errors.
  \<^item> \<open>Net\<close> (\<^verbatim>\<open>rcrpc/net.c\<close>): UDP channels and the hardware address. No channel and no
    descriptor is lost, the synchronous read ends, and what small buffers do.
  \<^item> \<open>Rpc_Source\<close> (\<^verbatim>\<open>rcrpc/rcrpc.c\<close>): the source in the main loop as the step relation
    \<open>loop_step\<close> of prepare, poll, check and dispatch, with the invariant that ties the
    polled descriptors to the session; memory of a dispatch; set-up and its failures.
  \<^item> \<open>Server\<close>: the three parts of the server together (\<open>server_step\<close>): requests run handlers of
    \<open>Irq\<close> and \<open>Net\<close> inside a dispatch of \<open>Rpc_Source\<close>, and events arrive in between. The
    invariants hold together from \<^verbatim>\<open>rcrpc_create\<close> to the end of the source, and what an error of
    a request does to the service.
  \<^item> \<open>C_Lib\<close>: the character and number functions of the C library in the C locale, and the
    undefined behaviour monad \<open>bind_ub\<close>.
  \<^item> \<open>Enums\<close> (\<^verbatim>\<open>protocol.xml\<close>, \<^verbatim>\<open>rcrpc-client.h\<close>): the enumerations of both sides. A
    constructor \<open>OTHER\<close> stands for the numbers that are no enumerator; the locale
    \<open>enumeration\<close> gives the round trip through the numbers.
  \<^item> \<open>Gpio\<close>, \<open>Audio\<close>, \<open>Voip\<close>, \<open>Devices\<close>, \<open>Media_Phone\<close>: for each device the handlers of
    \<^verbatim>\<open>rcrpc\<close> and the calls of \<^verbatim>\<open>rcrpc-client\<close>, and what arrives when the stubs connect the
    two (the \<open>_loopback\<close> records): round trips where the translations agree, and where they
    do not what arrives instead. The locale \<open>gpio_service\<close> states what a client relies on.
  \<^item> \<open>Remote_Client\<close> (\<^verbatim>\<open>rcrpc-client.c\<close>, \<^verbatim>\<open>events.c\<close>, \<^verbatim>\<open>irq.c\<close> of the client): the
    connection and its polling thread.
  \<^item> \<open>Client_Threads\<close> (\<^verbatim>\<open>rcrpc-client.c\<close>): the two threads of a client as interleaved steps, a
    refinement of the loop of the thread; leaving is safe and ends.
  \<^item> \<open>Cli_Utils\<close> (\<^verbatim>\<open>bin/utils.c\<close>): names, booleans and the hexadecimal dump; the locale
    \<open>name_table\<close> is interpreted for the three tables of names.
  \<^item> \<open>Cli_Shell\<close> and \<open>Cli_Main\<close> (\<^verbatim>\<open>bin/main.c\<close>): the splitting of lines against a reference
    (\<open>tokens\<close>, \<open>plain\<close>), the dispatch of a line, completion, options and the main function.
  \<^item> \<open>Cli_Commands\<close> (\<^verbatim>\<open>bin/commands.c\<close>): all commands and their table; the locale
    \<open>irq_service\<close> states what the poll for interrupts relies on.
  \<^item> \<open>End_To_End\<close>: a line typed at the client, down to the pins and the pending interrupts of
    the server and back to what is printed. The handlers of \<open>Irq\<close> are shown to be an
    \<open>irq_service\<close>.
  \<^item> \<open>Media_Player_Test\<close> (\<^verbatim>\<open>tests/media-player-test.c\<close>): the test program of the player.

  \<^bold>\<open>How the code is rendered.\<close> Structures are records, enumerations datatypes; a pointer that
  may be null is an option or the type \<open>ptr\<close> with \<open>NULL\<close>; an output argument is an argument and
  a component of the result. A 32 bit word is a \<open>32 word\<close>; an \<^verbatim>\<open>int\<close> result that only carries
  codes is an \<open>int\<close>. Undefined behaviour (a null pointer, an access outside a block, an
  overflowing write) is the left side of a sum, so that a property whose result is \<open>Inr\<close> also
  says that nothing undefined happens. Global pointers are part of the state that the
  operations pass on. Debug messages are not modelled; messages that glib treats as fatal are
  (\<open>None\<close> in \<open>Rpc_Source\<close>).

  \<^bold>\<open>Loops.\<close> Loops over an array are recursion over its list. The synchronous read of \<open>Net\<close>
  counts its timeout down and is total. \<open>dump_rows\<close>, \<open>poll_event_thread\<close> and \<open>play_loop\<close> may run for
  ever and are partial functions, where \<open>None\<close> is not ending: for the dump it is proved that it ends
  for every positive row size, for the thread exactly when. \<open>completion_matches\<close> is given one
  call more than there are commands, which is enough since each match uses up a command
  (\<open>completion_matches_all\<close>).

  \<^bold>\<open>Not modelled.\<close> The generated stubs and librpc (parameters), the marshalling of arguments,
  the linker script (the properties hold for any order of the commands), the editing of lines
  and the prompt, debug messages and the functions only they use (\<^verbatim>\<open>rpc_log\<close>,
  \<^verbatim>\<open>voip_transport_name\<close>), and the build files.
\<close>

end
